(* ===== verification/Prelude.thy ===== *)
theory Prelude
  imports Main "HOL-Library.Word" "HOL-Library.Code_Target_Numeral"
begin

text \<open>
  Shared vocabulary of the development: the machine integers and byte sequences of the
  C++ sources, the three-valued result of an operation, bounds-checked reads and the
  big-endian integer loops that the decoders and encoders share, with the lemmas every
  component uses about them.
\<close>

unbundle bit_operations_syntax

section \<open>Machine integers and bytes\<close>

type_synonym u8 = "8 word"
type_synonym u16 = "16 word"
type_synonym u32 = "32 word"
type_synonym bytes = "u8 list"

text \<open>\<open>ascii\<close> turns a literal of the sources into the bytes a C string holds before its NUL.\<close>

definition ascii :: "string \<Rightarrow> bytes" where
  "ascii s = map (\<lambda>c. word_of_nat (of_char c)) s"

lemma length_ascii [simp]: "length (ascii s) = length s"
  by (simp add: ascii_def)

lemma unat_u8: "unat (b :: u8) < 256" and unat_u16: "unat (h :: u16) < 65536"
  and unat_u32: "unat (w :: u32) < 4294967296"
  using unsigned_less [of b] unsigned_less [of h] unsigned_less [of w] by simp_all

lemma unat_ucast_u8 [simp]: "unat (ucast (b :: u8) :: u32) = unat b"
  and unat_ucast_u16 [simp]: "unat (ucast (h :: u16) :: u32) = unat h"
  using unat_u8 [of b] unat_u16 [of h] by (simp_all add: unsigned_ucast_eq take_bit_eq_mod)

lemma ucast_ucast_u8 [simp]: "ucast (ucast (b :: u8) :: u32) = b"
  and ucast_ucast_u16 [simp]: "ucast (ucast (h :: u16) :: u32) = h"
  by (rule bit_word_eqI; simp add: bit_simps)+

section \<open>Outcomes\<close>

text \<open>
  \<open>Ok x\<close>: the operation succeeds with \<open>x\<close>. \<open>Fail\<close>: it takes an error return (\<open>false\<close>,
  size \<open>0\<close>, null). \<open>Undef\<close>: the execution leaves the contract of the buffer it was given (a
  load at or past \<open>length\<close>, a store at or past \<open>bufferSize\<close>) or converts a floating-point
  value outside the range of the target integer type, so the C++ semantics give the run no
  meaning from there on.
\<close>

datatype 'a outcome = Ok 'a | Fail | Undef

primrec obind :: "'a outcome \<Rightarrow> ('a \<Rightarrow> 'b outcome) \<Rightarrow> 'b outcome" where
  "obind (Ok x) f = f x"
| "obind Fail f = Fail"
| "obind Undef f = Undef"

text \<open>\<open>if (!parse(...)) return d;\<close> : an error return of the callee becomes the value \<open>d\<close>.\<close>

primrec on_fail :: "'a outcome \<Rightarrow> 'a \<Rightarrow> 'a outcome" where
  "on_fail (Ok x) d = Ok x"
| "on_fail Fail d = Ok d"
| "on_fail Undef d = Undef"

definition of_option :: "'a option \<Rightarrow> 'a outcome" where
  "of_option m = (case m of None \<Rightarrow> Fail | Some x \<Rightarrow> Ok x)"

definition safe :: "'a outcome \<Rightarrow> bool" where
  "safe m \<longleftrightarrow> m \<noteq> Undef"

named_theorems safety \<open>operations that never leave their buffers\<close>
named_theorems progress \<open>where a successful read leaves the offset\<close>
named_theorems decode \<open>what a decoder reads from the bytes an encoder wrote\<close>
named_theorems capacity \<open>how many bytes an encoder emits\<close>

lemma of_option_simps [simp]: "of_option None = Fail" "of_option (Some x) = Ok x"
  by (simp_all add: of_option_def)

lemma safe_simps [simp]: "safe (Ok x)" "safe Fail" "\<not> safe Undef"
  by (simp_all add: safe_def)

lemma safe_of_option [simp]: "safe (of_option m)"
  by (cases m) simp_all

lemma of_option_eq_Ok [simp]: "of_option m = Ok x \<longleftrightarrow> m = Some x"
  by (cases m) auto

lemma obind_eq_Ok [simp]: "obind m f = Ok y \<longleftrightarrow> (\<exists>x. m = Ok x \<and> f x = Ok y)"
  by (cases m) auto

lemma obind_eq_Undef: "obind m f = Undef \<longleftrightarrow> m = Undef \<or> (\<exists>x. m = Ok x \<and> f x = Undef)"
  by (cases m) auto

lemma safe_obind [intro]:
  "safe m \<Longrightarrow> (\<And>x. m = Ok x \<Longrightarrow> safe (f x)) \<Longrightarrow> safe (obind m f)"
  by (cases m) auto

lemma safe_on_fail [simp]: "safe (on_fail m d) \<longleftrightarrow> safe m"
  by (cases m) auto

lemma on_fail_eq_Ok: "on_fail m d = Ok x \<longleftrightarrow> m = Ok x \<or> m = Fail \<and> x = d"
  by (cases m) auto

lemma obind_assoc: "obind (obind m f) g = obind m (\<lambda>x. obind (f x) g)"
  by (cases m) auto

lemma obind_cong [fundef_cong]:
  "m = m' \<Longrightarrow> (\<And>x. m' = Ok x \<Longrightarrow> f x = f' x) \<Longrightarrow> obind m f = obind m' f'"
  by (cases m') auto

section \<open>Reading a buffer\<close>

text \<open>
  A datagram of \<open>length\<close> bytes is the list of its bytes. \<open>rd buf off\<close> is the load
  \<open>buffer[off]\<close>; \<open>rdn buf off n\<close> is a \<open>memcpy\<close> of \<open>n\<close> bytes from \<open>&buffer[off]\<close>.
\<close>

definition rd :: "bytes \<Rightarrow> nat \<Rightarrow> u8 outcome" where
  "rd buf off = (if off < length buf then Ok (buf ! off) else Undef)"

definition rdn :: "bytes \<Rightarrow> nat \<Rightarrow> nat \<Rightarrow> bytes outcome" where
  "rdn buf off n = (if off + n \<le> length buf then Ok (take n (drop off buf)) else Undef)"

text \<open>\<open>for (i = 0; i < n; ++i) value = (value << 8) | buffer[offset++];\<close>\<close>

primrec readBE :: "bytes \<Rightarrow> nat \<Rightarrow> nat \<Rightarrow> u32 \<Rightarrow> (u32 \<times> nat) outcome" where
  "readBE buf off 0 acc = Ok (acc, off)"
| "readBE buf off (Suc n) acc =
     obind (rd buf off) (\<lambda>b. readBE buf (off + 1) n (push_bit 8 acc OR ucast b))"

text \<open>\<open>buffer[1 + i] = (uint8_t)(raw >> ((n - i - 1) * 8))\<close> for \<open>i\<close> from \<open>0\<close> to \<open>n - 1\<close>.\<close>

definition beBytes :: "nat \<Rightarrow> u32 \<Rightarrow> bytes" where
  "beBytes n raw = map (\<lambda>i. ucast (drop_bit ((n - i - 1) * 8) raw)) [0..<n]"

lemma rd_in [simp]: "off < length buf \<Longrightarrow> rd buf off = Ok (buf ! off)"
  by (simp add: rd_def)

lemma safe_rd [simp]: "safe (rd buf off) \<longleftrightarrow> off < length buf"
  by (simp add: rd_def)

lemma rd_eq_Ok [simp]: "rd buf off = Ok b \<longleftrightarrow> off < length buf \<and> buf ! off = b"
  by (auto simp: rd_def)

lemma safe_rdn [simp]: "safe (rdn buf off n) \<longleftrightarrow> off + n \<le> length buf"
  by (simp add: rdn_def)

lemma rdn_eq_Ok [simp]:
  "rdn buf off n = Ok bs \<longleftrightarrow> off + n \<le> length buf \<and> bs = take n (drop off buf)"
  by (auto simp: rdn_def)

lemma safe_readBE [safety]: "off + n \<le> length buf \<Longrightarrow> safe (readBE buf off n acc)"
  by (induction n arbitrary: off acc) auto

lemma readBE_progress [progress]: "readBE buf off n acc = Ok (v, off') \<Longrightarrow> off' = off + n"
  by (induction n arbitrary: off acc) fastforce+

lemma readBE_bound: "readBE buf off n acc = Ok (v, off') \<Longrightarrow> off \<le> length buf \<Longrightarrow> off' \<le> length buf"
  by (induction n arbitrary: off acc) fastforce+

lemma length_beBytes [simp, capacity]: "length (beBytes n raw) = n"
  by (simp add: beBytes_def)

lemma beBytes_Suc: "beBytes (Suc n) raw = ucast (drop_bit (8 * n) raw) # beBytes n raw"
proof -
  have "beBytes (Suc n) raw =
      map (\<lambda>i. ucast (drop_bit ((Suc n - i - 1) * 8) raw)) (0 # map Suc [0..<n])"
    by (simp add: beBytes_def upt_conv_Cons map_Suc_upt del: upt_Suc)
  then show ?thesis
    by (simp add: beBytes_def comp_def mult.commute)
qed

lemma beBytes_0 [simp]: "beBytes 0 raw = []"
  by (simp add: beBytes_def)

section \<open>Bytes at a position\<close>

text \<open>
  \<open>sits buf off bs\<close>: the bytes \<open>bs\<close> stand in \<open>buf\<close> from offset \<open>off\<close> on. A message is
  laid out as a concatenation of encodings; \<open>sits_append\<close> splits such a layout, so that a
  decoder's lemma only talks about its own field.
\<close>

primrec sits :: "bytes \<Rightarrow> nat \<Rightarrow> bytes \<Rightarrow> bool" where
  "sits buf off [] = (off \<le> length buf)"
| "sits buf off (b # bs) = (off < length buf \<and> buf ! off = b \<and> sits buf (off + 1) bs)"

lemma sits_le: "sits buf off bs \<Longrightarrow> off + length bs \<le> length buf"
  by (induction bs arbitrary: off) fastforce+

lemma sits_append [simp]:
  "sits buf off (xs @ ys) \<longleftrightarrow> sits buf off xs \<and> sits buf (off + length xs) ys"
  by (induction xs arbitrary: off) (auto dest: sits_le)

lemma sits_take_drop: "sits buf off bs \<longleftrightarrow> off \<le> length buf \<and> take (length bs) (drop off buf) = bs"
proof (induction bs arbitrary: off)
  case Nil
  then show ?case by simp
next
  case (Cons b bs)
  show ?case
  proof (cases "off < length buf")
    case True
    then have "drop off buf = buf ! off # drop (Suc off) buf"
      by (simp add: Cons_nth_drop_Suc)
    with True Cons show ?thesis by auto
  qed auto
qed

lemma sits_self [simp]: "sits buf 0 buf"
  by (simp add: sits_take_drop)

lemma sits_rdn: "sits buf off bs \<Longrightarrow> length bs = n \<Longrightarrow> rdn buf off n = Ok bs"
  using sits_le [of buf off bs] by (simp add: sits_take_drop)

lemma readBE_sits:
  "sits buf off (beBytes n raw) \<Longrightarrow>
     readBE buf off n acc = Ok (push_bit (8 * n) acc OR take_bit (8 * n) raw, off + n)"
proof (induction n arbitrary: off acc)
  case 0
  then show ?case by simp
next
  case (Suc n)
  then have hd: "off < length buf" "buf ! off = ucast (drop_bit (8 * n) raw)"
    and tl: "sits buf (off + 1) (beBytes n raw)"
    by (auto simp: beBytes_Suc)
  have "push_bit (8 * n) (push_bit 8 acc OR ucast (ucast (drop_bit (8 * n) raw) :: u8)) OR
        take_bit (8 * n) raw = push_bit (8 * Suc n) acc OR take_bit (8 * Suc n) raw"
    by (rule bit_word_eqI) (auto simp: bit_simps add.commute less_diff_conv2)
  with hd Suc.IH [OF tl] show ?case by simp
qed

lemma readBE_beBytes [decode]:
  assumes "sits buf off (beBytes n raw)" and "take_bit (8 * n) raw = raw"
  shows "readBE buf off n 0 = Ok (raw, off + n)"
  using readBE_sits [OF assms(1), of 0] assms(2) by simp

end
