(* ===== verification/Float32.thy ===== *)
theory Float32
  imports Prelude
begin

text \<open>
  The \<open>float\<close> of the sources: IEEE 754 binary32 with round-to-nearest-even, one rounding per
  operator (no fused operations), represented by its bit pattern as the sources' \<open>memcpy\<close>
  between \<open>float\<close> and \<open>uint32_t\<close> exposes it. Every finite value is an integer multiple of
  \<open>2 ^ -149\<close>, so comparison and arithmetic are integer arithmetic in that unit followed by one
  rounding. Only the language's arithmetic is described here; no source line is modelled.
\<close>

type_synonym float32 = u32

section \<open>Fields and classes\<close>

definition f32_neg_bit :: "float32 \<Rightarrow> bool" where
  "f32_neg_bit x \<longleftrightarrow> 2 ^ 31 \<le> unat x"

definition f32_exp :: "float32 \<Rightarrow> nat" where
  "f32_exp x = unat x div 2 ^ 23 mod 2 ^ 8"

definition f32_man :: "float32 \<Rightarrow> nat" where
  "f32_man x = unat x mod 2 ^ 23"

definition f32_isnan :: "float32 \<Rightarrow> bool" where
  "f32_isnan x \<longleftrightarrow> f32_exp x = 255 \<and> f32_man x \<noteq> 0"

definition f32_isinf :: "float32 \<Rightarrow> bool" where
  "f32_isinf x \<longleftrightarrow> f32_exp x = 255 \<and> f32_man x = 0"

definition f32_isfinite :: "float32 \<Rightarrow> bool" where
  "f32_isfinite x \<longleftrightarrow> f32_exp x \<noteq> 255"

text \<open>
  The magnitude in units of \<open>2 ^ -149\<close>; for an infinity the formula gives \<open>2 ^ 277\<close>, above
  every finite magnitude, so the order below also covers infinities.
\<close>

definition f32_mag :: "float32 \<Rightarrow> nat" where
  "f32_mag x = (if f32_exp x = 0 then f32_man x else (f32_man x + 2 ^ 23) * 2 ^ (f32_exp x - 1))"

definition f32_units :: "float32 \<Rightarrow> int" where
  "f32_units x = (if f32_neg_bit x then - int (f32_mag x) else int (f32_mag x))"

definition f32_zero :: float32 where "f32_zero = 0"
definition f32_one :: float32 where "f32_one = 0x3F800000"
definition f32_half :: float32 where "f32_half = 0x3F000000"
definition f32_thousand :: float32 where "f32_thousand = 0x447A0000"
definition f32_qnan :: float32 where "f32_qnan = 0x7FC00000"

section \<open>Comparison operators\<close>

definition f32_less :: "float32 \<Rightarrow> float32 \<Rightarrow> bool" where
  "f32_less x y \<longleftrightarrow> \<not> f32_isnan x \<and> \<not> f32_isnan y \<and> f32_units x < f32_units y"

definition f32_le :: "float32 \<Rightarrow> float32 \<Rightarrow> bool" where
  "f32_le x y \<longleftrightarrow> \<not> f32_isnan x \<and> \<not> f32_isnan y \<and> f32_units x \<le> f32_units y"

text \<open>\<open>==\<close> of the sources; \<open>!=\<close> is its negation, so a NaN differs from itself.\<close>

definition f32_eq :: "float32 \<Rightarrow> float32 \<Rightarrow> bool" where
  "f32_eq x y \<longleftrightarrow> \<not> f32_isnan x \<and> \<not> f32_isnan y \<and> f32_units x = f32_units y"

section \<open>Rounding\<close>

fun nbits :: "nat \<Rightarrow> nat" where
  "nbits n = (if n = 0 then 0 else Suc (nbits (n div 2)))"

declare nbits.simps [simp del]

text \<open>
  \<open>f32_round neg num den\<close>: the binary32 value nearest to \<open>num / den\<close> units, ties to even,
  with sign \<open>neg\<close>. Dropping \<open>s\<close> low bits leaves a significand \<open>r\<close> below \<open>2 ^ 24\<close>; exponent
  and fraction field together are then the integer \<open>s * 2 ^ 23 + r\<close>, for subnormal results,
  normal results and a carry into the next binade alike.
\<close>

definition f32_pack :: "bool \<Rightarrow> nat \<Rightarrow> float32" where
  "f32_pack neg m = word_of_nat ((if neg then 2 ^ 31 else 0) + min m (255 * 2 ^ 23))"

definition f32_round :: "bool \<Rightarrow> nat \<Rightarrow> nat \<Rightarrow> float32" where
  "f32_round neg num den =
     (let s = nbits (num div den) - 24;
          d = den * 2 ^ s;
          r = num div d;
          m = num mod d;
          r' = (if 2 * m > d \<or> (2 * m = d \<and> odd r) then r + 1 else r)
      in f32_pack neg (s * 2 ^ 23 + r'))"

section \<open>Arithmetic operators\<close>

definition f32_neg :: "float32 \<Rightarrow> float32" where
  "f32_neg x = x XOR 0x80000000"

definition f32_add :: "float32 \<Rightarrow> float32 \<Rightarrow> float32" where
  "f32_add x y =
     (if f32_isnan x \<or> f32_isnan y then f32_qnan
      else if f32_isinf x then
        (if f32_isinf y \<and> f32_neg_bit x \<noteq> f32_neg_bit y then f32_qnan else x)
      else if f32_isinf y then y
      else let u = f32_units x + f32_units y
           in if u = 0 then f32_pack (f32_neg_bit x \<and> f32_neg_bit y) 0
              else f32_round (u < 0) (nat \<bar>u\<bar>) 1)"

definition f32_sub :: "float32 \<Rightarrow> float32 \<Rightarrow> float32" where
  "f32_sub x y = f32_add x (f32_neg y)"

definition f32_mul :: "float32 \<Rightarrow> float32 \<Rightarrow> float32" where
  "f32_mul x y =
     (let neg = (f32_neg_bit x \<noteq> f32_neg_bit y) in
      if f32_isnan x \<or> f32_isnan y then f32_qnan
      else if f32_isinf x \<or> f32_isinf y then
        (if f32_mag x = 0 \<or> f32_mag y = 0 then f32_qnan else f32_pack neg (255 * 2 ^ 23))
      else f32_round neg (f32_mag x * f32_mag y) (2 ^ 149))"

definition f32_div :: "float32 \<Rightarrow> float32 \<Rightarrow> float32" where
  "f32_div x y =
     (let neg = (f32_neg_bit x \<noteq> f32_neg_bit y) in
      if f32_isnan x \<or> f32_isnan y then f32_qnan
      else if f32_isinf x then (if f32_isinf y then f32_qnan else f32_pack neg (255 * 2 ^ 23))
      else if f32_isinf y then f32_pack neg 0
      else if f32_mag y = 0 then
        (if f32_mag x = 0 then f32_qnan else f32_pack neg (255 * 2 ^ 23))
      else f32_round neg (f32_mag x * 2 ^ 149) (f32_mag y))"

text \<open>
  \<open>static_cast<uint32_t>(x)\<close> truncates towards zero; the conversion of a value whose integral
  part does not fit (and of a NaN or an infinity) has no defined result.
\<close>

definition f32_to_u32 :: "float32 \<Rightarrow> u32 outcome" where
  "f32_to_u32 x =
     (if \<not> f32_isfinite x then Undef
      else let q = f32_mag x div 2 ^ 149 in
        if q \<ge> 2 ^ 32 \<or> (f32_neg_bit x \<and> q \<noteq> 0) then Undef else Ok (word_of_nat q))"

section \<open>Evaluation on concrete values\<close>

lemma nbits_eval:
  "nbits 0 = 0" "nbits (Suc 0) = 1" "nbits (numeral k) = Suc (nbits (numeral k div 2))"
  by (subst nbits.simps, simp add: nbits.simps)+

lemmas f32_eval = f32_neg_bit_def f32_exp_def f32_man_def f32_isnan_def f32_isinf_def
  f32_isfinite_def f32_mag_def f32_units_def f32_zero_def f32_one_def f32_half_def f32_thousand_def
  f32_qnan_def f32_less_def f32_le_def f32_eq_def f32_neg_def f32_add_def f32_sub_def f32_mul_def
  f32_div_def f32_round_def f32_pack_def f32_to_u32_def Let_def nbits_eval

section \<open>Laws\<close>

lemma f32_eq_refl: "f32_eq x x \<longleftrightarrow> \<not> f32_isnan x"
  by (simp add: f32_eq_def)

lemma f32_eq_sym: "f32_eq x y \<longleftrightarrow> f32_eq y x"
  by (auto simp: f32_eq_def)

lemma f32_not_less_le:
  "\<not> f32_isnan x \<Longrightarrow> \<not> f32_isnan y \<Longrightarrow> \<not> f32_less x y \<longleftrightarrow> f32_le y x"
  by (auto simp: f32_less_def f32_le_def)

lemma f32_le_trans: "f32_le x y \<Longrightarrow> f32_le y z \<Longrightarrow> f32_le x z"
  by (auto simp: f32_le_def)

lemma f32_less_le_trans: "f32_less x y \<Longrightarrow> f32_le y z \<Longrightarrow> f32_less x z"
  by (auto simp: f32_le_def f32_less_def)

lemma f32_finite_not_nan: "f32_isfinite x \<Longrightarrow> \<not> f32_isnan x \<and> \<not> f32_isinf x"
  by (simp add: f32_isfinite_def f32_isnan_def f32_isinf_def)

lemma f32_fields:
  "unat x = (if f32_neg_bit x then 2 ^ 31 else 0) + f32_exp x * 2 ^ 23 + f32_man x"
proof -
  have lt: "unat x < 2 ^ 31 + 2 ^ 31" using unsigned_less [of x] by simp
  have "unat x mod (2 ^ 23 * 2 ^ 8) = f32_exp x * 2 ^ 23 + f32_man x"
    unfolding f32_exp_def f32_man_def by (subst mod_mult2_eq) simp
  then have low: "unat x mod 2 ^ 31 = f32_exp x * 2 ^ 23 + f32_man x" by simp
  show ?thesis
  proof (cases "f32_neg_bit x")
    case True
    then have "unat x = 2 ^ 31 + unat x mod 2 ^ 31"
      using lt by (simp add: f32_neg_bit_def le_mod_geq)
    with True low show ?thesis by simp
  next
    case False
    then have "unat x mod 2 ^ 31 = unat x" by (simp add: f32_neg_bit_def)
    with False low show ?thesis by simp
  qed
qed

lemma f32_field_bounds: "f32_exp x < 256" "f32_man x < 2 ^ 23"
  by (simp_all add: f32_exp_def f32_man_def)

lemma nbits_bounds: "0 < n \<Longrightarrow> 2 ^ (nbits n - 1) \<le> n \<and> n < 2 ^ nbits n \<and> 0 < nbits n"
proof (induction n rule: nbits.induct)
  case (1 n)
  show ?case
  proof (cases "n div 2 = 0")
    case True
    with 1(2) have "n = 1" by auto
    then show ?thesis by (simp add: nbits.simps)
  next
    case False
    with 1 have IH: "2 ^ (nbits (n div 2) - 1) \<le> n div 2" "n div 2 < 2 ^ nbits (n div 2)"
      "0 < nbits (n div 2)" by auto
    obtain k where k: "nbits (n div 2) = Suc k" using IH(3) gr0_implies_Suc by blast
    have "nbits n = Suc (Suc k)" using 1(2) k by (simp add: nbits.simps [of n])
    moreover have "2 ^ Suc k \<le> n"
      using IH(1) k by simp
    moreover have "n < 2 ^ Suc (Suc k)"
      using IH(2) k by simp
    ultimately show ?thesis by simp
  qed
qed

lemma nbits_eqI: "2 ^ k \<le> n \<Longrightarrow> n < 2 ^ Suc k \<Longrightarrow> nbits n = Suc k"
proof -
  assume a: "2 ^ k \<le> n" "n < 2 ^ Suc k"
  have "0 < (2::nat) ^ k" by simp
  with a(1) have "0 < n" by linarith
  from nbits_bounds [OF this]
  have b: "2 ^ (nbits n - 1) \<le> n" "n < 2 ^ nbits n" "0 < nbits n" by auto
  have "nbits n - 1 < Suc k"
    using a(2) b(1) by (metis le_less_trans power_strict_increasing_iff one_less_numeral_iff semiring_norm(76))
  moreover have "k < nbits n"
    using a(1) b(2) by (metis le_less_trans power_strict_increasing_iff one_less_numeral_iff semiring_norm(76))
  ultimately show ?thesis using b(3) by linarith
qed

text \<open>A finite value is a fixed point of rounding: nothing is lost on an exact result.\<close>

lemma f32_round_exact:
  assumes "f32_isfinite x"
  shows "f32_round (f32_neg_bit x) (f32_mag x) 1 = x"
proof -
  let ?e = "f32_exp x" and ?m = "f32_man x"
  have e: "?e < 255" using assms f32_field_bounds(1) [of x] by (simp add: f32_isfinite_def)
  have m: "?m < 2 ^ 23" by (rule f32_field_bounds)
  have s: "nbits (f32_mag x) - 24 = ?e - 1"
  proof (cases "?e = 0")
    case True
    then have mag: "f32_mag x = ?m" by (simp add: f32_mag_def)
    show ?thesis
    proof (cases "?m = 0")
      case True
      with mag \<open>?e = 0\<close> show ?thesis by (simp add: nbits.simps)
    next
      case False
      then have "2 ^ (nbits ?m - 1) < (2::nat) ^ 23"
        using nbits_bounds [of ?m] m by (meson le_less_trans neq0_conv)
      then have "nbits ?m - 1 < 23" by (rule power_less_imp_less_exp [rotated]) simp
      with mag True show ?thesis by simp
    qed
  next
    case False
    have "nbits (f32_mag x) = Suc (23 + (?e - 1))"
    proof (rule nbits_eqI)
      have "(2::nat) ^ 23 * 2 ^ (?e - 1) \<le> (?m + 2 ^ 23) * 2 ^ (?e - 1)"
        by (rule mult_le_mono1) simp
      then show "2 ^ (23 + (?e - 1)) \<le> f32_mag x"
        using False by (simp only: f32_mag_def power_add if_False)
      have "f32_mag x < (2 ^ 23 + 2 ^ 23) * 2 ^ (?e - 1)"
        using False m by (simp add: f32_mag_def)
      also have "\<dots> = 2 ^ Suc (23 + (?e - 1))" by (simp add: power_add)
      finally show "f32_mag x < 2 ^ Suc (23 + (?e - 1))" .
    qed
    then show ?thesis by simp
  qed
  have r: "f32_mag x div 2 ^ (?e - 1) = (if ?e = 0 then ?m else ?m + 2 ^ 23)"
    and z: "f32_mag x mod 2 ^ (?e - 1) = 0"
    by (simp_all add: f32_mag_def)
  have "f32_round (f32_neg_bit x) (f32_mag x) 1 =
      f32_pack (f32_neg_bit x) ((?e - 1) * 2 ^ 23 + (if ?e = 0 then ?m else ?m + 2 ^ 23))"
    by (simp add: f32_round_def Let_def s r z del: One_nat_def)
  also have "(?e - 1) * 2 ^ 23 + (if ?e = 0 then ?m else ?m + 2 ^ 23) = ?e * 2 ^ 23 + ?m"
    by (cases ?e) simp_all
  also have "f32_pack (f32_neg_bit x) (?e * 2 ^ 23 + ?m) = word_of_nat (unat x)"
    using e m by (subst f32_fields) (simp add: f32_pack_def add.assoc)
  finally show ?thesis by simp
qed

lemma unat_f32_pack: "unat (f32_pack neg m) = (if neg then 2 ^ 31 else 0) + min m (255 * 2 ^ 23)"
proof -
  have "(if neg then 2 ^ 31 else 0) + min m (255 * 2 ^ 23) < (2::nat) ^ 32" by auto
  then show ?thesis unfolding f32_pack_def by (simp only: unat_of_nat len_num1 len_bit0) simp
qed

lemma f32_pack_not_nan: "\<not> f32_isnan (f32_pack neg m)"
proof
  define c :: nat where "c = 2 ^ 23"
  define k where "k = min m (255 * c)"
  assume nan: "f32_isnan (f32_pack neg m)"
  have c: "0 < c" and k: "k \<le> 255 * c" by (simp_all add: c_def k_def)
  have u: "unat (f32_pack neg m) = k + (if neg then 256 * c else 0)"
    by (simp add: unat_f32_pack k_def c_def)
  have "k div c < 256" using k c by (simp add: div_less_iff_less_mult)
  then have "unat (f32_pack neg m) div c mod 256 = k div c" "unat (f32_pack neg m) mod c = k mod c"
    using c by (auto simp: u)
  with nan have q: "k div c = 255" and r: "k mod c \<noteq> 0"
    by (simp_all add: f32_isnan_def f32_exp_def f32_man_def c_def)
  have "k = 255 * c + k mod c" using div_mult_mod_eq [of k c] q by simp
  with k r show False by linarith
qed

lemma f32_round_not_nan: "\<not> f32_isnan (f32_round neg num den)"
  by (simp add: f32_round_def Let_def f32_pack_not_nan)

text \<open>The sum of two finite values is never a NaN (it may overflow to an infinity).\<close>

lemma f32_add_finite_not_nan:
  "f32_isfinite x \<Longrightarrow> f32_isfinite y \<Longrightarrow> \<not> f32_isnan (f32_add x y)"
  by (auto simp: f32_add_def Let_def f32_finite_not_nan f32_pack_not_nan f32_round_not_nan)

section \<open>Signed zeros and exact sums\<close>

lemma f32_less_nan: "f32_isnan x \<Longrightarrow> \<not> f32_less x y" "f32_isnan y \<Longrightarrow> \<not> f32_less x y"
  by (simp_all add: f32_less_def)

lemma f32_neg_bit_pack: "f32_neg_bit (f32_pack neg m) = neg"
  by (auto simp: f32_neg_bit_def unat_f32_pack)

lemma add_top_bit:
  fixes k :: nat
  shows "(k + 2 ^ 31) mod 2 ^ 23 = k mod 2 ^ 23"
    "(k + 2 ^ 31) div 2 ^ 23 mod 2 ^ 8 = k div 2 ^ 23 mod 2 ^ 8"
proof -
  show "(k + 2 ^ 31) mod 2 ^ 23 = k mod 2 ^ 23" using mod_mult_self1 [of k 256 "2 ^ 23"] by simp
  have "(k + 2 ^ 31) div 2 ^ 23 = k div 2 ^ 23 + 256"
    using div_mult_self1 [of "2 ^ 23" k 256] by simp
  then show "(k + 2 ^ 31) div 2 ^ 23 mod 2 ^ 8 = k div 2 ^ 23 mod 2 ^ 8"
    using mod_mult_self1 [of "k div 2 ^ 23" 1 "2 ^ 8"] by simp
qed

lemma f32_mag_pack_0: "f32_mag (f32_pack neg m) = 0 \<longleftrightarrow> m = 0"
proof -
  define k where "k = min m (255 * 2 ^ 23)"
  have k: "k \<le> 255 * 2 ^ 23" "k = 0 \<longleftrightarrow> m = 0" by (auto simp: k_def)
  have u: "unat (f32_pack neg m) = (if neg then k + 2 ^ 31 else k)" by (simp add: unat_f32_pack k_def)
  have man: "f32_man (f32_pack neg m) = k mod 2 ^ 23"
    unfolding f32_man_def u by (cases neg) (simp_all only: add_top_bit if_True if_False)
  have "f32_exp (f32_pack neg m) = k div 2 ^ 23 mod 2 ^ 8"
    unfolding f32_exp_def u by (cases neg) (simp_all only: add_top_bit if_True if_False)
  moreover have "k div 2 ^ 23 < 2 ^ 8" using k(1) by simp
  ultimately have "f32_exp (f32_pack neg m) = k div 2 ^ 23" by simp
  then show ?thesis
    using man k(2) by (auto simp: f32_mag_def)
qed

lemma f32_round_0: "f32_round neg 0 den = f32_pack neg 0"
  by (simp add: f32_round_def Let_def nbits.simps)

lemma f32_round_nonzero: "0 < num \<Longrightarrow> f32_mag (f32_round neg num 1) \<noteq> 0"
proof -
  assume n: "0 < num"
  have "0 < num" if "nbits num - 24 = 0" using n .
  then show ?thesis using n by (auto simp: f32_round_def Let_def f32_mag_pack_0)
qed

lemma f32_units_sign: "f32_mag x \<noteq> 0 \<Longrightarrow> f32_units x < 0 \<longleftrightarrow> f32_neg_bit x"
  by (simp add: f32_units_def)

lemma f32_neg_add: "f32_neg x = x + 0x80000000"
proof -
  have "f32_neg x = flip_bit 31 x" by (simp add: f32_neg_def flip_bit_eq_xor push_bit_eq_mult)
  then show ?thesis by (simp add: flip_bit_eq_if set_bit_eq unset_bit_eq)
qed

lemma f32_neg_fields:
  "f32_neg_bit (f32_neg x) = (\<not> f32_neg_bit x)" "f32_exp (f32_neg x) = f32_exp x"
  "f32_man (f32_neg x) = f32_man x"
proof -
  define k where "k = unat x"
  have k: "k < 2 ^ 32" unfolding k_def using unsigned_less [of x] by simp
  have u: "unat (f32_neg x) = (k + 2 ^ 31) mod 2 ^ 32" by (simp add: f32_neg_add unat_word_ariths k_def)
  have nb: "f32_neg_bit x = (2 ^ 31 \<le> k)" by (simp add: f32_neg_bit_def k_def)
  have v: "unat (f32_neg x) = (if 2 ^ 31 \<le> k then k - 2 ^ 31 else k + 2 ^ 31)"
  proof (cases "2 ^ 31 \<le> k")
    case True
    then have "k + 2 ^ 31 = (k - 2 ^ 31) + 2 ^ 32" by simp
    moreover have "k - 2 ^ 31 < 2 ^ 32" using k by simp
    ultimately show ?thesis using True by (simp only: u mod_add_self2 mod_less if_True)
  qed (simp add: u)
  show "f32_neg_bit (f32_neg x) = (\<not> f32_neg_bit x)"
    unfolding f32_neg_bit_def [of "f32_neg x"] nb v using k by (simp add: le_diff_conv2)
  define j where "j = (if 2 ^ 31 \<le> k then k - 2 ^ 31 else k)"
  have jk: "(unat (f32_neg x) = j + 2 ^ 31 \<and> k = j) \<or> (unat (f32_neg x) = j \<and> k = j + 2 ^ 31)"
    by (simp add: v j_def)
  show "f32_exp (f32_neg x) = f32_exp x"
    unfolding f32_exp_def k_def [symmetric] using jk add_top_bit(2) [of j] by metis
  show "f32_man (f32_neg x) = f32_man x"
    unfolding f32_man_def k_def [symmetric] using jk add_top_bit(1) [of j] by metis
qed

lemma f32_units_neg: "f32_units (f32_neg x) = - f32_units x"
  and f32_isfinite_neg: "f32_isfinite (f32_neg x) = f32_isfinite x"
  by (simp_all add: f32_units_def f32_mag_def f32_isfinite_def f32_neg_fields)

lemma f32_finite_pack_0: "f32_isfinite (f32_pack neg 0)"
  by (cases neg) (simp_all add: f32_isfinite_def f32_exp_def unat_f32_pack)

text \<open>Adding a zero of either sign changes no finite value (and \<open>==\<close> identifies the zeros).\<close>

lemma f32_add_zero:
  assumes "f32_isfinite x" "f32_isfinite z" "f32_mag z = 0"
  shows "f32_eq (f32_add x z) x \<and> f32_isfinite (f32_add x z)"
proof -
  have z: "f32_units z = 0" using assms(3) by (simp add: f32_units_def)
  note fin = f32_finite_not_nan [OF assms(1)] f32_finite_not_nan [OF assms(2)]
  show ?thesis
  proof (cases "f32_units x = 0")
    case True
    define p where "p = f32_pack (f32_neg_bit x \<and> f32_neg_bit z) 0"
    have "f32_add x z = p" using fin z True by (simp add: f32_add_def p_def)
    moreover have "f32_isfinite p" "f32_units p = 0"
      by (simp_all add: p_def f32_finite_pack_0 f32_units_def f32_mag_pack_0)
    ultimately show ?thesis using fin True f32_finite_not_nan by (simp add: f32_eq_def)
  next
    case False
    then have "f32_add x z = f32_round (f32_neg_bit x) (f32_mag x) 1"
      using fin z by (auto simp: f32_add_def f32_units_def)
    then show ?thesis using assms(1) fin by (simp only: f32_round_exact f32_eq_refl) simp
  qed
qed

lemma f32_sub_zero: "f32_isfinite x \<Longrightarrow> f32_eq (f32_sub x f32_zero) x"
  unfolding f32_sub_def
  by (rule conjunct1 [OF f32_add_zero])
    (simp_all add: f32_isfinite_neg f32_mag_def f32_neg_fields, simp_all add: f32_zero_def f32_isfinite_def f32_exp_def f32_man_def)

text \<open>The sign of a difference is the order of its operands, whatever the rounding does.\<close>

lemma f32_sub_sign:
  assumes "f32_isfinite x" "f32_isfinite y"
  shows "f32_units x < f32_units y \<Longrightarrow> f32_mag (f32_sub x y) \<noteq> 0 \<and> f32_neg_bit (f32_sub x y)"
    and "f32_units y < f32_units x \<Longrightarrow> f32_mag (f32_sub x y) \<noteq> 0 \<and> \<not> f32_neg_bit (f32_sub x y)"
    and "f32_units x = f32_units y \<Longrightarrow> f32_mag (f32_sub x y) = 0"
proof -
  note fin = f32_finite_not_nan [OF assms(1)] assms(2) [folded f32_isfinite_neg [of y], THEN f32_finite_not_nan]
  have sub: "f32_sub x y = (let u = f32_units x - f32_units y in
      if u = 0 then f32_pack (f32_neg_bit x \<and> f32_neg_bit (f32_neg y)) 0 else f32_round (u < 0) (nat \<bar>u\<bar>) 1)"
    using fin by (simp add: f32_sub_def f32_add_def f32_units_neg Let_def)
  have sign: "f32_neg_bit (f32_round b n 1) = b" for b n by (simp add: f32_round_def Let_def f32_neg_bit_pack)
  show "f32_mag (f32_sub x y) \<noteq> 0 \<and> f32_neg_bit (f32_sub x y)" if "f32_units x < f32_units y"
    using that f32_round_nonzero [of "nat \<bar>f32_units x - f32_units y\<bar>"] by (simp add: sub sign del: One_nat_def)
  show "f32_mag (f32_sub x y) \<noteq> 0 \<and> \<not> f32_neg_bit (f32_sub x y)" if "f32_units y < f32_units x"
    using that f32_round_nonzero [of "nat \<bar>f32_units x - f32_units y\<bar>"] by (simp add: sub sign del: One_nat_def)
  show "f32_mag (f32_sub x y) = 0" if "f32_units x = f32_units y"
    using that by (simp add: sub f32_mag_pack_0)
qed

text \<open>Nothing but an infinity or a NaN comes out of scaling one.\<close>

lemma f32_isinf_pack: "f32_isinf (f32_pack neg 2139095040)"
  by (cases neg) (simp_all add: f32_isinf_def f32_exp_def f32_man_def unat_f32_pack)

lemma f32_isinf_mag: "f32_isinf x \<Longrightarrow> f32_mag x \<noteq> 0"
  by (simp add: f32_isinf_def f32_mag_def)

lemma f32_isfinite_cases: "f32_isfinite x \<longleftrightarrow> \<not> f32_isnan x \<and> \<not> f32_isinf x"
  by (auto simp: f32_isfinite_def f32_isnan_def f32_isinf_def)

lemma f32_nan_qnan: "f32_isnan f32_qnan"
  by (simp add: f32_qnan_def f32_isnan_def f32_exp_def f32_man_def)

lemma f32_mul_nonfinite:
  "\<not> f32_isfinite x \<Longrightarrow> f32_isfinite y \<Longrightarrow> f32_mag y \<noteq> 0 \<Longrightarrow> \<not> f32_isfinite (f32_mul x y)"
  using f32_isinf_mag [of x]
  by (auto simp: f32_mul_def Let_def f32_isfinite_cases f32_isinf_pack f32_nan_qnan)

lemma f32_add_nonfinite:
  "\<not> f32_isfinite x \<Longrightarrow> f32_isfinite y \<Longrightarrow> \<not> f32_isfinite (f32_add x y)"
  by (auto simp: f32_add_def f32_isfinite_cases f32_nan_qnan)

end
