(* ===== verification/BacnetTypes.thy ===== *)
theory BacnetTypes
  imports Float32
begin

text \<open>
  The data of the protocol layer (src/src/core/protocol/BacnetTypes.h): object and property
  identifiers, decoded property values, request headers, COV notifications and the stable
  technical names. An \<open>enum class\<close> over a fixed integer type into which the sources cast
  arbitrary wire values (object types, property identifiers) is that integer type with named
  constants; a closed enumeration is a datatype. A C string is the list of its bytes before the
  NUL, a nullable one an option. \<open>BacnetValue.text\<close> is the content the sources copied in before
  the NUL they write, and \<open>textLength\<close> is the separate field they keep beside it.
\<close>

section \<open>Identifiers\<close>

type_synonym cstring = "bytes option"

definition kObjectInstanceMask :: u32 where "kObjectInstanceMask = 0x003FFFFF"

definition kBacnetNoArrayIndex :: u32 where "kBacnetNoArrayIndex = 0xFFFFFFFF"

record BacnetObjectId =
  objType :: u16
  objInstance :: u32

type_synonym BacnetObjectType = u16

abbreviation (input) ObjAnalogInput :: BacnetObjectType where "ObjAnalogInput \<equiv> 0"
abbreviation (input) ObjAnalogOutput :: BacnetObjectType where "ObjAnalogOutput \<equiv> 1"
abbreviation (input) ObjAnalogValue :: BacnetObjectType where "ObjAnalogValue \<equiv> 2"
abbreviation (input) ObjBinaryInput :: BacnetObjectType where "ObjBinaryInput \<equiv> 3"
abbreviation (input) ObjBinaryOutput :: BacnetObjectType where "ObjBinaryOutput \<equiv> 4"
abbreviation (input) ObjBinaryValue :: BacnetObjectType where "ObjBinaryValue \<equiv> 5"
abbreviation (input) ObjDevice :: BacnetObjectType where "ObjDevice \<equiv> 8"
abbreviation (input) ObjMultiStateInput :: BacnetObjectType where "ObjMultiStateInput \<equiv> 13"
abbreviation (input) ObjMultiStateOutput :: BacnetObjectType where "ObjMultiStateOutput \<equiv> 14"
abbreviation (input) ObjMultiStateValue :: BacnetObjectType where "ObjMultiStateValue \<equiv> 19"

type_synonym BacnetPropertyId = u32

abbreviation (input) PropApduTimeout :: BacnetPropertyId where "PropApduTimeout \<equiv> 10"
abbreviation (input) PropApplicationSoftwareVersion :: BacnetPropertyId where "PropApplicationSoftwareVersion \<equiv> 12"
abbreviation (input) PropCovIncrement :: BacnetPropertyId where "PropCovIncrement \<equiv> 22"
abbreviation (input) PropDescription :: BacnetPropertyId where "PropDescription \<equiv> 28"
abbreviation (input) PropDeviceAddressBinding :: BacnetPropertyId where "PropDeviceAddressBinding \<equiv> 30"
abbreviation (input) PropEventState :: BacnetPropertyId where "PropEventState \<equiv> 36"
abbreviation (input) PropFirmwareRevision :: BacnetPropertyId where "PropFirmwareRevision \<equiv> 44"
abbreviation (input) PropLocation :: BacnetPropertyId where "PropLocation \<equiv> 58"
abbreviation (input) PropMaxApduLengthAccepted :: BacnetPropertyId where "PropMaxApduLengthAccepted \<equiv> 62"
abbreviation (input) PropMaxPresentValue :: BacnetPropertyId where "PropMaxPresentValue \<equiv> 65"
abbreviation (input) PropMinPresentValue :: BacnetPropertyId where "PropMinPresentValue \<equiv> 69"
abbreviation (input) PropModelName :: BacnetPropertyId where "PropModelName \<equiv> 70"
abbreviation (input) PropNumberOfApduRetries :: BacnetPropertyId where "PropNumberOfApduRetries \<equiv> 73"
abbreviation (input) PropNumberOfStates :: BacnetPropertyId where "PropNumberOfStates \<equiv> 74"
abbreviation (input) PropObjectIdentifier :: BacnetPropertyId where "PropObjectIdentifier \<equiv> 75"
abbreviation (input) PropObjectList :: BacnetPropertyId where "PropObjectList \<equiv> 76"
abbreviation (input) PropObjectName :: BacnetPropertyId where "PropObjectName \<equiv> 77"
abbreviation (input) PropObjectType :: BacnetPropertyId where "PropObjectType \<equiv> 79"
abbreviation (input) PropOutOfService :: BacnetPropertyId where "PropOutOfService \<equiv> 81"
abbreviation (input) PropPresentValue :: BacnetPropertyId where "PropPresentValue \<equiv> 85"
abbreviation (input) PropPriorityArray :: BacnetPropertyId where "PropPriorityArray \<equiv> 87"
abbreviation (input) PropPolarity :: BacnetPropertyId where "PropPolarity \<equiv> 84"
abbreviation (input) PropProtocolObjectTypesSupported :: BacnetPropertyId where "PropProtocolObjectTypesSupported \<equiv> 96"
abbreviation (input) PropProtocolServicesSupported :: BacnetPropertyId where "PropProtocolServicesSupported \<equiv> 97"
abbreviation (input) PropProtocolVersion :: BacnetPropertyId where "PropProtocolVersion \<equiv> 98"
abbreviation (input) PropReliability :: BacnetPropertyId where "PropReliability \<equiv> 103"
abbreviation (input) PropRelinquishDefault :: BacnetPropertyId where "PropRelinquishDefault \<equiv> 104"
abbreviation (input) PropResolution :: BacnetPropertyId where "PropResolution \<equiv> 106"
abbreviation (input) PropStateText :: BacnetPropertyId where "PropStateText \<equiv> 110"
abbreviation (input) PropStatusFlags :: BacnetPropertyId where "PropStatusFlags \<equiv> 111"
abbreviation (input) PropSystemStatus :: BacnetPropertyId where "PropSystemStatus \<equiv> 112"
abbreviation (input) PropUnits :: BacnetPropertyId where "PropUnits \<equiv> 117"
abbreviation (input) PropVendorIdentifier :: BacnetPropertyId where "PropVendorIdentifier \<equiv> 120"
abbreviation (input) PropVendorName :: BacnetPropertyId where "PropVendorName \<equiv> 121"
abbreviation (input) PropProtocolRevision :: BacnetPropertyId where "PropProtocolRevision \<equiv> 139"
abbreviation (input) PropDatabaseRevision :: BacnetPropertyId where "PropDatabaseRevision \<equiv> 155"
abbreviation (input) PropSegmentationSupported :: BacnetPropertyId where "PropSegmentationSupported \<equiv> 107"
abbreviation (input) PropPropertyList :: BacnetPropertyId where "PropPropertyList \<equiv> 371"
abbreviation (input) PropSerialNumber :: BacnetPropertyId where "PropSerialNumber \<equiv> 372"

section \<open>Technical names\<close>

definition bacnetObjectTypeText :: "BacnetObjectType \<Rightarrow> string" where
  "bacnetObjectTypeText k =
    (if k = ObjAnalogInput then ''analog-input'' else
     (if k = ObjAnalogOutput then ''analog-output'' else
     (if k = ObjAnalogValue then ''analog-value'' else
     (if k = ObjBinaryInput then ''binary-input'' else
     (if k = ObjBinaryOutput then ''binary-output'' else
     (if k = ObjBinaryValue then ''binary-value'' else
     (if k = ObjDevice then ''device'' else
     (if k = ObjMultiStateInput then ''multi-state-input'' else
     (if k = ObjMultiStateOutput then ''multi-state-output'' else
     (if k = ObjMultiStateValue then ''multi-state-value'' else
      ''object''))))))))))"

datatype BacnetValueType =
  TyEmpty
| TyNull
| TyBoolean
| TyUnsigned
| TySigned
| TyReal
| TyBitString
| TyEnumerated
| TyCharacterString
| TyObjectIdentifier
| TyObjectIdentifierList
| TyError
| TyNotCommandable
| TyUnsupported
| TyPropertyIdentifierList

definition bacnetErrorClassName :: "u32 \<Rightarrow> string" where
  "bacnetErrorClassName k =
    (if k = 1 then ''object'' else
     (if k = 2 then ''property'' else
      ''error''))"

definition bacnetErrorCodeName :: "u32 \<Rightarrow> string" where
  "bacnetErrorCodeName k =
    (if k = 26 then ''optional-functionality-not-supported'' else
     (if k = 31 then ''unknown-object'' else
     (if k = 32 then ''unknown-property'' else
     (if k = 42 then ''invalid-array-index'' else
      ''error''))))"

definition bacnetPropertyName :: "BacnetPropertyId \<Rightarrow> string" where
  "bacnetPropertyName k =
    (if k = PropApplicationSoftwareVersion then ''applicationSoftwareVersion'' else
     (if k = PropCovIncrement then ''covIncrement'' else
     (if k = PropDescription then ''description'' else
     (if k = PropLocation then ''location'' else
     (if k = PropEventState then ''eventState'' else
     (if k = PropFirmwareRevision then ''firmwareRevision'' else
     (if k = PropMaxPresentValue then ''maxPresentValue'' else
     (if k = PropMinPresentValue then ''minPresentValue'' else
     (if k = PropModelName then ''modelName'' else
     (if k = PropNumberOfStates then ''numberOfStates'' else
     (if k = PropObjectIdentifier then ''objectIdentifier'' else
     (if k = PropObjectList then ''objectList'' else
     (if k = PropObjectName then ''objectName'' else
     (if k = PropObjectType then ''objectType'' else
     (if k = PropOutOfService then ''outOfService'' else
     (if k = PropPresentValue then ''presentValue'' else
     (if k = PropPolarity then ''polarity'' else
     (if k = PropProtocolRevision then ''protocolRevision'' else
     (if k = PropProtocolVersion then ''protocolVersion'' else
     (if k = PropPriorityArray then ''priorityArray'' else
     (if k = PropPropertyList then ''propertyList'' else
     (if k = PropReliability then ''reliability'' else
     (if k = PropRelinquishDefault then ''relinquishDefault'' else
     (if k = PropResolution then ''resolution'' else
     (if k = PropSerialNumber then ''serialNumber'' else
     (if k = PropStateText then ''stateText'' else
     (if k = PropStatusFlags then ''statusFlags'' else
     (if k = PropUnits then ''units'' else
     (if k = PropVendorIdentifier then ''vendorIdentifier'' else
     (if k = PropVendorName then ''vendorName'' else
      ''property''))))))))))))))))))))))))))))))"

fun bacnetValueTypeName :: "BacnetValueType \<Rightarrow> string" where
  "bacnetValueTypeName TyEmpty = ''empty''"
| "bacnetValueTypeName TyNull = ''null''"
| "bacnetValueTypeName TyBoolean = ''boolean''"
| "bacnetValueTypeName TyUnsigned = ''unsigned''"
| "bacnetValueTypeName TySigned = ''signed''"
| "bacnetValueTypeName TyReal = ''real''"
| "bacnetValueTypeName TyBitString = ''bit-string''"
| "bacnetValueTypeName TyEnumerated = ''enumerated''"
| "bacnetValueTypeName TyCharacterString = ''string''"
| "bacnetValueTypeName TyObjectIdentifier = ''object-id''"
| "bacnetValueTypeName TyObjectIdentifierList = ''object-id-list''"
| "bacnetValueTypeName TyError = ''error''"
| "bacnetValueTypeName TyNotCommandable = ''not-commandable''"
| "bacnetValueTypeName TyUnsupported = ''unsupported''"
| "bacnetValueTypeName TyPropertyIdentifierList = ''property-id-list''"

section \<open>Values\<close>

definition kMaxTextLength :: nat where "kMaxTextLength = 512"

record BacnetValue =
  vType :: BacnetValueType
  vText :: bytes
  vTextLength :: nat
  vBoolean :: bool
  vUnsigned :: u32
  vSigned :: u32
  vReal :: float32
  vBitString :: u32
  vBitCount :: u8
  vObject :: BacnetObjectId

text \<open>\<open>BacnetValue{}\<close>; the 32-bit two's-complement \<open>signedValue\<close> is kept as its bit pattern.\<close>

definition emptyObjectId :: BacnetObjectId where
  "emptyObjectId = \<lparr>objType = 0, objInstance = 0\<rparr>"

definition emptyValue :: BacnetValue where
  "emptyValue = \<lparr>vType = TyEmpty, vText = [], vTextLength = 0, vBoolean = False, vUnsigned = 0,
     vSigned = 0, vReal = 0, vBitString = 0, vBitCount = 0, vObject = emptyObjectId\<rparr>"

text \<open>\<open>BacnetPriorityArray\<close>: 16 decoded slots, each present or not.\<close>

definition kSlotCount :: nat where "kSlotCount = 16"

type_synonym BacnetPriorityArray = "BacnetValue option list"

section \<open>Requests and notifications\<close>

record BacnetPropertyRequest =
  rqObject :: BacnetObjectId
  rqProperty :: BacnetPropertyId
  rqArrayIndex :: u32

record BacnetWritePropertyOptions =
  woArrayIndex :: u32
  woHasPriority :: bool
  woPriority :: u8

datatype BacnetReadPropertyResponseKind = RpUnrelated | RpAck | RpError | RpReject | RpAbort
datatype BacnetWritePropertyResponseKind = WpUnrelated | WpAck | WpError | WpReject | WpAbort
datatype BacnetSubscribeCovResponseKind = ScNone | ScAck | ScError | ScReject | ScAbort

datatype BacnetSubscribeCovRequestParseStatus =
  CovUnrelated | SubscribeCov | SubscribeCovProperty | CovMalformed
datatype BacnetConfirmedRequestParseStatus = CrUnrelated | CrMalformed | Confirmed
datatype BacnetReadPropertyRequestParseStatus = RrUnrelated | RrMalformed | ReadProperty
datatype BacnetWritePropertyRequestParseStatus = WrUnrelated | WrMalformed | WriteProperty

record BacnetSubscribeCovRequestHeader =
  scInvokeId :: u8
  scProcessId :: u32
  scObject :: BacnetObjectId
  scIsProperty :: bool
  scProperty :: BacnetPropertyId
  scArrayIndex :: u32
  scConfirmed :: bool
  scLifetime :: u32
  scHasIncrement :: bool
  scIncrement :: float32

record BacnetIAmDeviceInfo =
  iaDeviceInstance :: u32
  iaMaxApdu :: u32
  iaSegmentation :: u8
  iaVendorId :: u16

record BacnetWhoIsRequest =
  wiHasRange :: bool
  wiLow :: u32
  wiHigh :: u32

definition whoIsIncludes :: "BacnetWhoIsRequest \<Rightarrow> u32 \<Rightarrow> bool" where
  "whoIsIncludes r deviceInstance \<longleftrightarrow>
     \<not> wiHasRange r \<or> (wiLow r \<le> deviceInstance \<and> deviceInstance \<le> wiHigh r)"

record BacnetConfirmedRequestHeader =
  crInvokeId :: u8
  crServiceChoice :: u8
  crApduOffset :: nat

record BacnetReadPropertyRequestHeader =
  rrInvokeId :: u8
  rrRequest :: BacnetPropertyRequest

record BacnetWritePropertyRequestHeader =
  wrInvokeId :: u8
  wrRequest :: BacnetPropertyRequest
  wrValue :: BacnetValue
  wrHasPriority :: bool
  wrPriority :: u8

record BacnetIpEndpoint =
  epA :: u8
  epB :: u8
  epC :: u8
  epD :: u8
  epPort :: u16

definition endpointIsZero :: "BacnetIpEndpoint \<Rightarrow> bool" where
  "endpointIsZero e \<longleftrightarrow> epA e = 0 \<and> epB e = 0 \<and> epC e = 0 \<and> epD e = 0"

record BacnetCovPropertyValue =
  cpProperty :: BacnetPropertyId
  cpArrayIndex :: u32
  cpValue :: BacnetValue

definition kMaxProperties :: nat where "kMaxProperties = 4"

text \<open>\<open>properties[kMaxProperties]\<close> with \<open>propertyCount\<close> is the list of the entries in use.\<close>

record BacnetCovNotification =
  cnProcessId :: u32
  cnObject :: BacnetObjectId
  cnProperty :: BacnetPropertyId
  cnArrayIndex :: u32
  cnValue :: BacnetValue
  cnProperties :: "BacnetCovPropertyValue list"
  cnConfirmed :: bool
  cnInvokeId :: u8
  cnSource :: BacnetIpEndpoint

definition emptyEndpoint :: BacnetIpEndpoint where
  "emptyEndpoint = \<lparr>epA = 0, epB = 0, epC = 0, epD = 0, epPort = 47808\<rparr>"

definition emptyRequest :: BacnetPropertyRequest where
  "emptyRequest = \<lparr>rqObject = emptyObjectId, rqProperty = PropObjectName,
     rqArrayIndex = kBacnetNoArrayIndex\<rparr>"

definition emptyCovNotification :: BacnetCovNotification where
  "emptyCovNotification = \<lparr>cnProcessId = 0, cnObject = emptyObjectId,
     cnProperty = PropPresentValue, cnArrayIndex = kBacnetNoArrayIndex, cnValue = emptyValue,
     cnProperties = [], cnConfirmed = False, cnInvokeId = 0, cnSource = emptyEndpoint\<rparr>"

definition emptySubscribeCov :: BacnetSubscribeCovRequestHeader where
  "emptySubscribeCov = \<lparr>scInvokeId = 0, scProcessId = 0, scObject = emptyObjectId,
     scIsProperty = False, scProperty = PropPresentValue, scArrayIndex = kBacnetNoArrayIndex,
     scConfirmed = False, scLifetime = 0, scHasIncrement = False, scIncrement = 0\<rparr>"

end
