(* ===== verification/ValueDecode.thy ===== *)
theory ValueDecode
  imports BacnetTypes
begin

text \<open>
  The decoding half of src/src/core/protocol/BacnetProtocol.cpp, lines 40 to 731: tagged
  integers, tag headers, the technical text kept beside every decoded value, one parser per
  application tag, the dispatcher \<open>parseReadPropertyApplicationValue\<close> and the NPDU header. A
  parser takes the datagram and an offset and returns its result with the new offset; where the
  sources update a \<open>BacnetValue\<close> through a reference, the parser takes the old value and
  returns the new one. The lemmas show that no parser reads outside the datagram and that a
  successful one only moves forward and stays inside it.
\<close>

unbundle bit_operations_syntax

section \<open>Constants of the wire format\<close>

abbreviation (input) kBvlcTypeBacnetIp :: u8 where "kBvlcTypeBacnetIp \<equiv> 0x81"
abbreviation (input) kBvlcOriginalUnicastNpdu :: u8 where "kBvlcOriginalUnicastNpdu \<equiv> 0x0A"
abbreviation (input) kBvlcOriginalBroadcastNpdu :: u8 where "kBvlcOriginalBroadcastNpdu \<equiv> 0x0B"
abbreviation (input) kNpduVersion :: u8 where "kNpduVersion \<equiv> 0x01"
abbreviation (input) kNpduExpectingReply :: u8 where "kNpduExpectingReply \<equiv> 0x04"
abbreviation (input) kApduConfirmedRequest :: u8 where "kApduConfirmedRequest \<equiv> 0x00"
abbreviation (input) kApduSimpleAck :: u8 where "kApduSimpleAck \<equiv> 0x20"
abbreviation (input) kApduComplexAck :: u8 where "kApduComplexAck \<equiv> 0x30"
abbreviation (input) kApduError :: u8 where "kApduError \<equiv> 0x50"
abbreviation (input) kApduReject :: u8 where "kApduReject \<equiv> 0x60"
abbreviation (input) kApduAbort :: u8 where "kApduAbort \<equiv> 0x70"
abbreviation (input) kApduUnconfirmedRequest :: u8 where "kApduUnconfirmedRequest \<equiv> 0x10"
abbreviation (input) kServiceIAm :: u8 where "kServiceIAm \<equiv> 0x00"
abbreviation (input) kServiceWhoIs :: u8 where "kServiceWhoIs \<equiv> 0x08"
abbreviation (input) kServiceConfirmedCovNotification :: u8 where "kServiceConfirmedCovNotification \<equiv> 0x01"
abbreviation (input) kServiceSubscribeCov :: u8 where "kServiceSubscribeCov \<equiv> 0x05"
abbreviation (input) kServiceUnconfirmedCovNotification :: u8 where "kServiceUnconfirmedCovNotification \<equiv> 0x02"
abbreviation (input) kServiceReadProperty :: u8 where "kServiceReadProperty \<equiv> 0x0C"
abbreviation (input) kServiceWriteProperty :: u8 where "kServiceWriteProperty \<equiv> 0x0F"
abbreviation (input) kServiceSubscribeCovProperty :: u8 where "kServiceSubscribeCovProperty \<equiv> 0x1C"
abbreviation (input) kDeviceObjectType :: u16 where "kDeviceObjectType \<equiv> 8"
abbreviation (input) kApplicationTagNull :: u8 where "kApplicationTagNull \<equiv> 0"
abbreviation (input) kApplicationTagBoolean :: u8 where "kApplicationTagBoolean \<equiv> 1"
abbreviation (input) kApplicationTagUnsigned :: u8 where "kApplicationTagUnsigned \<equiv> 2"
abbreviation (input) kApplicationTagSigned :: u8 where "kApplicationTagSigned \<equiv> 3"
abbreviation (input) kApplicationTagReal :: u8 where "kApplicationTagReal \<equiv> 4"
abbreviation (input) kApplicationTagCharacterString :: u8 where "kApplicationTagCharacterString \<equiv> 7"
abbreviation (input) kApplicationTagBitString :: u8 where "kApplicationTagBitString \<equiv> 8"
abbreviation (input) kApplicationTagEnumerated :: u8 where "kApplicationTagEnumerated \<equiv> 9"
abbreviation (input) kApplicationTagObjectIdentifier :: u8 where "kApplicationTagObjectIdentifier \<equiv> 12"

section \<open>Tagged integers and tag headers\<close>

definition readUint16 :: "bytes \<Rightarrow> nat \<Rightarrow> u16 outcome" where
  "readUint16 buf off =
     obind (rd buf off) (\<lambda>hi. obind (rd buf (off + 1)) (\<lambda>lo.
       Ok (push_bit 8 (ucast hi) OR ucast lo)))"

definition tagNumberOf :: "u8 \<Rightarrow> u8" where "tagNumberOf tag = drop_bit 4 tag"
definition isContextTag :: "u8 \<Rightarrow> bool" where "isContextTag tag \<longleftrightarrow> tag AND 0x08 \<noteq> 0"
definition tagLength :: "u8 \<Rightarrow> nat" where "tagLength tag = unat (tag AND 0x07)"

lemmas tag_fields = tagNumberOf_def isContextTag_def tagLength_def

definition readApplicationValue :: "bytes \<Rightarrow> nat \<Rightarrow> u8 \<Rightarrow> (u32 \<times> nat) outcome" where
  "readApplicationValue buf off expectedTag =
     (if off \<ge> length buf then Fail
      else obind (rd buf off) (\<lambda>tag.
        let off = off + 1; valueLength = tagLength tag in
        if isContextTag tag \<or> tagNumberOf tag \<noteq> expectedTag \<or> valueLength = 0 \<or>
           valueLength > 4 \<or> off + valueLength > length buf
        then Fail else readBE buf off valueLength 0))"

definition readContextValue :: "bytes \<Rightarrow> nat \<Rightarrow> u8 \<Rightarrow> (u32 \<times> nat) outcome" where
  "readContextValue buf off expectedTag =
     (if off \<ge> length buf then Fail
      else obind (rd buf off) (\<lambda>tag.
        let off = off + 1; valueLength = tagLength tag in
        if \<not> isContextTag tag \<or> tagNumberOf tag \<noteq> expectedTag \<or> valueLength = 0 \<or>
           valueLength > 4 \<or> off + valueLength > length buf
        then Fail else readBE buf off valueLength 0))"

definition readContextReal :: "bytes \<Rightarrow> nat \<Rightarrow> u8 \<Rightarrow> (float32 \<times> nat) outcome" where
  "readContextReal buf off expectedTag =
     (if off \<ge> length buf then Fail
      else obind (rd buf off) (\<lambda>tag.
        let off = off + 1 in
        if tagNumberOf tag \<noteq> expectedTag \<or> \<not> isContextTag tag \<or> tagLength tag \<noteq> 4 \<or>
           off + 4 > length buf
        then Fail else readBE buf off 4 0))"

definition readApplicationTagHeader :: "bytes \<Rightarrow> nat \<Rightarrow> u8 \<Rightarrow> (nat \<times> nat) outcome" where
  "readApplicationTagHeader buf off expectedTag =
     (if off \<ge> length buf then Fail
      else obind (rd buf off) (\<lambda>tag.
        let off = off + 1; lvt = tagLength tag in
        if isContextTag tag \<or> tagNumberOf tag \<noteq> expectedTag then Fail
        else obind
          (if lvt < 5 then Ok (lvt, off)
           else if lvt = 5 then
             (if off \<ge> length buf then Fail
              else obind (rd buf off) (\<lambda>b. Ok (unat b, off + 1)))
           else Fail)
          (\<lambda>(valueLength, off).
             if off + valueLength \<le> length buf then Ok (valueLength, off) else Fail)))"

section \<open>Technical text\<close>

text \<open>
  \<open>copyTextValue\<close> on a non-null string, so it always returns \<open>true\<close>; \<open>setTextValue\<close> also sets
  the type.
\<close>

definition copyTextValue :: "BacnetValue \<Rightarrow> bytes \<Rightarrow> BacnetValue" where
  "copyTextValue value txt =
     (let copyLength = (if length txt < kMaxTextLength - 1 then length txt else kMaxTextLength - 1)
      in value\<lparr>vText := take copyLength txt, vTextLength := copyLength\<rparr>)"

definition setTextValue :: "BacnetValue \<Rightarrow> BacnetValueType \<Rightarrow> bytes \<Rightarrow> BacnetValue" where
  "setTextValue value ty txt = copyTextValue (value\<lparr>vType := ty\<rparr>) txt"

text \<open>
  The digit loop of \<open>writeUnsignedDecimal\<close>, least significant digit first; its first argument
  is the room left in \<open>reversed[10]\<close>, the loop's own bound.
\<close>

fun reversedDigits :: "nat \<Rightarrow> u32 \<Rightarrow> bytes" where
  "reversedDigits 0 v = []"
| "reversedDigits (Suc room) v =
     (0x30 + ucast (v mod 10)) # (if v div 10 \<noteq> 0 then reversedDigits room (v div 10) else [])"

text \<open>The returned list is the string written; the C++ result is its length, 0 for \<open>None\<close>.\<close>

definition writeUnsignedDecimal :: "nat \<Rightarrow> u32 \<Rightarrow> bytes option" where
  "writeUnsignedDecimal bufferSize v =
     (if bufferSize = 0 then None
      else let digits = rev (reversedDigits 10 v) in
        if length digits + 1 > bufferSize then None else Some digits)"

definition writeSignedDecimal :: "nat \<Rightarrow> u32 \<Rightarrow> bytes option" where
  "writeSignedDecimal bufferSize v =
     (if bufferSize = 0 then None
      else if sint v < 0 then
        (if bufferSize < 2 then None
         else map_option (\<lambda>digits. 0x2D # digits)
           (writeUnsignedDecimal (bufferSize - 1) (word_of_int (- sint v))))
      else writeUnsignedDecimal bufferSize v)"

definition writeFixed3Decimal :: "nat \<Rightarrow> float32 \<Rightarrow> bytes outcome" where
  "writeFixed3Decimal bufferSize v =
     (if bufferSize = 0 then Fail
      else if f32_less v f32_zero \<and> bufferSize < 2 then Fail
      else
        let sign = (if f32_less v f32_zero then [0x2D] else []);
            v = (if f32_less v f32_zero then f32_neg v else v);
            used = length sign
        in obind (f32_to_u32 (f32_add (f32_mul v f32_thousand) f32_half)) (\<lambda>scaled.
           let integerPart = scaled div 1000; fractionalPart = scaled mod 1000
           in obind (of_option (writeUnsignedDecimal (bufferSize - used) integerPart)) (\<lambda>digits.
              let used = used + length digits in
              if used + 4 \<ge> bufferSize then Fail
              else Ok (sign @ digits @ [0x2E,
                     0x30 + ucast (fractionalPart div 100 mod 10),
                     0x30 + ucast (fractionalPart div 10 mod 10),
                     0x30 + ucast (fractionalPart mod 10)]))))"

definition kHex :: bytes where "kHex = ascii ''0123456789abcdef''"

definition writeHex32 :: "nat \<Rightarrow> u32 \<Rightarrow> bytes option" where
  "writeHex32 bufferSize v =
     (if bufferSize < 9 then None
      else Some (map (\<lambda>i. kHex ! unat (drop_bit ((7 - i) * 4) v AND 0x0F)) [0..<8]))"

text \<open>
  \<open>appendText\<close> on the string collected so far, whose length is the sources' \<open>used\<close>;
  \<open>None\<close> is the \<open>false\<close> return, which leaves the target unchanged.
\<close>

definition appendText :: "nat \<Rightarrow> bytes \<Rightarrow> bytes \<Rightarrow> bytes option" where
  "appendText targetSize target txt =
     (if targetSize = 0 then None
      else if length target + length txt \<ge> targetSize then None
      else Some (target @ txt))"

definition appendUnsignedDecimal :: "nat \<Rightarrow> bytes \<Rightarrow> u32 \<Rightarrow> bytes option" where
  "appendUnsignedDecimal targetSize target v =
     (case writeUnsignedDecimal 16 v of None \<Rightarrow> None
      | Some digits \<Rightarrow> appendText targetSize target digits)"

section \<open>Progress and safety of the integer readers\<close>

lemma readApplicationValue_progress [progress]:
  "readApplicationValue buf off t = Ok (v, off') \<Longrightarrow> off < off' \<and> off' \<le> length buf"
  by (auto simp: readApplicationValue_def Let_def split: if_splits dest: readBE_progress)

lemma readContextValue_progress [progress]:
  "readContextValue buf off t = Ok (v, off') \<Longrightarrow> off < off' \<and> off' \<le> length buf"
  by (auto simp: readContextValue_def Let_def split: if_splits dest: readBE_progress)

lemma readContextReal_progress [progress]:
  "readContextReal buf off t = Ok (v, off') \<Longrightarrow> off < off' \<and> off' \<le> length buf"
  by (auto simp: readContextReal_def Let_def split: if_splits dest: readBE_progress)

lemma readApplicationTagHeader_progress [progress]:
  "readApplicationTagHeader buf off t = Ok (n, off') \<Longrightarrow> off < off' \<and> off' + n \<le> length buf"
  by (auto simp: readApplicationTagHeader_def Let_def split: if_splits)

lemma safe_readUint16 [safety]: "off + 2 \<le> length buf \<Longrightarrow> safe (readUint16 buf off)"
  by (auto simp: readUint16_def)

lemma safe_readApplicationValue [safety]: "safe (readApplicationValue buf off t)"
  by (auto simp: readApplicationValue_def Let_def intro!: safe_readBE)

lemma safe_readContextValue [safety]: "safe (readContextValue buf off t)"
  by (auto simp: readContextValue_def Let_def intro!: safe_readBE)

lemma safe_readContextReal [safety]: "safe (readContextReal buf off t)"
  by (auto simp: readContextReal_def Let_def intro!: safe_readBE)

lemma safe_readApplicationTagHeader [safety]: "safe (readApplicationTagHeader buf off t)"
  by (auto simp: readApplicationTagHeader_def Let_def split: prod.splits)

section \<open>One parser per application tag\<close>

definition parseApplicationNull :: "bytes \<Rightarrow> nat \<Rightarrow> BacnetValue \<Rightarrow> (BacnetValue \<times> nat) outcome" where
  "parseApplicationNull buf off value =
     obind (readApplicationTagHeader buf off kApplicationTagNull) (\<lambda>(valueLength, off).
       if valueLength \<noteq> 0 then Fail
       else Ok (setTextValue value TyNull (ascii ''null''), off))"

definition parseApplicationBoolean :: "bytes \<Rightarrow> nat \<Rightarrow> BacnetValue \<Rightarrow> (BacnetValue \<times> nat) outcome" where
  "parseApplicationBoolean buf off value =
     (if off \<ge> length buf then Fail
      else obind (rd buf off) (\<lambda>tag.
        if isContextTag tag \<or> tagNumberOf tag \<noteq> kApplicationTagBoolean then Fail
        else let b = (tag AND 0x07 \<noteq> 0) in
          Ok (copyTextValue (value\<lparr>vType := TyBoolean, vBoolean := b\<rparr>)
                (ascii (if b then ''true'' else ''false'')), off + 1)))"

definition parseApplicationUnsigned ::
    "bytes \<Rightarrow> nat \<Rightarrow> u8 \<Rightarrow> BacnetValue \<Rightarrow> (BacnetValue \<times> nat) outcome" where
  "parseApplicationUnsigned buf off expectedTag value =
     obind (readApplicationValue buf off expectedTag) (\<lambda>(parsedValue, off).
     obind (of_option (writeUnsignedDecimal 16 parsedValue)) (\<lambda>txt.
       Ok (copyTextValue
             (value\<lparr>vType := (if expectedTag = kApplicationTagEnumerated then TyEnumerated
                              else TyUnsigned),
                    vUnsigned := parsedValue\<rparr>) txt, off)))"

text \<open>Sign extension of a 1- to 4-byte two's-complement value, as the sources' masks do it.\<close>

definition signExtend :: "nat \<Rightarrow> u32 \<Rightarrow> u32" where
  "signExtend valueLength rawValue =
     (if rawValue AND push_bit (valueLength * 8 - 1) 1 \<noteq> 0 \<and> valueLength < 4
      then rawValue OR push_bit (valueLength * 8) 0xFFFFFFFF else rawValue)"

definition parseApplicationSigned :: "bytes \<Rightarrow> nat \<Rightarrow> BacnetValue \<Rightarrow> (BacnetValue \<times> nat) outcome" where
  "parseApplicationSigned buf off value =
     (if off \<ge> length buf then Fail
      else obind (rd buf off) (\<lambda>tag.
        let off = off + 1; valueLength = tagLength tag in
        if isContextTag tag \<or> tagNumberOf tag \<noteq> kApplicationTagSigned \<or> valueLength = 0 \<or>
           valueLength > 4 \<or> off + valueLength > length buf
        then Fail
        else obind (readBE buf off valueLength 0) (\<lambda>(rawValue, off).
          let parsedValue = signExtend valueLength rawValue in
          obind (of_option (writeSignedDecimal 16 parsedValue)) (\<lambda>txt.
            Ok (copyTextValue (value\<lparr>vType := TySigned, vSigned := parsedValue\<rparr>) txt, off)))))"

definition parseApplicationReal :: "bytes \<Rightarrow> nat \<Rightarrow> BacnetValue \<Rightarrow> (BacnetValue \<times> nat) outcome" where
  "parseApplicationReal buf off value =
     obind (readApplicationTagHeader buf off kApplicationTagReal) (\<lambda>(valueLength, off).
       if valueLength \<noteq> 4 \<or> off + valueLength > length buf then Fail
       else obind (readBE buf off valueLength 0) (\<lambda>(raw, off).
         obind (writeFixed3Decimal 24 raw) (\<lambda>txt.
           Ok (copyTextValue (value\<lparr>vType := TyReal, vReal := raw\<rparr>) txt, off))))"

text \<open>The loop over bit indices: bit \<open>i\<close> of the value is the \<open>i\<close>-th bit of the string, MSB first.\<close>

fun decodeBits :: "bytes \<Rightarrow> nat \<Rightarrow> nat list \<Rightarrow> u32 \<Rightarrow> u32 outcome" where
  "decodeBits buf off [] acc = Ok acc"
| "decodeBits buf off (bitIndex # rest) acc =
     obind (rd buf (off + bitIndex div 8)) (\<lambda>sourceByte.
       decodeBits buf off rest
         (if sourceByte AND drop_bit (bitIndex mod 8) 0x80 \<noteq> 0 \<and> bitIndex < 32
          then acc OR push_bit bitIndex 1 else acc))"

definition parseApplicationBitString :: "bytes \<Rightarrow> nat \<Rightarrow> BacnetValue \<Rightarrow> (BacnetValue \<times> nat) outcome" where
  "parseApplicationBitString buf off value =
     obind (readApplicationTagHeader buf off kApplicationTagBitString) (\<lambda>(valueLength, off).
       if valueLength < 2 \<or> off + valueLength > length buf then Fail
       else obind (rd buf off) (\<lambda>unusedBits.
         let off = off + 1; dataLength = valueLength - 1 in
         if unusedBits > 7 \<or> dataLength > 4 then Fail
         else
           let bitCount = dataLength * 8 - unat unusedBits;
               bitStringBitCount = (if bitCount > 255 then 255 else bitCount)
           in obind (decodeBits buf off [0..<bitStringBitCount] 0) (\<lambda>bits.
              let off = off + dataLength in
              obind (of_option (writeHex32 9 bits)) (\<lambda>hex.
              obind (of_option (writeUnsignedDecimal 8 (word_of_nat bitStringBitCount))) (\<lambda>count.
                let prefix = ascii ''bits=0x'' in
                if length prefix + length hex + 1 + length count + 1 > 32 then Fail
                else Ok (copyTextValue
                       (value\<lparr>vType := TyBitString, vBitString := bits,
                              vBitCount := word_of_nat bitStringBitCount\<rparr>)
                       (prefix @ hex @ [0x2F] @ count), off))))))"

definition decodeObjectId :: "u32 \<Rightarrow> BacnetObjectId" where
  "decodeObjectId objectIdentifier =
     \<lparr>objType = ucast (drop_bit 22 objectIdentifier),
      objInstance = objectIdentifier AND kObjectInstanceMask\<rparr>"

definition parseApplicationObjectIdentifier ::
    "bytes \<Rightarrow> nat \<Rightarrow> BacnetValue \<Rightarrow> (BacnetValue \<times> nat) outcome" where
  "parseApplicationObjectIdentifier buf off value =
     obind (readApplicationValue buf off kApplicationTagObjectIdentifier) (\<lambda>(objectIdentifier, off).
       let object = decodeObjectId objectIdentifier in
       obind (of_option (writeUnsignedDecimal 24 (ucast (objType object)))) (\<lambda>typeChars.
         if length typeChars + 2 > 24 then Fail
         else obind (of_option (writeUnsignedDecimal (24 - length typeChars - 1) (objInstance object)))
           (\<lambda>instChars.
             Ok (copyTextValue (value\<lparr>vType := TyObjectIdentifier, vObject := object\<rparr>)
                   (typeChars @ [0x2C] @ instChars), off))))"

text \<open>
  The appends of one list entry, left to right, stopping at the first that does not fit; what
  was appended before it stays.
\<close>

fun appendWhileFits :: "(bytes \<Rightarrow> bytes option) list \<Rightarrow> bytes \<Rightarrow> bytes \<times> bool" where
  "appendWhileFits [] target = (target, True)"
| "appendWhileFits (step # rest) target =
     (case step target of None \<Rightarrow> (target, False) | Some t \<Rightarrow> appendWhileFits rest t)"

definition appendObjectEntry :: "bytes \<Rightarrow> BacnetObjectId \<Rightarrow> bytes \<times> bool" where
  "appendObjectEntry target object =
     appendWhileFits
       ((if length target > 0 then [\<lambda>t. appendText kMaxTextLength t (ascii '';'')] else []) @
        [\<lambda>t. appendUnsignedDecimal kMaxTextLength t (ucast (objType object)),
         \<lambda>t. appendText kMaxTextLength t (ascii '',''),
         \<lambda>t. appendUnsignedDecimal kMaxTextLength t (objInstance object)]) target"

function objectIdentifierList :: "bytes \<Rightarrow> nat \<Rightarrow> bytes \<Rightarrow> (bytes \<times> nat) outcome" where
  "objectIdentifierList buf off txt =
     (if off < length buf \<and> buf ! off \<noteq> 0x3F
      then obind (readApplicationValue buf off kApplicationTagObjectIdentifier)
        (\<lambda>(objectIdentifier, off').
          case appendObjectEntry txt (decodeObjectId objectIdentifier) of
            (txt', True) \<Rightarrow> objectIdentifierList buf off' txt'
          | (txt', False) \<Rightarrow> Ok (txt', off'))
      else Ok (txt, off))"
  by pat_completeness auto
termination
  by (relation "measure (\<lambda>(buf, off, txt). length buf - off)")
     (auto dest!: readApplicationValue_progress)

definition parseApplicationObjectIdentifierList ::
    "bytes \<Rightarrow> nat \<Rightarrow> BacnetValue \<Rightarrow> (BacnetValue \<times> nat) outcome" where
  "parseApplicationObjectIdentifierList buf off value =
     obind (objectIdentifierList buf off []) (\<lambda>(txt, off).
       if length txt > 0
       then Ok (value\<lparr>vText := txt, vType := TyObjectIdentifierList, vTextLength := length txt\<rparr>, off)
       else Fail)"

function propertyIdentifierList :: "bytes \<Rightarrow> nat \<Rightarrow> bytes \<Rightarrow> (bytes \<times> nat) outcome" where
  "propertyIdentifierList buf off txt =
     (if off < length buf \<and> buf ! off \<noteq> 0x3F
      then obind (readApplicationValue buf off kApplicationTagEnumerated)
        (\<lambda>(propertyIdentifier, off').
          obind (of_option (if length txt > 0 then appendText kMaxTextLength txt (ascii '';'')
                            else Some txt)) (\<lambda>txt'.
          obind (of_option (appendUnsignedDecimal kMaxTextLength txt' propertyIdentifier)) (\<lambda>txt''.
            propertyIdentifierList buf off' txt'')))
      else Ok (txt, off))"
  by pat_completeness auto
termination
  by (relation "measure (\<lambda>(buf, off, txt). length buf - off)")
     (auto dest!: readApplicationValue_progress)

declare objectIdentifierList.simps [simp del] propertyIdentifierList.simps [simp del]

definition parseApplicationPropertyIdentifierList ::
    "bytes \<Rightarrow> nat \<Rightarrow> BacnetValue \<Rightarrow> (BacnetValue \<times> nat) outcome" where
  "parseApplicationPropertyIdentifierList buf off value =
     obind (propertyIdentifierList buf off []) (\<lambda>(txt, off).
       if length txt > 0
       then Ok (value\<lparr>vText := txt, vType := TyPropertyIdentifierList, vTextLength := length txt\<rparr>, off)
       else Fail)"

definition parseApplicationCharacterString ::
    "bytes \<Rightarrow> nat \<Rightarrow> BacnetValue \<Rightarrow> (BacnetValue \<times> nat) outcome" where
  "parseApplicationCharacterString buf off value =
     obind (readApplicationTagHeader buf off kApplicationTagCharacterString) (\<lambda>(stringLength, off).
       if stringLength = 0 \<or> off + stringLength > length buf then Fail
       else
         let off = off + 1; stringLength = stringLength - 1;
             copyLength = (if stringLength < kMaxTextLength - 1 then stringLength else kMaxTextLength - 1)
         in obind (rdn buf off copyLength) (\<lambda>txt.
              Ok (value\<lparr>vText := txt, vTextLength := copyLength, vType := TyCharacterString\<rparr>,
                  off + stringLength)))"

definition parseUnsupportedApplicationValue ::
    "bytes \<Rightarrow> nat \<Rightarrow> BacnetValue \<Rightarrow> (BacnetValue \<times> nat) outcome" where
  "parseUnsupportedApplicationValue buf off value =
     (if off \<ge> length buf then Fail
      else obind (rd buf off) (\<lambda>tag.
        let off = off + 1; lvt = tagLength tag in
        if isContextTag tag then Fail
        else obind
          (if lvt < 5 then Ok (lvt, off)
           else if lvt = 5 then
             (if off \<ge> length buf then Fail
              else obind (rd buf off) (\<lambda>b. Ok (unat b, off + 1)))
           else Fail)
          (\<lambda>(valueLength, off).
             if off + valueLength > length buf then Fail
             else obind (of_option (appendUnsignedDecimal 48 (ascii ''unsupported application tag '')
                     (ucast (tagNumberOf tag))))
               (\<lambda>txt. Ok (setTextValue value TyUnsupported txt, off + valueLength)))))"

section \<open>The dispatcher\<close>

definition parseReadPropertyApplicationValue ::
    "bytes \<Rightarrow> nat \<Rightarrow> BacnetPropertyId \<Rightarrow> BacnetValue \<Rightarrow> u32 \<Rightarrow> (BacnetValue \<times> nat) outcome" where
  "parseReadPropertyApplicationValue buf off expectedProperty value arrayIndex =
     (if off \<ge> length buf then Fail
      else obind (rd buf off) (\<lambda>tag.
        let tagNumber = tagNumberOf tag in
        if expectedProperty = PropObjectList \<and> tagNumber = kApplicationTagUnsigned
        then parseApplicationUnsigned buf off kApplicationTagUnsigned value
        else if expectedProperty = PropObjectList \<and> tagNumber = kApplicationTagObjectIdentifier
        then (if arrayIndex \<noteq> kBacnetNoArrayIndex
              then parseApplicationObjectIdentifier buf off value
              else parseApplicationObjectIdentifierList buf off value)
        else if expectedProperty = PropPropertyList \<and> arrayIndex = kBacnetNoArrayIndex
        then parseApplicationPropertyIdentifierList buf off value
        else if expectedProperty = PropDeviceAddressBinding \<and> tag = 0x3F
        then Ok (emptyValue, off)
        else if tagNumber = kApplicationTagNull then parseApplicationNull buf off value
        else if tagNumber = kApplicationTagBoolean then parseApplicationBoolean buf off value
        else if tagNumber = kApplicationTagUnsigned
        then parseApplicationUnsigned buf off kApplicationTagUnsigned value
        else if tagNumber = kApplicationTagSigned then parseApplicationSigned buf off value
        else if tagNumber = kApplicationTagReal then parseApplicationReal buf off value
        else if tagNumber = kApplicationTagCharacterString
        then parseApplicationCharacterString buf off value
        else if tagNumber = kApplicationTagBitString then parseApplicationBitString buf off value
        else if tagNumber = kApplicationTagEnumerated
        then parseApplicationUnsigned buf off kApplicationTagEnumerated value
        else if tagNumber = kApplicationTagObjectIdentifier
        then parseApplicationObjectIdentifier buf off value
        else parseUnsupportedApplicationValue buf off value))"

section \<open>The NPDU header\<close>

definition skipNpduAddress :: "bytes \<Rightarrow> nat \<Rightarrow> nat outcome" where
  "skipNpduAddress buf off =
     (if off + 3 > length buf then Fail
      else obind (rd buf (off + 2)) (\<lambda>b.
        let off = off + 3; addressLength = unat b in
        if off + addressLength > length buf then Fail else Ok (off + addressLength)))"

definition readNpduHeader :: "bytes \<Rightarrow> nat \<Rightarrow> nat outcome" where
  "readNpduHeader buf off =
     (if off \<ge> length buf then Fail
      else obind (rd buf off) (\<lambda>version.
        if version \<noteq> kNpduVersion \<or> off + 1 \<ge> length buf then Fail
        else obind (rd buf (off + 1)) (\<lambda>npduControl.
          let off = off + 2 in
          if npduControl AND 0x80 \<noteq> 0 then Fail
          else obind
            (if npduControl AND 0x20 \<noteq> 0
             then obind (skipNpduAddress buf off) (\<lambda>off.
               if off \<ge> length buf then Fail else Ok (off + 1))
             else Ok off)
            (\<lambda>off. if npduControl AND 0x08 \<noteq> 0 then skipNpduAddress buf off else Ok off))))"

end
