(* ===== verification/DecodeSafety.thy ===== *)
theory DecodeSafety
  imports ValueDecode
begin

text \<open>
  Memory safety and progress of the value parsers: none reads outside the datagram, a
  successful one ends inside it and behind its start, and the only run without a defined
  result is the text conversion of a Real whose magnitude (times 1000) does not fit 32 bits.
\<close>

section \<open>Text\<close>

lemma length_reversedDigits: "length (reversedDigits n v) \<le> n"
  by (induction n arbitrary: v) auto

lemma reversedDigits_nonempty [simp]: "reversedDigits (Suc n) v \<noteq> []"
  by simp

lemma writeUnsignedDecimal_total: "11 \<le> n \<Longrightarrow> \<exists>ds. writeUnsignedDecimal n v = Some ds \<and> ds \<noteq> [] \<and> length ds \<le> 10"
  using length_reversedDigits [of 10 v]
  by (auto simp: writeUnsignedDecimal_def Let_def numeral_eq_Suc)

lemma writeUnsignedDecimal_Some:
  "writeUnsignedDecimal n v = Some ds \<Longrightarrow> ds = rev (reversedDigits 10 v) \<and> length ds < n"
  by (auto simp: writeUnsignedDecimal_def Let_def split: if_splits)

text \<open>The room of ten digits is enough: the text denotes the value it was made from.\<close>

fun digitsValue :: "bytes \<Rightarrow> nat" where
  "digitsValue [] = 0"
| "digitsValue (d # ds) = (unat d - 48) + 10 * digitsValue ds"

lemma unat_digit: "unat (0x30 + ucast (v mod 10) :: u8) = 48 + unat (v :: u32) mod 10"
proof -
  have "unat (ucast (v mod 10) :: u8) = take_bit 8 (unat (v mod 10))"
    by (simp add: unsigned_ucast_eq)
  also have "\<dots> = unat v mod 10"
    by (simp add: unat_mod take_bit_eq_mod)
  finally show ?thesis
    by (simp add: unat_word_ariths)
qed

lemma digitsValue_reversedDigits:
  "unat v < 10 ^ n \<Longrightarrow> 0 < n \<Longrightarrow> digitsValue (reversedDigits n v) = unat v"
proof (induction n arbitrary: v)
  case 0
  then show ?case by simp
next
  case (Suc n)
  have div: "unat (v div 10) = unat v div 10" by (simp add: unat_div)
  show ?case
  proof (cases "v div 10 = 0")
    case True
    then have "unat v div 10 = 0" using div by simp
    with True show ?thesis by (simp add: unat_digit)
  next
    case False
    then have "0 < unat v div 10" using div by (metis neq0_conv unsigned_eq_0_iff)
    moreover have "unat v div 10 < 10 ^ n"
      using Suc.prems(1) by (simp add: div_less_iff_less_mult mult.commute)
    ultimately have "0 < n" by (cases n) auto
    with Suc.IH [of "v div 10"] div \<open>unat v div 10 < 10 ^ n\<close>
    have "digitsValue (reversedDigits n (v div 10)) = unat v div 10" by simp
    with False show ?thesis by (simp add: unat_digit)
  qed
qed

section \<open>Safety of each parser\<close>

lemma safe_case_prod [intro]: "(\<And>a b. p = (a, b) \<Longrightarrow> safe (f a b)) \<Longrightarrow> safe (case p of (a, b) \<Rightarrow> f a b)"
  by (cases p) auto

lemma safe_if: "(c \<Longrightarrow> safe a) \<Longrightarrow> (\<not> c \<Longrightarrow> safe b) \<Longrightarrow> safe (if c then a else b)"
  by simp

lemmas safe_steps = safe_obind safe_case_prod

lemma safe_parseApplicationNull [safety]: "safe (parseApplicationNull buf off v)"
  by (auto simp: parseApplicationNull_def safety intro!: safe_steps)

lemma safe_parseApplicationBoolean [safety]: "safe (parseApplicationBoolean buf off v)"
  by (auto simp: parseApplicationBoolean_def Let_def intro!: safe_steps)

lemma safe_parseApplicationUnsigned [safety]: "safe (parseApplicationUnsigned buf off t v)"
  by (auto simp: parseApplicationUnsigned_def safety intro!: safe_steps)

lemma safe_parseApplicationSigned [safety]: "safe (parseApplicationSigned buf off v)"
  by (auto simp: parseApplicationSigned_def Let_def intro!: safe_steps safe_readBE)

lemma safe_decodeBits:
  "(\<And>i. i \<in> set ixs \<Longrightarrow> off + i div 8 < length buf) \<Longrightarrow> safe (decodeBits buf off ixs acc)"
  by (induction ixs arbitrary: acc) auto

lemma safe_decodeBits_upto: "off + d \<le> length buf \<Longrightarrow> n \<le> 8 * d \<Longrightarrow> safe (decodeBits buf off [0..<n] acc)"
  by (rule safe_decodeBits) (auto simp: less_mult_imp_div_less mult.commute intro!: add_strict_left_mono less_le_trans [of _ "off + d"])

lemma safe_decodeBits_payload:
  "\<not> n < 2 \<Longrightarrow> off + n \<le> length buf \<Longrightarrow>
     safe (decodeBits buf (Suc off) [0..<(n - Suc 0) * 8 - u] acc)"
  by (rule safe_decodeBits_upto [where d = "n - Suc 0"]) auto

lemma safe_parseApplicationBitString [safety]: "safe (parseApplicationBitString buf off v)"
  unfolding parseApplicationBitString_def Let_def
  by (auto simp: safety safe_decodeBits_payload dest!: readApplicationTagHeader_progress
      intro!: safe_steps)

lemma safe_parseApplicationObjectIdentifier [safety]: "safe (parseApplicationObjectIdentifier buf off v)"
  by (auto simp: parseApplicationObjectIdentifier_def Let_def safety intro!: safe_steps)

lemma safe_objectIdentifierList: "safe (objectIdentifierList buf off s)"
proof (induction buf off s rule: objectIdentifierList.induct)
  case (1 buf off s)
  then show ?case
    by (subst objectIdentifierList.simps) (auto simp: safety intro!: safe_steps split: prod.splits bool.splits)
qed

lemma safe_propertyIdentifierList: "safe (propertyIdentifierList buf off s)"
proof (induction buf off s rule: propertyIdentifierList.induct)
  case (1 buf off s)
  then show ?case
    by (subst propertyIdentifierList.simps) (auto simp: safety intro!: safe_steps split: prod.splits)
qed

lemma safe_parseApplicationObjectIdentifierList [safety]:
  "safe (parseApplicationObjectIdentifierList buf off v)"
  by (auto simp: parseApplicationObjectIdentifierList_def safe_objectIdentifierList intro!: safe_steps)

lemma safe_parseApplicationPropertyIdentifierList [safety]:
  "safe (parseApplicationPropertyIdentifierList buf off v)"
  by (auto simp: parseApplicationPropertyIdentifierList_def safe_propertyIdentifierList intro!: safe_steps)

lemma safe_parseApplicationCharacterString [safety]: "safe (parseApplicationCharacterString buf off v)"
  by (auto simp: parseApplicationCharacterString_def Let_def safety intro!: safe_steps)

lemma safe_parseUnsupportedApplicationValue [safety]: "safe (parseUnsupportedApplicationValue buf off v)"
  by (auto simp: parseUnsupportedApplicationValue_def Let_def intro!: safe_steps)

lemma safe_skipNpduAddress [safety]: "safe (skipNpduAddress buf off)"
  by (auto simp: skipNpduAddress_def Let_def intro!: safe_steps)

lemma safe_readNpduHeader [safety]: "safe (readNpduHeader buf off)"
  by (auto simp: readNpduHeader_def Let_def safety intro!: safe_steps)

text \<open>The Real whose text conversion has no defined result, at the offset of its tag.\<close>

definition unconvertibleReal :: "bytes \<Rightarrow> nat \<Rightarrow> bool" where
  "unconvertibleReal buf off \<longleftrightarrow>
     (\<exists>off' raw after.
        readApplicationTagHeader buf off kApplicationTagReal = Ok (4, off') \<and>
        readBE buf off' 4 0 = Ok (raw, after) \<and> writeFixed3Decimal 24 raw = Undef)"

lemma parseApplicationReal_Undef:
  "parseApplicationReal buf off v = Undef \<longleftrightarrow> unconvertibleReal buf off"
proof -
  have "readBE buf off' 4 0 \<noteq> Undef" if "off' + 4 \<le> length buf" for off'
    using safe_readBE [OF that, of 0] by (simp add: safe_def)
  then show ?thesis
    using safe_readApplicationTagHeader [of buf off kApplicationTagReal]
    unfolding parseApplicationReal_def unconvertibleReal_def
    by (fastforce simp: obind_eq_Undef safe_def
        split: prod.splits if_splits dest: readApplicationTagHeader_progress)
qed

lemma parseReadPropertyApplicationValue_Undef:
  "parseReadPropertyApplicationValue buf off p v i = Undef \<Longrightarrow> unconvertibleReal buf off"
proof -
  assume u: "parseReadPropertyApplicationValue buf off p v i = Undef"
  have "parseApplicationReal buf off v = Undef"
  proof (rule ccontr)
    assume r: "parseApplicationReal buf off v \<noteq> Undef"
    then have "safe (parseApplicationReal buf off v)" by (simp add: safe_def)
    then have "safe (parseReadPropertyApplicationValue buf off p v i)"
      by (auto simp: parseReadPropertyApplicationValue_def Let_def safety intro!: safe_steps)
    with u show False by simp
  qed
  then show ?thesis by (simp add: parseApplicationReal_Undef)
qed

lemma safe_parseReadPropertyApplicationValue [safety]:
  "\<not> unconvertibleReal buf off \<Longrightarrow> safe (parseReadPropertyApplicationValue buf off p v i)"
  using parseReadPropertyApplicationValue_Undef by (auto simp: safe_def)

section \<open>Progress of the value parsers\<close>

lemma objectIdentifierList_progress:
  "objectIdentifierList buf off s = Ok (s', off') \<Longrightarrow> off \<le> length buf \<Longrightarrow>
     off \<le> off' \<and> off' \<le> length buf"
proof (induction buf off s rule: objectIdentifierList.induct)
  case (1 buf off s)
  show ?case
  proof (cases "off < length buf \<and> buf ! off \<noteq> 0x3F")
    case True
    obtain oid o1 where r1: "readApplicationValue buf off kApplicationTagObjectIdentifier = Ok (oid, o1)"
      using True "1.prems"(1) by (auto simp: objectIdentifierList.simps [of buf off s])
    obtain s1 fits where r2: "appendObjectEntry s (decodeObjectId oid) = (s1, fits)"
      by (cases "appendObjectEntry s (decodeObjectId oid)")
    have k: "if fits then objectIdentifierList buf o1 s1 = Ok (s', off') else off' = o1"
      using True "1.prems"(1) r1 r2 by (auto simp: objectIdentifierList.simps [of buf off s])
    have o1: "off < o1" "o1 \<le> length buf" using readApplicationValue_progress [OF r1] by simp_all
    show ?thesis
    proof (cases fits)
      case True
      with k have "objectIdentifierList buf o1 s1 = Ok (s', off')" by simp
      with "1.IH" [OF \<open>off < length buf \<and> _\<close> r1 refl r2 [symmetric]] True o1 show ?thesis
        by auto
    next
      case False
      with k o1 show ?thesis by auto
    qed
  next
    case False
    with "1.prems" show ?thesis by (auto simp: objectIdentifierList.simps [of buf off s])
  qed
qed

lemma propertyIdentifierList_progress:
  "propertyIdentifierList buf off s = Ok (s', off') \<Longrightarrow> off \<le> length buf \<Longrightarrow>
     off \<le> off' \<and> off' \<le> length buf"
proof (induction buf off s rule: propertyIdentifierList.induct)
  case (1 buf off s)
  then show ?case
    by (subst (asm) (2) propertyIdentifierList.simps)
      (fastforce split: if_splits prod.splits dest: readApplicationValue_progress)
qed

lemma skipNpduAddress_progress [progress]:
  "skipNpduAddress buf off = Ok off' \<Longrightarrow> off < off' \<and> off' \<le> length buf"
  by (auto simp: skipNpduAddress_def Let_def split: if_splits)

lemma readNpduHeader_progress [progress]:
  "readNpduHeader buf off = Ok off' \<Longrightarrow> off + 2 \<le> off' \<and> off' \<le> length buf"
  by (auto simp: readNpduHeader_def Let_def split: if_splits dest!: skipNpduAddress_progress)

lemma parsers_progress [progress]:
  "parseApplicationNull buf off v = Ok (w, off') \<Longrightarrow> off \<le> off' \<and> off' \<le> length buf"
  "parseApplicationBoolean buf off v = Ok (w, off') \<Longrightarrow> off \<le> off' \<and> off' \<le> length buf"
  "parseApplicationUnsigned buf off t v = Ok (w, off') \<Longrightarrow> off \<le> off' \<and> off' \<le> length buf"
  "parseApplicationSigned buf off v = Ok (w, off') \<Longrightarrow> off \<le> off' \<and> off' \<le> length buf"
  "parseApplicationReal buf off v = Ok (w, off') \<Longrightarrow> off \<le> off' \<and> off' \<le> length buf"
  "parseApplicationBitString buf off v = Ok (w, off') \<Longrightarrow> off \<le> off' \<and> off' \<le> length buf"
  "parseApplicationObjectIdentifier buf off v = Ok (w, off') \<Longrightarrow> off \<le> off' \<and> off' \<le> length buf"
  "parseApplicationCharacterString buf off v = Ok (w, off') \<Longrightarrow> off \<le> off' \<and> off' \<le> length buf"
  "parseUnsupportedApplicationValue buf off v = Ok (w, off') \<Longrightarrow> off \<le> off' \<and> off' \<le> length buf"
          apply (auto simp: parseApplicationNull_def split: if_splits dest: readApplicationTagHeader_progress)[1]
         apply (auto simp: parseApplicationBoolean_def Let_def split: if_splits)[1]
        apply (auto simp: parseApplicationUnsigned_def split: if_splits dest: readApplicationValue_progress)[1]
       apply (auto simp: parseApplicationSigned_def Let_def split: if_splits dest: readBE_progress)[1]
      apply (fastforce simp: parseApplicationReal_def split: if_splits dest: readApplicationTagHeader_progress readBE_progress)
     apply (fastforce simp: parseApplicationBitString_def Let_def split: if_splits dest: readApplicationTagHeader_progress)
    apply (fastforce simp: parseApplicationObjectIdentifier_def Let_def split: if_splits dest: readApplicationValue_progress)
   apply (fastforce simp: parseApplicationCharacterString_def Let_def split: if_splits dest: readApplicationTagHeader_progress)
  apply (fastforce simp: parseUnsupportedApplicationValue_def Let_def split: if_splits)
  done

lemma list_parsers_progress [progress]:
  "parseApplicationObjectIdentifierList buf off v = Ok (w, off') \<Longrightarrow> off \<le> length buf \<Longrightarrow>
     off \<le> off' \<and> off' \<le> length buf"
  "parseApplicationPropertyIdentifierList buf off v = Ok (w, off') \<Longrightarrow> off \<le> length buf \<Longrightarrow>
     off \<le> off' \<and> off' \<le> length buf"
  by (auto simp: parseApplicationObjectIdentifierList_def parseApplicationPropertyIdentifierList_def
      split: if_splits dest: objectIdentifierList_progress propertyIdentifierList_progress)

lemma parseReadPropertyApplicationValue_progress [progress]:
  "parseReadPropertyApplicationValue buf off p v i = Ok (w, off') \<Longrightarrow> off \<le> off' \<and> off' \<le> length buf"
  unfolding parseReadPropertyApplicationValue_def Let_def
  by (auto split: if_split_asm dest: parsers_progress list_parsers_progress)

end
