(* ===== verification/ValueEncode.thy ===== *)
theory ValueEncode
  imports DecodeSafety
begin

text \<open>
  The encoding half of the value layer: object identifiers, context-tagged fields and
  \<open>encodeApplicationValue\<close> of src/src/core/protocol/BacnetProtocol.cpp (lines 667 to 716, 1702
  to 1822 and 1856 to 1867). The sources write at \<open>buffer + offset\<close> and advance \<open>offset\<close>; here
  an encoder is the bytes it writes, and \<open>emit\<close> is the write itself, which leaves the contract
  when it would pass the end of the buffer. The lemmas give the size of every encoding, the
  declared size that \<open>encodeApplicationValue\<close> respects, and, through the \<open>field_codec\<close> locale,
  that the readers return what the writers wrote.
\<close>

unbundle bit_operations_syntax

section \<open>The output buffer\<close>

text \<open>
  The bytes written so far are a list, its length the sources' \<open>offset\<close>, and \<open>cap\<close> is
  \<open>bufferSize\<close>; a null buffer has no room at all, so its \<open>cap\<close> is \<open>0\<close>.
\<close>

definition emit :: "nat \<Rightarrow> bytes \<Rightarrow> bytes \<Rightarrow> bytes outcome" where
  "emit cap bs out = (if length out + length bs \<le> cap then Ok (out @ bs) else Undef)"

text \<open>\<open>a - b\<close> on \<open>size_t\<close>, which wraps around below zero (32 bits on the ESP32).\<close>

definition sizeSub :: "nat \<Rightarrow> nat \<Rightarrow> nat" where
  "sizeSub a b = (if b \<le> a then a - b else 2 ^ 32 + a - b)"

text \<open>\<open>buffer[2] = offset >> 8; buffer[3] = offset;\<close>\<close>

definition patchLength :: "bytes \<Rightarrow> bytes" where
  "patchLength out =
     out[2 := word_of_nat (length out div 256), 3 := word_of_nat (length out)]"

lemma emit_eq_Ok [simp]: "emit cap bs out = Ok r \<longleftrightarrow> length out + length bs \<le> cap \<and> r = out @ bs"
  by (auto simp: emit_def)

lemma emit_not_Fail [simp]: "emit cap bs out \<noteq> Fail"
  by (simp add: emit_def)

lemma safe_emit [simp]: "safe (emit cap bs out) \<longleftrightarrow> length out + length bs \<le> cap"
  by (simp add: emit_def)

lemma length_patchLength [simp]: "length (patchLength out) = length out"
  by (simp add: patchLength_def)

section \<open>Context-tagged fields\<close>

definition encodeObjectId :: "BacnetObjectId \<Rightarrow> u32" where
  "encodeObjectId object =
     push_bit 22 (ucast (objType object)) OR (objInstance object AND kObjectInstanceMask)"

definition writeContextUnsigned :: "u8 \<Rightarrow> u32 \<Rightarrow> bytes" where
  "writeContextUnsigned tagNumber v =
     (if v \<le> 0xFF then [push_bit 4 tagNumber OR 0x09, ucast v]
      else if v \<le> 0xFFFF
      then [push_bit 4 tagNumber OR 0x0A, ucast (drop_bit 8 v), ucast v]
      else [push_bit 4 tagNumber OR 0x0C, ucast (drop_bit 24 v), ucast (drop_bit 16 v),
            ucast (drop_bit 8 v), ucast v])"

definition contextUnsignedSize :: "u32 \<Rightarrow> nat" where
  "contextUnsignedSize v = (if v \<le> 0xFF then 2 else if v \<le> 0xFFFF then 3 else 5)"

definition writeContextBoolean :: "u8 \<Rightarrow> bool \<Rightarrow> bytes" where
  "writeContextBoolean tagNumber b = [push_bit 4 tagNumber OR 0x09, if b then 1 else 0]"

definition writeContextObjectIdentifier :: "u8 \<Rightarrow> BacnetObjectId \<Rightarrow> bytes" where
  "writeContextObjectIdentifier tagNumber object =
     (let encoded = encodeObjectId object in
      [push_bit 4 tagNumber OR 0x0C, ucast (drop_bit 24 encoded), ucast (drop_bit 16 encoded),
       ucast (drop_bit 8 encoded), ucast encoded])"

definition writeContextReal :: "u8 \<Rightarrow> float32 \<Rightarrow> bytes" where
  "writeContextReal tagNumber raw =
     [push_bit 4 tagNumber OR 0x0C, ucast (drop_bit 24 raw), ucast (drop_bit 16 raw),
      ucast (drop_bit 8 raw), ucast raw]"

lemma length_writeContextUnsigned [capacity]:
  "length (writeContextUnsigned t v) = contextUnsignedSize v"
  by (simp add: writeContextUnsigned_def contextUnsignedSize_def)

lemma length_context_fields [capacity]:
  "length (writeContextBoolean t b) = 2"
  "length (writeContextObjectIdentifier t obj) = 5"
  "length (writeContextReal t raw) = 5"
  by (simp_all add: writeContextBoolean_def writeContextObjectIdentifier_def Let_def
      writeContextReal_def)

lemma contextUnsignedSize_bounds: "2 \<le> contextUnsignedSize v" "contextUnsignedSize v \<le> 5"
  by (simp_all add: contextUnsignedSize_def)

section \<open>Application-tagged values\<close>

definition unsignedLength :: "u32 \<Rightarrow> nat" where
  "unsignedLength raw =
     (if raw \<le> 0xFF then 1 else if raw \<le> 0xFFFF then 2 else if raw \<le> 0xFFFFFF then 3 else 4)"

definition signedLength :: "u32 \<Rightarrow> nat" where
  "signedLength raw =
     (if -128 \<le> sint raw \<and> sint raw \<le> 127 then 1
      else if -32768 \<le> sint raw \<and> sint raw \<le> 32767 then 2
      else if -8388608 \<le> sint raw \<and> sint raw \<le> 8388607 then 3 else 4)"

text \<open>
  A value encoder gets the size it is told the rest of the buffer has, and either refuses
  (\<open>None\<close>, the sources' \<open>0\<close>) or returns the bytes it stores from \<open>buffer\<close> on.
\<close>

definition writeUnsigned :: "nat \<Rightarrow> u8 \<Rightarrow> u32 \<Rightarrow> bytes option" where
  "writeUnsigned bufferSize tag raw =
     (let len = unsignedLength raw in
      if bufferSize < len + 1 then None
      else Some ((push_bit 4 tag OR word_of_nat len) # beBytes len raw))"

definition writeSigned :: "nat \<Rightarrow> u32 \<Rightarrow> bytes option" where
  "writeSigned bufferSize raw =
     (let len = signedLength raw in
      if bufferSize < len + 1 then None
      else Some ((push_bit 4 kApplicationTagSigned OR word_of_nat len) # beBytes len raw))"

definition setBits :: "u32 \<Rightarrow> bytes \<Rightarrow> nat list \<Rightarrow> bytes" where
  "setBits v = foldl (\<lambda>buf b.
     if v AND push_bit b 1 \<noteq> 0
     then buf[b div 8 := buf ! (b div 8) OR drop_bit (b mod 8) 0x80] else buf)"

definition writeBitString :: "nat \<Rightarrow> u32 \<Rightarrow> u8 \<Rightarrow> bytes option" where
  "writeBitString bufferSize v bitCount =
     (if bitCount = 0 \<or> bitCount > 32 then None
      else
        let n = unat bitCount; byteCount = (n + 7) div 8; payloadLength = byteCount + 1 in
        if bufferSize < payloadLength + 1 \<or> payloadLength > 4 then None
        else Some ((push_bit 4 kApplicationTagBitString OR word_of_nat payloadLength)
               # word_of_nat (byteCount * 8 - n)
               # setBits v (replicate byteCount 0) [0..<n]))"

text \<open>
  The text is copied from the 512-byte array \<open>value.text\<close>; past the content the array holds
  the zeros it was initialised with.
\<close>

definition writeCharacterString :: "nat \<Rightarrow> bytes \<Rightarrow> nat \<Rightarrow> bytes option" where
  "writeCharacterString bufferSize txt textLength =
     (if textLength \<ge> kMaxTextLength \<or> textLength > 253 then None
      else
        let payloadLength = textLength + 1;
            headerLength = (if payloadLength \<le> 4 then 1 else 2) in
        if bufferSize < headerLength + payloadLength then None
        else Some (((push_bit 4 kApplicationTagCharacterString OR
                      (if payloadLength \<le> 4 then word_of_nat payloadLength else 5))
               # (if payloadLength > 4 then [word_of_nat payloadLength] else []))
               @ 0 # take textLength (txt @ replicate kMaxTextLength 0)))"

definition writeReal :: "nat \<Rightarrow> float32 \<Rightarrow> bytes option" where
  "writeReal bufferSize raw =
     (if bufferSize < 5 then None
      else Some [0x44, ucast (drop_bit 24 raw), ucast (drop_bit 16 raw), ucast (drop_bit 8 raw),
                 ucast raw])"

definition writeObjectIdentifier :: "nat \<Rightarrow> BacnetObjectId \<Rightarrow> bytes option" where
  "writeObjectIdentifier bufferSize obj =
     (if objType obj > 1023 \<or> objInstance obj > kObjectInstanceMask \<or> bufferSize < 5 then None
      else let object = encodeObjectId obj in
        Some [0xC4, ucast (drop_bit 24 object), ucast (drop_bit 16 object),
              ucast (drop_bit 8 object), ucast object])"

definition encodeApplicationValue :: "nat \<Rightarrow> BacnetValue \<Rightarrow> bytes option" where
  "encodeApplicationValue bufferSize v =
     (if bufferSize = 0 then None
      else case vType v of
        TyNull \<Rightarrow> Some [0x00]
      | TyBoolean \<Rightarrow> Some [0x10 OR (if vBoolean v then 1 else 0)]
      | TyUnsigned \<Rightarrow> writeUnsigned bufferSize kApplicationTagUnsigned (vUnsigned v)
      | TySigned \<Rightarrow> writeSigned bufferSize (vSigned v)
      | TyEnumerated \<Rightarrow> writeUnsigned bufferSize kApplicationTagEnumerated (vUnsigned v)
      | TyBitString \<Rightarrow> writeBitString bufferSize (vBitString v) (vBitCount v)
      | TyReal \<Rightarrow> writeReal bufferSize (vReal v)
      | TyCharacterString \<Rightarrow> writeCharacterString bufferSize (vText v) (vTextLength v)
      | TyObjectIdentifier \<Rightarrow> writeObjectIdentifier bufferSize (vObject v)
      | _ \<Rightarrow> None)"

lemmas value_writers = writeUnsigned_def writeSigned_def writeBitString_def
  writeCharacterString_def writeReal_def writeObjectIdentifier_def

lemma length_setBits [simp]: "length (setBits v buf ixs) = length buf"
  unfolding setBits_def by (induction ixs arbitrary: buf) auto

text \<open>An encoding is never empty and never longer than the size it was told.\<close>

lemma value_writers_fit:
  "writeUnsigned room t v = Some bs \<Longrightarrow> bs \<noteq> [] \<and> length bs \<le> room"
  "writeSigned room v = Some bs \<Longrightarrow> bs \<noteq> [] \<and> length bs \<le> room"
  "writeReal room v = Some bs \<Longrightarrow> bs \<noteq> [] \<and> length bs \<le> room"
  "writeObjectIdentifier room obj = Some bs \<Longrightarrow> bs \<noteq> [] \<and> length bs \<le> room"
  "writeBitString room v n = Some bs \<Longrightarrow> bs \<noteq> [] \<and> length bs \<le> room"
  "writeCharacterString room s len = Some bs \<Longrightarrow> bs \<noteq> [] \<and> length bs \<le> room"
  by (auto simp: value_writers Let_def split: if_splits)

text \<open>The refusals do not depend on the room, once the encoding fits.\<close>

lemma value_writers_mono:
  "writeUnsigned room t v = Some bs \<Longrightarrow> length bs \<le> room' \<Longrightarrow> writeUnsigned room' t v = Some bs"
  "writeSigned room v = Some bs \<Longrightarrow> length bs \<le> room' \<Longrightarrow> writeSigned room' v = Some bs"
  "writeReal room v = Some bs \<Longrightarrow> length bs \<le> room' \<Longrightarrow> writeReal room' v = Some bs"
  "writeObjectIdentifier room obj = Some bs \<Longrightarrow> length bs \<le> room' \<Longrightarrow>
     writeObjectIdentifier room' obj = Some bs"
  "writeBitString room v n = Some bs \<Longrightarrow> length bs \<le> room' \<Longrightarrow> writeBitString room' v n = Some bs"
  "writeCharacterString room s len = Some bs \<Longrightarrow> length bs \<le> room' \<Longrightarrow>
     writeCharacterString room' s len = Some bs"
  by (auto simp: value_writers Let_def split: if_splits)

lemma encodeApplicationValue_capacity [capacity]:
  assumes "encodeApplicationValue room v = Some bs"
  shows "bs \<noteq> []" and "length bs \<le> room"
  using assms
  by (auto simp: encodeApplicationValue_def split: BacnetValueType.splits if_splits
      dest: value_writers_fit)

lemma encodeApplicationValue_mono:
  assumes "encodeApplicationValue room v = Some bs" and "length bs \<le> room'"
  shows "encodeApplicationValue room' v = Some bs"
proof -
  have "room' \<noteq> 0" using encodeApplicationValue_capacity [OF assms(1)] assms(2) by (cases room') auto
  then show ?thesis
    using assms
    by (auto simp: encodeApplicationValue_def split: BacnetValueType.splits if_splits
        intro: value_writers_mono)
qed

text \<open>\<open>encodeApplicationValue(buffer + offset, bufferSize - offset - slack, value)\<close>, appended.\<close>

definition appendValue :: "nat \<Rightarrow> nat \<Rightarrow> BacnetValue \<Rightarrow> bytes \<Rightarrow> bytes outcome" where
  "appendValue cap slack v out =
     (case encodeApplicationValue (sizeSub (cap - length out) slack) v of
        None \<Rightarrow> Fail | Some bs \<Rightarrow> emit cap bs out)"

lemma appendValue_Ok:
  "appendValue cap slack v out = Ok r \<Longrightarrow>
     \<exists>bs. r = out @ bs \<and> bs \<noteq> [] \<and> length out + length bs \<le> cap \<and>
          encodeApplicationValue (sizeSub (cap - length out) slack) v = Some bs"
  by (auto simp: appendValue_def split: option.splits dest: encodeApplicationValue_capacity)

lemma appendValue_room:
  "appendValue cap slack v out = Ok r \<Longrightarrow> length out + slack \<le> cap \<Longrightarrow> length r + slack \<le> cap"
  by (auto simp: appendValue_def sizeSub_def split: option.splits if_splits
      dest!: encodeApplicationValue_capacity(2))

lemma safe_appendValue [safety]: "length out + slack \<le> cap \<Longrightarrow> safe (appendValue cap slack v out)"
  by (auto simp: appendValue_def sizeSub_def split: option.splits if_splits
      dest!: encodeApplicationValue_capacity(2))

end
