(* ===== verification/FieldCodec.thy ===== *)
theory FieldCodec
  imports ValueEncode
begin

text \<open>
  The contract between the writers and the readers of the wire format. \<open>field_codec\<close> is what a
  message relies on for one of its fields: the reader, started where the writer's bytes stand,
  returns the field and stops just behind it. Its consequences (an encoding determines its
  field, two fields in a row, a whole sequence) are proved once; the interpretations discharge
  the contract for the tagged integers, object identifiers, booleans and reals of the sources
  and for every application value they can encode.
\<close>

unbundle bit_operations_syntax

section \<open>The interface\<close>

locale field_codec =
  fixes enc :: "'a \<Rightarrow> bytes"
    and dec :: "bytes \<Rightarrow> nat \<Rightarrow> ('a \<times> nat) outcome"
    and valid :: "'a \<Rightarrow> bool"
  assumes dec_enc: "valid x \<Longrightarrow> sits buf off (enc x) \<Longrightarrow> dec buf off = Ok (x, off + length (enc x))"
    and enc_nonempty: "enc x \<noteq> []"
begin

lemma enc_prefix_free:
  assumes "valid x" "valid y" "enc x @ r = enc y @ s"
  shows "x = y \<and> r = s"
proof -
  have "sits (enc x @ r) 0 (enc x)" "sits (enc x @ r) 0 (enc y)"
    using assms(3) sits_self [of "enc x @ r"] sits_self [of "enc y @ s"] unfolding sits_append
    by (metis sits_append)+
  then have "dec (enc x @ r) 0 = Ok (x, 0 + length (enc x))" "dec (enc x @ r) 0 = Ok (y, 0 + length (enc y))"
    using assms(1,2) dec_enc by blast+
  then have "x = y" by simp
  with assms(3) show ?thesis by simp
qed

lemma enc_inj: "valid x \<Longrightarrow> valid y \<Longrightarrow> enc x = enc y \<Longrightarrow> x = y"
  using enc_prefix_free [of x y "[]" "[]"] by simp

primrec decode_n :: "bytes \<Rightarrow> nat \<Rightarrow> nat \<Rightarrow> ('a list \<times> nat) outcome" where
  "decode_n buf off 0 = Ok ([], off)"
| "decode_n buf off (Suc n) =
     obind (dec buf off) (\<lambda>(x, off). obind (decode_n buf off n) (\<lambda>(xs, off). Ok (x # xs, off)))"

lemma decode_n_concat:
  "list_all valid xs \<Longrightarrow> sits buf off (concat (map enc xs)) \<Longrightarrow>
     decode_n buf off (length xs) = Ok (xs, off + length (concat (map enc xs)))"
proof (induction xs arbitrary: off)
  case Nil
  then show ?case by simp
next
  case (Cons x xs)
  then have "dec buf off = Ok (x, off + length (enc x))"
    "decode_n buf (off + length (enc x)) (length xs) =
       Ok (xs, off + length (enc x) + length (concat (map enc xs)))"
    by (auto intro: dec_enc)
  then show ?case by (simp add: add.assoc)
qed

lemma concat_inj:
  assumes "list_all valid xs" "list_all valid ys" "length xs = length ys"
    and "concat (map enc xs) = concat (map enc ys)"
  shows "xs = ys"
proof -
  define b where "b = concat (map enc xs)"
  have "decode_n b 0 (length xs) = Ok (xs, 0 + length (concat (map enc xs)))"
    by (rule decode_n_concat [OF assms(1)]) (simp add: b_def)
  moreover have "decode_n b 0 (length ys) = Ok (ys, 0 + length (concat (map enc ys)))"
    by (rule decode_n_concat [OF assms(2)]) (simp add: b_def assms(4))
  ultimately show ?thesis unfolding assms(3) by simp
qed

end

section \<open>Tags\<close>

definition nibble :: "u8 \<Rightarrow> bool" where "nibble t \<longleftrightarrow> take_bit 4 t = t"

lemma bit_nibble: "nibble t \<Longrightarrow> bit t n \<Longrightarrow> n < 4"
  unfolding nibble_def by (metis bit_take_bit_iff)

lemma tag_OR_fields:
  assumes "nibble t" and "nibble lvt"
  shows "tagNumberOf (push_bit 4 t OR lvt) = t"
    and "(push_bit 4 t OR lvt) AND 0x08 = lvt AND 0x08"
    and "(push_bit 4 t OR lvt) AND 0x07 = lvt AND 0x07"
proof -
  have low: "bit (0x07 :: u8) n \<Longrightarrow> n < 4" and high: "bit (0x08 :: u8) n \<Longrightarrow> n < 4" for n
    using bit_nibble [of "0x07" n] bit_nibble [of "0x08" n] by (simp_all add: nibble_def)
  show "tagNumberOf (push_bit 4 t OR lvt) = t"
    unfolding tagNumberOf_def
    by (rule bit_word_eqI) (auto simp: bit_simps dest: bit_nibble [OF assms(1)] bit_nibble [OF assms(2)])
  show "(push_bit 4 t OR lvt) AND 0x08 = lvt AND 0x08"
    by (rule bit_word_eqI) (metis high bit_or_iff bit_and_iff bit_push_bit_iff leD)
  show "(push_bit 4 t OR lvt) AND 0x07 = lvt AND 0x07"
    by (rule bit_word_eqI) (metis low bit_or_iff bit_and_iff bit_push_bit_iff leD)
qed

lemma nibble_numerals [simp]:
  "nibble 0" "nibble 1" "nibble 2" "nibble 3" "nibble 4" "nibble 5" "nibble 7" "nibble 8"
  "nibble 9" "nibble 0xA" "nibble 0xB" "nibble 0xC" "nibble 0xD" "nibble 0xE"
  by (simp_all add: nibble_def)

lemma take_bit_le: "(v :: 'a :: len word) \<le> m \<Longrightarrow> m < 2 ^ n \<Longrightarrow> take_bit n v = v"
  by (simp add: take_bit_eq_mask less_mask_eq)

lemma take_bit_32 [simp]: "take_bit 32 (v :: u32) = v"
  by (rule bit_word_eqI) (simp add: bit_take_bit_iff)

text \<open>A length nibble the encoders use, with and without the context flag.\<close>

lemma length_nibble:
  assumes "nibble t" and "1 \<le> n" "n \<le> 4"
  shows "tagNumberOf (push_bit 4 t OR (8 + word_of_nat n)) = t"
    and "isContextTag (push_bit 4 t OR (8 + word_of_nat n))"
    and "tagLength (push_bit 4 t OR (8 + word_of_nat n)) = n"
    and "tagNumberOf (push_bit 4 t OR word_of_nat n) = t"
    and "\<not> isContextTag (push_bit 4 t OR word_of_nat n)"
    and "tagLength (push_bit 4 t OR word_of_nat n) = n"
proof -
  have "n = 1 \<or> n = 2 \<or> n = 3 \<or> n = 4" using assms(2,3) by linarith
  then show "tagNumberOf (push_bit 4 t OR (8 + word_of_nat n)) = t"
    "isContextTag (push_bit 4 t OR (8 + word_of_nat n))"
    "tagLength (push_bit 4 t OR (8 + word_of_nat n)) = n"
    "tagNumberOf (push_bit 4 t OR word_of_nat n) = t"
    "\<not> isContextTag (push_bit 4 t OR word_of_nat n)"
    "tagLength (push_bit 4 t OR word_of_nat n) = n"
    by (auto simp: isContextTag_def tagLength_def tag_OR_fields [OF assms(1)])
qed

lemma readContextValue_sits:
  assumes "nibble t" "1 \<le> n" "n \<le> 4" "take_bit (8 * n) v = v"
    and sits: "sits buf off ((push_bit 4 t OR (8 + word_of_nat n)) # beBytes n v)"
  shows "readContextValue buf off t = Ok (v, off + 1 + n)"
proof -
  have "readBE buf (off + 1) n 0 = Ok (v, off + 1 + n)"
    using sits by (intro readBE_beBytes assms(4)) simp
  moreover have "off + 1 + n \<le> length buf" using sits_le [OF sits] by simp
  ultimately show ?thesis
    using sits assms(2,3) by (simp add: readContextValue_def Let_def length_nibble [OF assms(1-3)])
qed

lemma readApplicationValue_sits:
  assumes "nibble t" "1 \<le> n" "n \<le> 4" "take_bit (8 * n) v = v"
    and sits: "sits buf off ((push_bit 4 t OR word_of_nat n) # beBytes n v)"
  shows "readApplicationValue buf off t = Ok (v, off + 1 + n)"
proof -
  have "readBE buf (off + 1) n 0 = Ok (v, off + 1 + n)"
    using sits by (intro readBE_beBytes assms(4)) simp
  moreover have "off + 1 + n \<le> length buf" using sits_le [OF sits] by simp
  ultimately show ?thesis
    using sits assms(2,3) by (simp add: readApplicationValue_def Let_def length_nibble [OF assms(1-3)])
qed

section \<open>The context-tagged fields keep the contract\<close>

definition contextLength :: "u32 \<Rightarrow> nat" where
  "contextLength v = (if v \<le> 0xFF then 1 else if v \<le> 0xFFFF then 2 else 4)"

lemma beBytes_small:
  "beBytes (Suc 0) v = [ucast v]" "beBytes 2 v = [ucast (drop_bit 8 v), ucast v]"
  "beBytes 3 v = [ucast (drop_bit 16 v), ucast (drop_bit 8 v), ucast v]"
  "beBytes 4 v = [ucast (drop_bit 24 v), ucast (drop_bit 16 v), ucast (drop_bit 8 v), ucast v]"
  by (simp_all add: numeral_eq_Suc beBytes_Suc)

lemma writeContextUnsigned_eq:
  "writeContextUnsigned t v =
     (push_bit 4 t OR (8 + word_of_nat (contextLength v))) # beBytes (contextLength v) v"
  by (simp add: writeContextUnsigned_def contextLength_def beBytes_small)

lemma contextLength_bounds: "1 \<le> contextLength v" "contextLength v \<le> 4"
  "take_bit (8 * contextLength v) v = v"
  by (auto simp: contextLength_def intro: take_bit_le)

interpretation ctxUnsigned: field_codec "writeContextUnsigned t" "\<lambda>buf off. readContextValue buf off t"
    "\<lambda>_. nibble t" for t
proof unfold_locales
  fix x buf off
  assume "nibble t" "sits buf off (writeContextUnsigned t x)"
  then show "readContextValue buf off t = Ok (x, off + length (writeContextUnsigned t x))"
    using readContextValue_sits [OF _ contextLength_bounds, of t buf off x]
    by (simp add: writeContextUnsigned_eq)
qed (simp add: writeContextUnsigned_def)

interpretation ctxBoolean: field_codec "writeContextBoolean t"
    "\<lambda>buf off. obind (readContextValue buf off t) (\<lambda>(v, off). if v > 1 then Fail else Ok (v \<noteq> 0, off))"
    "\<lambda>_. nibble t" for t
proof unfold_locales
  fix x buf off
  assume t: "nibble t" and "sits buf off (writeContextBoolean t x)"
  then have "sits buf off ((push_bit 4 t OR (8 + word_of_nat 1)) # beBytes 1 (if x then 1 else 0))"
    by (cases x) (simp_all add: writeContextBoolean_def beBytes_small)
  from readContextValue_sits [OF t _ _ _ this]
  show "obind (readContextValue buf off t) (\<lambda>(v, off). if v > 1 then Fail else Ok (v \<noteq> 0, off)) =
    Ok (x, off + length (writeContextBoolean t x))"
    by (cases x) (simp_all add: writeContextBoolean_def)
qed (simp add: writeContextBoolean_def)

text \<open>An object identifier that fits its 10 + 22 bits survives the packing into 32 bits.\<close>

definition validObjectId :: "BacnetObjectId \<Rightarrow> bool" where
  "validObjectId object \<longleftrightarrow> objType object \<le> 1023 \<and> objInstance object \<le> kObjectInstanceMask"

lemma decodeObjectId_encodeObjectId:
  assumes "validObjectId object"
  shows "decodeObjectId (encodeObjectId object) = object"
proof -
  have ty: "take_bit 10 (objType object) = objType object"
    and inst: "take_bit 22 (objInstance object) = objInstance object"
    using assms
    by (auto simp: validObjectId_def kObjectInstanceMask_def intro: take_bit_le)
  have "bit (objType object) n \<Longrightarrow> n < 10" for n using ty by (metis bit_take_bit_iff)
  moreover have inst_lt: "bit (objInstance object) n \<Longrightarrow> n < 22" for n using inst by (metis bit_take_bit_iff)
  moreover have mask: "kObjectInstanceMask = mask 22" by (simp add: kObjectInstanceMask_def mask_eq_exp_minus_1)
  ultimately have "ucast (drop_bit 22 (encodeObjectId object)) = objType object"
    unfolding encodeObjectId_def
    by (intro bit_word_eqI) (auto simp: bit_simps mask)
  moreover have "encodeObjectId object AND kObjectInstanceMask = objInstance object"
    unfolding encodeObjectId_def using inst_lt
    by (intro bit_word_eqI) (auto simp: bit_simps mask)
  ultimately show ?thesis
    by (cases object) (simp add: decodeObjectId_def)
qed

lemma writeContextObjectIdentifier_eq:
  "writeContextObjectIdentifier t object =
     (push_bit 4 t OR (8 + word_of_nat 4)) # beBytes 4 (encodeObjectId object)"
  by (simp add: writeContextObjectIdentifier_def Let_def beBytes_small)

interpretation ctxObject: field_codec "writeContextObjectIdentifier t"
    "\<lambda>buf off. obind (readContextValue buf off t) (\<lambda>(v, off). Ok (decodeObjectId v, off))"
    "\<lambda>object. nibble t \<and> validObjectId object" for t
proof unfold_locales
  fix x buf off
  assume v: "nibble t \<and> validObjectId x" and "sits buf off (writeContextObjectIdentifier t x)"
  then have "readContextValue buf off t = Ok (encodeObjectId x, off + 1 + 4)"
    by (intro readContextValue_sits) (simp_all add: writeContextObjectIdentifier_eq)
  then show "obind (readContextValue buf off t) (\<lambda>(v, off). Ok (decodeObjectId v, off)) =
    Ok (x, off + length (writeContextObjectIdentifier t x))"
    using v by (simp add: writeContextObjectIdentifier_eq decodeObjectId_encodeObjectId)
qed (simp add: writeContextObjectIdentifier_eq)

interpretation ctxReal: field_codec "writeContextReal t" "\<lambda>buf off. readContextReal buf off t"
    "\<lambda>_. nibble t" for t
proof unfold_locales
  fix x buf off
  assume t: "nibble t" and "sits buf off (writeContextReal t x)"
  then have s: "sits buf off ((push_bit 4 t OR (8 + word_of_nat 4)) # beBytes 4 x)"
    by (simp add: writeContextReal_def beBytes_small)
  then have "readBE buf (off + 1) 4 0 = Ok (x, off + 1 + 4)"
    by (intro readBE_beBytes) simp_all
  then show "readContextReal buf off t = Ok (x, off + length (writeContextReal t x))"
    using s sits_le [OF s] length_nibble(1-3) [OF t, of 4]
    by (simp add: readContextReal_def Let_def writeContextReal_def)
qed (simp add: writeContextReal_def)

end
