(* ===== verification/ValueCodec.thy ===== *)
theory ValueCodec
  imports FieldCodec
begin

text \<open>
  Application values keep the codec contract: whatever \<open>encodeApplicationValue\<close> can encode,
  \<open>parseReadPropertyApplicationValue\<close> reads back with the same type and payload. The technical
  text that decoding adds is not part of the encoding, so values are compared through
  \<open>normalValue\<close>, which keeps exactly what the wire carries.
\<close>

unbundle bit_operations_syntax

section \<open>What the wire carries of a value\<close>

definition normalValue :: "BacnetValue \<Rightarrow> BacnetValue" where
  "normalValue v = (case vType v of
      TyBoolean \<Rightarrow> emptyValue\<lparr>vType := TyBoolean, vBoolean := vBoolean v\<rparr>
    | TyUnsigned \<Rightarrow> emptyValue\<lparr>vType := TyUnsigned, vUnsigned := vUnsigned v\<rparr>
    | TySigned \<Rightarrow> emptyValue\<lparr>vType := TySigned, vSigned := vSigned v\<rparr>
    | TyReal \<Rightarrow> emptyValue\<lparr>vType := TyReal, vReal := vReal v\<rparr>
    | TyBitString \<Rightarrow> emptyValue\<lparr>vType := TyBitString,
        vBitString := take_bit (unat (vBitCount v)) (vBitString v), vBitCount := vBitCount v\<rparr>
    | TyEnumerated \<Rightarrow> emptyValue\<lparr>vType := TyEnumerated, vUnsigned := vUnsigned v\<rparr>
    | TyCharacterString \<Rightarrow> emptyValue\<lparr>vType := TyCharacterString,
        vText := take (vTextLength v) (vText v @ replicate kMaxTextLength 0),
        vTextLength := vTextLength v\<rparr>
    | TyObjectIdentifier \<Rightarrow> emptyValue\<lparr>vType := TyObjectIdentifier, vObject := vObject v\<rparr>
    | ty \<Rightarrow> emptyValue\<lparr>vType := ty\<rparr>)"

text \<open>A Real whose text conversion is defined.\<close>

definition realPrintable :: "BacnetValue \<Rightarrow> bool" where
  "realPrintable v \<longleftrightarrow> (case vType v of TyReal \<Rightarrow> writeFixed3Decimal 24 (vReal v) \<noteq> Undef | _ \<Rightarrow> True)"

lemma normalValue_type [simp]: "vType (normalValue v) = vType v"
  by (simp add: normalValue_def split: BacnetValueType.splits)

lemma realPrintable_normal [simp]: "realPrintable (normalValue v) = realPrintable v"
  by (simp add: realPrintable_def normalValue_def split: BacnetValueType.splits)

section \<open>Integers\<close>

lemma unsignedLength_bounds: "1 \<le> unsignedLength v" "unsignedLength v \<le> 4"
  "take_bit (8 * unsignedLength v) v = v"
  by (auto simp: unsignedLength_def intro: take_bit_le)

lemma signedLength_bounds: "1 \<le> signedLength v" "signedLength v \<le> 4"
  by (auto simp: signedLength_def)

lemma bit_signed_range:
  fixes raw :: u32
  assumes "- (2 ^ m) \<le> sint raw" "sint raw < 2 ^ m" "m \<le> k" "k < 32" "m < 32"
  shows "bit raw k = bit raw m"
proof -
  have "signed_take_bit m (sint raw) = sint raw"
    using assms(1,2) by (simp add: signed_take_bit_int_eq_self)
  then have "bit (sint raw) k = bit (signed_take_bit m (sint raw)) k" by simp
  also have "\<dots> = bit (sint raw) m"
    using assms(3) by (simp add: bit_signed_take_bit_iff min_def)
  finally show ?thesis using assms(3-5) by (simp add: bit_sint_iff min_def)
qed

lemma signExtend_take_bit:
  fixes raw :: u32
  assumes "1 \<le> n" "n \<le> 4" "- (2 ^ (8 * n - 1)) \<le> sint raw" "sint raw < 2 ^ (8 * n - 1)"
  shows "signExtend n (take_bit (8 * n) raw) = raw"
proof (cases "n = 4")
  case True
  then show ?thesis by (simp add: signExtend_def)
next
  case False
  define m where "m = 8 * n - 1"
  have m: "8 * n = Suc m" "m < 31" using assms(1,2) False by (simp_all add: m_def)
  have hi: "bit raw k = bit raw m" if "m \<le> k" "k < 32" for k
    using bit_signed_range [of m raw k] assms(3,4) that m(2) unfolding m_def by simp
  have sgn: "take_bit (8 * n) raw AND push_bit m 1 \<noteq> 0 \<longleftrightarrow> bit raw m"
    unfolding bit_iff_and_push_bit_not_eq_0 [symmetric] by (simp add: bit_take_bit_iff m(1))
  have ext: "signExtend n (take_bit (8 * n) raw) =
      (if bit raw m then take_bit (8 * n) raw OR push_bit (8 * n) (mask 32) else take_bit (8 * n) raw)"
    using sgn assms(2) False unfolding signExtend_def
    by (simp add: m_def mult.commute mask_eq_exp_minus_1)
  have "bit (signExtend n (take_bit (8 * n) raw)) k = bit raw k" if k: "k < 32" for k
  proof (cases "k < 8 * n")
    case True
    then show ?thesis by (simp add: ext bit_or_iff bit_take_bit_iff bit_push_bit_iff)
  next
    case False
    then have "m \<le> k" using m(1) by linarith
    with False k hi [of k] show ?thesis
      by (auto simp: ext bit_or_iff bit_take_bit_iff bit_push_bit_iff bit_mask_iff)
  qed
  then show ?thesis by (intro bit_word_eqI) simp
qed


lemma signedLength_range:
  "- (2 ^ (8 * signedLength raw - 1)) \<le> sint raw" "sint raw < 2 ^ (8 * signedLength raw - 1)"
proof -
  have "- (2 ^ 31) \<le> sint raw" "sint raw < 2 ^ 31"
    using sint_ge [of raw] sint_lt [of raw] by simp_all
  then show "- (2 ^ (8 * signedLength raw - 1)) \<le> sint raw" "sint raw < 2 ^ (8 * signedLength raw - 1)"
    by (auto simp: signedLength_def)
qed

lemma signExtend_readBE:
  assumes "sits buf off (beBytes (signedLength raw) raw)"
  obtains r where "readBE buf off (signedLength raw) 0 = Ok (r, off + signedLength raw)"
    and "signExtend (signedLength raw) r = raw"
  using readBE_sits [OF assms, of 0]
    signExtend_take_bit [OF signedLength_bounds signedLength_range, of raw] by simp

section \<open>The text conversions of a decoded value always fit\<close>

lemma length_reversedDigits_less:
  "unat v < 10 ^ k \<Longrightarrow> 0 < k \<Longrightarrow> length (reversedDigits n v) \<le> k"
proof (induction n arbitrary: v k)
  case 0
  then show ?case by simp
next
  case (Suc n)
  show ?case
  proof (cases "v div 10 = 0")
    case True
    with Suc.prems show ?thesis by simp
  next
    case False
    then have pos: "unat v div 10 \<noteq> 0" using unat_div [of v 10] unat_0_iff [of "v div 10"] by simp
    obtain k' where k: "k = Suc k'" using Suc.prems(2) by (cases k) auto
    then have less: "unat v div 10 < 10 ^ k'"
      using Suc.prems(1) by (simp add: div_less_iff_less_mult mult.commute)
    with pos have "0 < k'" by (cases k') auto
    moreover have "unat (v div 10) < 10 ^ k'" using less by (simp add: unat_div)
    ultimately have "length (reversedDigits n (v div 10)) \<le> k'" by (intro Suc.IH)
    then show ?thesis using k by simp
  qed
qed

lemma writeSignedDecimal_total: "\<exists>ds. writeSignedDecimal 16 v = Some ds"
  using writeUnsignedDecimal_total [of 15 "word_of_int (- sint v)"] writeUnsignedDecimal_total [of 16 v]
  by (auto simp: writeSignedDecimal_def)

lemma f32_to_u32_not_Fail: "f32_to_u32 x \<noteq> Fail"
  by (simp add: f32_to_u32_def Let_def)

lemma writeFixed3Decimal_not_Fail: "writeFixed3Decimal 24 r \<noteq> Fail"
proof -
  have t: "\<exists>ds. writeUnsignedDecimal n q = Some ds \<and> length ds \<le> 10" if "11 \<le> n" for n q
    using writeUnsignedDecimal_total [OF that] by blast
  define scaled where "scaled = f32_to_u32
    (f32_add (f32_mul (if f32_less r f32_zero then f32_neg r else r) f32_thousand) f32_half)"
  have "scaled \<noteq> Fail" by (simp add: scaled_def f32_to_u32_not_Fail)
  moreover obtain n where n: "n = length (if f32_less r f32_zero then [0x2D :: u8] else [])" "n \<le> 1"
    by simp
  ultimately show ?thesis
  proof (cases scaled)
    case (Ok q)
    obtain ds where "writeUnsignedDecimal (24 - n) (q div 1000) = Some ds" "length ds \<le> 10"
      using t [of "24 - n" "q div 1000"] n(2) by force
    with Ok n(2) show ?thesis
      unfolding writeFixed3Decimal_def Let_def scaled_def [symmetric] n(1) [symmetric] by simp
  qed (simp_all add: writeFixed3Decimal_def Let_def scaled_def [symmetric] n(1) [symmetric])
qed

section \<open>Bit strings\<close>

text \<open>After the loop over the first \<open>n\<close> bits, the array holds exactly these bits, MSB first.\<close>

lemma setBits_bits:
  assumes "n \<le> 8 * m"
  shows "j < m \<Longrightarrow> k < 8 \<Longrightarrow>
    bit (setBits v (replicate m 0) [0..<n] ! j) (7 - k) \<longleftrightarrow> 8 * j + k < n \<and> bit v (8 * j + k)"
  using assms
proof (induction n)
  case 0
  then show ?case by (simp add: setBits_def)
next
  case (Suc n)
  let ?old = "setBits v (replicate m 0) [0..<n]"
  have step: "setBits v (replicate m 0) [0..<Suc n] =
      (if bit v n then ?old[n div 8 := ?old ! (n div 8) OR drop_bit (n mod 8) 0x80] else ?old)"
    by (simp add: setBits_def bit_iff_and_push_bit_not_eq_0)
  have b: "bit (drop_bit (n mod 8) (0x80 :: u8)) (7 - k) \<longleftrightarrow> k = n mod 8"
  proof -
    have "(0x80 :: u8) = push_bit 7 1" by simp
    then have "bit (drop_bit (n mod 8) (0x80 :: u8)) (7 - k) \<longleftrightarrow> n mod 8 + (7 - k) = 7"
      by (simp only: bit_drop_bit_eq comp_def bit_push_bit_iff) (auto simp: bit_1_iff)
    also have "\<dots> \<longleftrightarrow> k = n mod 8" using Suc.prems(2) by auto
    finally show ?thesis .
  qed
  have eq: "8 * j + k = n \<longleftrightarrow> j = n div 8 \<and> k = n mod 8"
    using Suc.prems(2) by auto
  have "bit (?old ! j) (7 - k) \<longleftrightarrow> 8 * j + k < n \<and> bit v (8 * j + k)"
    using Suc by simp
  moreover have "n div 8 < m" using Suc.prems(3) by (simp add: less_mult_imp_div_less mult.commute)
  ultimately show ?case
    unfolding step using eq b
    by (cases "j = n div 8"; cases "bit v n") (auto simp: bit_or_iff less_Suc_eq simp del: upt_Suc)
qed

lemma decodeBits_sits:
  assumes "\<And>i. i < n \<Longrightarrow> off + i div 8 < length buf"
    and "\<And>i. i < n \<Longrightarrow> bit (buf ! (off + i div 8)) (7 - i mod 8) \<longleftrightarrow> bit v i"
    and "n \<le> 32"
  shows "decodeBits buf off [0..<n] 0 = Ok (take_bit n v)"
proof -
  have gen: "decodeBits buf off [m..<n] (take_bit m v) = Ok (take_bit n v)" if "m \<le> n" for m
    using that
  proof (induction "n - m" arbitrary: m)
    case 0
    then show ?case by simp
  next
    case (Suc d)
    then have m: "m < n" "m < 32" using assms(3) by auto
    have mask: "drop_bit (m mod 8) (0x80 :: u8) = push_bit (7 - m mod 8) 1"
    proof -
      have "m mod 8 < 8" by simp
      then have "m mod 8 \<in> {0,1,2,3,4,5,6,7}" by auto
      then show ?thesis by auto
    qed
    have "(buf ! (off + m div 8) AND drop_bit (m mod 8) 0x80 \<noteq> 0) = bit v m"
      using assms(2) [OF m(1)] unfolding mask by (simp add: bit_iff_and_push_bit_not_eq_0)
    moreover have "(if bit v m then take_bit m v OR push_bit m 1 else take_bit m v) = take_bit (Suc m) v"
      by (rule bit_word_eqI) (auto simp: bit_simps less_Suc_eq)
    moreover have "decodeBits buf off [Suc m..<n] (take_bit (Suc m) v) = Ok (take_bit n v)"
      using Suc by auto
    ultimately show ?case
      using m assms(1) [OF m(1)] by (simp add: upt_conv_Cons)
  qed
  from gen [of 0] show ?thesis by simp
qed

section \<open>Every encodable value is read back\<close>

lemma normalValue_copyText:
  "vType v \<noteq> TyCharacterString \<Longrightarrow> normalValue (copyTextValue v s) = normalValue v"
  by (simp add: normalValue_def copyTextValue_def Let_def split: BacnetValueType.splits)

lemma copyTextValue_type [simp]: "vType (copyTextValue v s) = vType v"
  by (simp add: copyTextValue_def Let_def)

lemma parse_null:
  "sits buf off [0] \<Longrightarrow> \<exists>w. parseApplicationNull buf off v0 = Ok (w, off + 1) \<and>
     normalValue w = emptyValue\<lparr>vType := TyNull\<rparr>"
  by (simp add: parseApplicationNull_def readApplicationTagHeader_def Let_def tag_fields
      setTextValue_def normalValue_copyText) (simp add: normalValue_def)

lemma parse_boolean:
  "sits buf off [0x10 OR (if b then 1 else 0)] \<Longrightarrow>
     \<exists>w. parseApplicationBoolean buf off v0 = Ok (w, off + 1) \<and>
       normalValue w = emptyValue\<lparr>vType := TyBoolean, vBoolean := b\<rparr>"
  by (cases b) (simp_all add: parseApplicationBoolean_def Let_def tag_fields normalValue_copyText,
      simp_all add: normalValue_def)

lemma parse_unsigned:
  assumes "nibble t" and "writeUnsigned room t x = Some bs" and "sits buf off bs"
  shows "\<exists>w. parseApplicationUnsigned buf off t v0 = Ok (w, off + length bs) \<and>
    normalValue w = (if t = kApplicationTagEnumerated
      then emptyValue\<lparr>vType := TyEnumerated, vUnsigned := x\<rparr>
      else emptyValue\<lparr>vType := TyUnsigned, vUnsigned := x\<rparr>)"
proof -
  have bs: "bs = (push_bit 4 t OR word_of_nat (unsignedLength x)) # beBytes (unsignedLength x) x"
    using assms(2) by (auto simp: writeUnsigned_def Let_def split: if_splits)
  have "readApplicationValue buf off t = Ok (x, off + 1 + unsignedLength x)"
    using assms(3) unfolding bs by (intro readApplicationValue_sits assms(1) unsignedLength_bounds)
  moreover obtain ds where "writeUnsignedDecimal 16 x = Some ds"
    using writeUnsignedDecimal_total [of 16 x] by auto
  ultimately show ?thesis
    by (simp add: parseApplicationUnsigned_def bs normalValue_copyText) (simp add: normalValue_def)
qed

lemma parse_signed:
  assumes "writeSigned room x = Some bs" and "sits buf off bs"
  shows "\<exists>w. parseApplicationSigned buf off v0 = Ok (w, off + length bs) \<and>
    normalValue w = emptyValue\<lparr>vType := TySigned, vSigned := x\<rparr>"
proof -
  have bs: "bs = (push_bit 4 kApplicationTagSigned OR word_of_nat (signedLength x)) # beBytes (signedLength x) x"
    using assms(1) by (auto simp: writeSigned_def Let_def split: if_splits)
  have fit: "off + 1 + signedLength x \<le> length buf" using sits_le [OF assms(2)] by (simp add: bs)
  have tag: "buf ! off = push_bit 4 kApplicationTagSigned OR word_of_nat (signedLength x)"
    and "sits buf (off + 1) (beBytes (signedLength x) x)"
    using assms(2) by (simp_all add: bs)
  from this(2) obtain r where r: "readBE buf (off + 1) (signedLength x) 0 = Ok (r, off + 1 + signedLength x)"
    "signExtend (signedLength x) r = x"
    by (rule signExtend_readBE)
  obtain ds where ds: "writeSignedDecimal 16 x = Some ds" using writeSignedDecimal_total by blast
  have "parseApplicationSigned buf off v0 =
      Ok (copyTextValue (v0\<lparr>vType := TySigned, vSigned := x\<rparr>) ds, off + 1 + signedLength x)"
    using r ds fit signedLength_bounds [of x]
      length_nibble(4-6) [of kApplicationTagSigned "signedLength x"]
    unfolding parseApplicationSigned_def Let_def by (simp add: tag)
  then show ?thesis
    by (simp add: bs normalValue_copyText) (simp add: normalValue_def)
qed

lemma parse_real:
  assumes "sits buf off (0x44 # beBytes 4 x)" and "writeFixed3Decimal 24 x \<noteq> Undef"
  shows "\<exists>w. parseApplicationReal buf off v0 = Ok (w, off + 5) \<and>
    normalValue w = emptyValue\<lparr>vType := TyReal, vReal := x\<rparr>"
proof -
  obtain ds where "writeFixed3Decimal 24 x = Ok ds"
    using assms(2) writeFixed3Decimal_not_Fail by (cases "writeFixed3Decimal 24 x") auto
  moreover have "readBE buf (off + 1) 4 0 = Ok (x, off + 1 + 4)"
    using assms(1) by (intro readBE_beBytes) simp_all
  ultimately show ?thesis
    using sits_le [OF assms(1)] assms(1)
    by (simp add: parseApplicationReal_def readApplicationTagHeader_def Let_def tag_fields
        normalValue_copyText) (simp add: normalValue_def)
qed

lemma parse_object:
  assumes "sits buf off (0xC4 # beBytes 4 (encodeObjectId x))" and "validObjectId x"
  shows "\<exists>w. parseApplicationObjectIdentifier buf off v0 = Ok (w, off + 5) \<and>
    normalValue w = emptyValue\<lparr>vType := TyObjectIdentifier, vObject := x\<rparr>"
proof -
  have r: "readApplicationValue buf off kApplicationTagObjectIdentifier = Ok (encodeObjectId x, off + 1 + 4)"
    using assms(1) by (intro readApplicationValue_sits) simp_all
  obtain ds where ds: "writeUnsignedDecimal 24 (ucast (objType x)) = Some ds"
    using writeUnsignedDecimal_total [of 24 "ucast (objType x)"] by auto
  have "unat (objType x) < 65536" using unsigned_less [of "objType x"] by simp
  then have "unat (ucast (objType x) :: u32) < 10 ^ 5"
    by (simp add: unsigned_ucast_eq take_bit_eq_mod)
  with ds have len: "length ds \<le> 5"
    using length_reversedDigits_less [of "ucast (objType x)" 5 10] writeUnsignedDecimal_Some [OF ds] by simp
  then obtain es where "writeUnsignedDecimal (24 - length ds - 1) (objInstance x) = Some es"
    using writeUnsignedDecimal_total [of "24 - length ds - 1" "objInstance x"] by force
  with r ds len decodeObjectId_encodeObjectId [OF assms(2)] show ?thesis
    by (simp add: parseApplicationObjectIdentifier_def Let_def normalValue_copyText)
      (simp add: normalValue_def)
qed

text \<open>A text of up to three bytes has its length in the tag, a longer one in a byte of its own.\<close>

lemma parse_text:
  assumes "writeCharacterString room str len = Some bs" and sits: "sits buf off bs"
  shows "\<exists>w. parseApplicationCharacterString buf off v0 = Ok (w, off + length bs) \<and>
    normalValue w = emptyValue\<lparr>vType := TyCharacterString,
      vText := take len (str @ replicate kMaxTextLength 0), vTextLength := len\<rparr>"
proof -
  define t where "t = take len (str @ replicate kMaxTextLength 0)"
  have len: "len \<le> 253" "length t = len"
    using assms(1) by (auto simp: t_def writeCharacterString_def kMaxTextLength_def split: if_splits)
  note enc = assms(1) [unfolded writeCharacterString_def Let_def, folded t_def]
  have "\<exists>k. off + length bs = k + 1 + len \<and> sits buf (k + 1) t \<and>
      readApplicationTagHeader buf off kApplicationTagCharacterString = Ok (len + 1, k)"
  proof (cases "len + 1 \<le> 4")
    case True
    then have bs: "bs = (push_bit 4 kApplicationTagCharacterString OR word_of_nat (len + 1)) # 0 # t"
      using enc by (auto split: if_splits)
    have "tagLength (push_bit 4 kApplicationTagCharacterString OR word_of_nat (len + 1)) = len + 1"
      using True by (intro length_nibble) simp_all
    moreover have "off + 2 + len \<le> length buf" using sits_le [OF sits] len by (simp add: bs)
    ultimately show ?thesis
      using sits True len length_nibble(4,5) [of kApplicationTagCharacterString "len + 1"]
      by (intro exI [of _ "off + 1"]) (simp add: readApplicationTagHeader_def bs Let_def)
  next
    case False
    then have bs: "bs = 0x75 # word_of_nat (len + 1) # 0 # t"
      using enc by (auto split: if_splits)
    have "off + 3 + len \<le> length buf" using sits_le [OF sits] len by (simp add: bs)
    moreover have "unat (word_of_nat (len + 1) :: u8) = len + 1"
      using len by (simp add: unsigned_of_nat take_bit_eq_mod del: of_nat_add of_nat_Suc)
    moreover have "tagNumberOf 0x75 = 7" "\<not> isContextTag 0x75" "tagLength 0x75 = 5"
      by (simp_all add: tag_fields)
    ultimately show ?thesis
      using sits len
      by (intro exI [of _ "Suc (Suc off)"])
        (simp add: readApplicationTagHeader_def bs Let_def del: of_nat_add of_nat_Suc)
  qed
  then obtain k where k: "off + length bs = k + 1 + len" "sits buf (k + 1) t"
      "readApplicationTagHeader buf off kApplicationTagCharacterString = Ok (len + 1, k)"
    by blast
  have "rdn buf (k + 1) len = Ok t" by (rule sits_rdn [OF k(2) len(2)])
  then have "parseApplicationCharacterString buf off v0 =
      Ok (v0\<lparr>vText := t, vTextLength := len, vType := TyCharacterString\<rparr>, off + length bs)"
    using k len sits_le [OF k(2)]
    unfolding parseApplicationCharacterString_def k(3) Let_def
    by (simp add: kMaxTextLength_def del: rdn_eq_Ok)
  then show ?thesis
    using len unfolding t_def [symmetric] by simp (simp add: normalValue_def)
qed

lemma parse_bits:
  assumes "writeBitString room v c = Some bs" and sits: "sits buf off bs"
  shows "\<exists>w. parseApplicationBitString buf off v0 = Ok (w, off + length bs) \<and>
    normalValue w = emptyValue\<lparr>vType := TyBitString,
      vBitString := take_bit (unat c) v, vBitCount := c\<rparr>"
proof -
  define n m where "n = unat c" and "m = (n + 7) div 8"
  define data where "data = setBits v (replicate m 0) [0..<n]"
  have c: "c \<noteq> 0" "m + 1 \<le> 4"
    and bs: "bs = (push_bit 4 kApplicationTagBitString OR word_of_nat (m + 1)) # word_of_nat (m * 8 - n) # data"
    using assms(1) by (auto simp: writeBitString_def Let_def n_def m_def data_def split: if_splits)
  have n: "1 \<le> n" "n \<le> 8 * m" "m * 8 - n \<le> 7" "n \<le> 24" "1 \<le> m"
    using c unat_0_iff [of c] by (auto simp: n_def m_def)
  have len: "length data = m" by (simp add: data_def)
  have le: "off + 2 + m \<le> length buf" using sits_le [OF sits] len by (simp add: bs)
  have "sits buf (off + 2) data" using sits by (simp add: bs numeral_2_eq_2)
  then have data: "take m (drop (off + 2) buf) = data"
    using len unfolding sits_take_drop by simp
  have nth: "data ! j = buf ! (off + 2 + j)" if "j < m" for j
    using that le by (simp add: data [symmetric])
  have bits: "decodeBits buf (off + 2) [0..<n] 0 = Ok (take_bit n v)"
  proof (rule decodeBits_sits)
    fix i assume i: "i < n"
    then have j: "i div 8 < m" using n(2) by (simp add: less_mult_imp_div_less mult.commute)
    show "off + 2 + i div 8 < length buf" using j le by simp
    show "bit (buf ! (off + 2 + i div 8)) (7 - i mod 8) = bit v i"
      using setBits_bits [OF n(2) j, of "i mod 8" v] i nth [OF j] by (simp add: data_def)
  qed (use n(4) in simp)
  have unused: "unat (buf ! (off + 1)) = m * 8 - n" "\<not> 7 < buf ! (off + 1)"
    using sits n(3) by (auto simp: bs unsigned_of_nat take_bit_eq_mod word_less_nat_alt)
  obtain hex where hex: "writeHex32 9 (take_bit n v) = Some hex" "length hex = 8"
    by (simp add: writeHex32_def)
  have "unat (word_of_nat n :: u32) = n" using n(4) by (simp add: unsigned_of_nat take_bit_eq_mod)
  then have "length (reversedDigits 10 (word_of_nat n)) \<le> 2"
    using n(4) by (intro length_reversedDigits_less) simp_all
  then obtain ds where ds: "writeUnsignedDecimal 8 (word_of_nat n) = Some ds" "length ds \<le> 2"
    by (simp add: writeUnsignedDecimal_def Let_def)
  have hdr: "readApplicationTagHeader buf off kApplicationTagBitString = Ok (m + 1, off + 1)"
    using sits le c(2) n(5) length_nibble(4-6) [of kApplicationTagBitString "m + 1"]
    by (simp add: readApplicationTagHeader_def bs Let_def)
  have cn: "word_of_nat n = c" by (simp add: n_def)
  have "parseApplicationBitString buf off v0 =
      Ok (copyTextValue (v0\<lparr>vType := TyBitString, vBitString := take_bit n v, vBitCount := c\<rparr>)
            (ascii ''bits=0x'' @ hex @ [0x2F] @ ds), off + 2 + m)"
    using le unused n c(2) bits hex ds cn
    unfolding parseApplicationBitString_def hdr Let_def by (simp add: numeral_2_eq_2)
  then show ?thesis
    by (simp add: bs len normalValue_copyText) (simp add: normalValue_def n_def)
qed

section \<open>Through the dispatcher\<close>

text \<open>
  Reading a whole \<open>objectList\<close> or \<open>propertyList\<close> collects list entries into text; every other
  read goes by the tag alone.
\<close>

definition singleValueRead :: "BacnetPropertyId \<Rightarrow> u32 \<Rightarrow> bool" where
  "singleValueRead p idx \<longleftrightarrow>
     idx \<noteq> kBacnetNoArrayIndex \<or> p \<noteq> PropObjectList \<and> p \<noteq> PropPropertyList"

lemma dispatch:
  assumes "singleValueRead p idx" and "off < length buf" and "buf ! off \<noteq> 0x3F"
  shows "parseReadPropertyApplicationValue buf off p v idx =
    (let tagNumber = tagNumberOf (buf ! off) in
     if tagNumber = kApplicationTagNull then parseApplicationNull buf off v
     else if tagNumber = kApplicationTagBoolean then parseApplicationBoolean buf off v
     else if tagNumber = kApplicationTagUnsigned
     then parseApplicationUnsigned buf off kApplicationTagUnsigned v
     else if tagNumber = kApplicationTagSigned then parseApplicationSigned buf off v
     else if tagNumber = kApplicationTagReal then parseApplicationReal buf off v
     else if tagNumber = kApplicationTagCharacterString then parseApplicationCharacterString buf off v
     else if tagNumber = kApplicationTagBitString then parseApplicationBitString buf off v
     else if tagNumber = kApplicationTagEnumerated
     then parseApplicationUnsigned buf off kApplicationTagEnumerated v
     else if tagNumber = kApplicationTagObjectIdentifier then parseApplicationObjectIdentifier buf off v
     else parseUnsupportedApplicationValue buf off v)"
  using assms unfolding singleValueRead_def parseReadPropertyApplicationValue_def Let_def
  by (auto simp: Let_def)


text \<open>The first byte of an encoding names its tag and is never a closing tag.\<close>

definition tagOf :: "BacnetValue \<Rightarrow> u8" where
  "tagOf v = (case vType v of
      TyBoolean \<Rightarrow> kApplicationTagBoolean | TyUnsigned \<Rightarrow> kApplicationTagUnsigned
    | TySigned \<Rightarrow> kApplicationTagSigned | TyReal \<Rightarrow> kApplicationTagReal
    | TyCharacterString \<Rightarrow> kApplicationTagCharacterString
    | TyBitString \<Rightarrow> kApplicationTagBitString | TyEnumerated \<Rightarrow> kApplicationTagEnumerated
    | TyObjectIdentifier \<Rightarrow> kApplicationTagObjectIdentifier | _ \<Rightarrow> kApplicationTagNull)"

lemma leading_tag:
  assumes "nibble t" "1 \<le> n" "n \<le> 4"
  shows "tagNumberOf (push_bit 4 t OR word_of_nat n) = t" and "push_bit 4 t OR word_of_nat n \<noteq> 0x3F"
proof -
  show "tagNumberOf (push_bit 4 t OR word_of_nat n) = t"
    using length_nibble(4) [OF assms] .
  have "tagLength (push_bit 4 t OR word_of_nat n) = n" using length_nibble(6) [OF assms] .
  then show "push_bit 4 t OR word_of_nat n \<noteq> 0x3F" using assms(3) by (auto simp: tagLength_def)
qed

lemma value_writers_head:
  "writeUnsigned room t v = Some bs \<Longrightarrow> nibble t \<Longrightarrow> tagNumberOf (hd bs) = t \<and> hd bs \<noteq> 0x3F"
  "writeSigned room w = Some bs \<Longrightarrow> tagNumberOf (hd bs) = kApplicationTagSigned \<and> hd bs \<noteq> 0x3F"
  "writeBitString room x c = Some bs \<Longrightarrow> tagNumberOf (hd bs) = kApplicationTagBitString \<and> hd bs \<noteq> 0x3F"
  "writeCharacterString room s len = Some bs \<Longrightarrow>
     tagNumberOf (hd bs) = kApplicationTagCharacterString \<and> hd bs \<noteq> 0x3F"
  using leading_tag [OF _ unsignedLength_bounds(1,2), of t v] leading_tag [OF _ signedLength_bounds, of kApplicationTagSigned w]
    leading_tag [of kApplicationTagBitString "(unat c + 7) div 8 + 1"]
    leading_tag [of kApplicationTagCharacterString "len + 1"]
  by (auto simp: value_writers Let_def tagNumberOf_def simp del: of_nat_add of_nat_Suc split: if_splits)


lemma encodeApplicationValue_head:
  assumes "encodeApplicationValue room v = Some bs"
  shows "tagNumberOf (hd bs) = tagOf v" and "hd bs \<noteq> 0x3F"
proof -
  have "tagNumberOf (hd bs) = tagOf v \<and> hd bs \<noteq> 0x3F"
    using assms
    by (auto simp: encodeApplicationValue_def tagOf_def split: BacnetValueType.splits if_splits
        dest!: value_writers_head) (auto simp: tagNumberOf_def writeReal_def writeObjectIdentifier_def Let_def
        split: if_splits)
  then show "tagNumberOf (hd bs) = tagOf v" "hd bs \<noteq> 0x3F" by simp_all
qed

lemma value_roundtrip:
  assumes enc: "encodeApplicationValue room v = Some bs" and sits: "sits buf off bs"
    and read: "singleValueRead p idx" and real: "realPrintable v"
  shows "\<exists>w. parseReadPropertyApplicationValue buf off p v0 idx = Ok (w, off + length bs) \<and>
    normalValue w = normalValue v"
proof -
  have hd: "off < length buf" "buf ! off = hd bs"
    using sits encodeApplicationValue_capacity(1) [OF enc] by (cases bs; simp)+
  have room: "room \<noteq> 0" using enc by (cases "room = 0") (simp_all add: encodeApplicationValue_def)
  have disp: "parseReadPropertyApplicationValue buf off p v0 idx =
      (let t = tagOf v in
       if t = kApplicationTagNull then parseApplicationNull buf off v0
       else if t = kApplicationTagBoolean then parseApplicationBoolean buf off v0
       else if t = kApplicationTagUnsigned
       then parseApplicationUnsigned buf off kApplicationTagUnsigned v0
       else if t = kApplicationTagSigned then parseApplicationSigned buf off v0
       else if t = kApplicationTagReal then parseApplicationReal buf off v0
       else if t = kApplicationTagCharacterString then parseApplicationCharacterString buf off v0
       else if t = kApplicationTagBitString then parseApplicationBitString buf off v0
       else if t = kApplicationTagEnumerated
       then parseApplicationUnsigned buf off kApplicationTagEnumerated v0
       else if t = kApplicationTagObjectIdentifier then parseApplicationObjectIdentifier buf off v0
       else parseUnsupportedApplicationValue buf off v0)"
    using dispatch [OF read hd(1)] encodeApplicationValue_head [OF enc] by (simp add: hd(2))
  show ?thesis
  proof (cases "vType v")
    case TyNull
    then have "bs = [0]" using enc room by (simp add: encodeApplicationValue_def)
    with parse_null [of buf off v0] sits disp TyNull show ?thesis
      by (simp add: tagOf_def) (simp add: normalValue_def)
  next
    case TyBoolean
    then have bs: "bs = [0x10 OR (if vBoolean v then 1 else 0)]"
      using enc room by (simp add: encodeApplicationValue_def)
    from parse_boolean [OF sits [unfolded bs], of v0] disp TyBoolean bs show ?thesis
      by (simp add: tagOf_def) (simp add: normalValue_def)
  next
    case TyUnsigned
    then have "writeUnsigned room kApplicationTagUnsigned (vUnsigned v) = Some bs"
      using enc room by (simp add: encodeApplicationValue_def)
    from parse_unsigned [OF _ this sits, of v0] disp TyUnsigned show ?thesis
      by (simp add: tagOf_def) (simp add: normalValue_def)
  next
    case TySigned
    then have "writeSigned room (vSigned v) = Some bs"
      using enc room by (simp add: encodeApplicationValue_def)
    from parse_signed [OF this sits, of v0] disp TySigned show ?thesis
      by (simp add: tagOf_def) (simp add: normalValue_def)
  next
    case TyReal
    then have bs: "bs = 0x44 # beBytes 4 (vReal v)"
      using enc room by (auto simp: encodeApplicationValue_def writeReal_def beBytes_small split: if_splits)
    have "writeFixed3Decimal 24 (vReal v) \<noteq> Undef" using real TyReal by (simp add: realPrintable_def)
    from parse_real [OF sits [unfolded bs] this, of v0] disp TyReal bs show ?thesis
      by (simp add: tagOf_def) (simp add: normalValue_def)
  next
    case TyBitString
    then have "writeBitString room (vBitString v) (vBitCount v) = Some bs"
      using enc room by (simp add: encodeApplicationValue_def)
    from parse_bits [OF this sits, of v0] disp TyBitString show ?thesis
      by (simp add: tagOf_def) (simp add: normalValue_def)
  next
    case TyEnumerated
    then have "writeUnsigned room kApplicationTagEnumerated (vUnsigned v) = Some bs"
      using enc room by (simp add: encodeApplicationValue_def)
    from parse_unsigned [OF _ this sits, of v0] disp TyEnumerated show ?thesis
      by (simp add: tagOf_def) (simp add: normalValue_def)
  next
    case TyCharacterString
    then have "writeCharacterString room (vText v) (vTextLength v) = Some bs"
      using enc room by (simp add: encodeApplicationValue_def)
    from parse_text [OF this sits, of v0] disp TyCharacterString show ?thesis
      by (simp add: tagOf_def) (simp add: normalValue_def)
  next
    case TyObjectIdentifier
    then have bs: "bs = 0xC4 # beBytes 4 (encodeObjectId (vObject v))" and "validObjectId (vObject v)"
      using enc room
      by (auto simp: encodeApplicationValue_def writeObjectIdentifier_def Let_def beBytes_small
          validObjectId_def not_less split: if_splits)
    from parse_object [OF sits [unfolded bs] this(2), of v0] disp TyObjectIdentifier bs show ?thesis
      by (simp add: tagOf_def) (simp add: normalValue_def)
  qed (use enc room in \<open>simp_all add: encodeApplicationValue_def\<close>)
qed

text \<open>The values the wire carries, as an instance of the codec contract.\<close>

definition encodeValue :: "BacnetValue \<Rightarrow> bytes" where
  "encodeValue v = (case encodeApplicationValue 512 v of Some bs \<Rightarrow> bs | None \<Rightarrow> [0])"

definition decodeValue :: "BacnetPropertyId \<Rightarrow> bytes \<Rightarrow> nat \<Rightarrow> (BacnetValue \<times> nat) outcome" where
  "decodeValue p buf off =
     obind (parseReadPropertyApplicationValue buf off p emptyValue kBacnetNoArrayIndex)
       (\<lambda>(v, off). Ok (normalValue v, off))"

definition wireValue :: "BacnetPropertyId \<Rightarrow> BacnetValue \<Rightarrow> bool" where
  "wireValue p v \<longleftrightarrow> encodeApplicationValue 512 v \<noteq> None \<and> normalValue v = v \<and> realPrintable v \<and>
     singleValueRead p kBacnetNoArrayIndex"

interpretation appValue: field_codec encodeValue "decodeValue p" "wireValue p" for p
proof unfold_locales
  fix v buf off
  assume v: "wireValue p v" and sits: "sits buf off (encodeValue v)"
  then obtain bs where enc: "encodeApplicationValue 512 v = Some bs" by (auto simp: wireValue_def)
  then have "sits buf off bs" using sits by (simp add: encodeValue_def)
  from value_roundtrip [OF enc this, of p kBacnetNoArrayIndex emptyValue] v enc
  show "decodeValue p buf off = Ok (v, off + length (encodeValue v))"
    by (auto simp: wireValue_def decodeValue_def encodeValue_def)
next
  fix v :: BacnetValue
  show "encodeValue v \<noteq> []"
    by (auto simp: encodeValue_def split: option.splits dest: encodeApplicationValue_capacity(1))
qed

end
