(* ===== verification/Frames.thy ===== *)
theory Frames
  imports ValueCodec
begin

text \<open>
  What the messages of src/src/core/protocol/BacnetProtocol.cpp have in common: the BACnet/IP
  (BVLC) header with its length field, the tests every parser starts with, and the four-byte
  APDU header of a confirmed request (\<open>parseConfirmedRequestHeader\<close>, lines 958 to 987). A
  datagram is well framed when its own length field says how long it is; the lemmas show that
  builders produce well-framed datagrams and that parsers find the APDU where they put it.
\<close>

unbundle bit_operations_syntax

section \<open>Tests of the parsers\<close>

text \<open>
  The test at the start of a parser, in its two forms: \<open>buffer == nullptr || length < k ||
  buffer[0] != kBvlcTypeBacnetIp || buffer[1] != kBvlcOriginalUnicastNpdu ||
  readUint16(&buffer[2]) != length\<close>, where \<open>broadcastToo\<close> also admits
  \<open>kBvlcOriginalBroadcastNpdu\<close>. A null buffer is an empty datagram: every \<open>k\<close> is at least 4.
\<close>

definition bvlcHeader :: "nat \<Rightarrow> bool \<Rightarrow> bytes \<Rightarrow> nat outcome" where
  "bvlcHeader k broadcastToo buf =
     (if length buf < k then Fail
      else obind (rd buf 0) (\<lambda>bvlc. if bvlc \<noteq> kBvlcTypeBacnetIp then Fail
      else obind (rd buf 1) (\<lambda>function.
        if function \<noteq> kBvlcOriginalUnicastNpdu \<and>
           \<not> (broadcastToo \<and> function = kBvlcOriginalBroadcastNpdu) then Fail
        else obind (readUint16 buf 2) (\<lambda>len. if unat len \<noteq> length buf then Fail else Ok 4))))"

text \<open>\<open>offset >= length || buffer[offset++] != b\<close>\<close>

definition expect :: "u8 \<Rightarrow> bytes \<Rightarrow> nat \<Rightarrow> nat outcome" where
  "expect b buf off =
     (if off \<ge> length buf then Fail
      else obind (rd buf off) (\<lambda>x. if x \<noteq> b then Fail else Ok (off + 1)))"

text \<open>\<open>buffer[offset++] != b\<close>, without the test\<close>

definition match :: "u8 \<Rightarrow> bytes \<Rightarrow> nat \<Rightarrow> nat outcome" where
  "match b buf off = obind (rd buf off) (\<lambda>x. if x \<noteq> b then Fail else Ok (off + 1))"

text \<open>\<open>offset < length && (buffer[offset] >> 4) == n && (buffer[offset] & 0x08) != 0\<close>\<close>

definition contextTagAt :: "u8 \<Rightarrow> bytes \<Rightarrow> nat \<Rightarrow> bool" where
  "contextTagAt n buf off \<longleftrightarrow>
     off < length buf \<and> tagNumberOf (buf ! off) = n \<and> isContextTag (buf ! off)"

text \<open>An optional context field: read when its tag stands next, otherwise the default.\<close>

definition optionalContext :: "u8 \<Rightarrow> u32 \<Rightarrow> bytes \<Rightarrow> nat \<Rightarrow> (u32 \<times> nat) outcome" where
  "optionalContext n dflt buf off =
     (if contextTagAt n buf off then readContextValue buf off n else Ok (dflt, off))"

lemma safe_bvlcHeader [safety]: "4 \<le> k \<Longrightarrow> safe (bvlcHeader k b buf)"
  by (auto simp: bvlcHeader_def intro!: safe_steps safe_readUint16)

lemma safe_expect [safety]: "safe (expect b buf off)"
  by (auto simp: expect_def intro!: safe_steps)

lemma safe_match [safety]: "off < length buf \<Longrightarrow> safe (match b buf off)"
  by (auto simp: match_def intro!: safe_steps)

lemma safe_optionalContext [safety]: "safe (optionalContext n d buf off)"
  by (simp add: optionalContext_def safety)

lemma expect_progress [progress]: "expect b buf off = Ok off' \<Longrightarrow> off' = off + 1 \<and> off' \<le> length buf"
  by (auto simp: expect_def split: if_splits)

lemma match_progress [progress]: "match b buf off = Ok off' \<Longrightarrow> off' = off + 1 \<and> off' \<le> length buf"
  by (auto simp: match_def split: if_splits)

lemma optionalContext_progress [progress]:
  "optionalContext n d buf off = Ok (v, off') \<Longrightarrow> off \<le> off' \<and> (off' = off \<or> off' \<le> length buf)"
  by (auto simp: optionalContext_def split: if_splits dest: readContextValue_progress)

lemma bvlcHeader_Ok: "bvlcHeader k b buf = Ok off \<Longrightarrow> off = 4 \<and> k \<le> length buf"
  by (auto simp: bvlcHeader_def split: if_splits)

lemma expect_sits [decode]: "sits buf off [b] \<Longrightarrow> expect b buf off = Ok (off + 1)"
  by (simp add: expect_def)

lemma match_sits [decode]: "sits buf off [b] \<Longrightarrow> match b buf off = Ok (off + 1)"
  by (simp add: match_def)

section \<open>The header of a built message\<close>

text \<open>The ten bytes every confirmed request starts with, its length still open.\<close>

definition confirmedRequestPrefix :: "u8 \<Rightarrow> u8 \<Rightarrow> bytes" where
  "confirmedRequestPrefix invokeId service =
     [kBvlcTypeBacnetIp, kBvlcOriginalUnicastNpdu, 0, 0, kNpduVersion, kNpduExpectingReply,
      kApduConfirmedRequest, 0x05, invokeId, service]"

text \<open>The nine bytes of a response.\<close>

definition responsePrefix :: "u8 \<Rightarrow> u8 \<Rightarrow> u8 \<Rightarrow> bytes" where
  "responsePrefix apdu invokeId service =
     [kBvlcTypeBacnetIp, kBvlcOriginalUnicastNpdu, 0, 0, kNpduVersion, 0, apdu, invokeId, service]"

lemma length_prefixes [capacity]:
  "length (confirmedRequestPrefix i s) = 10" "length (responsePrefix a i s) = 9"
  by (simp_all add: confirmedRequestPrefix_def responsePrefix_def)

text \<open>A finished datagram: type, function, its own length, and what follows.\<close>

definition datagram :: "u8 \<Rightarrow> bytes \<Rightarrow> bytes" where
  "datagram function body =
     [kBvlcTypeBacnetIp, function, word_of_nat ((length body + 4) div 256),
      word_of_nat (length body + 4)] @ body"

lemma length_datagram [simp]: "length (datagram f body) = length body + 4"
  by (simp add: datagram_def)

lemma patchLength_datagram:
  "patchLength ([kBvlcTypeBacnetIp, f, x, y] @ body) = datagram f body"
proof -
  have "(w # z # x # y # zs)[2 := p, 3 := q] = w # z # p # q # zs" for w z x y p q :: u8 and zs
    by (simp add: numeral_2_eq_2 numeral_3_eq_3)
  moreover have "length ([kBvlcTypeBacnetIp, f, x, y] @ body) = length body + 4" by simp
  ultimately show ?thesis
    unfolding patchLength_def datagram_def \<open>length _ = _\<close> by (simp only: append_Cons append_Nil)
qed

lemma patchLength_prefixes:
  "patchLength (confirmedRequestPrefix i s @ body) =
     datagram kBvlcOriginalUnicastNpdu
       (kNpduVersion # kNpduExpectingReply # kApduConfirmedRequest # 0x05 # i # s # body)"
  "patchLength (responsePrefix a i s @ body) =
     datagram kBvlcOriginalUnicastNpdu (kNpduVersion # 0 # a # i # s # body)"
  using patchLength_datagram [of kBvlcOriginalUnicastNpdu 0 0
      "kNpduVersion # kNpduExpectingReply # kApduConfirmedRequest # 0x05 # i # s # body"]
    patchLength_datagram [of kBvlcOriginalUnicastNpdu 0 0 "kNpduVersion # 0 # a # i # s # body"]
  by (simp_all add: confirmedRequestPrefix_def responsePrefix_def)

lemma sits_datagram: "sits (datagram f body) (4 + off) bs \<longleftrightarrow> sits body off bs"
proof -
  have "drop (4 + off) (datagram f body) = drop off body"
    by (simp add: datagram_def add.commute [of 4] drop_Suc flip: drop_drop)
  then show ?thesis by (auto simp: sits_take_drop)
qed

lemma readUint16_datagram:
  assumes "length body + 4 < 2 ^ 16"
  shows "readUint16 (datagram f body) 2 = Ok (word_of_nat (length body + 4))"
proof -
  have u8: "(ucast (word_of_nat n :: u8) :: u16) = word_of_nat (n mod 256)" for n
    by (rule word_unat_eq_iff [THEN iffD2]) (simp add: unsigned_ucast_eq unsigned_of_nat take_bit_eq_mod)
  define n where "n = length body + 4"
  have n: "n div 256 < 256" using assms by (simp add: n_def less_mult_imp_div_less)
  have "push_bit 8 (word_of_nat (n div 256) :: u16) OR word_of_nat (n mod 256) =
      push_bit 8 (word_of_nat (n div 256)) + word_of_nat (n mod 256)"
  proof (rule disjunctive_add [symmetric])
    fix k
    have "\<not> bit (n mod 256) k" if "8 \<le> k"
      using that bit_take_bit_iff [of 8 n k] by (simp add: take_bit_eq_mod)
    then show "\<not> bit (push_bit 8 (word_of_nat (n div 256) :: u16)) k \<or> \<not> bit (word_of_nat (n mod 256) :: u16) k"
      by (auto simp: bit_push_bit_iff bit_simps)
  qed
  also have "\<dots> = word_of_nat (256 * (n div 256) + n mod 256)"
    by (simp only: of_nat_add of_nat_mult push_bit_eq_mult mult.commute) simp
  also have "256 * (n div 256) + n mod 256 = n" by simp
  finally have "push_bit 8 (ucast (word_of_nat (n div 256) :: u8)) OR ucast (word_of_nat n :: u8) =
      (word_of_nat n :: u16)" using n by (simp add: u8)
  moreover have "rd (datagram f body) 2 = Ok (word_of_nat (n div 256))"
    "rd (datagram f body) (2 + 1) = Ok (word_of_nat n)"
    by (simp_all add: datagram_def n_def numeral_2_eq_2)
  ultimately show ?thesis
    unfolding readUint16_def n_def [symmetric] by simp
qed

lemma bvlcHeader_datagram [decode]:
  assumes "length body + 4 < 2 ^ 16" and "k \<le> length body + 4"
    and "f = kBvlcOriginalUnicastNpdu \<or> b \<and> f = kBvlcOriginalBroadcastNpdu"
  shows "bvlcHeader k b (datagram f body) = Ok 4"
proof -
  have "datagram f body ! 0 = kBvlcTypeBacnetIp" "datagram f body ! 1 = f"
    by (simp_all add: datagram_def)
  moreover have "unat (word_of_nat (length body + 4) :: u16) = length body + 4"
    using assms(1) by (simp add: unsigned_of_nat take_bit_eq_mod del: of_nat_add)
  ultimately show ?thesis
    using assms(2,3) readUint16_datagram [OF assms(1)]
    by (auto simp: bvlcHeader_def simp del: of_nat_add)
qed

lemma readNpduHeader_plain [decode]:
  assumes "sits buf off [kNpduVersion, control]" and "control AND 0xA8 = 0"
  shows "readNpduHeader buf off = Ok (off + 2)"
proof -
  have "control AND 0x80 = (control AND 0xA8) AND 0x80" "control AND 0x20 = (control AND 0xA8) AND 0x20"
    "control AND 0x08 = (control AND 0xA8) AND 0x08"
    by (simp_all add: and.assoc)
  with assms(2) have "control AND 0x80 = 0" "control AND 0x20 = 0" "control AND 0x08 = 0" by simp_all
  with assms(1) show ?thesis by (simp add: readNpduHeader_def Let_def)
qed

end
