(* ===== verification/Requests.thy ===== *)
theory Requests
  imports Frames
begin

text \<open>
  The requests of src/src/core/protocol/BacnetProtocol.cpp: Who-Is and I-Am, the header of a
  confirmed request, ReadProperty, WriteProperty, SubscribeCOV and SubscribeCOVProperty, each
  with its builder and its parser. A builder gets the size of the caller's buffer and returns
  the bytes of the datagram (their number is the C++ result), \<open>Fail\<close> for the result 0; a parser
  returns the decoded header, its status where it has one. The fields a parser leaves in its
  out parameter when it reports failure are not modelled: no caller reads them.
\<close>

unbundle bit_operations_syntax

section \<open>Who-Is and I-Am\<close>

abbreviation (input) kWhoIsRequestSize :: nat where "kWhoIsRequestSize \<equiv> 8"
abbreviation (input) kRejectResponseSize :: nat where "kRejectResponseSize \<equiv> 9"
abbreviation (input) kMaxReadPropertyRequestSize :: nat where "kMaxReadPropertyRequestSize \<equiv> 25"

definition buildWhoIsRequest :: "nat \<Rightarrow> bytes outcome" where
  "buildWhoIsRequest cap =
     (if cap < kWhoIsRequestSize then Fail
      else emit cap [kBvlcTypeBacnetIp, kBvlcOriginalBroadcastNpdu, 0x00, word_of_nat kWhoIsRequestSize,
             kNpduVersion, 0x00, kApduUnconfirmedRequest, kServiceWhoIs] [])"

definition parseWhoIsRequest :: "bytes \<Rightarrow> BacnetWhoIsRequest outcome" where
  "parseWhoIsRequest buf =
     obind (bvlcHeader kWhoIsRequestSize True buf) (\<lambda>off.
     obind (readNpduHeader buf off) (\<lambda>off.
       if off + 2 > length buf then Fail
       else obind (match kApduUnconfirmedRequest buf off) (\<lambda>off.
       obind (match kServiceWhoIs buf off) (\<lambda>off.
         if off = length buf then Ok \<lparr>wiHasRange = False, wiLow = 0, wiHigh = 0\<rparr>
         else obind (readContextValue buf off 0) (\<lambda>(low, off).
         obind (readContextValue buf off 1) (\<lambda>(high, off).
           if off \<noteq> length buf \<or> low > high \<or> high > kObjectInstanceMask then Fail
           else Ok \<lparr>wiHasRange = True, wiLow = low, wiHigh = high\<rparr>))))))"

definition applicationUnsignedSize :: "u32 \<Rightarrow> nat" where
  "applicationUnsignedSize v =
     (if v \<le> 0xFF then 2 else if v \<le> 0xFFFF then 3 else if v \<le> 0xFFFFFF then 4 else 5)"

text \<open>The lambda \<open>writeApplicationUnsigned\<close> of \<open>buildIAmResponse\<close>, which has no test of its own.\<close>

definition writeApplicationUnsigned :: "u8 \<Rightarrow> u32 \<Rightarrow> bytes" where
  "writeApplicationUnsigned tag v =
     (push_bit 4 tag OR word_of_nat (unsignedLength v)) # beBytes (unsignedLength v) v"

definition buildIAmResponse :: "nat \<Rightarrow> BacnetIAmDeviceInfo \<Rightarrow> bytes outcome" where
  "buildIAmResponse cap device =
     (let required = 13 + applicationUnsignedSize (iaMaxApdu device) +
            applicationUnsignedSize (ucast (iaSegmentation device)) +
            applicationUnsignedSize (ucast (iaVendorId device)) in
      if cap < required \<or> iaDeviceInstance device > kObjectInstanceMask then Fail
      else
        let objectIdentifier = push_bit 22 (ucast kDeviceObjectType) OR iaDeviceInstance device in
        obind (emit cap
          ([kBvlcTypeBacnetIp, kBvlcOriginalUnicastNpdu, 0, 0, kNpduVersion, 0,
            kApduUnconfirmedRequest, kServiceIAm, 0xC4,
            ucast (drop_bit 24 objectIdentifier), ucast (drop_bit 16 objectIdentifier),
            ucast (drop_bit 8 objectIdentifier), ucast objectIdentifier] @
           writeApplicationUnsigned kApplicationTagUnsigned (iaMaxApdu device) @
           writeApplicationUnsigned kApplicationTagEnumerated (ucast (iaSegmentation device)) @
           writeApplicationUnsigned kApplicationTagUnsigned (ucast (iaVendorId device))) [])
          (\<lambda>out. Ok (patchLength out)))"

text \<open>
  \<open>parseIAmResponse\<close> walks the NPDU header by itself: with a destination it skips the hop count
  without a test, which the next test covers.
\<close>

definition parseIAmResponse :: "bytes \<Rightarrow> BacnetIAmDeviceInfo outcome" where
  "parseIAmResponse buf =
     obind (bvlcHeader 14 True buf) (\<lambda>off.
     obind (match kNpduVersion buf off) (\<lambda>off.
     obind (rd buf off) (\<lambda>npduControl.
       let off = off + 1 in
       if npduControl AND 0x80 \<noteq> 0 then Fail
       else obind (if npduControl AND 0x20 \<noteq> 0
                   then obind (skipNpduAddress buf off) (\<lambda>off. Ok (off + 1)) else Ok off) (\<lambda>off.
       obind (if npduControl AND 0x08 \<noteq> 0 then skipNpduAddress buf off else Ok off) (\<lambda>off.
         if off + 2 > length buf then Fail
         else obind (match kApduUnconfirmedRequest buf off) (\<lambda>off.
         obind (match kServiceIAm buf off) (\<lambda>off.
         obind (readApplicationValue buf off 12) (\<lambda>(objectIdentifier, off).
           if drop_bit 22 objectIdentifier \<noteq> ucast kDeviceObjectType then Fail
           else obind (readApplicationValue buf off 2) (\<lambda>(maxApdu, off).
           obind (readApplicationValue buf off 9) (\<lambda>(segmentation, off).
             if segmentation > 0xFF then Fail
             else obind (readApplicationValue buf off 2) (\<lambda>(vendorId, off).
               if vendorId > 0xFFFF then Fail
               else Ok \<lparr>iaDeviceInstance = objectIdentifier AND kObjectInstanceMask,
                      iaMaxApdu = maxApdu, iaSegmentation = ucast segmentation,
                      iaVendorId = ucast vendorId\<rparr>)))))))))))"

definition buildRejectResponse :: "nat \<Rightarrow> u8 \<Rightarrow> u8 \<Rightarrow> bytes outcome" where
  "buildRejectResponse cap invokeId reason =
     (if cap < kRejectResponseSize then Fail
      else emit cap [kBvlcTypeBacnetIp, kBvlcOriginalUnicastNpdu, 0, word_of_nat kRejectResponseSize,
             kNpduVersion, 0, kApduReject, invokeId, reason] [])"

section \<open>Confirmed requests\<close>

definition emptyConfirmed :: BacnetConfirmedRequestHeader where
  "emptyConfirmed = \<lparr>crInvokeId = 0, crServiceChoice = 0, crApduOffset = 0\<rparr>"

definition parseConfirmedRequestHeader ::
    "bytes \<Rightarrow> (BacnetConfirmedRequestParseStatus \<times> BacnetConfirmedRequestHeader) outcome" where
  "parseConfirmedRequestHeader buf =
     on_fail
      (obind (bvlcHeader 4 False buf) (\<lambda>off.
       obind (readNpduHeader buf off) (\<lambda>off.
         if off \<ge> length buf then Fail
         else obind (rd buf off) (\<lambda>apdu.
           if apdu AND 0xF0 \<noteq> kApduConfirmedRequest then Ok (CrUnrelated, emptyConfirmed)
           else if off + 4 > length buf then Fail
           else obind (rd buf (off + 2)) (\<lambda>invokeId. obind (rd buf (off + 3)) (\<lambda>service.
             Ok (Confirmed, \<lparr>crInvokeId = invokeId, crServiceChoice = service,
                              crApduOffset = off\<rparr>)))))))
      (CrMalformed, emptyConfirmed)"

section \<open>ReadProperty\<close>

text \<open>The object and property identifiers every property service starts with.\<close>

definition readObjectProperty :: "bytes \<Rightarrow> nat \<Rightarrow> (u32 \<times> u32 \<times> nat) outcome" where
  "readObjectProperty buf off =
     obind (readContextValue buf off 0) (\<lambda>(objectIdentifier, off).
     obind (readContextValue buf off 1) (\<lambda>(propertyIdentifier, off).
       if drop_bit 22 objectIdentifier > 1023 then Fail
       else Ok (objectIdentifier, propertyIdentifier, off)))"

definition buildReadPropertyRequest :: "nat \<Rightarrow> BacnetPropertyRequest \<Rightarrow> u8 \<Rightarrow> bytes outcome" where
  "buildReadPropertyRequest cap request invokeId =
     (if cap < kMaxReadPropertyRequestSize \<or> objInstance (rqObject request) > kObjectInstanceMask
      then Fail
      else obind (emit cap
          (confirmedRequestPrefix invokeId kServiceReadProperty @
           writeContextObjectIdentifier 0 (rqObject request) @
           writeContextUnsigned 1 (rqProperty request) @
           (if rqArrayIndex request \<noteq> kBacnetNoArrayIndex
            then writeContextUnsigned 2 (rqArrayIndex request) else [])) [])
        (\<lambda>out. Ok (patchLength out)))"

definition emptyReadHeader :: BacnetReadPropertyRequestHeader where
  "emptyReadHeader = \<lparr>rrInvokeId = 0, rrRequest = emptyRequest\<rparr>"

definition parseReadPropertyRequest ::
    "bytes \<Rightarrow> (BacnetReadPropertyRequestParseStatus \<times> BacnetReadPropertyRequestHeader) outcome" where
  "parseReadPropertyRequest buf =
     obind (parseConfirmedRequestHeader buf) (\<lambda>(status, confirmed).
       if status = CrMalformed then Ok (RrMalformed, emptyReadHeader)
       else if status \<noteq> Confirmed \<or> crServiceChoice confirmed \<noteq> kServiceReadProperty
       then Ok (RrUnrelated, emptyReadHeader)
       else on_fail
         (obind (readObjectProperty buf (crApduOffset confirmed + 4))
           (\<lambda>(objectIdentifier, propertyIdentifier, off).
          obind (if off < length buf then readContextValue buf off 2 else Ok (kBacnetNoArrayIndex, off))
           (\<lambda>(arrayIndex, off).
             if off \<noteq> length buf then Fail
             else Ok (ReadProperty, \<lparr>rrInvokeId = crInvokeId confirmed,
                        rrRequest = \<lparr>rqObject = decodeObjectId objectIdentifier,
                                     rqProperty = propertyIdentifier,
                                     rqArrayIndex = arrayIndex\<rparr>\<rparr>))))
         (RrMalformed, emptyReadHeader))"

section \<open>WriteProperty\<close>

definition buildWritePropertyRequest ::
    "nat \<Rightarrow> BacnetObjectId \<Rightarrow> BacnetPropertyId \<Rightarrow> BacnetValue \<Rightarrow> BacnetWritePropertyOptions \<Rightarrow> u8 \<Rightarrow>
     bytes outcome" where
  "buildWritePropertyRequest cap object property v options invokeId =
     (let encodePriority = (woHasPriority options \<and> woPriority options \<noteq> 0) in
      if cap < 24 \<or> objType object > 1023 \<or> objInstance object > kObjectInstanceMask \<or>
         (woHasPriority options \<and> woPriority options > 16) \<or>
         (woHasPriority options \<and> woPriority options = 0 \<and> property = PropPresentValue)
      then Fail
      else obind (emit cap
          (confirmedRequestPrefix invokeId kServiceWriteProperty @
           writeContextObjectIdentifier 0 object @ writeContextUnsigned 1 property @
           (if woArrayIndex options \<noteq> kBacnetNoArrayIndex
            then writeContextUnsigned 2 (woArrayIndex options) else [])) []) (\<lambda>out.
        if length out + 2 > cap then Fail
        else obind (emit cap [0x3E] out) (\<lambda>out.
        obind (appendValue cap 1 v out) (\<lambda>out.
          if length out + 1 > cap then Fail
          else obind (emit cap [0x3F] out) (\<lambda>out.
            if encodePriority then
              (if length out + 2 > cap then Fail
               else obind (emit cap (writeContextUnsigned 4 (ucast (woPriority options))) out)
                 (\<lambda>out. Ok (patchLength out)))
            else Ok (patchLength out))))))"

text \<open>The overload without options, which never writes a priority.\<close>

definition buildWritePropertyRequestPlain ::
    "nat \<Rightarrow> BacnetPropertyRequest \<Rightarrow> BacnetValue \<Rightarrow> u8 \<Rightarrow> bytes outcome" where
  "buildWritePropertyRequestPlain cap request v invokeId =
     buildWritePropertyRequest cap (rqObject request) (rqProperty request) v
       \<lparr>woArrayIndex = rqArrayIndex request, woHasPriority = False, woPriority = 0\<rparr> invokeId"

definition emptyWriteHeader :: BacnetWritePropertyRequestHeader where
  "emptyWriteHeader = \<lparr>wrInvokeId = 0, wrRequest = emptyRequest, wrValue = emptyValue,
     wrHasPriority = False, wrPriority = 0\<rparr>"

definition parseWritePropertyRequest ::
    "bytes \<Rightarrow> (BacnetWritePropertyRequestParseStatus \<times> BacnetWritePropertyRequestHeader) outcome" where
  "parseWritePropertyRequest buf =
     obind (parseConfirmedRequestHeader buf) (\<lambda>(status, confirmed).
       if status = CrMalformed then Ok (WrMalformed, emptyWriteHeader)
       else if status \<noteq> Confirmed \<or> crServiceChoice confirmed \<noteq> kServiceWriteProperty
       then Ok (WrUnrelated, emptyWriteHeader)
       else on_fail
         (obind (readObjectProperty buf (crApduOffset confirmed + 4))
           (\<lambda>(objectIdentifier, propertyIdentifier, off).
          obind (optionalContext 2 kBacnetNoArrayIndex buf off) (\<lambda>(arrayIndex, off).
          obind (expect 0x3E buf off) (\<lambda>off.
          obind (parseReadPropertyApplicationValue buf off propertyIdentifier emptyValue arrayIndex)
           (\<lambda>(v, off).
          obind (expect 0x3F buf off) (\<lambda>off.
          obind (if off < length buf
                 then obind (readContextValue buf off 4) (\<lambda>(priority, off).
                   if priority > 0xFF then Fail else Ok (True, ucast priority, off))
                 else Ok (False, 0, off)) (\<lambda>(hasPriority, priority, off).
            if off \<noteq> length buf then Fail
            else Ok (WriteProperty, \<lparr>wrInvokeId = crInvokeId confirmed,
                       wrRequest = \<lparr>rqObject = decodeObjectId objectIdentifier,
                                    rqProperty = propertyIdentifier, rqArrayIndex = arrayIndex\<rparr>,
                       wrValue = v, wrHasPriority = hasPriority, wrPriority = priority\<rparr>))))))))
         (WrMalformed, emptyWriteHeader))"

section \<open>SubscribeCOV and SubscribeCOVProperty\<close>

definition buildSubscribeCovRequest ::
    "nat \<Rightarrow> u32 \<Rightarrow> BacnetObjectId \<Rightarrow> u32 \<Rightarrow> bool \<Rightarrow> bytes outcome" where
  "buildSubscribeCovRequest cap processId object lifetimeSeconds issueConfirmed =
     (let required = 10 + contextUnsignedSize processId + 5 + 2 + contextUnsignedSize lifetimeSeconds in
      if cap < required \<or> objInstance object > kObjectInstanceMask then Fail
      else obind (emit cap
          (confirmedRequestPrefix 0 kServiceSubscribeCov @
           writeContextUnsigned 0 processId @ writeContextObjectIdentifier 1 object @
           writeContextBoolean 2 issueConfirmed @ writeContextUnsigned 3 lifetimeSeconds) [])
        (\<lambda>out. Ok (patchLength out)))"

definition buildSubscribeCovPropertyRequest ::
    "nat \<Rightarrow> u32 \<Rightarrow> BacnetObjectId \<Rightarrow> BacnetPropertyId \<Rightarrow> u32 \<Rightarrow> bool \<Rightarrow> u32 \<Rightarrow> bool \<Rightarrow> float32 \<Rightarrow>
     bytes outcome" where
  "buildSubscribeCovPropertyRequest cap processId object property lifetimeSeconds issueConfirmed
       arrayIndex hasCovIncrement covIncrement =
     (let required = 10 + contextUnsignedSize processId + 5 + 2 + contextUnsignedSize property + 1 +
            2 + contextUnsignedSize lifetimeSeconds +
            (if arrayIndex = kBacnetNoArrayIndex then 0 else contextUnsignedSize arrayIndex) +
            (if hasCovIncrement then 5 else 0) in
      if cap < required \<or> objInstance object > kObjectInstanceMask then Fail
      else obind (emit cap
          (confirmedRequestPrefix 0 kServiceSubscribeCovProperty @
           writeContextUnsigned 0 processId @ writeContextObjectIdentifier 1 object @
           [0x2E] @ writeContextUnsigned 0 property @
           (if arrayIndex \<noteq> kBacnetNoArrayIndex then writeContextUnsigned 1 arrayIndex else []) @
           [0x2F] @ writeContextBoolean 3 issueConfirmed @ writeContextUnsigned 4 lifetimeSeconds @
           (if hasCovIncrement then writeContextReal 5 covIncrement else [])) [])
        (\<lambda>out. Ok (patchLength out)))"

definition parseSubscribeCovRequest ::
    "bytes \<Rightarrow> (BacnetSubscribeCovRequestParseStatus \<times> BacnetSubscribeCovRequestHeader) outcome" where
  "parseSubscribeCovRequest buf =
     obind (parseConfirmedRequestHeader buf) (\<lambda>(status, confirmed).
       if status = CrMalformed then Ok (CovMalformed, emptySubscribeCov)
       else if status \<noteq> Confirmed \<or> (crServiceChoice confirmed \<noteq> kServiceSubscribeCov \<and>
               crServiceChoice confirmed \<noteq> kServiceSubscribeCovProperty)
       then Ok (CovUnrelated, emptySubscribeCov)
       else
         let isProperty = (crServiceChoice confirmed = kServiceSubscribeCovProperty) in
         on_fail
         (obind (readContextValue buf (crApduOffset confirmed + 4) 0) (\<lambda>(processId, off).
          obind (readContextValue buf off 1) (\<lambda>(objectIdentifier, off).
          if drop_bit 22 objectIdentifier > 1023 then Fail
          else obind
            (if isProperty
             then obind (expect 0x2E buf off) (\<lambda>off.
               obind (readContextValue buf off 0) (\<lambda>(property, off).
               obind (optionalContext 1 kBacnetNoArrayIndex buf off) (\<lambda>(arrayIndex, off).
               obind (expect 0x2F buf off) (\<lambda>off. Ok (property, arrayIndex, off)))))
             else Ok (PropPresentValue, kBacnetNoArrayIndex, off)) (\<lambda>(property, arrayIndex, off).
          obind (optionalContext (if isProperty then 3 else 2) 0 buf off) (\<lambda>(issueConfirmed, off).
          if issueConfirmed > 1 then Fail
          else obind (optionalContext (if isProperty then 4 else 3) 0 buf off) (\<lambda>(lifetime, off).
          obind (if isProperty \<and> contextTagAt 5 buf off
                 then obind (readContextReal buf off 5) (\<lambda>(increment, off).
                   if f32_less increment f32_zero then Fail else Ok (True, increment, off))
                 else Ok (False, f32_zero, off)) (\<lambda>(hasIncrement, increment, off).
          if off \<noteq> length buf then Fail
          else Ok (if isProperty then SubscribeCovProperty else SubscribeCov,
                   \<lparr>scInvokeId = crInvokeId confirmed, scProcessId = processId,
                    scObject = decodeObjectId objectIdentifier, scIsProperty = isProperty,
                    scProperty = property, scArrayIndex = arrayIndex,
                    scConfirmed = (issueConfirmed \<noteq> 0), scLifetime = lifetime,
                    scHasIncrement = hasIncrement, scIncrement = increment\<rparr>))))))))
         (CovMalformed, emptySubscribeCov))"

end
