(* ===== verification/RequestLaws.thy ===== *)
theory RequestLaws
  imports Requests
begin

text \<open>
  What the request builders and parsers guarantee: parsers stay inside the datagram, builders
  inside the buffer, and a parser returns what its builder was given.
\<close>

unbundle bit_operations_syntax

section \<open>The parsers stay inside the datagram\<close>

lemma safe_parseWhoIsRequest [safety]: "safe (parseWhoIsRequest buf)"
  unfolding parseWhoIsRequest_def
  by (auto simp: safety intro!: safe_steps dest!: match_progress)

lemma safe_parseConfirmedRequestHeader [safety]: "safe (parseConfirmedRequestHeader buf)"
  unfolding parseConfirmedRequestHeader_def
  by (auto simp: safety intro!: safe_steps)

lemma safe_readObjectProperty [safety]: "safe (readObjectProperty buf off)"
  unfolding readObjectProperty_def by (auto simp: safety intro!: safe_steps)

lemma safe_parseReadPropertyRequest [safety]: "safe (parseReadPropertyRequest buf)"
  unfolding parseReadPropertyRequest_def
  by (auto simp: safety intro!: safe_steps)

lemma safe_parseSubscribeCovRequest [safety]: "safe (parseSubscribeCovRequest buf)"
  unfolding parseSubscribeCovRequest_def Let_def
  by (auto simp: safety intro!: safe_steps)

lemma safe_parseIAmResponse [safety]: "safe (parseIAmResponse buf)"
  unfolding parseIAmResponse_def Let_def
  by (auto simp: safety intro!: safe_steps dest!: match_progress bvlcHeader_Ok)

lemma safe_parseWritePropertyRequest:
  "(\<And>off. \<not> unconvertibleReal buf off) \<Longrightarrow> safe (parseWritePropertyRequest buf)"
  unfolding parseWritePropertyRequest_def
  by (auto simp: safety intro!: safe_steps)

section \<open>The builders stay inside the buffer\<close>

lemma safe_buildWhoIsRequest [safety]: "safe (buildWhoIsRequest cap)"
  by (simp add: buildWhoIsRequest_def)

lemma safe_buildRejectResponse [safety]: "safe (buildRejectResponse cap i r)"
  by (simp add: buildRejectResponse_def)

lemma length_writeApplicationUnsigned [capacity]:
  "length (writeApplicationUnsigned t v) = applicationUnsignedSize v"
  by (simp add: writeApplicationUnsigned_def unsignedLength_def applicationUnsignedSize_def)

lemma safe_buildIAmResponse [safety]: "safe (buildIAmResponse cap device)"
  by (auto simp: buildIAmResponse_def Let_def capacity intro!: safe_steps)

lemma optional_context_size:
  "length (if b then writeContextUnsigned t v else []) \<le> 5"
  using contextUnsignedSize_bounds(2) [of v] by (simp add: capacity)

lemma safe_buildReadPropertyRequest [safety]: "safe (buildReadPropertyRequest cap request invokeId)"
  using optional_context_size [of "rqArrayIndex request \<noteq> kBacnetNoArrayIndex" 2 "rqArrayIndex request"]
    contextUnsignedSize_bounds(2) [of "rqProperty request"]
  unfolding buildReadPropertyRequest_def by (auto simp: capacity intro!: safe_steps split: if_splits)

lemma safe_buildSubscribeCovRequest [safety]: "safe (buildSubscribeCovRequest cap pid obj life conf)"
  by (auto simp: buildSubscribeCovRequest_def Let_def capacity intro!: safe_steps)

lemma safe_buildSubscribeCovPropertyRequest [safety]:
  "safe (buildSubscribeCovPropertyRequest cap pid obj pr life conf idx has inc)"
  by (auto simp: buildSubscribeCovPropertyRequest_def Let_def capacity intro!: safe_steps)

text \<open>The prefix of a WriteProperty request takes up to 25 bytes; the guard tests for 24.\<close>

lemma safe_buildWritePropertyRequest:
  assumes "25 \<le> cap"
  shows "safe (buildWritePropertyRequest cap obj pr v opts i)"
proof -
  let ?prefix = "confirmedRequestPrefix i kServiceWriteProperty @ writeContextObjectIdentifier 0 obj @
      writeContextUnsigned 1 pr @
      (if woArrayIndex opts \<noteq> kBacnetNoArrayIndex then writeContextUnsigned 2 (woArrayIndex opts) else [])"
  have "length ?prefix \<le> 25"
    using optional_context_size [of "woArrayIndex opts \<noteq> kBacnetNoArrayIndex" 2 "woArrayIndex opts"]
      contextUnsignedSize_bounds(2) [of pr] by (simp add: capacity)
  then have "safe (emit cap ?prefix [])" using assms by simp
  moreover have "contextUnsignedSize (ucast (woPriority opts)) = 2"
  proof -
    have "(ucast (woPriority opts) :: u32) \<le> 0xFF"
      using unat_u8 [of "woPriority opts"] by (simp add: word_le_nat_alt)
    then show ?thesis by (simp add: contextUnsignedSize_def)
  qed
  ultimately show ?thesis
    unfolding buildWritePropertyRequest_def Let_def
    by (auto simp: capacity safety intro!: safe_steps simp del: append_assoc)
qed

section \<open>Round trips\<close>

text \<open>The rest of a confirmed request stands at offset 10.\<close>

lemma confirmed_payload:
  assumes "body = kNpduVersion # kNpduExpectingReply # kApduConfirmedRequest # x # i # s # rest"
  shows "sits (datagram f body) 10 rest" and "length (datagram f body) = 10 + length rest"
proof -
  have "sits body 0 body" by simp
  then have "sits body 6 rest" unfolding assms by (simp add: eval_nat_numeral)
  then show "sits (datagram f body) 10 rest" using sits_datagram [of f body 6 rest] by simp
  show "length (datagram f body) = 10 + length rest" by (simp add: assms)
qed

lemma parseConfirmed_datagram:
  assumes body: "body = kNpduVersion # kNpduExpectingReply # kApduConfirmedRequest # x # i # s # rest"
    and len: "length rest < 65000"
  shows "parseConfirmedRequestHeader (datagram kBvlcOriginalUnicastNpdu body) =
    Ok (Confirmed, \<lparr>crInvokeId = i, crServiceChoice = s, crApduOffset = 6\<rparr>)"
proof -
  let ?d = "datagram kBvlcOriginalUnicastNpdu body"
  have "sits body 0 body" by simp
  then have "sits body 0 [kNpduVersion, kNpduExpectingReply, kApduConfirmedRequest, x, i, s]"
    unfolding body by simp
  then have d: "sits ?d 4 [kNpduVersion, kNpduExpectingReply, kApduConfirmedRequest, x, i, s]"
    using sits_datagram [of kBvlcOriginalUnicastNpdu body 0] by (simp del: sits.simps)
  then have "sits ?d 4 [kNpduVersion, kNpduExpectingReply]" by simp
  moreover have "kNpduExpectingReply AND 0xA8 = 0" by simp
  ultimately have "readNpduHeader ?d 4 = Ok 6" using readNpduHeader_plain [of ?d 4] by simp
  moreover have "bvlcHeader 4 False ?d = Ok 4"
    using len by (intro bvlcHeader_datagram) (simp_all add: body)
  ultimately show ?thesis
    using d by (simp add: parseConfirmedRequestHeader_def numeral_eq_Suc body)
qed

lemma readObjectProperty_sits:
  assumes "validObjectId obj"
    and "sits buf off (writeContextObjectIdentifier 0 obj @ writeContextUnsigned 1 pr)"
  shows "readObjectProperty buf off =
    Ok (encodeObjectId obj, pr, off + length (writeContextObjectIdentifier 0 obj @ writeContextUnsigned 1 pr))"
proof -
  have "readContextValue buf off 0 = Ok (encodeObjectId obj, off + 5)"
    using assms(2) readContextValue_sits [of 0 4 "encodeObjectId obj" buf off]
    by (simp add: writeContextObjectIdentifier_eq)
  moreover have "readContextValue buf (off + 5) 1 = Ok (pr, off + 5 + length (writeContextUnsigned 1 pr))"
    using assms(2) by (intro ctxUnsigned.dec_enc) (simp_all add: capacity)
  moreover have "\<not> drop_bit 22 (encodeObjectId obj) > 1023"
  proof -
    have "unat (encodeObjectId obj) div 2 ^ 22 < 1024"
      using unat_u32 [of "encodeObjectId obj"] by (simp add: less_mult_imp_div_less)
    then show ?thesis by (simp add: not_less word_le_nat_alt drop_bit_eq_div unat_div)
  qed
  ultimately show ?thesis
    by (simp add: readObjectProperty_def capacity add.assoc)
qed

lemma optionalContext_sits:
  assumes "nibble n" and "sits buf off ((if v \<noteq> d then writeContextUnsigned n v else []) @ rest)"
    and "\<not> contextTagAt n buf (off + length (if v \<noteq> d then writeContextUnsigned n v else []))"
  shows "optionalContext n d buf off =
    Ok (v, off + length (if v \<noteq> d then writeContextUnsigned n v else []))"
proof (cases "v = d")
  case False
  then have s: "sits buf off (writeContextUnsigned n v)" using assms(2) by simp
  then have "contextTagAt n buf off"
    using length_nibble [OF assms(1) contextLength_bounds(1,2) [of v]]
    by (simp add: writeContextUnsigned_eq contextTagAt_def)
  with False ctxUnsigned.dec_enc [OF assms(1) s] show ?thesis
    by (simp add: optionalContext_def)
qed (use assms(3) in \<open>simp add: optionalContext_def\<close>)

text \<open>
  A ReadProperty request the client builds, for any object the wire format can name, is parsed
  by the server to the invoke id, object, property and array index it was built from, whatever
  the buffer size it fitted in.
\<close>

theorem readPropertyRequest_roundtrip:
  assumes "validObjectId (rqObject request)"
    and "buildReadPropertyRequest cap request invokeId = Ok out"
  shows "parseReadPropertyRequest out =
    Ok (ReadProperty, \<lparr>rrInvokeId = invokeId, rrRequest = request\<rparr>)"
proof -
  let ?idx = "rqArrayIndex request"
  let ?fields = "writeContextObjectIdentifier 0 (rqObject request) @ writeContextUnsigned 1 (rqProperty request)"
  let ?opt = "if ?idx \<noteq> kBacnetNoArrayIndex then writeContextUnsigned 2 ?idx else []"
  define body where "body = kNpduVersion # kNpduExpectingReply # kApduConfirmedRequest # 0x05 #
      invokeId # kServiceReadProperty # (?fields @ ?opt)"
  have out: "out = datagram kBvlcOriginalUnicastNpdu body"
    using assms(2) patchLength_prefixes(1) [of invokeId kServiceReadProperty "?fields @ ?opt"]
    by (auto simp: buildReadPropertyRequest_def body_def split: if_splits)
  have fields: "length ?fields \<le> 10" "length ?opt \<le> 5"
    using contextUnsignedSize_bounds(2) [of "rqProperty request"] optional_context_size by (simp_all add: capacity)
  have hdr: "parseConfirmedRequestHeader out =
      Ok (Confirmed, \<lparr>crInvokeId = invokeId, crServiceChoice = kServiceReadProperty, crApduOffset = 6\<rparr>)"
    unfolding out by (rule parseConfirmed_datagram [OF body_def]) (use fields in simp)
  have s: "sits out 10 (?fields @ ?opt)" and len: "length out = 10 + length ?fields + length ?opt"
    unfolding out using confirmed_payload [OF body_def] by simp_all
  have o: "readObjectProperty out 10 = Ok (encodeObjectId (rqObject request), rqProperty request, 10 + length ?fields)"
    using s by (intro readObjectProperty_sits assms(1)) simp
  have idx: "(if 10 + length ?fields < length out then readContextValue out (10 + length ?fields) 2
       else Ok (kBacnetNoArrayIndex, 10 + length ?fields)) = Ok (?idx, length out)"
  proof (cases "?idx = kBacnetNoArrayIndex")
    case False
    then have "readContextValue out (10 + length ?fields) 2 =
        Ok (?idx, 10 + length ?fields + length (writeContextUnsigned 2 ?idx))"
      using s by (intro ctxUnsigned.dec_enc) (simp_all add: add.assoc)
    moreover have "0 < length (writeContextUnsigned 2 ?idx)" using ctxUnsigned.enc_nonempty by simp
    ultimately show ?thesis using False len by simp
  qed (simp add: len)
  show ?thesis
    using idx unfolding parseReadPropertyRequest_def hdr
    by (simp add: o decodeObjectId_encodeObjectId [OF assms(1)] del: length_append)
qed

theorem readPropertyRequest_roundtrip_witness:
  "parseReadPropertyRequest [129, 10, 0, 19, 1, 4, 0, 5, 9, 12, 12, 0, 128, 0, 7, 25, 85, 41, 3] =
     Ok (ReadProperty, \<lparr>rrInvokeId = 9, rrRequest =
       \<lparr>rqObject = \<lparr>objType = 2, objInstance = 7\<rparr>, rqProperty = 85, rqArrayIndex = 3\<rparr>\<rparr>)"
proof (rule readPropertyRequest_roundtrip)
  show "validObjectId (rqObject \<lparr>rqObject = \<lparr>objType = 2, objInstance = 7\<rparr>, rqProperty = 85, rqArrayIndex = 3\<rparr>)"
    by code_simp
  show "buildReadPropertyRequest 25
      \<lparr>rqObject = \<lparr>objType = 2, objInstance = 7\<rparr>, rqProperty = 85, rqArrayIndex = 3\<rparr> 9 =
    Ok [129, 10, 0, 19, 1, 4, 0, 5, 9, 12, 12, 0, 128, 0, 7, 25, 85, 41, 3]" by code_simp
qed

text \<open>A value the wire carries is read back up to the text decoding adds.\<close>

lemma tagNumber_context: "nibble t \<Longrightarrow> tagNumberOf (hd (writeContextUnsigned t v)) = t"
  using length_nibble(1) [OF _ contextLength_bounds(1,2), of t v] by (simp add: writeContextUnsigned_eq)

lemma appendValue_datagram:
  "appendValue cap slack v out = Ok r \<Longrightarrow>
     \<exists>room bs. r = out @ bs \<and> encodeApplicationValue room v = Some bs"
  using appendValue_Ok by blast

text \<open>The layout of a service with one value between an opening and a closing tag.\<close>

lemma sits_service:
  assumes "sits buf off (fs @ os @ [x] @ bs @ [y] @ ps)"
    and "a = off + length fs" "b = a + length os" "c = b + 1 + length bs"
  shows "sits buf off fs" "sits buf a (os @ [x])" "sits buf b [x]" "sits buf (b + 1) bs"
    "sits buf c [y]" "sits buf (c + 1) ps"
    "length (fs @ os @ [x] @ bs @ [y] @ ps) = c + 1 + length ps - off"
  using assms(1) unfolding assms(2-4) sits_append by (simp_all add: add.assoc)

text \<open>
  C23: A WriteProperty request the client builds is parsed to the same request: object, property,
  array index, priority (absent unless one was given) and a value with the same meaning (same
  type and the payload that type uses).
\<close>

theorem writePropertyRequest_roundtrip:
  assumes read: "singleValueRead pr (woArrayIndex opts)" and real: "realPrintable v"
    and build: "buildWritePropertyRequest cap obj pr v opts invokeId = Ok out"
    and size: "length out \<le> 65000"
  shows "\<exists>w. parseWritePropertyRequest out =
      Ok (WriteProperty, \<lparr>wrInvokeId = invokeId,
        wrRequest = \<lparr>rqObject = obj, rqProperty = pr, rqArrayIndex = woArrayIndex opts\<rparr>,
        wrValue = w, wrHasPriority = (woHasPriority opts \<and> woPriority opts \<noteq> 0),
        wrPriority = (if woHasPriority opts then woPriority opts else 0)\<rparr>) \<and>
    normalValue w = normalValue v"
proof -
  let ?idx = "woArrayIndex opts" and ?pri = "woHasPriority opts \<and> woPriority opts \<noteq> 0"
  let ?fields = "writeContextObjectIdentifier 0 obj @ writeContextUnsigned 1 pr"
  let ?opt = "if ?idx \<noteq> kBacnetNoArrayIndex then writeContextUnsigned 2 ?idx else []"
  let ?prio = "if ?pri then writeContextUnsigned 4 (ucast (woPriority opts)) else []"
  have obj: "validObjectId obj"
    using build by (auto simp: buildWritePropertyRequest_def validObjectId_def Let_def not_less split: if_splits)
  obtain room bs where enc: "encodeApplicationValue room v = Some bs"
    and out0: "out = patchLength (confirmedRequestPrefix invokeId kServiceWriteProperty @
        ?fields @ ?opt @ [0x3E] @ bs @ [0x3F] @ ?prio)"
    using build unfolding buildWritePropertyRequest_def Let_def
    by (fastforce split: if_splits dest!: appendValue_datagram)
  define rest where "rest = ?fields @ ?opt @ [0x3E] @ bs @ [0x3F] @ ?prio"
  define body where "body = kNpduVersion # kNpduExpectingReply # kApduConfirmedRequest # 0x05 #
      invokeId # kServiceWriteProperty # rest"
  have out: "out = datagram kBvlcOriginalUnicastNpdu body"
    using out0 patchLength_prefixes(1) [of invokeId kServiceWriteProperty rest]
    unfolding body_def rest_def by simp
  have s: "sits out 10 rest" and len: "length out = 10 + length rest"
    unfolding out using confirmed_payload [OF body_def] by simp_all
  have hdr: "parseConfirmedRequestHeader out =
      Ok (Confirmed, \<lparr>crInvokeId = invokeId, crServiceChoice = kServiceWriteProperty, crApduOffset = 6\<rparr>)"
    unfolding out by (rule parseConfirmed_datagram [OF body_def]) (use size len in simp)
  define a b c e where "a = 10 + length ?fields" and "b = a + length ?opt" and "c = b + 1 + length bs"
    and "e = c + 1 + length ?prio"
  have parts: "sits out 10 ?fields" "sits out a (?opt @ [0x3E])" "sits out b [0x3E]" "sits out (b + 1) bs"
    "sits out c [0x3F]" "sits out (c + 1) ?prio"
    using sits_service [OF s [unfolded rest_def] a_def b_def c_def] by simp_all
  have e: "length out = e"
    using len sits_service(7) [OF s [unfolded rest_def] a_def b_def c_def]
    by (simp only: rest_def e_def) (simp add: a_def b_def c_def)
  have o: "readObjectProperty out 10 = Ok (encodeObjectId obj, pr, a)"
    unfolding a_def by (rule readObjectProperty_sits [OF obj parts(1)])
  have i: "optionalContext 2 kBacnetNoArrayIndex out a = Ok (?idx, b)"
    unfolding b_def
  proof (rule optionalContext_sits [OF _ parts(2)])
    show "\<not> contextTagAt 2 out (a + length ?opt)"
      using parts(3) by (simp add: b_def [symmetric] contextTagAt_def tag_fields)
  qed simp
  obtain w where w: "parseReadPropertyApplicationValue out (b + 1) pr emptyValue ?idx = Ok (w, c)"
    "normalValue w = normalValue v"
    using value_roundtrip [OF enc parts(4) read real, of emptyValue] by (auto simp: c_def)
  have p: "(if c + 1 < length out
       then obind (readContextValue out (c + 1) 4) (\<lambda>(priority, off).
              if priority > 0xFF then Fail else Ok (True, ucast priority :: u8, off))
       else Ok (False, 0, c + 1)) =
      Ok (?pri, if woHasPriority opts then woPriority opts else 0, length out)"
  proof (cases ?pri)
    case True
    then have "readContextValue out (c + 1) 4 =
        Ok (ucast (woPriority opts), c + 1 + length (writeContextUnsigned 4 (ucast (woPriority opts))))"
      using parts(6) by (intro ctxUnsigned.dec_enc) simp_all
    moreover have "\<not> ucast (woPriority opts) > (0xFF :: u32)"
      using unat_u8 [of "woPriority opts"] by (simp add: not_less word_le_nat_alt)
    moreover have "0 < length (writeContextUnsigned 4 (ucast (woPriority opts)))"
      using ctxUnsigned.enc_nonempty by simp
    ultimately show ?thesis using True e by (simp add: e_def)
  qed (use e in \<open>auto simp: e_def\<close>)
  define b1 c1 hp pv where "b1 = b + 1" and "c1 = c + 1" and "hp = ?pri"
    and "pv = (if woHasPriority opts then woPriority opts else 0)"
  note steps = o i expect_sits [OF parts(3), folded b1_def] w(1) [folded b1_def]
    expect_sits [OF parts(5), folded c1_def] p [folded c1_def hp_def pv_def]
  show ?thesis
    unfolding parseWritePropertyRequest_def hdr hp_def [symmetric] pv_def [symmetric]
    by (rule exI [of _ w]) (simp add: steps w(2) decodeObjectId_encodeObjectId [OF obj])
qed

theorem writePropertyRequest_roundtrip_witness:
  "\<exists>w. parseWritePropertyRequest
      [129, 10, 0, 24, 1, 4, 0, 5, 9, 15, 12, 0, 128, 0, 7, 25, 85, 62, 34, 1, 244, 63, 73, 8] =
    Ok (WriteProperty, \<lparr>wrInvokeId = 9,
      wrRequest = \<lparr>rqObject = \<lparr>objType = 2, objInstance = 7\<rparr>, rqProperty = 85, rqArrayIndex = kBacnetNoArrayIndex\<rparr>,
      wrValue = w, wrHasPriority = True, wrPriority = 8\<rparr>) \<and>
    normalValue w = normalValue (emptyValue\<lparr>vType := TyUnsigned, vUnsigned := 500\<rparr>)"
proof -
  let ?v = "emptyValue\<lparr>vType := TyUnsigned, vUnsigned := 500\<rparr>"
  let ?opts = "\<lparr>woArrayIndex = kBacnetNoArrayIndex, woHasPriority = True, woPriority = 8\<rparr>"
  have build: "buildWritePropertyRequest 40 \<lparr>objType = 2, objInstance = 7\<rparr> 85 ?v ?opts 9 =
    Ok [129, 10, 0, 24, 1, 4, 0, 5, 9, 15, 12, 0, 128, 0, 7, 25, 85, 62, 34, 1, 244, 63, 73, 8]"
    by code_simp
  have read: "singleValueRead 85 (woArrayIndex ?opts)" and real: "realPrintable ?v" by code_simp+
  from writePropertyRequest_roundtrip [OF read real build] show ?thesis by simp
qed

lemma drop_bit_encodeObjectId: "\<not> drop_bit 22 (x :: u32) > 1023"
proof -
  have "unat x div 2 ^ 22 < 1024" using unat_u32 [of x] by (simp add: less_mult_imp_div_less)
  then show ?thesis by (simp add: not_less word_le_nat_alt drop_bit_eq_div unat_div)
qed

lemma contextTagAt_sits: "nibble t \<Longrightarrow> sits buf off (writeContextUnsigned t v) \<Longrightarrow> contextTagAt t buf off"
  using length_nibble [OF _ contextLength_bounds(1,2), of t v]
  by (simp add: contextTagAt_def writeContextUnsigned_eq)

lemma optionalContext_present:
  "nibble t \<Longrightarrow> sits buf off (writeContextUnsigned t v) \<Longrightarrow>
     optionalContext t d buf off = Ok (v, off + length (writeContextUnsigned t v))"
  by (simp add: optionalContext_def contextTagAt_sits ctxUnsigned.dec_enc)

lemma writeContextBoolean_eq: "writeContextBoolean t b = writeContextUnsigned t (if b then 1 else 0)"
  by (simp add: writeContextBoolean_def writeContextUnsigned_def)

text \<open>
  A SubscribeCOV request is parsed to the process, object, confirmed flag and lifetime it was
  built from.
\<close>

theorem subscribeCov_roundtrip:
  assumes obj: "validObjectId obj"
    and build: "buildSubscribeCovRequest cap processId obj lifetime confirmed = Ok out"
  shows "parseSubscribeCovRequest out =
    Ok (SubscribeCov, emptySubscribeCov\<lparr>scInvokeId := 0, scProcessId := processId, scObject := obj,
      scConfirmed := confirmed, scLifetime := lifetime\<rparr>)"
proof -
  define p1 p2 p3 p4 where "p1 = writeContextUnsigned 0 processId" and "p2 = writeContextObjectIdentifier 1 obj"
    and "p3 = writeContextUnsigned 2 (if confirmed then 1 else 0)" and "p4 = writeContextUnsigned 3 lifetime"
  define body where "body = kNpduVersion # kNpduExpectingReply # kApduConfirmedRequest # 0x05 #
      0 # kServiceSubscribeCov # (p1 @ p2 @ p3 @ p4)"
  have out: "out = datagram kBvlcOriginalUnicastNpdu body"
    using build patchLength_prefixes(1) [of 0 kServiceSubscribeCov "p1 @ p2 @ p3 @ p4"]
    by (auto simp: buildSubscribeCovRequest_def body_def p1_def p2_def p3_def p4_def writeContextBoolean_eq
        Let_def split: if_splits)
  have short: "length p1 \<le> 5" "length p2 = 5" "length p3 \<le> 5" "length p4 \<le> 5"
    using contextUnsignedSize_bounds(2) by (simp_all add: p1_def p2_def p3_def p4_def capacity)
  have hdr: "parseConfirmedRequestHeader out =
      Ok (Confirmed, \<lparr>crInvokeId = 0, crServiceChoice = kServiceSubscribeCov, crApduOffset = 6\<rparr>)"
    unfolding out by (rule parseConfirmed_datagram [OF body_def]) (use short in simp)
  have s: "sits out 10 (p1 @ p2 @ p3 @ p4)" and len: "length out = 10 + length (p1 @ p2 @ p3 @ p4)"
    unfolding out using confirmed_payload [OF body_def] by simp_all
  define a b c where "a = 10 + length p1" and "b = a + length p2" and "c = b + length p3"
  have parts: "sits out 10 p1" "sits out a p2" "sits out b p3" "sits out c p4" "length out = c + length p4"
    using s len by (simp_all add: a_def b_def c_def add.assoc)
  have "readContextValue out 10 0 = Ok (processId, a)"
    using ctxUnsigned.dec_enc [OF _ parts(1) [unfolded p1_def]] by (simp add: a_def p1_def)
  moreover have "readContextValue out a 1 = Ok (encodeObjectId obj, b)"
    using readContextValue_sits [of 1 4 "encodeObjectId obj" out a] parts(2)
    by (simp add: p2_def writeContextObjectIdentifier_eq b_def)
  moreover have "optionalContext 2 0 out b = Ok (if confirmed then 1 else 0, c)"
    using optionalContext_present [OF _ parts(3) [unfolded p3_def]] by (simp add: c_def p3_def)
  moreover have "optionalContext 3 0 out c = Ok (lifetime, length out)"
    using optionalContext_present [OF _ parts(4) [unfolded p4_def]] parts(5) by (simp add: p4_def)
  ultimately show ?thesis
    by (simp add: parseSubscribeCovRequest_def hdr Let_def drop_bit_encodeObjectId
        decodeObjectId_encodeObjectId [OF obj] emptySubscribeCov_def f32_zero_def)
qed

theorem subscribeCov_roundtrip_witness:
  "parseSubscribeCovRequest
      [129, 10, 0, 22, 1, 4, 0, 5, 0, 5, 9, 17, 28, 0, 128, 0, 7, 41, 1, 58, 1, 44] =
    Ok (SubscribeCov, emptySubscribeCov\<lparr>scInvokeId := 0, scProcessId := 17,
      scObject := \<lparr>objType = 2, objInstance = 7\<rparr>, scConfirmed := True, scLifetime := 300\<rparr>)"
proof (rule subscribeCov_roundtrip)
  show "buildSubscribeCovRequest 40 17 \<lparr>objType = 2, objInstance = 7\<rparr> 300 True =
    Ok [129, 10, 0, 22, 1, 4, 0, 5, 0, 5, 9, 17, 28, 0, 128, 0, 7, 41, 1, 58, 1, 44]" by code_simp
qed code_simp

text \<open>
  The increment is only read back when it is not below zero; a build with a negative one is
  rejected by the parser.
\<close>

text \<open>
  C24: A SubscribeCOVProperty request is parsed to the process, object, property reference,
  confirmed flag, lifetime and optional (non-negative) COV increment it was built from.
\<close>

theorem subscribeCovProperty_roundtrip:
  assumes obj: "validObjectId obj"
    and build: "buildSubscribeCovPropertyRequest cap processId obj pr lifetime confirmed idx has inc = Ok out"
    and inc: "has \<Longrightarrow> \<not> f32_less inc f32_zero"
  shows "parseSubscribeCovRequest out =
    Ok (SubscribeCovProperty, \<lparr>scInvokeId = 0, scProcessId = processId, scObject = obj,
      scIsProperty = True, scProperty = pr, scArrayIndex = idx, scConfirmed = confirmed,
      scLifetime = lifetime, scHasIncrement = has, scIncrement = (if has then inc else f32_zero)\<rparr>)"
proof -
  define p1 p2 p3 p4 p5 p6 p7 where "p1 = writeContextUnsigned 0 processId"
    and "p2 = writeContextObjectIdentifier 1 obj" and "p3 = writeContextUnsigned 0 pr"
    and "p4 = (if idx \<noteq> kBacnetNoArrayIndex then writeContextUnsigned 1 idx else [])"
    and "p5 = writeContextUnsigned 3 (if confirmed then 1 else 0)" and "p6 = writeContextUnsigned 4 lifetime"
    and "p7 = (if has then writeContextReal 5 inc else [])"
  define rest where "rest = p1 @ p2 @ [0x2E] @ p3 @ p4 @ [0x2F] @ p5 @ p6 @ p7"
  define body where "body = kNpduVersion # kNpduExpectingReply # kApduConfirmedRequest # 0x05 #
      0 # kServiceSubscribeCovProperty # rest"
  have out: "out = datagram kBvlcOriginalUnicastNpdu body"
    using build patchLength_prefixes(1) [of 0 kServiceSubscribeCovProperty rest]
    unfolding buildSubscribeCovPropertyRequest_def Let_def writeContextBoolean_eq p1_def [symmetric]
      p2_def [symmetric] p3_def [symmetric] p4_def [symmetric] p5_def [symmetric] p6_def [symmetric]
      p7_def [symmetric] rest_def [symmetric] body_def [symmetric]
    by (auto split: if_splits)
  have short: "length p1 \<le> 5" "length p2 = 5" "length p3 \<le> 5" "length p4 \<le> 5" "length p5 \<le> 5"
      "length p6 \<le> 5" "length p7 \<le> 5"
    using contextUnsignedSize_bounds(2)
    by (simp_all add: p1_def p2_def p3_def p4_def p5_def p6_def p7_def capacity)
  have hdr: "parseConfirmedRequestHeader out =
      Ok (Confirmed, \<lparr>crInvokeId = 0, crServiceChoice = kServiceSubscribeCovProperty, crApduOffset = 6\<rparr>)"
    unfolding out by (rule parseConfirmed_datagram [OF body_def]) (use short in \<open>simp add: rest_def\<close>)
  have s: "sits out 10 rest" and len: "length out = 10 + length rest"
    unfolding out using confirmed_payload [OF body_def] by simp_all
  define a b c d e f where "a = 10 + length p1" and "b = a + length p2" and "c = b + 1 + length p3"
    and "d = c + length p4" and "e = d + 1 + length p5" and "f = e + length p6"
  have parts: "sits out 10 p1" "sits out a p2" "sits out b [0x2E]" "sits out (b + 1) p3" "sits out c p4"
      "sits out d [0x2F]" "sits out (d + 1) p5" "sits out e p6" "sits out f p7" "length out = f + length p7"
    using s len unfolding rest_def by (simp_all add: a_def b_def c_def d_def e_def f_def add.assoc)
  have "readContextValue out 10 0 = Ok (processId, a)"
    using ctxUnsigned.dec_enc [OF _ parts(1) [unfolded p1_def]] by (simp add: a_def p1_def)
  moreover have "readContextValue out a 1 = Ok (encodeObjectId obj, b)"
    using readContextValue_sits [of 1 4 "encodeObjectId obj" out a] parts(2)
    by (simp add: p2_def writeContextObjectIdentifier_eq b_def)
  moreover have "readContextValue out (b + 1) 0 = Ok (pr, c)"
    using ctxUnsigned.dec_enc [OF _ parts(4) [unfolded p3_def]] by (simp add: c_def p3_def)
  moreover have "optionalContext 1 kBacnetNoArrayIndex out c = Ok (idx, d)"
  proof (cases "idx = kBacnetNoArrayIndex")
    case True
    then have "d = c" by (simp add: d_def p4_def)
    with parts(6) have "\<not> contextTagAt 1 out c" by (simp add: contextTagAt_def tag_fields)
    with True \<open>d = c\<close> show ?thesis by (simp add: optionalContext_def)
  next
    case False
    then have "sits out c (writeContextUnsigned 1 idx)" using parts(5) by (simp add: p4_def)
    from optionalContext_present [OF _ this] False show ?thesis by (simp add: d_def p4_def)
  qed
  moreover have "optionalContext 3 0 out (d + 1) = Ok (if confirmed then 1 else 0, e)"
    using optionalContext_present [OF _ parts(7) [unfolded p5_def]] by (simp add: e_def p5_def)
  moreover have "optionalContext 4 0 out e = Ok (lifetime, f)"
    using optionalContext_present [OF _ parts(8) [unfolded p6_def]] by (simp add: f_def p6_def)
  moreover have "(if contextTagAt 5 out f
      then obind (readContextReal out f 5) (\<lambda>(increment, off).
             if f32_less increment f32_zero then Fail else Ok (True, increment, off))
      else Ok (False, f32_zero, f)) = Ok (has, if has then inc else f32_zero, length out)"
  proof (cases has)
    case True
    then have s7: "sits out f (writeContextReal 5 inc)" using parts(9) by (simp add: p7_def)
    then have "contextTagAt 5 out f" by (simp add: writeContextReal_def contextTagAt_def tag_fields)
    with ctxReal.dec_enc [OF _ s7] True inc parts(10) show ?thesis by (simp add: p7_def)
  next
    case False
    then show ?thesis using parts(10) by (simp add: p7_def contextTagAt_def)
  qed
  ultimately show ?thesis
    by (simp add: parseSubscribeCovRequest_def hdr Let_def drop_bit_encodeObjectId
        expect_sits [OF parts(3)] expect_sits [OF parts(6)] decodeObjectId_encodeObjectId [OF obj])
qed

theorem subscribeCovProperty_roundtrip_witness:
  "parseSubscribeCovRequest
      [129, 10, 0, 31, 1, 4, 0, 5, 0, 28, 9, 17, 28, 0, 128, 0, 7, 46, 9, 85, 47, 57, 1, 74, 1, 44,
       92, 63, 128, 0, 0] =
    Ok (SubscribeCovProperty, \<lparr>scInvokeId = 0, scProcessId = 17,
      scObject = \<lparr>objType = 2, objInstance = 7\<rparr>, scIsProperty = True, scProperty = 85,
      scArrayIndex = kBacnetNoArrayIndex, scConfirmed = True, scLifetime = 300, scHasIncrement = True,
      scIncrement = (if True then f32_one else f32_zero)\<rparr>)"
proof (rule subscribeCovProperty_roundtrip)
  show "buildSubscribeCovPropertyRequest 60 17 \<lparr>objType = 2, objInstance = 7\<rparr> 85 300 True
      kBacnetNoArrayIndex True f32_one =
    Ok [129, 10, 0, 31, 1, 4, 0, 5, 0, 28, 9, 17, 28, 0, 128, 0, 7, 46, 9, 85, 47, 57, 1, 74, 1, 44,
       92, 63, 128, 0, 0]" by code_simp
  show "validObjectId \<lparr>objType = 2, objInstance = 7\<rparr>" by code_simp
  show "\<not> f32_less f32_one f32_zero" by (simp add: f32_eval)
qed

section \<open>I-Am\<close>

lemma writeApplicationUnsigned_read:
  "nibble t \<Longrightarrow> sits buf off (writeApplicationUnsigned t v) \<Longrightarrow>
     readApplicationValue buf off t = Ok (v, off + length (writeApplicationUnsigned t v))"
  using readApplicationValue_sits [OF _ unsignedLength_bounds, of t buf off v]
  by (simp add: writeApplicationUnsigned_def)

text \<open>The payload of a datagram with a two-byte unconfirmed service header.\<close>

lemma unconfirmed_payload:
  assumes "body = kNpduVersion # 0 # kApduUnconfirmedRequest # s # rest"
  shows "sits (datagram f body) 4 [kNpduVersion, 0, kApduUnconfirmedRequest, s]"
    and "sits (datagram f body) 8 rest" and "length (datagram f body) = 8 + length rest"
proof -
  have "sits body 0 body" by simp
  then have "sits body 0 [kNpduVersion, 0, kApduUnconfirmedRequest, s]" "sits body 4 rest"
    unfolding assms by (simp_all add: eval_nat_numeral)
  then show "sits (datagram f body) 4 [kNpduVersion, 0, kApduUnconfirmedRequest, s]"
    "sits (datagram f body) 8 rest"
    using sits_datagram [of f body 0] sits_datagram [of f body 4] by (simp_all del: sits.simps)
  show "length (datagram f body) = 8 + length rest" by (simp add: assms)
qed

text \<open>
  An I-Am announcement built by the server is read back by a client with the same device
  instance, APDU size, segmentation and vendor.
\<close>

theorem iAm_roundtrip:
  assumes "buildIAmResponse cap device = Ok out"
  shows "parseIAmResponse out = Ok device"
proof -
  define obj where "obj = push_bit 22 (8 :: u32) OR iaDeviceInstance device"
  define p1 p2 p3 p4 where "p1 = 0xC4 # beBytes 4 obj"
    and "p2 = writeApplicationUnsigned kApplicationTagUnsigned (iaMaxApdu device)"
    and "p3 = writeApplicationUnsigned kApplicationTagEnumerated (ucast (iaSegmentation device))"
    and "p4 = writeApplicationUnsigned kApplicationTagUnsigned (ucast (iaVendorId device))"
  define rest where "rest = p1 @ p2 @ p3 @ p4"
  define body where "body = kNpduVersion # 0 # kApduUnconfirmedRequest # kServiceIAm # rest"
  have inst: "iaDeviceInstance device \<le> kObjectInstanceMask"
    and out: "out = datagram kBvlcOriginalUnicastNpdu body"
    using assms patchLength_datagram [of kBvlcOriginalUnicastNpdu 0 0 body]
    by (auto simp: buildIAmResponse_def body_def rest_def p1_def p2_def p3_def p4_def obj_def
        beBytes_small Let_def not_less split: if_splits)
  have enc: "obj = encodeObjectId \<lparr>objType = kDeviceObjectType, objInstance = iaDeviceInstance device\<rparr>"
  proof -
    have "take_bit 22 (iaDeviceInstance device) = iaDeviceInstance device"
      using inst by (auto simp: kObjectInstanceMask_def intro: take_bit_le)
    then show ?thesis
      by (simp add: obj_def encodeObjectId_def kObjectInstanceMask_def take_bit_eq_mask mask_eq_exp_minus_1)
  qed
  have dec: "ucast (drop_bit 22 obj) = kDeviceObjectType" "obj AND kObjectInstanceMask = iaDeviceInstance device"
    using decodeObjectId_encodeObjectId [of "\<lparr>objType = kDeviceObjectType, objInstance = iaDeviceInstance device\<rparr>"] inst
    by (simp_all add: enc [symmetric] decodeObjectId_def validObjectId_def)
  have ty: "drop_bit 22 obj = ucast kDeviceObjectType"
  proof -
    have "drop_bit 22 obj \<le> 1023" using drop_bit_encodeObjectId [of obj] by (simp add: not_less)
    then have "take_bit 16 (drop_bit 22 obj) = drop_bit 22 obj" by (auto intro: take_bit_le)
    then have "ucast (ucast (drop_bit 22 obj) :: u16) = drop_bit 22 obj"
      by (simp add: unsigned_ucast_eq)
    with dec(1) show ?thesis by simp
  qed
  have short: "length p1 = 5" "2 \<le> length p2" "length p2 \<le> 5" "2 \<le> length p3" "length p3 \<le> 5"
      "2 \<le> length p4" "length p4 \<le> 5"
    by (simp_all add: p1_def p2_def p3_def p4_def capacity applicationUnsignedSize_def)
  note pay = unconfirmed_payload [OF body_def, of kBvlcOriginalUnicastNpdu, folded out]
  define a b c where "a = 8 + length p1" and "b = a + length p2" and "c = b + length p3"
  have parts: "sits out 8 p1" "sits out a p2" "sits out b p3" "sits out c p4" "length out = c + length p4"
    using pay(2,3) unfolding rest_def by (simp_all add: a_def b_def c_def add.assoc)
  have frame: "bvlcHeader 14 True out = Ok 4"
    unfolding out by (rule bvlcHeader_datagram) (use short in \<open>simp_all add: body_def rest_def\<close>)
  have r1: "readApplicationValue out 8 12 = Ok (obj, a)"
    using readApplicationValue_sits [of 12 4 obj out 8] parts(1) short(1)
    by (simp add: p1_def a_def)
  have r2: "readApplicationValue out a 2 = Ok (iaMaxApdu device, b)"
    using writeApplicationUnsigned_read [OF _ parts(2) [unfolded p2_def]] by (simp add: b_def p2_def)
  have r3: "readApplicationValue out b 9 = Ok (ucast (iaSegmentation device), c)"
    using writeApplicationUnsigned_read [OF _ parts(3) [unfolded p3_def]] by (simp add: c_def p3_def)
  have r4: "readApplicationValue out c 2 = Ok (ucast (iaVendorId device), length out)"
    using writeApplicationUnsigned_read [OF _ parts(4) [unfolded p4_def]] parts(5) by (simp add: p4_def)
  have fits: "\<not> ucast (iaSegmentation device) > (0xFF :: u32)" "\<not> ucast (iaVendorId device) > (0xFFFF :: u32)"
    using unat_u8 [of "iaSegmentation device"] unat_u16 [of "iaVendorId device"]
    by (simp_all add: not_less word_le_nat_alt)
  have m: "match kNpduVersion out 4 = Ok 5" "rd out 5 = Ok 0" "match kApduUnconfirmedRequest out 6 = Ok 7"
      "match kServiceIAm out 7 = Ok 8" "8 \<le> length out"
    using pay(1,3) by (simp_all add: match_def)
  show ?thesis
    using m fits
    by (cases device) (simp add: parseIAmResponse_def frame r1 r2 r3 r4 ty dec Let_def)
qed

theorem iAm_roundtrip_witness:
  "parseIAmResponse [129, 10, 0, 21, 1, 0, 16, 0, 196, 2, 0, 4, 210, 34, 5, 196, 145, 3, 34, 3, 231] =
     Ok \<lparr>iaDeviceInstance = 1234, iaMaxApdu = 1476, iaSegmentation = 3, iaVendorId = 999\<rparr>"
proof (rule iAm_roundtrip)
  show "buildIAmResponse 40 \<lparr>iaDeviceInstance = 1234, iaMaxApdu = 1476, iaSegmentation = 3, iaVendorId = 999\<rparr> =
    Ok [129, 10, 0, 21, 1, 0, 16, 0, 196, 2, 0, 4, 210, 34, 5, 196, 145, 3, 34, 3, 231]" by code_simp
qed

end
