(* ===== verification/Responses.thy ===== *)
theory Responses
  imports RequestLaws
begin

text \<open>
  The responses of src/src/core/protocol/BacnetProtocol.cpp: the ReadProperty acknowledgement in
  its plain and list forms, errors and simple acknowledgements with their builders, the parsers
  and classifiers on the client side, and the technical names of the technical log.
\<close>

unbundle bit_operations_syntax

section \<open>Building acknowledgements and errors\<close>

definition buildReadPropertyAck ::
    "nat \<Rightarrow> BacnetReadPropertyRequestHeader \<Rightarrow> BacnetValue \<Rightarrow> bytes outcome" where
  "buildReadPropertyAck cap request v =
     (let r = rrRequest request in
      if objType (rqObject r) > 1023 \<or> objInstance (rqObject r) > kObjectInstanceMask \<or> cap < 20
      then Fail
      else obind (emit cap
          (responsePrefix kApduComplexAck (rrInvokeId request) kServiceReadProperty @
           writeContextObjectIdentifier 0 (rqObject r) @ writeContextUnsigned 1 (rqProperty r) @
           (if rqArrayIndex r \<noteq> kBacnetNoArrayIndex
            then writeContextUnsigned 2 (rqArrayIndex r) else [])) []) (\<lambda>out.
        if length out + 2 > cap then Fail
        else obind (emit cap [0x3E] out) (\<lambda>out.
        obind (appendValue cap 1 v out) (\<lambda>out.
          if length out + 1 > cap then Fail
          else obind (emit cap [0x3F] out) (\<lambda>out. Ok (patchLength out))))))"

text \<open>The three error builders differ in the service they name.\<close>

definition enumerated :: "u32 \<Rightarrow> BacnetValue" where
  "enumerated x = emptyValue\<lparr>vType := TyEnumerated, vUnsigned := x\<rparr>"

definition unsignedValue :: "u32 \<Rightarrow> BacnetValue" where
  "unsignedValue x = emptyValue\<lparr>vType := TyUnsigned, vUnsigned := x\<rparr>"

definition buildServiceErrorResponse :: "nat \<Rightarrow> u8 \<Rightarrow> u8 \<Rightarrow> u32 \<Rightarrow> u32 \<Rightarrow> bytes outcome" where
  "buildServiceErrorResponse cap invokeId serviceChoice errorClass errorCode =
     (if cap < 13 then Fail
      else obind (emit cap (responsePrefix kApduError invokeId serviceChoice) []) (\<lambda>out.
           obind (appendValue cap 0 (enumerated errorClass) out) (\<lambda>out.
           obind (appendValue cap 0 (enumerated errorCode) out) (\<lambda>out.
             Ok (patchLength out)))))"

definition buildReadPropertyError :: "nat \<Rightarrow> u8 \<Rightarrow> u32 \<Rightarrow> u32 \<Rightarrow> bytes outcome" where
  "buildReadPropertyError cap invokeId errorClass errorCode =
     (if cap < 13 then Fail
      else obind (emit cap (responsePrefix kApduError invokeId kServiceReadProperty) []) (\<lambda>out.
           obind (appendValue cap 0 (enumerated errorClass) out) (\<lambda>out.
           obind (appendValue cap 0 (enumerated errorCode) out) (\<lambda>out.
             Ok (patchLength out)))))"

definition buildWritePropertyError :: "nat \<Rightarrow> u8 \<Rightarrow> u32 \<Rightarrow> u32 \<Rightarrow> bytes outcome" where
  "buildWritePropertyError cap invokeId errorClass errorCode =
     (if cap < 13 then Fail
      else obind (emit cap (responsePrefix kApduError invokeId kServiceWriteProperty) []) (\<lambda>out.
           obind (appendValue cap 0 (enumerated errorClass) out) (\<lambda>out.
           obind (appendValue cap 0 (enumerated errorCode) out) (\<lambda>out.
             Ok (patchLength out)))))"

definition buildSimpleAckResponse :: "nat \<Rightarrow> u8 \<Rightarrow> u8 \<Rightarrow> bytes outcome" where
  "buildSimpleAckResponse cap invokeId serviceChoice =
     (if cap < 9 then Fail
      else emit cap [kBvlcTypeBacnetIp, kBvlcOriginalUnicastNpdu, 0, 9, kNpduVersion, 0,
             kApduSimpleAck, invokeId, serviceChoice] [])"

definition buildWritePropertyAck :: "nat \<Rightarrow> u8 \<Rightarrow> bytes outcome" where
  "buildWritePropertyAck cap invokeId =
     (if cap < 9 then Fail
      else emit cap [kBvlcTypeBacnetIp, kBvlcOriginalUnicastNpdu, 0, 9, kNpduVersion, 0,
             kApduSimpleAck, invokeId, kServiceWriteProperty] [])"

section \<open>List acknowledgements\<close>

definition writeReadPropertyAckPrefix :: "nat \<Rightarrow> BacnetReadPropertyRequestHeader \<Rightarrow> bytes outcome" where
  "writeReadPropertyAckPrefix cap request =
     (let r = rrRequest request in
      if cap < 16 \<or> objType (rqObject r) > 1023 \<or> objInstance (rqObject r) > kObjectInstanceMask
      then Fail
      else emit cap
          (responsePrefix kApduComplexAck (rrInvokeId request) kServiceReadProperty @
           writeContextObjectIdentifier 0 (rqObject r) @ writeContextUnsigned 1 (rqProperty r) @
           (if rqArrayIndex r \<noteq> kBacnetNoArrayIndex
            then writeContextUnsigned 2 (rqArrayIndex r) else [])) [])"

definition finishReadPropertyAck :: "bytes \<Rightarrow> bytes outcome" where
  "finishReadPropertyAck out = (if length out > 0xFFFF then Fail else Ok (patchLength out))"

text \<open>The prefix and the opening tag, and the closing tag with the length.\<close>

definition openListAck :: "nat \<Rightarrow> BacnetReadPropertyRequestHeader \<Rightarrow> bytes outcome" where
  "openListAck cap request =
     obind (writeReadPropertyAckPrefix cap request) (\<lambda>out.
       if length out = 0 \<or> length out + 2 > cap then Fail else emit cap [0x3E] out)"

definition closeListAck :: "nat \<Rightarrow> bytes \<Rightarrow> bytes outcome" where
  "closeListAck cap out =
     (if length out \<ge> cap then Fail else obind (emit cap [0x3F] out) finishReadPropertyAck)"

text \<open>The loop of a list acknowledgement: the entries \<open>index, ..., index + n - 1\<close>.\<close>

primrec appendEntries :: "nat \<Rightarrow> (nat \<Rightarrow> BacnetValue option) \<Rightarrow> nat \<Rightarrow> nat \<Rightarrow> bytes \<Rightarrow> bytes outcome" where
  "appendEntries cap entryAt index 0 out = Ok out"
| "appendEntries cap entryAt index (Suc n) out =
     obind (of_option (entryAt index)) (\<lambda>v.
     obind (appendValue cap 1 v out) (\<lambda>out. appendEntries cap entryAt (index + 1) n out))"

text \<open>
  The body of the priority-array, object-list and property-list builders: entry 0 is the
  number of entries, no index is all of them.
\<close>

definition appendList :: "nat \<Rightarrow> u32 \<Rightarrow> nat \<Rightarrow> (nat \<Rightarrow> BacnetValue option) \<Rightarrow> bytes \<Rightarrow> bytes outcome" where
  "appendList cap arrayIndex count entryAt out =
     (if arrayIndex = 0 then appendValue cap 1 (unsignedValue (word_of_nat count)) out
      else if arrayIndex \<noteq> kBacnetNoArrayIndex
      then let index = unat (arrayIndex - 1) in
        if index \<ge> count then Fail
        else obind (of_option (entryAt index)) (\<lambda>v. appendValue cap 1 v out)
      else appendEntries cap entryAt 0 count out)"

text \<open>A null provider is \<open>None\<close>; \<open>valueAt i = None\<close> is the provider's \<open>false\<close>.\<close>

definition buildReadPropertyPriorityArrayAck ::
    "nat \<Rightarrow> BacnetReadPropertyRequestHeader \<Rightarrow> nat \<Rightarrow> (nat \<Rightarrow> BacnetValue option) option \<Rightarrow> bytes outcome" where
  "buildReadPropertyPriorityArrayAck cap request slotCount valueAt =
     (if rqProperty (rrRequest request) \<noteq> PropPriorityArray then Fail
      else if slotCount = 0 then Fail
      else case valueAt of None \<Rightarrow> Fail
      | Some valueAt \<Rightarrow>
          obind (openListAck cap request) (\<lambda>out.
          obind (appendList cap (rqArrayIndex (rrRequest request)) slotCount valueAt out)
            (closeListAck cap)))"

definition priorityArrayValueEntry :: "BacnetPriorityArray \<Rightarrow> nat \<Rightarrow> BacnetValue option" where
  "priorityArrayValueEntry values index =
     (if index \<ge> kSlotCount \<or> index \<ge> length values then None else values ! index)"

definition buildReadPropertyPriorityArrayAckOf ::
    "nat \<Rightarrow> BacnetReadPropertyRequestHeader \<Rightarrow> BacnetPriorityArray \<Rightarrow> bytes outcome" where
  "buildReadPropertyPriorityArrayAckOf cap request values =
     buildReadPropertyPriorityArrayAck cap request kSlotCount (Some (priorityArrayValueEntry values))"

definition stringEntry :: "cstring list \<Rightarrow> nat \<Rightarrow> BacnetValue option" where
  "stringEntry strings index =
     (case strings ! index of None \<Rightarrow> None
      | Some s \<Rightarrow>
          if length s \<ge> kMaxTextLength then None
          else Some (emptyValue\<lparr>vText := s, vTextLength := length s, vType := TyCharacterString\<rparr>))"

definition buildReadPropertyCharacterStringListAck ::
    "nat \<Rightarrow> BacnetReadPropertyRequestHeader \<Rightarrow> cstring list \<Rightarrow> bytes outcome" where
  "buildReadPropertyCharacterStringListAck cap request strings =
     (let arrayIndex = rqArrayIndex (rrRequest request); stringCount = length strings in
      if rqProperty (rrRequest request) \<noteq> PropStateText \<or> stringCount = 0 then Fail
      else obind (openListAck cap request) (\<lambda>out.
        obind (if arrayIndex = 0 then appendValue cap 1 (unsignedValue (word_of_nat stringCount)) out
               else
                 let first = (if arrayIndex = kBacnetNoArrayIndex then 0 else unat (arrayIndex - 1));
                     last = (if arrayIndex = kBacnetNoArrayIndex then stringCount else first + 1) in
                 if first \<ge> stringCount then Fail
                 else appendEntries cap (stringEntry strings) first (last - first) out)
          (closeListAck cap)))"

definition objectEntry :: "(nat \<Rightarrow> BacnetObjectId option) \<Rightarrow> nat \<Rightarrow> BacnetValue option" where
  "objectEntry objectAt index =
     map_option (\<lambda>object. emptyValue\<lparr>vType := TyObjectIdentifier, vObject := object\<rparr>) (objectAt index)"

definition buildReadPropertyObjectListAck ::
    "nat \<Rightarrow> BacnetReadPropertyRequestHeader \<Rightarrow> nat \<Rightarrow> (nat \<Rightarrow> BacnetObjectId option) option \<Rightarrow> bytes outcome" where
  "buildReadPropertyObjectListAck cap request objectCount objectAt =
     (case objectAt of None \<Rightarrow> Fail
      | Some objectAt \<Rightarrow>
          if objectCount = 0 then Fail
          else obind (openListAck cap request) (\<lambda>out.
            obind (appendList cap (rqArrayIndex (rrRequest request)) objectCount (objectEntry objectAt) out)
              (closeListAck cap)))"

definition propertyEntry :: "(nat \<Rightarrow> BacnetPropertyId option) \<Rightarrow> nat \<Rightarrow> BacnetValue option" where
  "propertyEntry propertyAt index = map_option enumerated (propertyAt index)"

definition buildReadPropertyPropertyListAck ::
    "nat \<Rightarrow> BacnetReadPropertyRequestHeader \<Rightarrow> nat \<Rightarrow> (nat \<Rightarrow> BacnetPropertyId option) option \<Rightarrow> bytes outcome" where
  "buildReadPropertyPropertyListAck cap request propertyCount propertyAt =
     (case propertyAt of None \<Rightarrow> Fail
      | Some propertyAt \<Rightarrow>
          if propertyCount = 0 then Fail
          else obind (openListAck cap request) (\<lambda>out.
            obind (appendList cap (rqArrayIndex (rrRequest request)) propertyCount (propertyEntry propertyAt) out)
              (closeListAck cap)))"

text \<open>The overloads on an array of the given length.\<close>

definition objectListArrayEntry :: "BacnetObjectId list \<Rightarrow> nat \<Rightarrow> BacnetObjectId option" where
  "objectListArrayEntry objects index = (if index < length objects then Some (objects ! index) else None)"

definition buildReadPropertyObjectListAckOf ::
    "nat \<Rightarrow> BacnetReadPropertyRequestHeader \<Rightarrow> BacnetObjectId list \<Rightarrow> bytes outcome" where
  "buildReadPropertyObjectListAckOf cap request objects =
     buildReadPropertyObjectListAck cap request (length objects) (Some (objectListArrayEntry objects))"

definition buildReadPropertyPropertyListAckOf ::
    "nat \<Rightarrow> BacnetReadPropertyRequestHeader \<Rightarrow> BacnetPropertyId list \<Rightarrow> bytes outcome" where
  "buildReadPropertyPropertyListAckOf cap request properties =
     buildReadPropertyPropertyListAck cap request (length properties)
       (Some (\<lambda>index. if index < length properties then Some (properties ! index) else None))"

definition buildReadPropertyEmptyListAck :: "nat \<Rightarrow> BacnetReadPropertyRequestHeader \<Rightarrow> bytes outcome" where
  "buildReadPropertyEmptyListAck cap request =
     (if rqArrayIndex (rrRequest request) \<noteq> kBacnetNoArrayIndex then Fail
      else obind (writeReadPropertyAckPrefix cap request) (\<lambda>out.
        if length out = 0 \<or> length out + 2 > cap then Fail
        else obind (emit cap [0x3E, 0x3F] out) finishReadPropertyAck))"

section \<open>Parsing acknowledgements and errors\<close>

text \<open>\<open>readNpduHeader && offset + 3 <= length\<close>, then APDU type, invoke id and service.\<close>

definition responseHeader :: "nat \<Rightarrow> u8 \<Rightarrow> u8 \<Rightarrow> bytes \<Rightarrow> nat outcome" where
  "responseHeader k apduType expectedInvokeId buf =
     obind (bvlcHeader k False buf) (\<lambda>off.
     obind (readNpduHeader buf off) (\<lambda>off.
       if off + 3 > length buf then Fail
       else obind (rd buf off) (\<lambda>apdu. if apdu AND 0xF0 \<noteq> apduType then Fail
       else obind (match expectedInvokeId buf (off + 1)) (match kServiceReadProperty buf))))"

definition parseReadPropertyAck ::
    "bytes \<Rightarrow> u8 \<Rightarrow> BacnetPropertyRequest \<Rightarrow> BacnetValue outcome" where
  "parseReadPropertyAck buf expectedInvokeId expected =
     obind (responseHeader 17 kApduComplexAck expectedInvokeId buf) (\<lambda>off.
     obind (readContextValue buf off 0) (\<lambda>(objectIdentifier, off).
     if objectIdentifier \<noteq> encodeObjectId (rqObject expected) then Fail
     else obind (readContextValue buf off 1) (\<lambda>(propertyIdentifier, off).
     if propertyIdentifier \<noteq> rqProperty expected then Fail
     else obind
       (if contextTagAt 2 buf off
        then obind (readContextValue buf off 2) (\<lambda>(responseArrayIndex, off).
          if rqArrayIndex expected \<noteq> kBacnetNoArrayIndex \<and> responseArrayIndex \<noteq> rqArrayIndex expected
          then Fail else Ok (responseArrayIndex, off))
        else if rqArrayIndex expected \<noteq> kBacnetNoArrayIndex then Fail
        else Ok (kBacnetNoArrayIndex, off)) (\<lambda>(responseArrayIndex, off).
     obind (expect 0x3E buf off) (\<lambda>off.
     obind (parseReadPropertyApplicationValue buf off (rqProperty expected) emptyValue responseArrayIndex)
       (\<lambda>(v, off). obind (expect 0x3F buf off) (\<lambda>_. Ok v)))))))"

text \<open>The overload that checks the property alone.\<close>

definition parseReadPropertyAckOf ::
    "bytes \<Rightarrow> u8 \<Rightarrow> BacnetPropertyId \<Rightarrow> BacnetValue outcome" where
  "parseReadPropertyAckOf buf expectedInvokeId expectedProperty =
     obind (responseHeader 17 kApduComplexAck expectedInvokeId buf) (\<lambda>off.
     obind (readContextValue buf off 0) (\<lambda>(objectIdentifier, off).
     obind (readContextValue buf off 1) (\<lambda>(propertyIdentifier, off).
     if propertyIdentifier \<noteq> expectedProperty then Fail
     else obind (optionalContext 2 kBacnetNoArrayIndex buf off) (\<lambda>(responseArrayIndex, off).
     obind (expect 0x3E buf off) (\<lambda>off.
     obind (parseReadPropertyApplicationValue buf off expectedProperty emptyValue responseArrayIndex)
       (\<lambda>(v, off). obind (expect 0x3F buf off) (\<lambda>_. Ok v)))))))"

text \<open>The loop over the 16 slots.\<close>

primrec parseSlots :: "bytes \<Rightarrow> nat \<Rightarrow> nat \<Rightarrow> (BacnetValue list \<times> nat) outcome" where
  "parseSlots buf off 0 = Ok ([], off)"
| "parseSlots buf off (Suc n) =
     (if off \<ge> length buf then Fail
      else obind (rd buf off) (\<lambda>b. if b = 0x3F then Fail
      else obind (parseReadPropertyApplicationValue buf off PropPriorityArray emptyValue kBacnetNoArrayIndex)
        (\<lambda>(v, off). obind (parseSlots buf off n) (\<lambda>(vs, off). Ok (v # vs, off)))))"

definition parseReadPriorityArrayAck ::
    "bytes \<Rightarrow> u8 \<Rightarrow> BacnetPropertyRequest \<Rightarrow> BacnetPriorityArray outcome" where
  "parseReadPriorityArrayAck buf expectedInvokeId expected =
     (if rqProperty expected \<noteq> PropPriorityArray \<or> rqArrayIndex expected \<noteq> kBacnetNoArrayIndex then Fail
      else obind (responseHeader 17 kApduComplexAck expectedInvokeId buf) (\<lambda>off.
        obind (readContextValue buf off 0) (\<lambda>(objectIdentifier, off).
        if objectIdentifier \<noteq> encodeObjectId (rqObject expected) then Fail
        else obind (readContextValue buf off 1) (\<lambda>(propertyIdentifier, off).
        if propertyIdentifier \<noteq> PropPriorityArray then Fail
        else obind (expect 0x3E buf off) (\<lambda>off.
        obind (parseSlots buf off kSlotCount) (\<lambda>(slots, off).
          if off + 1 \<noteq> length buf then Fail
          else obind (rd buf off) (\<lambda>b. if b \<noteq> 0x3F then Fail else Ok (map Some slots))))))))"

definition errorText :: "u32 \<Rightarrow> u32 \<Rightarrow> bytes option" where
  "errorText errorClass errorCode =
     (case appendWhileFits
        [\<lambda>t. appendText 64 t (ascii (bacnetErrorCodeName errorCode)),
         \<lambda>t. appendText 64 t (ascii '' (''),
         \<lambda>t. appendText 64 t (ascii (bacnetErrorClassName errorClass)),
         \<lambda>t. appendText 64 t (ascii ''/''),
         \<lambda>t. appendUnsignedDecimal 64 t errorCode,
         \<lambda>t. appendText 64 t (ascii '')'')] [] of (txt, ok) \<Rightarrow> if ok then Some txt else None)"

text \<open>
  The value, and the error class and code the optional out parameters receive; a payload that
  is not two enumerations gives the text \<open>error\<close> and class and code 0.
\<close>

definition parseReadPropertyError :: "bytes \<Rightarrow> u8 \<Rightarrow> (BacnetValue \<times> u32 \<times> u32) outcome" where
  "parseReadPropertyError buf expectedInvokeId =
     obind (responseHeader 13 kApduError expectedInvokeId buf) (\<lambda>off.
     obind (on_fail
         (obind (readApplicationValue buf off kApplicationTagEnumerated) (\<lambda>(errorClass, off).
          obind (readApplicationValue buf off kApplicationTagEnumerated) (\<lambda>(errorCode, off).
            Ok (Some (errorClass, errorCode)))))
         None) (\<lambda>parsed.
       case parsed of
         Some (errorClass, errorCode) \<Rightarrow>
           obind (of_option (errorText errorClass errorCode)) (\<lambda>txt.
             Ok (setTextValue emptyValue TyError txt, errorClass, errorCode))
       | None \<Rightarrow> obind (of_option (appendText 64 [] (ascii ''error''))) (\<lambda>txt.
             Ok (setTextValue emptyValue TyError txt, 0, 0))))"

section \<open>Classifying responses\<close>

definition classifyReadPropertyResponse ::
    "bytes \<Rightarrow> u8 \<Rightarrow> BacnetReadPropertyResponseKind outcome" where
  "classifyReadPropertyResponse buf expectedInvokeId =
     on_fail
      (obind (bvlcHeader 8 True buf) (\<lambda>off.
       obind (readNpduHeader buf off) (\<lambda>off.
         if off \<ge> length buf then Fail
         else obind (rd buf off) (\<lambda>b.
           let apduType = b AND 0xF0 in
           if apduType = kApduComplexAck \<or> apduType = kApduError then
             (if off + 3 > length buf then Fail
              else obind (match expectedInvokeId buf (off + 1)) (\<lambda>off.
                   obind (match kServiceReadProperty buf off) (\<lambda>_.
                     Ok (if apduType = kApduComplexAck then RpAck else RpError))))
           else if (apduType = kApduReject \<or> apduType = kApduAbort) \<and> off + 2 \<le> length buf
           then obind (match expectedInvokeId buf (off + 1)) (\<lambda>_.
                  Ok (if apduType = kApduReject then RpReject else RpAbort))
           else Fail))))
      RpUnrelated"

definition classifyWritePropertyResponse ::
    "bytes \<Rightarrow> u8 \<Rightarrow> BacnetWritePropertyResponseKind outcome" where
  "classifyWritePropertyResponse buf expectedInvokeId =
     on_fail
      (obind (bvlcHeader 8 True buf) (\<lambda>off.
       obind (readNpduHeader buf off) (\<lambda>off.
         if off \<ge> length buf then Fail
         else obind (rd buf off) (\<lambda>b.
           let apduType = b AND 0xF0 in
           if apduType = kApduSimpleAck \<or> apduType = kApduError then
             (if off + 3 > length buf then Fail
              else obind (match expectedInvokeId buf (off + 1)) (\<lambda>off.
                   obind (match kServiceWriteProperty buf off) (\<lambda>_.
                     Ok (if apduType = kApduSimpleAck then WpAck else WpError))))
           else if (apduType = kApduReject \<or> apduType = kApduAbort) \<and> off + 2 \<le> length buf
           then obind (match expectedInvokeId buf (off + 1)) (\<lambda>_.
                  Ok (if apduType = kApduReject then WpReject else WpAbort))
           else Fail))))
      WpUnrelated"

definition isSimpleAck :: "bytes \<Rightarrow> u8 \<Rightarrow> u8 \<Rightarrow> bool outcome" where
  "isSimpleAck buf expectedInvokeId expectedServiceChoice =
     on_fail
      (obind (bvlcHeader 9 False buf) (\<lambda>off.
       obind (readNpduHeader buf off) (\<lambda>off.
         if off + 3 \<noteq> length buf then Fail
         else obind (rd buf off) (\<lambda>b. if b AND 0xF0 \<noteq> kApduSimpleAck then Fail
         else obind (match expectedInvokeId buf (off + 1)) (\<lambda>off.
              obind (match expectedServiceChoice buf off) (\<lambda>_. Ok True))))))
      False"

text \<open>
  \<open>classifySubscribeCovResponse\<close> with the reject reason it reports (0xFF when there is none);
  \<open>classifyConfirmedCovNotificationResponse\<close> is the same function of the service
  ConfirmedCOVNotification, written out a second time in the sources.
\<close>

definition classifySubscribeCovResponse ::
    "bytes \<Rightarrow> u8 \<Rightarrow> u8 \<Rightarrow> (BacnetSubscribeCovResponseKind \<times> u8) outcome" where
  "classifySubscribeCovResponse buf expectedInvokeId expectedServiceChoice =
     on_fail
      (obind (bvlcHeader 8 False buf) (\<lambda>off.
       obind (readNpduHeader buf off) (\<lambda>off.
         if off + 2 > length buf then Fail
         else obind (match expectedInvokeId buf (off + 1)) (\<lambda>_.
         obind (rd buf off) (\<lambda>b.
           let apduType = b AND 0xF0; hasThird = (off + 3 \<le> length buf) in
           obind (if hasThird then rd buf (off + 2) else Ok 0) (\<lambda>third.
             if apduType = kApduSimpleAck \<and> hasThird \<and> third = expectedServiceChoice then Ok (ScAck, 0xFF)
             else if apduType = kApduError \<and> hasThird \<and> third = expectedServiceChoice
             then Ok (ScError, 0xFF)
             else if apduType = kApduReject then Ok (ScReject, if hasThird then third else 0xFF)
             else if apduType = kApduAbort then Ok (ScAbort, 0xFF)
             else Fail))))))
      (ScNone, 0xFF)"

definition classifyConfirmedCovNotificationResponse ::
    "bytes \<Rightarrow> u8 \<Rightarrow> (BacnetSubscribeCovResponseKind \<times> u8) outcome" where
  "classifyConfirmedCovNotificationResponse buf expectedInvokeId =
     classifySubscribeCovResponse buf expectedInvokeId kServiceConfirmedCovNotification"

definition rejectReasonText :: "u8 \<Rightarrow> string" where
  "rejectReasonText rejectReason =
     (if rejectReason < 10
      then [''other'', ''buffer-overflow'', ''inconsistent-parameters'',
            ''invalid-parameter-data-type'', ''invalid-tag'', ''missing-required-parameter'',
            ''parameter-out-of-range'', ''too-many-arguments'', ''undefined-enumeration'',
            ''unrecognized-service''] ! unat rejectReason
      else ''unknown'')"

definition readPropertyUnexpectedStatus :: "bytes \<Rightarrow> string outcome" where
  "readPropertyUnexpectedStatus buf =
     (if length buf < 7 then Ok ''malformed response''
      else obind (rd buf 0) (\<lambda>b0. obind (rd buf 1) (\<lambda>b1.
        if b0 \<noteq> kBvlcTypeBacnetIp \<or>
           (b1 \<noteq> kBvlcOriginalUnicastNpdu \<and> b1 \<noteq> kBvlcOriginalBroadcastNpdu)
        then Ok ''malformed response''
        else on_fail
          (obind (readNpduHeader buf 4) (\<lambda>off.
             if off \<ge> length buf then Fail
             else obind (rd buf off) (\<lambda>b.
               let apduType = b AND 0xF0 in
               Ok (if apduType = kApduReject then ''reject''
                   else if apduType = kApduAbort then ''abort'' else ''unexpected APDU''))))
          ''malformed NPDU'')))"

end
