(* ===== verification/ResponseLaws.thy ===== *)
theory ResponseLaws
  imports Responses
begin

text \<open>
  What the response builders and parsers guarantee: where they stay inside their buffers, that
  the acknowledgement a server builds is the one its client accepts, and what a list
  acknowledgement carries.
\<close>

unbundle bit_operations_syntax

section \<open>Safety\<close>

lemma safe_responseHeader [safety]: "4 \<le> k \<Longrightarrow> safe (responseHeader k t i buf)"
  unfolding responseHeader_def
  by (auto simp: safety intro!: safe_steps dest!: match_progress)

lemma safe_parseReadPropertyAck:
  "(\<And>off. \<not> unconvertibleReal buf off) \<Longrightarrow> safe (parseReadPropertyAck buf i r)"
  unfolding parseReadPropertyAck_def by (auto simp: safety intro!: safe_steps)

lemma safe_parseReadPropertyAckOf:
  "(\<And>off. \<not> unconvertibleReal buf off) \<Longrightarrow> safe (parseReadPropertyAckOf buf i p)"
  unfolding parseReadPropertyAckOf_def by (auto simp: safety intro!: safe_steps)

lemma safe_parseSlots: "(\<And>off. \<not> unconvertibleReal buf off) \<Longrightarrow> safe (parseSlots buf off n)"
  by (induction n arbitrary: off) (auto simp: safety intro!: safe_steps)

lemma safe_parseReadPriorityArrayAck:
  "(\<And>off. \<not> unconvertibleReal buf off) \<Longrightarrow> safe (parseReadPriorityArrayAck buf i r)"
  unfolding parseReadPriorityArrayAck_def
  by (auto simp: safety safe_parseSlots intro!: safe_steps)

lemma safe_parseReadPropertyError [safety]: "safe (parseReadPropertyError buf i)"
  unfolding parseReadPropertyError_def
  by (auto simp: safety intro!: safe_steps split: option.splits)

lemma safe_classifiers [safety]:
  "safe (classifyReadPropertyResponse buf i)" "safe (classifyWritePropertyResponse buf i)"
  "safe (isSimpleAck buf i s)" "safe (classifySubscribeCovResponse buf i s)"
  "safe (classifyConfirmedCovNotificationResponse buf i)" "safe (readPropertyUnexpectedStatus buf)"
  unfolding classifyReadPropertyResponse_def classifyWritePropertyResponse_def isSimpleAck_def
    classifyConfirmedCovNotificationResponse_def classifySubscribeCovResponse_def
    readPropertyUnexpectedStatus_def Let_def
  by (auto simp: safety intro!: safe_steps dest!: match_progress)

text \<open>
  The acknowledgement prefix takes up to 24 bytes: the guards test for 20 and for 16. From 24
  bytes on every acknowledgement builder stays inside its buffer.
\<close>

lemma length_ackPrefix:
  "length (responsePrefix a i s @ writeContextObjectIdentifier 0 obj @ writeContextUnsigned 1 pr @
     (if idx \<noteq> kBacnetNoArrayIndex then writeContextUnsigned 2 idx else [])) \<le> 24"
  using optional_context_size [of "idx \<noteq> kBacnetNoArrayIndex" 2 idx]
    contextUnsignedSize_bounds(2) [of pr] by (simp add: capacity)

lemma safe_valueAck:
  "length p \<le> cap \<Longrightarrow> safe (obind (emit cap p []) (\<lambda>out.
     if length out + 2 > cap then Fail
     else obind (emit cap [0x3E] out) (\<lambda>out. obind (appendValue cap 1 v out) (\<lambda>out.
       if length out + 1 > cap then Fail
       else obind (emit cap [0x3F] out) (\<lambda>out. Ok (patchLength out))))))"
  by (auto simp: safety intro!: safe_steps)

lemma safe_buildReadPropertyAck: "24 \<le> cap \<Longrightarrow> safe (buildReadPropertyAck cap request v)"
  unfolding buildReadPropertyAck_def Let_def
  by (rule safe_if) (simp, intro safe_valueAck order_trans [OF length_ackPrefix])

lemma safe_writeReadPropertyAckPrefix: "24 \<le> cap \<Longrightarrow> safe (writeReadPropertyAckPrefix cap request)"
  using length_ackPrefix [of kApduComplexAck "rrInvokeId request" kServiceReadProperty
      "rqObject (rrRequest request)" "rqProperty (rrRequest request)" "rqArrayIndex (rrRequest request)"]
  unfolding writeReadPropertyAckPrefix_def Let_def
  by (auto intro!: safe_steps simp del: append_assoc length_append)

lemma safe_openListAck: "24 \<le> cap \<Longrightarrow> safe (openListAck cap request)"
  unfolding openListAck_def by (auto simp: safe_writeReadPropertyAckPrefix intro!: safe_steps)

lemma openListAck_room: "openListAck cap request = Ok out \<Longrightarrow> length out + 1 \<le> cap"
  by (auto simp: openListAck_def split: if_splits)

lemma safe_closeListAck [safety]: "safe (closeListAck cap out)"
  unfolding closeListAck_def finishReadPropertyAck_def by (auto intro!: safe_steps)

lemma appendEntries_room:
  "length out + 1 \<le> cap \<Longrightarrow> safe (appendEntries cap f k n out) \<and>
     (\<forall>r. appendEntries cap f k n out = Ok r \<longrightarrow> length r + 1 \<le> cap)"
proof (induction n arbitrary: k out)
  case 0
  then show ?case by simp
next
  case (Suc n)
  then show ?case
    using appendValue_room [of cap 1 _ out]
    by (auto simp: safety intro!: safe_steps)
qed

lemma safe_appendList: "length out + 1 \<le> cap \<Longrightarrow> safe (appendList cap idx n f out)"
  using appendEntries_room [of out cap f 0 n]
  unfolding appendList_def Let_def by (auto simp: safety intro!: safe_steps)

lemma safe_list_acks:
  assumes "24 \<le> cap"
  shows "safe (buildReadPropertyPriorityArrayAck cap request n valueAt)"
    and "safe (buildReadPropertyObjectListAck cap request n objectAt)"
    and "safe (buildReadPropertyPropertyListAck cap request n propertyAt)"
    and "safe (buildReadPropertyCharacterStringListAck cap request strings)"
    and "safe (buildReadPropertyEmptyListAck cap request)"
  using safe_openListAck [OF assms, of request] safe_writeReadPropertyAckPrefix [OF assms, of request]
  unfolding buildReadPropertyPriorityArrayAck_def buildReadPropertyObjectListAck_def
    buildReadPropertyPropertyListAck_def buildReadPropertyCharacterStringListAck_def
    buildReadPropertyEmptyListAck_def finishReadPropertyAck_def Let_def
  by (auto simp: safety safe_appendList appendEntries_room intro!: safe_steps dest!: openListAck_room
      split: option.splits)

lemma safe_error_builders [safety]:
  "safe (buildServiceErrorResponse cap i s c e)" "safe (buildReadPropertyError cap i c e)"
  "safe (buildWritePropertyError cap i c e)" "safe (buildSimpleAckResponse cap i s)"
  "safe (buildWritePropertyAck cap i)"
proof -
  have two: "safe (obind (emit cap (responsePrefix kApduError i s) []) (\<lambda>out.
      obind (appendValue cap 0 v out) (\<lambda>out. obind (appendValue cap 0 w out) (\<lambda>out. Ok (patchLength out)))))"
    if "13 \<le> cap" for i s v w
    using that by (auto simp: safety capacity intro!: safe_steps dest: appendValue_room [where slack = 0])
  then show "safe (buildServiceErrorResponse cap i s c e)" "safe (buildReadPropertyError cap i c e)"
    "safe (buildWritePropertyError cap i c e)"
    by (simp_all add: buildServiceErrorResponse_def buildReadPropertyError_def buildWritePropertyError_def)
  show "safe (buildSimpleAckResponse cap i s)" "safe (buildWritePropertyAck cap i)"
    by (simp_all add: buildSimpleAckResponse_def buildWritePropertyAck_def)
qed

section \<open>Acknowledgements are accepted by the client\<close>

lemma response_payload:
  assumes "body = kNpduVersion # 0 # a # i # s # rest"
  shows "sits (datagram f body) 4 [kNpduVersion, 0, a, i, s]"
    and "sits (datagram f body) 9 rest" and "length (datagram f body) = 9 + length rest"
proof -
  have "sits body 0 body" by simp
  then have "sits body 0 [kNpduVersion, 0, a, i, s]" "sits body 5 rest"
    unfolding assms by (simp_all add: eval_nat_numeral)
  then show "sits (datagram f body) 4 [kNpduVersion, 0, a, i, s]" "sits (datagram f body) 9 rest"
    using sits_datagram [of f body 0] sits_datagram [of f body 5] by (simp_all del: sits.simps)
  show "length (datagram f body) = 9 + length rest" by (simp add: assms)
qed

lemma response_steps:
  assumes body: "body = kNpduVersion # 0 # a # i # s # rest"
    and len: "length rest < 65000" "k \<le> 9 + length rest"
  defines "d \<equiv> datagram kBvlcOriginalUnicastNpdu body"
  shows "bvlcHeader k b d = Ok 4" "readNpduHeader d 4 = Ok 6" "rd d 6 = Ok a"
    "match i d 7 = Ok 8" "match s d 8 = Ok 9" "9 \<le> length d"
proof -
  note pay = response_payload [OF body, of kBvlcOriginalUnicastNpdu, folded d_def]
  show "bvlcHeader k b d = Ok 4"
    unfolding d_def using len by (intro bvlcHeader_datagram) (simp_all add: body)
  show "readNpduHeader d 4 = Ok 6" using readNpduHeader_plain [of d 4 0] pay(1) by simp
  show "rd d 6 = Ok a" "match i d 7 = Ok 8" "match s d 8 = Ok 9" "9 \<le> length d"
    using pay(1,3) by (simp_all add: match_def)
qed

lemma responseHeader_datagram:
  assumes body: "body = kNpduVersion # 0 # a # i # kServiceReadProperty # rest"
    and len: "length rest < 65000" "k \<le> 9 + length rest" and "a AND 0xF0 = a"
  shows "responseHeader k a i (datagram kBvlcOriginalUnicastNpdu body) = Ok 9"
  using response_steps [OF body len] assms(4) by (simp add: responseHeader_def)

text \<open>What \<open>buildReadPropertyAck\<close> builds, as a datagram.\<close>

definition ackFields :: "BacnetReadPropertyRequestHeader \<Rightarrow> bytes" where
  "ackFields request =
     writeContextObjectIdentifier 0 (rqObject (rrRequest request)) @
     writeContextUnsigned 1 (rqProperty (rrRequest request))"

definition ackIndex :: "BacnetReadPropertyRequestHeader \<Rightarrow> bytes" where
  "ackIndex request =
     (if rqArrayIndex (rrRequest request) \<noteq> kBacnetNoArrayIndex
      then writeContextUnsigned 2 (rqArrayIndex (rrRequest request)) else [])"

definition ackDatagram :: "BacnetReadPropertyRequestHeader \<Rightarrow> bytes \<Rightarrow> bytes" where
  "ackDatagram request payload =
     datagram kBvlcOriginalUnicastNpdu
       (kNpduVersion # 0 # kApduComplexAck # rrInvokeId request # kServiceReadProperty #
        (ackFields request @ ackIndex request @ [0x3E] @ payload @ [0x3F] @ []))"

lemma buildReadPropertyAck_Ok:
  assumes "buildReadPropertyAck cap request v = Ok out"
  shows "validObjectId (rqObject (rrRequest request)) \<and>
    (\<exists>room bs. encodeApplicationValue room v = Some bs \<and> out = ackDatagram request bs)"
proof -
  obtain room bs where "encodeApplicationValue room v = Some bs"
    and out: "out = patchLength (responsePrefix kApduComplexAck (rrInvokeId request) kServiceReadProperty @
        (ackFields request @ ackIndex request @ [0x3E] @ bs @ [0x3F] @ []))"
    and "validObjectId (rqObject (rrRequest request))"
    using assms unfolding buildReadPropertyAck_def Let_def ackFields_def ackIndex_def
    by (fastforce simp: validObjectId_def not_less split: if_splits dest!: appendValue_datagram)
  then show ?thesis
    unfolding ackDatagram_def patchLength_prefixes(2) by blast
qed

text \<open>Reading back the fields of an acknowledgement, up to its value.\<close>

lemma ack_fields:
  assumes "validObjectId (rqObject (rrRequest request))" and len: "length (ackDatagram request payload) \<le> 65000"
  defines "d \<equiv> ackDatagram request payload"
    and "a \<equiv> 9 + length (ackFields request)"
    and "b \<equiv> 9 + length (ackFields request) + length (ackIndex request)"
  shows "responseHeader 17 kApduComplexAck (rrInvokeId request) d = Ok 9"
    and "readContextValue d 9 0 = Ok (encodeObjectId (rqObject (rrRequest request)), 14)"
    and "readContextValue d 14 1 = Ok (rqProperty (rrRequest request), a)"
    and "contextTagAt 2 d a \<longleftrightarrow> rqArrayIndex (rrRequest request) \<noteq> kBacnetNoArrayIndex"
    and "optionalContext 2 kBacnetNoArrayIndex d a = Ok (rqArrayIndex (rrRequest request), b)"
    and "expect 0x3E d b = Ok (b + 1)" and "sits d (b + 1) payload"
    and "sits d (b + 1 + length payload) [0x3F]" and "length d = b + 2 + length payload"
proof -
  define rest where "rest = ackFields request @ ackIndex request @ [0x3E] @ payload @ [0x3F] @ []"
  define body where "body = kNpduVersion # 0 # kApduComplexAck # rrInvokeId request # kServiceReadProperty # rest"
  have d: "d = datagram kBvlcOriginalUnicastNpdu body"
    by (simp add: d_def ackDatagram_def body_def rest_def)
  note pay = response_payload [OF body_def, of kBvlcOriginalUnicastNpdu, folded d]
  have fields: "length (ackFields request) = 5 + contextUnsignedSize (rqProperty (rrRequest request))"
    by (simp add: ackFields_def capacity)
  have "length rest < 65000" using len pay(3) by (simp add: d_def)
  moreover have "17 \<le> 9 + length rest" using fields contextUnsignedSize_bounds(1) [of "rqProperty (rrRequest request)"] by (simp add: rest_def)
  ultimately show "responseHeader 17 kApduComplexAck (rrInvokeId request) d = Ok 9"
    unfolding d using responseHeader_datagram [OF body_def, of 17] by simp
  have ba: "b = a + length (ackIndex request)" by (simp add: a_def b_def)
  note parts = sits_service [OF pay(2) [unfolded rest_def] a_def [THEN meta_eq_to_obj_eq] ba refl]
  have s: "sits d 9 (writeContextObjectIdentifier 0 (rqObject (rrRequest request)))"
    "sits d 14 (writeContextUnsigned 1 (rqProperty (rrRequest request)))"
    using parts(1) by (simp_all add: ackFields_def capacity)
  show "readContextValue d 9 0 = Ok (encodeObjectId (rqObject (rrRequest request)), 14)"
    using readContextValue_sits [of 0 4 "encodeObjectId (rqObject (rrRequest request))" d 9] s(1)
    by (simp add: writeContextObjectIdentifier_eq)
  show "readContextValue d 14 1 = Ok (rqProperty (rrRequest request), a)"
    using ctxUnsigned.dec_enc [OF _ s(2)] by (simp add: a_def ackFields_def capacity)
  have not2: "\<not> contextTagAt 2 d b" using parts(3) by (simp add: contextTagAt_def tag_fields)
  show "contextTagAt 2 d a \<longleftrightarrow> rqArrayIndex (rrRequest request) \<noteq> kBacnetNoArrayIndex"
  proof (cases "rqArrayIndex (rrRequest request) = kBacnetNoArrayIndex")
    case True
    then have "b = a" by (simp add: ba ackIndex_def)
    with not2 True show ?thesis by simp
  next
    case False
    then have "sits d a (writeContextUnsigned 2 (rqArrayIndex (rrRequest request)))"
      using parts(2) by (simp add: ackIndex_def)
    from contextTagAt_sits [OF _ this] False show ?thesis by simp
  qed
  show "optionalContext 2 kBacnetNoArrayIndex d a = Ok (rqArrayIndex (rrRequest request), b)"
    unfolding ba ackIndex_def
    by (rule optionalContext_sits)
      (use parts(2) not2 in \<open>simp_all add: ba ackIndex_def del: sits_append\<close>)
  show "expect 0x3E d b = Ok (b + 1)" by (rule expect_sits [OF parts(3)])
  show "sits d (b + 1) payload" "sits d (b + 1 + length payload) [0x3F]" using parts(4,5) by simp_all
  show "length d = b + 2 + length payload" using pay(3) parts(7) by (simp add: rest_def ba a_def)
qed

lemma ackDatagram_read:
  assumes obj: "validObjectId (rqObject (rrRequest request))" and enc: "encodeApplicationValue room v = Some bs"
    and out: "out = ackDatagram request bs" and len: "length out \<le> 65000"
    and read: "singleValueRead (rqProperty (rrRequest request)) (rqArrayIndex (rrRequest request))"
    and real: "realPrintable v"
  shows "\<exists>w. parseReadPropertyAck out (rrInvokeId request) (rrRequest request) = Ok w \<and>
    normalValue w = normalValue v"
proof -
  note f = ack_fields [OF obj, of bs, folded out, OF len]
  define a where "a = 9 + length (ackFields request)"
  define b where "b = 9 + length (ackFields request) + length (ackIndex request)"
  obtain w where w: "parseReadPropertyApplicationValue out (b + 1) (rqProperty (rrRequest request)) emptyValue
      (rqArrayIndex (rrRequest request)) = Ok (w, b + 1 + length bs)" "normalValue w = normalValue v"
    using value_roundtrip [OF enc f(7) read real, of emptyValue] by (auto simp: b_def)
  have idx: "(if contextTagAt 2 out a
        then obind (readContextValue out a 2) (\<lambda>(responseArrayIndex, off).
          if rqArrayIndex (rrRequest request) \<noteq> kBacnetNoArrayIndex \<and>
             responseArrayIndex \<noteq> rqArrayIndex (rrRequest request)
          then Fail else Ok (responseArrayIndex, off))
        else if rqArrayIndex (rrRequest request) \<noteq> kBacnetNoArrayIndex then Fail
        else Ok (kBacnetNoArrayIndex, a)) = Ok (rqArrayIndex (rrRequest request), b)"
    using f(4,5) unfolding optionalContext_def a_def b_def by (auto split: if_splits)
  define b1 c where "b1 = b + 1" and "c = b1 + length bs"
  have "expect 0x3F out c = Ok (c + 1)"
    using expect_sits [OF f(8)] by (simp add: c_def b1_def b_def)
  then show ?thesis
    using w(2) f(1-3) idx w(1) [folded b1_def c_def] f(6) [folded b_def b1_def]
    unfolding parseReadPropertyAck_def by (simp add: a_def [symmetric])
qed

text \<open>
  A value the server puts into a ReadProperty acknowledgement is what the client that asked
  for it reads: the acknowledgement matches the request and the decoded value has the same
  meaning.
\<close>

theorem readPropertyAck_roundtrip:
  assumes build: "buildReadPropertyAck cap request v = Ok out" and len: "length out \<le> 65000"
    and read: "singleValueRead (rqProperty (rrRequest request)) (rqArrayIndex (rrRequest request))"
    and real: "realPrintable v"
  shows "\<exists>w. parseReadPropertyAck out (rrInvokeId request) (rrRequest request) = Ok w \<and>
    normalValue w = normalValue v"
  using buildReadPropertyAck_Ok [OF build] ackDatagram_read [OF _ _ _ len read real] by blast

section \<open>Errors and simple acknowledgements\<close>

lemma enumerated_encoding:
  "encodeApplicationValue room (enumerated x) = Some bs \<Longrightarrow>
     bs = writeApplicationUnsigned kApplicationTagEnumerated x"
  by (auto simp: encodeApplicationValue_def enumerated_def writeUnsigned_def Let_def
      writeApplicationUnsigned_def split: if_splits)

lemma errorText_total: "\<exists>str. errorText c e = Some str"
proof -
  obtain ds where ds: "writeUnsignedDecimal 16 e = Some ds" "length ds \<le> 10"
    using writeUnsignedDecimal_total [of 16 e] by auto
  have "length (bacnetErrorCodeName e) \<le> 36" "length (bacnetErrorClassName c) \<le> 8"
    by (simp_all add: bacnetErrorCodeName_def bacnetErrorClassName_def)
  with ds show ?thesis
    by (simp add: errorText_def appendText_def appendUnsignedDecimal_def)
qed

theorem readPropertyAck_roundtrip_witness:
  "\<exists>w. parseReadPropertyAck
      [129, 10, 0, 21, 1, 0, 48, 9, 12, 12, 0, 128, 0, 7, 25, 85, 62, 34, 1, 244, 63] 9
      \<lparr>rqObject = \<lparr>objType = 2, objInstance = 7\<rparr>, rqProperty = 85, rqArrayIndex = kBacnetNoArrayIndex\<rparr> = Ok w \<and>
    normalValue w = normalValue (emptyValue\<lparr>vType := TyUnsigned, vUnsigned := 500\<rparr>)"
proof -
  let ?v = "emptyValue\<lparr>vType := TyUnsigned, vUnsigned := 500\<rparr>"
  let ?r = "\<lparr>rrInvokeId = 9, rrRequest = \<lparr>rqObject = \<lparr>objType = 2, objInstance = 7\<rparr>, rqProperty = 85,
    rqArrayIndex = kBacnetNoArrayIndex\<rparr>\<rparr>"
  have build: "buildReadPropertyAck 40 ?r ?v =
      Ok [129, 10, 0, 21, 1, 0, 48, 9, 12, 12, 0, 128, 0, 7, 25, 85, 62, 34, 1, 244, 63]" by code_simp
  have read: "singleValueRead (rqProperty (rrRequest ?r)) (rqArrayIndex (rrRequest ?r))"
    and real: "realPrintable ?v" by code_simp+
  from readPropertyAck_roundtrip [OF build _ read real] show ?thesis by simp
qed

text \<open>The error a server builds, for any service; the client of ReadProperty reads it back.\<close>

lemma buildServiceErrorResponse_Ok:
  assumes "buildServiceErrorResponse cap i s c e = Ok out"
  shows "out = datagram kBvlcOriginalUnicastNpdu (kNpduVersion # 0 # kApduError # i # s #
    (writeApplicationUnsigned kApplicationTagEnumerated c @ writeApplicationUnsigned kApplicationTagEnumerated e))"
  using assms unfolding buildServiceErrorResponse_def
  by (auto simp: patchLength_prefixes(2) split: if_splits dest!: appendValue_datagram enumerated_encoding)

lemma error_builders_eq:
  "buildReadPropertyError cap i c e = buildServiceErrorResponse cap i kServiceReadProperty c e"
  "buildWritePropertyError cap i c e = buildServiceErrorResponse cap i kServiceWriteProperty c e"
  "buildWritePropertyAck cap i = buildSimpleAckResponse cap i kServiceWriteProperty"
  by (simp_all add: buildReadPropertyError_def buildWritePropertyError_def
      buildServiceErrorResponse_def buildWritePropertyAck_def buildSimpleAckResponse_def)

lemma length_errorPayload:
  "length (writeApplicationUnsigned t c @ writeApplicationUnsigned t e) \<le> 10"
  "4 \<le> length (writeApplicationUnsigned t c @ writeApplicationUnsigned t e)"
  by (simp_all add: capacity applicationUnsignedSize_def)

text \<open>
  An Error response carries its class and code to the client unchanged and is classified as an
  error for that invoke id.
\<close>

theorem readPropertyError_roundtrip:
  assumes "buildReadPropertyError cap i c e = Ok out"
  shows "\<exists>v. parseReadPropertyError out i = Ok (v, c, e) \<and> vType v = TyError \<and>
    classifyReadPropertyResponse out i = Ok RpError"
proof -
  define p q where "p = writeApplicationUnsigned kApplicationTagEnumerated c"
    and "q = writeApplicationUnsigned kApplicationTagEnumerated e"
  define body where "body = kNpduVersion # 0 # kApduError # i # kServiceReadProperty # (p @ q)"
  have out: "out = datagram kBvlcOriginalUnicastNpdu body"
    using buildServiceErrorResponse_Ok assms by (simp add: error_builders_eq body_def p_def q_def)
  have len: "length (p @ q) < 65000" "4 \<le> length (p @ q)"
    using length_errorPayload [of kApplicationTagEnumerated c e] by (simp_all add: p_def q_def)
  note steps = response_steps [OF body_def len(1), folded out]
  have hdr: "responseHeader 13 kApduError i out = Ok 9"
    unfolding out using responseHeader_datagram [OF body_def len(1), of 13] len(2) by simp
  have s: "sits out 9 p" "sits out (9 + length p) q"
    using response_payload(2) [OF body_def, of kBvlcOriginalUnicastNpdu, folded out] by simp_all
  obtain str where str: "errorText c e = Some str" using errorText_total by blast
  have "parseReadPropertyError out i = Ok (setTextValue emptyValue TyError str, c, e)"
    using writeApplicationUnsigned_read [OF _ s(1) [unfolded p_def]]
      writeApplicationUnsigned_read [OF _ s(2) [unfolded q_def]]
    by (simp add: parseReadPropertyError_def hdr p_def [symmetric] q_def [symmetric] str)
  moreover have "classifyReadPropertyResponse out i = Ok RpError"
    using steps [of 8] len(2) by (simp add: classifyReadPropertyResponse_def Let_def)
  ultimately show ?thesis by (auto simp: setTextValue_def)
qed

theorem readPropertyError_roundtrip_witness:
  "\<exists>v. parseReadPropertyError [129, 10, 0, 13, 1, 0, 80, 4, 12, 145, 1, 145, 31] 4 = Ok (v, 1, 31) \<and>
     vType v = TyError \<and>
     classifyReadPropertyResponse [129, 10, 0, 13, 1, 0, 80, 4, 12, 145, 1, 145, 31] 4 = Ok RpError"
proof (rule readPropertyError_roundtrip)
  show "buildReadPropertyError 20 4 1 31 = Ok [129, 10, 0, 13, 1, 0, 80, 4, 12, 145, 1, 145, 31]"
    by code_simp
qed

text \<open>
  A SimpleAck is recognised for exactly the invoke id and service it was built for, and a
  subscription waiting for it is acknowledged.
\<close>

theorem simpleAck_roundtrip:
  assumes "buildSimpleAckResponse cap i s = Ok out"
  shows "isSimpleAck out j t = Ok (j = i \<and> t = s) \<and>
    classifySubscribeCovResponse out i s = Ok (ScAck, 0xFF)"
proof -
  define body where "body = kNpduVersion # 0 # kApduSimpleAck # i # s # []"
  have out: "out = datagram kBvlcOriginalUnicastNpdu body"
    using assms by (auto simp: buildSimpleAckResponse_def datagram_def body_def split: if_splits)
  note steps = response_steps [OF body_def, simplified, folded out]
  have len: "length out = 9" by (simp add: out body_def)
  have nth: "out ! 7 = i" "out ! 8 = s" using steps(4,5) [of 9] by (simp_all add: match_def split: if_splits)
  have "isSimpleAck out j t = Ok (j = i \<and> t = s)"
    using steps(1) [of 9] steps(2,3) [of 9] len nth by (simp add: isSimpleAck_def match_def)
  moreover have "classifySubscribeCovResponse out i s = Ok (ScAck, 0xFF)"
    using steps(1) [of 8] steps(2-4) [of 9] len nth by (simp add: classifySubscribeCovResponse_def Let_def)
  ultimately show ?thesis ..
qed

theorem simpleAck_roundtrip_witness:
  "isSimpleAck [129, 10, 0, 9, 1, 0, 32, 4, 15] 4 16 = Ok False \<and>
   classifySubscribeCovResponse [129, 10, 0, 9, 1, 0, 32, 4, 15] 4 15 = Ok (ScAck, 0xFF)"
proof -
  have build: "buildSimpleAckResponse 9 4 15 = Ok [129, 10, 0, 9, 1, 0, 32, 4, 15]" by code_simp
  show ?thesis using simpleAck_roundtrip [OF build, of 4 16] by simp
qed

section \<open>List acknowledgements\<close>

text \<open>\<open>encodes bss vs\<close>: the byte strings are encodings of the values, one each.\<close>

definition encodes :: "bytes list \<Rightarrow> BacnetValue list \<Rightarrow> bool" where
  "encodes = list_all2 (\<lambda>bs v. \<exists>room. encodeApplicationValue room v = Some bs)"

lemma encodes_simps [simp]:
  "encodes bss [] \<longleftrightarrow> bss = []"
  "encodes bss (v # vs) \<longleftrightarrow>
     (\<exists>bs rest room. bss = bs # rest \<and> encodeApplicationValue room v = Some bs \<and> encodes rest vs)"
  by (auto simp: encodes_def list_all2_Cons2)

lemma encodes_single:
  "appendValue cap slack v out = Ok r \<Longrightarrow> \<exists>bss. encodes bss [v] \<and> r = out @ concat bss"
proof -
  assume "appendValue cap slack v out = Ok r"
  then obtain room bs where "r = out @ bs" "encodeApplicationValue room v = Some bs"
    using appendValue_datagram by blast
  then have "encodes [bs] [v] \<and> r = out @ concat [bs]" by auto
  then show ?thesis by blast
qed

lemma appendEntries_Ok:
  "appendEntries cap f k n out = Ok r \<Longrightarrow>
     \<exists>vs bss. map Some vs = map f [k..<k + n] \<and> encodes bss vs \<and> r = out @ concat bss"
proof (induction n arbitrary: k out)
  case 0
  then show ?case by (intro exI [of _ "[]"]) simp
next
  case (Suc n)
  then obtain v o1 where v: "f k = Some v" "appendValue cap 1 v out = Ok o1"
    "appendEntries cap f (k + 1) n o1 = Ok r"
    by (auto simp del: obind_eq_Ok simp: of_option_def obind_eq_Ok split: option.splits)
  from Suc.IH [OF v(3)] obtain vs bss where ih: "map Some vs = map f [k + 1..<k + 1 + n]"
    "encodes bss vs" "r = o1 @ concat bss" by blast
  obtain room bs where bs: "o1 = out @ bs" "encodeApplicationValue room v = Some bs"
    using appendValue_datagram [OF v(2)] by blast
  have "[k..<k + Suc n] = k # [k + 1..<k + 1 + n]" by (simp add: upt_conv_Cons)
  with v(1) ih bs show ?case
    by (intro exI [of _ "v # vs"] exI [of _ "bs # bss"]) (auto simp del: upt_Suc)
qed

text \<open>
  The list builders' payload: the count for index 0, the entry for an index in range, all
  entries without an index. \<open>listPayload\<close> is this specification; an index out of range has none.
\<close>

definition listPayload :: "u32 \<Rightarrow> BacnetValue list \<Rightarrow> BacnetValue list option" where
  "listPayload arrayIndex entries =
     (if arrayIndex = 0 then Some [unsignedValue (word_of_nat (length entries))]
      else if arrayIndex = kBacnetNoArrayIndex then Some entries
      else if unat arrayIndex \<le> length entries then Some [entries ! (unat arrayIndex - 1)]
      else None)"

lemma unat_minus_1: "(i :: u32) \<noteq> 0 \<Longrightarrow> unat (i - 1) = unat i - 1"
  by (simp add: unat_minus_one)

lemma appendList_Ok:
  assumes "appendList cap idx (length entries) (\<lambda>i. if i < length entries then Some (entries ! i) else None) out = Ok r"
  shows "\<exists>vs bss. listPayload idx entries = Some vs \<and> encodes bss vs \<and> r = out @ concat bss"
proof -
  let ?f = "\<lambda>i. if i < length entries then Some (entries ! i) else None"
  consider (count) "idx = 0" | (all) "idx = kBacnetNoArrayIndex" "idx \<noteq> 0"
    | (one) "idx \<noteq> 0" "idx \<noteq> kBacnetNoArrayIndex" by blast
  then show ?thesis
  proof cases
    case count
    then show ?thesis
      using assms encodes_single [of cap 1 "unsignedValue (word_of_nat (length entries))" out r]
      by (simp add: appendList_def listPayload_def)
  next
    case all
    then obtain vs bss where *: "map Some vs = map ?f [0..<length entries]" "encodes bss vs" "r = out @ concat bss"
      using assms appendEntries_Ok [of cap ?f 0 "length entries" out r] by (auto simp: appendList_def)
    have "map Some vs = map Some entries"
      unfolding *(1) by (rule nth_equalityI) simp_all
    then have "vs = entries" using inj_map_eq_map [of Some vs entries] by simp
    with *(2,3) all(1,2) show ?thesis
      by (intro exI [of _ entries] exI [of _ bss]) (simp add: listPayload_def)
  next
    case one
    have pos: "0 < unat idx" using one(1) unat_0_iff [of idx] by simp
    with one show ?thesis
      using assms unat_minus_1 [OF one(1)] encodes_single [of cap 1 "entries ! (unat idx - 1)" out r]
      by (auto simp: appendList_def listPayload_def Let_def split: if_splits)
  qed
qed

lemma writeReadPropertyAckPrefix_Ok:
  "writeReadPropertyAckPrefix cap request = Ok out \<Longrightarrow>
     validObjectId (rqObject (rrRequest request)) \<and>
     out = responsePrefix kApduComplexAck (rrInvokeId request) kServiceReadProperty @
       ackFields request @ ackIndex request"
  by (auto simp: writeReadPropertyAckPrefix_def Let_def validObjectId_def ackFields_def ackIndex_def
      not_less split: if_splits)

lemma closeListAck_Ok:
  assumes "openListAck cap request = Ok out" "closeListAck cap (out @ payload) = Ok r"
  shows "validObjectId (rqObject (rrRequest request)) \<and> r = ackDatagram request payload \<and> length r \<le> 0xFFFF"
proof -
  have open1: "validObjectId (rqObject (rrRequest request))"
    "out = responsePrefix kApduComplexAck (rrInvokeId request) kServiceReadProperty @
       ackFields request @ ackIndex request @ [0x3E]"
    using assms(1) by (auto simp: openListAck_def dest!: writeReadPropertyAckPrefix_Ok split: if_splits)
  have "r = patchLength (out @ payload @ [0x3F])" "length (out @ payload @ [0x3F]) \<le> 0xFFFF"
    using assms(2) by (auto simp: closeListAck_def finishReadPropertyAck_def split: if_splits)
  then show ?thesis
    using open1 patchLength_prefixes(2) [of kApduComplexAck "rrInvokeId request" kServiceReadProperty
      "ackFields request @ ackIndex request @ [0x3E] @ payload @ [0x3F]"]
    unfolding ackDatagram_def by (simp add: length_prefixes)
qed

lemma parseSlots_encodes:
  "encodes bss vs \<Longrightarrow> sits buf off (concat bss) \<Longrightarrow> list_all realPrintable vs \<Longrightarrow>
     \<exists>ws. parseSlots buf off (length vs) = Ok (ws, off + length (concat bss)) \<and>
       map normalValue ws = map normalValue vs"
proof (induction vs arbitrary: bss off)
  case Nil
  then show ?case by simp
next
  case (Cons v vs)
  then obtain bs rest room where bss: "bss = bs # rest" and enc: "encodeApplicationValue room v = Some bs"
    and rest: "encodes rest vs" by auto
  have s: "sits buf off bs" "sits buf (off + length bs) (concat rest)" using Cons.prems(2) bss by simp_all
  have hd: "off < length buf" "buf ! off \<noteq> 0x3F"
    using s(1) encodeApplicationValue_capacity(1) [OF enc] encodeApplicationValue_head(2) [OF enc]
    by (cases bs; simp)+
  have "singleValueRead PropPriorityArray kBacnetNoArrayIndex" by (simp add: singleValueRead_def)
  from value_roundtrip [OF enc s(1) this, of emptyValue] Cons.prems(3)
  obtain w where w: "parseReadPropertyApplicationValue buf off PropPriorityArray emptyValue kBacnetNoArrayIndex =
      Ok (w, off + length bs)" "normalValue w = normalValue v" by auto
  obtain ws where "parseSlots buf (off + length bs) (length vs) =
      Ok (ws, off + length bs + length (concat rest))" "map normalValue ws = map normalValue vs"
    using Cons.IH [OF rest s(2)] Cons.prems(3) by auto
  with w hd bss show ?case
    by (intro exI [of _ "w # ws"]) (simp add: add.assoc)
qed

text \<open>The object-list and property-list builders, as entries of the whole list.\<close>

lemma objectListAck_content:
  assumes "buildReadPropertyObjectListAckOf cap request objects = Ok out"
  shows "\<exists>vs bss.
    listPayload (rqArrayIndex (rrRequest request))
      (map (\<lambda>object. emptyValue\<lparr>vType := TyObjectIdentifier, vObject := object\<rparr>) objects) = Some vs \<and>
    encodes bss vs \<and> out = ackDatagram request (concat bss)"
proof -
  let ?es = "map (\<lambda>object. emptyValue\<lparr>vType := TyObjectIdentifier, vObject := object\<rparr>) objects"
  have f: "objectEntry (objectListArrayEntry objects) = (\<lambda>i. if i < length ?es then Some (?es ! i) else None)"
    by (auto simp: objectEntry_def objectListArrayEntry_def)
  obtain o1 o2 where "openListAck cap request = Ok o1" "closeListAck cap o2 = Ok out"
    and "appendList cap (rqArrayIndex (rrRequest request)) (length ?es)
      (\<lambda>i. if i < length ?es then Some (?es ! i) else None) o1 = Ok o2"
    using assms by (auto simp: buildReadPropertyObjectListAckOf_def buildReadPropertyObjectListAck_def f split: if_splits)
  then show ?thesis using appendList_Ok closeListAck_Ok by blast
qed

theorem propertyListAck_content:
  assumes "buildReadPropertyPropertyListAckOf cap request properties = Ok out"
  shows "\<exists>vs bss. listPayload (rqArrayIndex (rrRequest request)) (map enumerated properties) = Some vs \<and>
    encodes bss vs \<and> out = ackDatagram request (concat bss)"
proof -
  let ?es = "map enumerated properties"
  have f: "propertyEntry (\<lambda>index. if index < length properties then Some (properties ! index) else None) =
      (\<lambda>i. if i < length ?es then Some (?es ! i) else None)"
    by (auto simp: propertyEntry_def)
  obtain o1 o2 where "openListAck cap request = Ok o1" "closeListAck cap o2 = Ok out"
    and "appendList cap (rqArrayIndex (rrRequest request)) (length ?es)
      (\<lambda>i. if i < length ?es then Some (?es ! i) else None) o1 = Ok o2"
    using assms by (auto simp: buildReadPropertyPropertyListAckOf_def buildReadPropertyPropertyListAck_def f split: if_splits)
  then show ?thesis using appendList_Ok closeListAck_Ok by blast
qed

text \<open>
  An indexed read of the object list gives the client the object at that position, the read of
  index 0 their number.
\<close>

text \<open>
  Reading Object_List by index: index 0 gives the number of objects, any other index the
  object at that one-based position, and only indices in range are ever acknowledged.
\<close>

theorem objectList_indexed_read:
  assumes build: "buildReadPropertyObjectListAckOf cap request objects = Ok out" and len: "length out \<le> 65000"
    and list: "rqProperty (rrRequest request) = PropObjectList"
    and idx: "rqArrayIndex (rrRequest request) \<noteq> kBacnetNoArrayIndex"
  shows "\<exists>w. parseReadPropertyAck out (rrInvokeId request) (rrRequest request) = Ok w \<and>
    (if rqArrayIndex (rrRequest request) = 0
     then normalValue w = unsignedValue (word_of_nat (length objects))
     else unat (rqArrayIndex (rrRequest request)) \<le> length objects \<and> vType w = TyObjectIdentifier \<and>
       vObject w = objects ! (unat (rqArrayIndex (rrRequest request)) - 1))"
proof -
  let ?idx = "rqArrayIndex (rrRequest request)"
  let ?es = "map (\<lambda>object. emptyValue\<lparr>vType := TyObjectIdentifier, vObject := object\<rparr>) objects"
  obtain vs bss where c: "listPayload ?idx ?es = Some vs" "encodes bss vs" "out = ackDatagram request (concat bss)"
    using objectListAck_content [OF build] by blast
  have obj: "validObjectId (rqObject (rrRequest request))"
    using build by (auto simp: buildReadPropertyObjectListAckOf_def buildReadPropertyObjectListAck_def
        openListAck_def dest!: writeReadPropertyAckPrefix_Ok split: if_splits)
  have "\<exists>v. vs = [v] \<and> (vType v = TyUnsigned \<or> vType v = TyObjectIdentifier)"
  proof (cases "?idx = 0")
    case False
    then have "0 < unat ?idx" using unat_0_iff [of ?idx] by simp
    then show ?thesis using c(1) idx False by (auto simp: listPayload_def split: if_splits)
  qed (use c(1) in \<open>auto simp: listPayload_def unsignedValue_def\<close>)
  then obtain v where v: "vs = [v]" "realPrintable v" by (auto simp: realPrintable_def)
  then obtain bs room where bs: "bss = [bs]" "encodeApplicationValue room v = Some bs" using c(2) by auto
  have "singleValueRead (rqProperty (rrRequest request)) ?idx" using idx by (simp add: singleValueRead_def)
  from ackDatagram_read [OF obj bs(2) _ len this v(2)] c(3) bs(1)
  obtain w where w: "parseReadPropertyAck out (rrInvokeId request) (rrRequest request) = Ok w"
    "normalValue w = normalValue v" by auto
  show ?thesis
  proof (cases "?idx = 0")
    case True
    then have "v = unsignedValue (word_of_nat (length objects))" using c(1) v(1) by (simp add: listPayload_def)
    then have "normalValue v = v" by (simp add: normalValue_def unsignedValue_def)
    with w True \<open>v = _\<close> show ?thesis by auto
  next
    case False
    then have fit: "unat ?idx \<le> length objects" and veq: "v = ?es ! (unat ?idx - 1)"
      using c(1) v(1) idx by (auto simp: listPayload_def split: if_splits)
    have "0 < unat ?idx" using False unat_0_iff [of ?idx] by simp
    then have v': "v = emptyValue\<lparr>vType := TyObjectIdentifier, vObject := objects ! (unat ?idx - 1)\<rparr>"
      using veq fit by simp
    then have "vType w = TyObjectIdentifier"
      using arg_cong [OF w(2), of vType] by simp
    moreover have "vObject w = vObject v"
      using arg_cong [OF w(2), of vObject] calculation v' by (simp add: normalValue_def)
    ultimately show ?thesis using w(1) fit False v' by auto
  qed
qed

theorem objectList_indexed_read_witness:
  "\<exists>w. parseReadPropertyAck
      [129, 10, 0, 25, 1, 0, 48, 9, 12, 12, 0, 128, 0, 7, 25, 76, 41, 2, 62, 196, 1, 0, 0, 1, 63] 9
      \<lparr>rqObject = \<lparr>objType = 2, objInstance = 7\<rparr>, rqProperty = 76, rqArrayIndex = 2\<rparr> = Ok w \<and>
    vObject w = \<lparr>objType = 4, objInstance = 1\<rparr>"
proof -
  let ?os = "[\<lparr>objType = 2, objInstance = 7\<rparr>, \<lparr>objType = 4, objInstance = 1\<rparr>]"
  let ?r = "\<lparr>rrInvokeId = 9, rrRequest = \<lparr>rqObject = \<lparr>objType = 2, objInstance = 7\<rparr>, rqProperty = 76,
    rqArrayIndex = 2\<rparr>\<rparr>"
  have build: "buildReadPropertyObjectListAckOf 60 ?r ?os =
      Ok [129, 10, 0, 25, 1, 0, 48, 9, 12, 12, 0, 128, 0, 7, 25, 76, 41, 2, 62, 196, 1, 0, 0, 1, 63]"
    by code_simp
  from objectList_indexed_read [OF build] show ?thesis by (auto simp: kBacnetNoArrayIndex_def)
qed

text \<open>
  The sixteen slots of a Priority_Array acknowledgement are read back in order with the same
  meaning.
\<close>

theorem priorityArray_roundtrip:
  assumes build: "buildReadPropertyPriorityArrayAckOf cap request (map Some vs) = Ok out"
    and vs: "length vs = kSlotCount" "list_all realPrintable vs"
    and len: "length out \<le> 65000" and idx: "rqArrayIndex (rrRequest request) = kBacnetNoArrayIndex"
  shows "\<exists>ws. parseReadPriorityArrayAck out (rrInvokeId request) (rrRequest request) = Ok (map Some ws) \<and>
    map normalValue ws = map normalValue vs"
proof -
  have pr: "rqProperty (rrRequest request) = PropPriorityArray"
    using build by (auto simp: buildReadPropertyPriorityArrayAckOf_def buildReadPropertyPriorityArrayAck_def split: if_splits)
  have f: "priorityArrayValueEntry (map Some vs) = (\<lambda>i. if i < length vs then Some (vs ! i) else None)"
    by (auto simp: priorityArrayValueEntry_def vs(1))
  obtain o1 o2 where o: "openListAck cap request = Ok o1" "closeListAck cap o2 = Ok out"
    and "appendList cap (rqArrayIndex (rrRequest request)) (length vs)
      (\<lambda>i. if i < length vs then Some (vs ! i) else None) o1 = Ok o2"
    using build vs(1)
    by (auto simp: buildReadPropertyPriorityArrayAckOf_def buildReadPropertyPriorityArrayAck_def f split: if_splits)
  then obtain us bss where us: "listPayload (rqArrayIndex (rrRequest request)) vs = Some us" "encodes bss us"
      "o2 = o1 @ concat bss"
    using appendList_Ok by blast
  have "us = vs" using us(1) idx by (simp add: listPayload_def kBacnetNoArrayIndex_def)
  have out: "validObjectId (rqObject (rrRequest request))" "out = ackDatagram request (concat bss)"
    using closeListAck_Ok [OF o(1)] o(2) us(3) by blast+
  note f = ack_fields [OF out(1), of "concat bss", folded out(2), OF len]
  define b where "b = 9 + length (ackFields request)"
  have ix: "ackIndex request = []" using idx by (simp add: ackIndex_def)
  have s: "sits out (b + 1) (concat bss)" using f(7) by (simp add: b_def ix)
  obtain ws where ws: "parseSlots out (b + 1) kSlotCount = Ok (ws, b + 1 + length (concat bss))"
    "map normalValue ws = map normalValue vs"
    using parseSlots_encodes [OF us(2) s] vs \<open>us = vs\<close> by auto
  define b1 len' where "b1 = b + 1" and "len' = length (concat bss)"
  define c where "c = b1 + len'"
  have "length out = c + 1" "rd out c = Ok 0x3F" using f(8,9) by (simp_all add: c_def b1_def b_def len'_def ix)
  then show ?thesis
    using ws(2) ws(1) [folded b1_def len'_def c_def] f(1-3) f(6) [unfolded ix list.size add_0_right, folded b_def b1_def]
    by (simp add: parseReadPriorityArrayAck_def pr idx b_def [symmetric])
qed

theorem priorityArray_roundtrip_witness:
  "\<exists>ws. parseReadPriorityArrayAck
      [129, 10, 0, 36, 1, 0, 48, 9, 12, 12, 0, 128, 0, 7, 25, 87, 62, 0, 0, 0, 0, 0, 0, 0, 0, 0, 0, 0, 0,
       0, 0, 0, 34, 1, 244, 63] 9
      \<lparr>rqObject = \<lparr>objType = 2, objInstance = 7\<rparr>, rqProperty = 87, rqArrayIndex = kBacnetNoArrayIndex\<rparr> =
      Ok (map Some ws) \<and>
    map normalValue ws = map normalValue
      (replicate 15 (emptyValue\<lparr>vType := TyNull\<rparr>) @ [emptyValue\<lparr>vType := TyUnsigned, vUnsigned := 500\<rparr>])"
proof -
  let ?vs = "replicate 15 (emptyValue\<lparr>vType := TyNull\<rparr>) @ [emptyValue\<lparr>vType := TyUnsigned, vUnsigned := 500\<rparr>]"
  let ?r = "\<lparr>rrInvokeId = 9, rrRequest = \<lparr>rqObject = \<lparr>objType = 2, objInstance = 7\<rparr>, rqProperty = 87,
    rqArrayIndex = kBacnetNoArrayIndex\<rparr>\<rparr>"
  have build: "buildReadPropertyPriorityArrayAckOf 80 ?r (map Some ?vs) =
      Ok [129, 10, 0, 36, 1, 0, 48, 9, 12, 12, 0, 128, 0, 7, 25, 87, 62, 0, 0, 0, 0, 0, 0, 0, 0, 0, 0, 0, 0,
       0, 0, 0, 34, 1, 244, 63]" by code_simp
  have vs: "length ?vs = kSlotCount" "list_all realPrintable ?vs" by code_simp+
  from priorityArray_roundtrip [OF build vs] show ?thesis by simp
qed

end
