(* ===== verification/CovNotification.thy ===== *)
theory CovNotification
  imports ResponseLaws
begin

text \<open>
  COV notifications (src/src/core/protocol/BacnetProtocol.cpp, lines 1917 to 1986 and 2158 to
  2245): the builder, which writes one entry per reported property, and the parser, whose loop
  collects at most four of them and keeps the Present_Value apart. The lemmas show which runs of
  the two leave their buffers, that the loop ends, and that the parser returns what was built.
\<close>

unbundle bit_operations_syntax

section \<open>Building\<close>

text \<open>One iteration of the loop over the reported properties.\<close>

definition appendCovProperty :: "nat \<Rightarrow> BacnetCovPropertyValue \<Rightarrow> bytes \<Rightarrow> bytes outcome" where
  "appendCovProperty cap pv out =
     (if sizeSub cap (length out) < 8 then Fail
      else obind (emit cap (writeContextUnsigned 0 (cpProperty pv)) out) (\<lambda>out.
      obind (if cpArrayIndex pv \<noteq> kBacnetNoArrayIndex then
               (if sizeSub cap (length out) < 6 then Fail
                else emit cap (writeContextUnsigned 1 (cpArrayIndex pv)) out)
             else Ok out) (\<lambda>out.
      obind (emit cap [0x2E] out) (\<lambda>out.
      obind (appendValue cap 2 (cpValue pv) out) (\<lambda>out.
        emit cap [0x2F] out)))))"

primrec appendCovProperties :: "nat \<Rightarrow> BacnetCovPropertyValue list \<Rightarrow> bytes \<Rightarrow> bytes outcome" where
  "appendCovProperties cap [] out = Ok out"
| "appendCovProperties cap (pv # pvs) out =
     obind (appendCovProperty cap pv out) (appendCovProperties cap pvs)"

definition covPrefix :: "bool \<Rightarrow> u8 \<Rightarrow> bytes" where
  "covPrefix confirmed invokeId =
     [kBvlcTypeBacnetIp, kBvlcOriginalUnicastNpdu, 0, 0, kNpduVersion,
      if confirmed then kNpduExpectingReply else 0] @
     (if confirmed then [kApduConfirmedRequest, 0x05, invokeId, kServiceConfirmedCovNotification]
      else [kApduUnconfirmedRequest, kServiceUnconfirmedCovNotification])"

definition buildCovNotification ::
    "nat \<Rightarrow> u32 \<Rightarrow> BacnetObjectId \<Rightarrow> BacnetObjectId \<Rightarrow> u32 \<Rightarrow> BacnetCovPropertyValue list \<Rightarrow> bool \<Rightarrow> u8 \<Rightarrow>
     bytes outcome" where
  "buildCovNotification cap processId initiatingDevice monitoredObject timeRemainingSeconds pvs
       confirmed invokeId =
     (if pvs = [] \<or> objInstance initiatingDevice > kObjectInstanceMask \<or>
         objInstance monitoredObject > kObjectInstanceMask \<or> cap < 32
      then Fail
      else obind (emit cap (covPrefix confirmed invokeId) []) (\<lambda>out.
        if sizeSub cap (length out) < 20 then Fail
        else obind (emit cap
            (writeContextUnsigned 0 processId @ writeContextObjectIdentifier 1 initiatingDevice @
             writeContextObjectIdentifier 2 monitoredObject @
             writeContextUnsigned 3 timeRemainingSeconds @ [0x4E]) out) (\<lambda>out.
        obind (appendCovProperties cap pvs out) (\<lambda>out.
          if length out + 1 > cap then Fail
          else obind (emit cap [0x4F] out) (\<lambda>out. Ok (patchLength out))))))"

section \<open>Parsing\<close>

text \<open>
  The collected properties stop at \<open>kMaxProperties\<close>; the first property is the notification's
  own until a Present_Value replaces it.
\<close>

definition recordCovProperty ::
    "BacnetPropertyId \<Rightarrow> u32 \<Rightarrow> BacnetValue \<Rightarrow> bool \<Rightarrow> BacnetCovNotification \<Rightarrow> BacnetCovNotification" where
  "recordCovProperty p idx v hasValue n =
     (let n = (if length (cnProperties n) < kMaxProperties
               then n\<lparr>cnProperties := cnProperties n @
                        [\<lparr>cpProperty = p, cpArrayIndex = idx, cpValue = v\<rparr>]\<rparr>
               else n)
      in if \<not> hasValue \<or> p = PropPresentValue
         then n\<lparr>cnProperty := p, cnArrayIndex := idx, cnValue := v\<rparr> else n)"

function parseCovProperties ::
    "bytes \<Rightarrow> nat \<Rightarrow> BacnetCovNotification \<Rightarrow> bool \<Rightarrow> (BacnetCovNotification \<times> bool \<times> nat) outcome" where
  "parseCovProperties buf off n hasValue =
     (if off < length buf \<and> buf ! off \<noteq> 0x4F
      then obind (readContextValue buf off 0) (\<lambda>(p, off1).
        obind (optionalContext 1 kBacnetNoArrayIndex buf off1) (\<lambda>(arrayIndex, off2).
        obind (expect 0x2E buf off2) (\<lambda>off3.
        obind (parseReadPropertyApplicationValue buf off3 p emptyValue arrayIndex) (\<lambda>(v, off4).
        obind (expect 0x2F buf off4) (\<lambda>off5.
        obind (if contextTagAt 3 buf off5 \<and> tagLength (buf ! off5) < 5
               then obind (readContextValue buf off5 3) (\<lambda>(priority, off6). Ok off6)
               else Ok off5) (\<lambda>off6.
          parseCovProperties buf off6 (recordCovProperty p arrayIndex v hasValue n) True))))))
      else Ok (n, hasValue, off))"
  by pat_completeness auto
termination
proof (relation "measure (\<lambda>(buf, off, n, h). length buf - off)", goal_cases)
  case 1
  then show ?case by simp
next
  case (2 buf off n h x p off1 y arrayIndex off2 off3 z v off4 off5 off6)
  have "off < off1" "off1 \<le> length buf" using readContextValue_progress 2 by fastforce+
  moreover have "off1 \<le> off2" using optionalContext_progress 2 by fastforce
  moreover have "off3 = off2 + 1" using expect_progress 2 by fastforce
  moreover have "off3 \<le> off4" using parseReadPropertyApplicationValue_progress 2 by fastforce
  moreover have "off5 = off4 + 1" "off5 \<le> length buf" using expect_progress 2 by fastforce+
  moreover have "off5 \<le> off6" using 2 by (auto split: if_splits dest: readContextValue_progress)
  ultimately show ?case by simp
qed

declare parseCovProperties.simps [simp del]

text \<open>The APDU header after its first byte: unconfirmed or confirmed service.\<close>

definition covServiceHeader :: "bytes \<Rightarrow> u8 \<Rightarrow> nat \<Rightarrow> (BacnetCovNotification \<times> nat) outcome" where
  "covServiceHeader buf apdu off =
     (if apdu = kApduUnconfirmedRequest
      then obind (expect kServiceUnconfirmedCovNotification buf off) (\<lambda>off.
        Ok (emptyCovNotification, off))
      else if apdu AND 0xF0 = kApduConfirmedRequest then
        (if off + 2 > length buf then Fail
         else obind (rd buf (off + 1)) (\<lambda>invokeId.
              obind (match kServiceConfirmedCovNotification buf (off + 2)) (\<lambda>off.
                Ok (emptyCovNotification\<lparr>cnInvokeId := invokeId, cnConfirmed := True\<rparr>, off))))
      else Fail)"

definition parseCovNotification :: "bytes \<Rightarrow> BacnetCovNotification outcome" where
  "parseCovNotification buf =
     obind (bvlcHeader 20 True buf) (\<lambda>off.
     obind (readNpduHeader buf off) (\<lambda>off.
     if off \<ge> length buf then Fail
     else obind (rd buf off) (\<lambda>apdu.
     obind (covServiceHeader buf apdu (off + 1)) (\<lambda>(n, off).
     obind (readContextValue buf off 0) (\<lambda>(processId, off).
     obind (readContextValue buf off 1) (\<lambda>(initiatingDevice, off).
     obind (readContextValue buf off 2) (\<lambda>(monitoredObject, off).
     obind (readContextValue buf off 3) (\<lambda>(timeRemaining, off).
     obind (expect 0x4E buf off) (\<lambda>off.
     obind (parseCovProperties buf off
         (n\<lparr>cnProcessId := processId, cnObject := decodeObjectId monitoredObject\<rparr>) False)
       (\<lambda>(n, hasValue, off).
          if hasValue \<and> off + 1 = length buf then obind (match 0x4F buf off) (\<lambda>_. Ok n)
          else Fail))))))))))"

section \<open>Safety\<close>

lemma safe_appendCovProperty:
  assumes "cpArrayIndex pv = kBacnetNoArrayIndex \<or> length out + 13 \<le> cap" and "length out \<le> cap"
  shows "safe (appendCovProperty cap pv out)"
proof (cases "cpArrayIndex pv = kBacnetNoArrayIndex")
  case True
  then show ?thesis
    using contextUnsignedSize_bounds(2) [of "cpProperty pv"] assms(2) unfolding appendCovProperty_def
    by (auto simp: capacity safety sizeSub_def intro!: safe_steps dest!: appendValue_room split: if_splits)
next
  case False
  with assms have "length out + 13 \<le> cap" by simp
  then show ?thesis
    using contextUnsignedSize_bounds(2) [of "cpProperty pv"] contextUnsignedSize_bounds(2) [of "cpArrayIndex pv"]
    unfolding appendCovProperty_def
    by (auto simp: capacity safety sizeSub_def intro!: safe_steps dest!: appendValue_room split: if_splits)
qed

lemma writer_sizes:
  "encodeApplicationValue room v = Some bs \<Longrightarrow> length bs \<le> 256"
  by (auto simp: encodeApplicationValue_def value_writers Let_def unsignedLength_def signedLength_def
      split: BacnetValueType.splits if_splits)

lemma appendCovProperty_size:
  "appendCovProperty cap pv out = Ok r \<Longrightarrow> length r \<le> length out + 268 \<and> length r \<le> cap"
  using contextUnsignedSize_bounds(2) [of "cpProperty pv"] contextUnsignedSize_bounds(2) [of "cpArrayIndex pv"]
  by (auto simp: appendCovProperty_def capacity split: if_splits dest!: appendValue_datagram writer_sizes)

lemma safe_appendCovProperties:
  "(\<forall>pv \<in> set pvs. cpArrayIndex pv = kBacnetNoArrayIndex) \<or> length out + 268 * length pvs \<le> cap \<Longrightarrow>
     length out \<le> cap \<Longrightarrow> safe (appendCovProperties cap pvs out)"
proof (induction pvs arbitrary: out)
  case Nil
  then show ?case by simp
next
  case (Cons pv pvs)
  then have "safe (appendCovProperty cap pv out)" by (intro safe_appendCovProperty) auto
  moreover have "safe (appendCovProperties cap pvs r)" if "appendCovProperty cap pv out = Ok r" for r
    using Cons appendCovProperty_size [OF that] by (intro Cons.IH) auto
  ultimately show ?case by (auto intro!: safe_steps)
qed

lemma length_covPrefix: "length (covPrefix c i) \<le> 10"
  by (simp add: covPrefix_def)

theorem safe_buildCovNotification:
  assumes "(\<forall>pv \<in> set pvs. cpArrayIndex pv = kBacnetNoArrayIndex) \<or> 31 + 268 * length pvs \<le> cap"
  shows "safe (buildCovNotification cap pid dev obj time pvs c i)"
proof -
  let ?fields = "writeContextUnsigned 0 pid @ writeContextObjectIdentifier 1 dev @
      writeContextObjectIdentifier 2 obj @ writeContextUnsigned 3 time @ [0x4E]"
  have "length (covPrefix c i) + length ?fields \<le> 31"
    using length_covPrefix [of c i] contextUnsignedSize_bounds(2) [of pid] contextUnsignedSize_bounds(2) [of time]
    by (simp add: capacity)
  then show ?thesis
    using assms unfolding buildCovNotification_def
    by (auto simp del: append_assoc simp: add.assoc intro!: safe_steps safe_appendCovProperties split: if_splits)
qed

lemma safe_parseCovProperties:
  "(\<And>off. \<not> unconvertibleReal buf off) \<Longrightarrow> safe (parseCovProperties buf off n h)"
proof (induction buf off n h rule: parseCovProperties.induct)
  case (1 buf off n h)
  then show ?case
    by (subst parseCovProperties.simps) (auto simp: safety intro!: safe_steps)
qed

text \<open>
  The parser leaves the datagram in one way only: a confirmed notification that ends right
  after its invoke id, whose service choice is read without a test.
\<close>

definition truncatedConfirmedCov :: "bytes \<Rightarrow> bool" where
  "truncatedConfirmedCov buf \<longleftrightarrow>
     (\<exists>off. readNpduHeader buf 4 = Ok off \<and> off + 3 = length buf \<and>
        buf ! off AND 0xF0 = kApduConfirmedRequest)"

lemma parseCovNotification_Undef:
  assumes "parseCovNotification buf = Undef"
  shows "truncatedConfirmedCov buf \<or> (\<exists>off. unconvertibleReal buf off)"
proof (rule ccontr)
  assume "\<not> ?thesis"
  then have t: "\<not> truncatedConfirmedCov buf" and r: "\<And>off. \<not> unconvertibleReal buf off" by auto
  have "off + 2 < length buf" if "readNpduHeader buf 4 = Ok off" "buf ! off AND 0xF0 = kApduConfirmedRequest"
    "off + 3 \<le> length buf" for off
    using that by simp
  have "off + 2 + 1 < length buf"
    if "readNpduHeader buf 4 = Ok off" "buf ! off AND 0xF0 = kApduConfirmedRequest" "off + 3 \<le> length buf" for off
    using that t unfolding truncatedConfirmedCov_def by force
  then have "safe (parseCovNotification buf)"
    unfolding parseCovNotification_def covServiceHeader_def using r
    by (auto simp: safety safe_parseCovProperties intro!: safe_steps dest!: bvlcHeader_Ok)
  with assms show False by simp
qed

section \<open>The notification a subscriber sees\<close>

text \<open>One entry on the wire, and what reading it does to the notification being collected.\<close>

definition encodesProperty :: "bytes \<Rightarrow> BacnetCovPropertyValue \<Rightarrow> bool" where
  "encodesProperty bs pv \<longleftrightarrow> (\<exists>room v. encodeApplicationValue room (cpValue pv) = Some v \<and>
     bs = writeContextUnsigned 0 (cpProperty pv) @
       (if cpArrayIndex pv \<noteq> kBacnetNoArrayIndex then writeContextUnsigned 1 (cpArrayIndex pv) else []) @
       [0x2E] @ v @ [0x2F])"

primrec collect :: "BacnetCovPropertyValue list \<Rightarrow> bool \<Rightarrow> BacnetCovNotification \<Rightarrow> BacnetCovNotification" where
  "collect [] hasValue n = n"
| "collect (pv # pvs) hasValue n =
     collect pvs True (recordCovProperty (cpProperty pv) (cpArrayIndex pv) (cpValue pv) hasValue n)"

definition sameReport :: "BacnetCovPropertyValue \<Rightarrow> BacnetCovPropertyValue \<Rightarrow> bool" where
  "sameReport a b \<longleftrightarrow> cpProperty a = cpProperty b \<and> cpArrayIndex a = cpArrayIndex b \<and>
     normalValue (cpValue a) = normalValue (cpValue b)"

definition readableReport :: "BacnetCovPropertyValue \<Rightarrow> bool" where
  "readableReport pv \<longleftrightarrow> singleValueRead (cpProperty pv) (cpArrayIndex pv) \<and> realPrintable (cpValue pv)"

lemma appendCovProperties_Ok:
  "appendCovProperties cap pvs out = Ok r \<Longrightarrow>
     \<exists>bss. list_all2 encodesProperty bss pvs \<and> r = out @ concat bss"
proof (induction pvs arbitrary: out)
  case Nil
  then show ?case by (intro exI [of _ "[]"]) simp
next
  case (Cons pv pvs)
  then obtain o1 where o1: "appendCovProperty cap pv out = Ok o1" "appendCovProperties cap pvs o1 = Ok r"
    by auto
  have "\<exists>bs. encodesProperty bs pv \<and> o1 = out @ bs"
    using o1(1) unfolding appendCovProperty_def encodesProperty_def
    by (fastforce split: if_splits dest!: appendValue_datagram)
  then obtain bs where bs: "encodesProperty bs pv" "o1 = out @ bs" by blast
  obtain bss where "list_all2 encodesProperty bss pvs" "r = o1 @ concat bss" using Cons.IH [OF o1(2)] by blast
  with bs have "list_all2 encodesProperty (bs # bss) (pv # pvs)" "r = out @ concat (bs # bss)" by simp_all
  then show ?case by blast
qed

lemma parse_one_property:
  assumes enc: "encodesProperty bs pv" and s: "sits buf off bs" and ok: "readableReport pv"
    and next0: "off + length bs < length buf" "buf ! (off + length bs) = 0x4F \<or> tagNumberOf (buf ! (off + length bs)) = 0"
  shows "\<exists>w. normalValue w = normalValue (cpValue pv) \<and>
    parseCovProperties buf off n h = parseCovProperties buf (off + length bs)
      (recordCovProperty (cpProperty pv) (cpArrayIndex pv) w h n) True"
proof -
  obtain room v where v: "encodeApplicationValue room (cpValue pv) = Some v"
    and bs: "bs = writeContextUnsigned 0 (cpProperty pv) @
       (if cpArrayIndex pv \<noteq> kBacnetNoArrayIndex then writeContextUnsigned 1 (cpArrayIndex pv) else []) @
       [0x2E] @ v @ [0x2F] @ []"
    using enc by (auto simp: encodesProperty_def)
  define p1 p2 where "p1 = writeContextUnsigned 0 (cpProperty pv)"
    and "p2 = (if cpArrayIndex pv \<noteq> kBacnetNoArrayIndex then writeContextUnsigned 1 (cpArrayIndex pv) else [])"
  define a b c where "a = off + length p1" and "b = a + length p2" and "c = b + 1 + length v"
  note parts = sits_service [OF s [unfolded bs, folded p1_def p2_def] a_def b_def c_def]
  have len: "off + length bs = c + 1" by (simp add: bs p1_def [symmetric] p2_def [symmetric] a_def b_def c_def)
  have hd: "off < length buf" "buf ! off \<noteq> 0x4F"
  proof -
    have "tagNumberOf (buf ! off) = 0" "off < length buf"
      using parts(1) length_nibble(1) [OF _ contextLength_bounds(1,2), of 0 "cpProperty pv"]
      by (simp_all add: p1_def writeContextUnsigned_eq)
    then show "off < length buf" "buf ! off \<noteq> 0x4F" by (auto simp: tagNumberOf_def)
  qed
  have r1: "readContextValue buf off 0 = Ok (cpProperty pv, a)"
    using ctxUnsigned.dec_enc [OF _ parts(1) [unfolded p1_def]] by (simp add: a_def p1_def)
  have r2: "optionalContext 1 kBacnetNoArrayIndex buf a = Ok (cpArrayIndex pv, b)"
    unfolding b_def p2_def
    by (rule optionalContext_sits [where rest = "[0x2E]"])
      (use parts(2,3) in \<open>simp_all add: p2_def [symmetric] b_def [symmetric] contextTagAt_def tag_fields\<close>)
  have r3: "expect 0x2E buf b = Ok (b + 1)" "expect 0x2F buf c = Ok (c + 1)"
    using expect_sits [OF parts(3)] expect_sits [OF parts(5)] by simp_all
  obtain w where w: "parseReadPropertyApplicationValue buf (b + 1) (cpProperty pv) emptyValue (cpArrayIndex pv) =
      Ok (w, c)" "normalValue w = normalValue (cpValue pv)"
    using value_roundtrip [OF v parts(4), of "cpProperty pv" "cpArrayIndex pv" emptyValue] ok
    by (auto simp: readableReport_def c_def)
  have "\<not> contextTagAt 3 buf (c + 1)"
    using next0 by (auto simp: len contextTagAt_def tag_fields)
  then have "parseCovProperties buf off n h =
      parseCovProperties buf (c + 1) (recordCovProperty (cpProperty pv) (cpArrayIndex pv) w h n) True"
    using hd r3 w(1) by (subst parseCovProperties.simps) (simp add: r1 r2)
  with w(2) len show ?thesis by auto
qed

lemma encodesProperty_head:
  "encodesProperty bs pv \<Longrightarrow> bs \<noteq> [] \<and> tagNumberOf (hd bs) = 0"
  using length_nibble(1) [OF _ contextLength_bounds(1,2), of 0 "cpProperty pv"]
  by (auto simp: encodesProperty_def writeContextUnsigned_eq)

lemma parse_all_properties:
  "list_all2 encodesProperty bss pvs \<Longrightarrow> sits buf off (concat bss @ [0x4F]) \<Longrightarrow>
     list_all readableReport pvs \<Longrightarrow>
     \<exists>pvs'. list_all2 sameReport pvs' pvs \<and>
       parseCovProperties buf off n h =
         Ok (collect pvs' h n, h \<or> pvs \<noteq> [], off + length (concat bss))"
proof (induction pvs arbitrary: bss off n h)
  case Nil
  then show ?case by (subst parseCovProperties.simps) simp
next
  case (Cons pv pvs)
  then obtain bs rest where bss: "bss = bs # rest" and enc: "encodesProperty bs pv"
    and rest: "list_all2 encodesProperty rest pvs"
    by (auto simp: list_all2_Cons2)
  have s: "sits buf off bs" "sits buf (off + length bs) (concat rest @ [0x4F])"
    using Cons.prems(2) bss by (simp_all add: add.assoc)
  have "buf ! (off + length bs) = 0x4F \<or> tagNumberOf (buf ! (off + length bs)) = 0"
    "off + length bs < length buf"
  proof -
    show "off + length bs < length buf" using sits_le [OF s(2)] by simp
    show "buf ! (off + length bs) = 0x4F \<or> tagNumberOf (buf ! (off + length bs)) = 0"
    proof (cases rest)
      case Nil
      then show ?thesis using s(2) by simp
    next
      case (Cons b2 r2)
      then obtain pv2 where "encodesProperty b2 pv2" using rest by (auto simp: list_all2_Cons1)
      from encodesProperty_head [OF this] s(2) Cons show ?thesis by (cases b2) auto
    qed
  qed
  with parse_one_property [OF enc s(1)] Cons.prems(3) obtain w where
    w: "normalValue w = normalValue (cpValue pv)" "parseCovProperties buf off n h =
      parseCovProperties buf (off + length bs)
        (recordCovProperty (cpProperty pv) (cpArrayIndex pv) w h n) True"
    by auto
  obtain pvs' where ih: "list_all2 sameReport pvs' pvs" "parseCovProperties buf (off + length bs)
        (recordCovProperty (cpProperty pv) (cpArrayIndex pv) w h n) True =
      Ok (collect pvs' True (recordCovProperty (cpProperty pv) (cpArrayIndex pv) w h n), True,
          off + length bs + length (concat rest))"
    using Cons.IH [OF rest s(2), of "recordCovProperty (cpProperty pv) (cpArrayIndex pv) w h n" True]
      Cons.prems(3) by auto
  show ?case
    by (rule exI [of _ "pv\<lparr>cpValue := w\<rparr> # pvs'"]) (use w ih bss in \<open>simp add: add.assoc, simp add: sameReport_def\<close>)
qed

text \<open>What is collected: the first four properties, and the value of the last Present_Value or, without one, of the first property.\<close>

definition reported :: "BacnetCovPropertyValue list \<Rightarrow> BacnetCovPropertyValue" where
  "reported pvs = (case filter (\<lambda>pv. cpProperty pv = PropPresentValue) pvs of
      [] \<Rightarrow> hd pvs | pvs' \<Rightarrow> last pvs')"

lemma collect_properties:
  "cnProperties (collect pvs h n) = cnProperties n @ take (kMaxProperties - length (cnProperties n)) pvs"
proof (induction pvs arbitrary: h n)
  case Nil
  then show ?case by simp
next
  case (Cons pv pvs)
  then show ?case
    by (cases "length (cnProperties n) < kMaxProperties"; cases pv)
      (auto simp: recordCovProperty_def Let_def Suc_diff_Suc take_Cons' simp flip: Suc_diff_le)
qed

lemma collect_header:
  "cnProcessId (collect pvs h n) = cnProcessId n" "cnObject (collect pvs h n) = cnObject n"
  "cnConfirmed (collect pvs h n) = cnConfirmed n" "cnInvokeId (collect pvs h n) = cnInvokeId n"
  by (induction pvs arbitrary: h n) (auto simp: recordCovProperty_def Let_def)

definition mainReport :: "BacnetCovNotification \<Rightarrow> BacnetCovPropertyValue" where
  "mainReport n = \<lparr>cpProperty = cnProperty n, cpArrayIndex = cnArrayIndex n, cpValue = cnValue n\<rparr>"

lemma mainReport_record:
  "mainReport (recordCovProperty p i v h n) =
     (if \<not> h \<or> p = PropPresentValue then \<lparr>cpProperty = p, cpArrayIndex = i, cpValue = v\<rparr> else mainReport n)"
  by (simp add: mainReport_def recordCovProperty_def Let_def)

lemma collect_main_more:
  "mainReport (collect pvs True n) =
     (case filter (\<lambda>pv. cpProperty pv = PropPresentValue) pvs of [] \<Rightarrow> mainReport n | ps \<Rightarrow> last ps)"
  by (induction pvs arbitrary: n) (auto simp: mainReport_record split: list.splits)

lemma collect_main: "pvs \<noteq> [] \<Longrightarrow> mainReport (collect pvs False n) = reported pvs"
  by (cases pvs) (auto simp: collect_main_more mainReport_record reported_def split: list.splits)

lemma buildCovNotification_Ok:
  assumes "buildCovNotification cap pid dev obj time pvs confirmed i = Ok out"
  shows "\<exists>bss. list_all2 encodesProperty bss pvs \<and> pvs \<noteq> [] \<and>
    out = patchLength (covPrefix confirmed i @ writeContextUnsigned 0 pid @
      writeContextObjectIdentifier 1 dev @ writeContextObjectIdentifier 2 obj @
      writeContextUnsigned 3 time @ [0x4E] @ concat bss @ [0x4F])"
  using assms unfolding buildCovNotification_def
  by (fastforce split: if_splits dest!: appendCovProperties_Ok)

text \<open>The fields between the prefix and the closing tag.\<close>

lemma cov_fields:
  assumes "sits out off (writeContextUnsigned 0 pid @ writeContextObjectIdentifier 1 dev @
      writeContextObjectIdentifier 2 obj @ writeContextUnsigned 3 time @ [0x4E] @ bs @ [0x4F])"
  obtains a b c d where "readContextValue out off 0 = Ok (pid, a)"
    "readContextValue out a 1 = Ok (encodeObjectId dev, b)"
    "readContextValue out b 2 = Ok (encodeObjectId obj, c)"
    "readContextValue out c 3 = Ok (time, d)" "expect 0x4E out d = Ok (d + 1)"
    "sits out (d + 1) (bs @ [0x4F])"
    "d + 1 = off + length (writeContextUnsigned 0 pid @ writeContextObjectIdentifier 1 dev @
      writeContextObjectIdentifier 2 obj @ writeContextUnsigned 3 time @ [0x4E])"
proof -
  define a where "a = off + length (writeContextUnsigned 0 pid)"
  define b where "b = a + 5"
  define c where "c = b + 5"
  define d where "d = c + length (writeContextUnsigned 3 time)"
  have parts: "sits out off (writeContextUnsigned 0 pid)" "sits out a (writeContextObjectIdentifier 1 dev)"
    "sits out b (writeContextObjectIdentifier 2 obj)" "sits out c (writeContextUnsigned 3 time)"
    "sits out d [0x4E]" "sits out (d + 1) (bs @ [0x4F])"
    using assms by (simp_all add: a_def b_def c_def d_def length_context_fields add.assoc)
  show thesis
  proof
    show "readContextValue out off 0 = Ok (pid, a)" using ctxUnsigned.dec_enc [OF _ parts(1)] by (simp add: a_def)
    show "readContextValue out a 1 = Ok (encodeObjectId dev, b)"
      using readContextValue_sits [of 1 4 "encodeObjectId dev" out a] parts(2)
      by (simp add: writeContextObjectIdentifier_eq b_def)
    show "readContextValue out b 2 = Ok (encodeObjectId obj, c)"
      using readContextValue_sits [of 2 4 "encodeObjectId obj" out b] parts(3)
      by (simp add: writeContextObjectIdentifier_eq c_def)
    show "readContextValue out c 3 = Ok (time, d)" using ctxUnsigned.dec_enc [OF _ parts(4)] by (simp add: d_def)
    show "expect 0x4E out d = Ok (d + 1)" by (rule expect_sits [OF parts(5)])
    show "sits out (d + 1) (bs @ [0x4F])" by (rule parts(6))
    show "d + 1 = off + length (writeContextUnsigned 0 pid @ writeContextObjectIdentifier 1 dev @
      writeContextObjectIdentifier 2 obj @ writeContextUnsigned 3 time @ [0x4E])"
      by (simp add: a_def b_def c_def d_def length_context_fields)
  qed
qed

lemma parseCovNotification_built:
  assumes build: "buildCovNotification cap pid dev obj time pvs confirmed i = Ok out"
    and obj: "validObjectId obj" and pvs: "list_all readableReport pvs" and len: "length out \<le> 65000"
  shows "\<exists>n pvs'. parseCovNotification out = Ok n \<and> list_all2 sameReport pvs' pvs \<and>
    cnProcessId n = pid \<and> cnObject n = obj \<and> cnConfirmed n = confirmed \<and>
    cnInvokeId n = (if confirmed then i else 0) \<and> cnProperties n = take kMaxProperties pvs' \<and>
    mainReport n = reported pvs'"
proof -
  obtain bss where bss: "list_all2 encodesProperty bss pvs" "pvs \<noteq> []" and
    out0: "out = patchLength (covPrefix confirmed i @ writeContextUnsigned 0 pid @
      writeContextObjectIdentifier 1 dev @ writeContextObjectIdentifier 2 obj @
      writeContextUnsigned 3 time @ [0x4E] @ concat bss @ [0x4F])"
    using buildCovNotification_Ok [OF build] by blast
  define rest where "rest = writeContextUnsigned 0 pid @
      writeContextObjectIdentifier 1 dev @ writeContextObjectIdentifier 2 obj @
      writeContextUnsigned 3 time @ [0x4E] @ concat bss @ [0x4F]"
  define apdu where "apdu = (if confirmed then [kApduConfirmedRequest, 0x05, i, kServiceConfirmedCovNotification]
      else [kApduUnconfirmedRequest, kServiceUnconfirmedCovNotification])"
  define control where "control = (if confirmed then kNpduExpectingReply else (0 :: u8))"
  define body where "body = [kNpduVersion, control] @ apdu @ rest"
  have out: "out = datagram kBvlcOriginalUnicastNpdu body"
    using out0 patchLength_datagram [of kBvlcOriginalUnicastNpdu 0 0 body]
    by (simp add: covPrefix_def body_def rest_def apdu_def control_def)
  have big: "12 \<le> length rest" using contextUnsignedSize_bounds(1)
    by (simp add: rest_def capacity)
  have "sits body 0 ([kNpduVersion, control] @ apdu @ rest)" by (simp add: body_def del: sits_append append_Cons append_Nil)
  then have "sits body 0 [kNpduVersion, control]" "sits body 2 apdu" "sits body (2 + length apdu) rest"
    unfolding sits_append by (simp_all add: numeral_2_eq_2)
  then have s: "sits out 4 [kNpduVersion, control]" "sits out 6 apdu" "sits out (6 + length apdu) rest"
    using sits_datagram [of kBvlcOriginalUnicastNpdu body 0] sits_datagram [of kBvlcOriginalUnicastNpdu body 2]
      sits_datagram [of kBvlcOriginalUnicastNpdu body "2 + length apdu"]
    unfolding out by (simp_all del: sits.simps)
  have lo: "length out = 6 + length apdu + length rest" by (simp add: out body_def)
  have frame: "bvlcHeader 20 True out = Ok 4"
    unfolding out using len lo big
    by (intro bvlcHeader_datagram) (simp_all add: out body_def apdu_def split: if_splits)
  have npdu: "readNpduHeader out 4 = Ok 6"
    using readNpduHeader_plain [OF s(1)] by (simp add: control_def split: if_splits)
  obtain a b c d where f: "readContextValue out (6 + length apdu) 0 = Ok (pid, a)"
    "readContextValue out a 1 = Ok (encodeObjectId dev, b)" "readContextValue out b 2 = Ok (encodeObjectId obj, c)"
    "readContextValue out c 3 = Ok (time, d)" "expect 0x4E out d = Ok (d + 1)" "sits out (d + 1) (concat bss @ [0x4F])"
    and d: "d + 1 = (6 + length apdu) + length (writeContextUnsigned 0 pid @ writeContextObjectIdentifier 1 dev @
      writeContextObjectIdentifier 2 obj @ writeContextUnsigned 3 time @ [0x4E])"
    by (rule cov_fields [OF s(3) [unfolded rest_def]])
  define n0 where "n0 = (if confirmed then emptyCovNotification\<lparr>cnInvokeId := i, cnConfirmed := True\<rparr>
      else emptyCovNotification)\<lparr>cnProcessId := pid, cnObject := decodeObjectId (encodeObjectId obj)\<rparr>"
  obtain pvs' where p: "list_all2 sameReport pvs' pvs" "parseCovProperties out (d + 1) n0 False =
      Ok (collect pvs' False n0, True, d + 1 + length (concat bss))"
    using parse_all_properties [OF bss(1) f(6) pvs, of n0 False] bss(2) by auto
  define e where "e = d + 1 + length (concat bss)"
  have e: "e + 1 = length out" unfolding e_def d lo rest_def by simp
  have m: "match 0x4F out e = Ok (e + 1)" using f(6) by (intro match_sits) (simp add: e_def)
  have r: "rd out 6 = Ok (hd apdu)" "\<not> 6 \<ge> length out" using s(2) lo by (simp_all add: apdu_def split: if_splits)
  have h: "covServiceHeader out (hd apdu) (6 + 1) = Ok (if confirmed
      then emptyCovNotification\<lparr>cnInvokeId := i, cnConfirmed := True\<rparr> else emptyCovNotification, 6 + length apdu)"
    using s(2) lo by (cases confirmed) (simp_all add: covServiceHeader_def apdu_def expect_def match_def)
  define d1 o1 where "d1 = d + 1" and "o1 = 6 + length apdu"
  have "parseCovNotification out = Ok (collect pvs' False n0)"
    using f(1-4) [folded o1_def] f(5) [folded d1_def] p(2) [folded e_def, folded d1_def] r
      h [folded o1_def] m e unfolding parseCovNotification_def frame
    by (simp add: npdu n0_def [symmetric])
  moreover have "pvs' \<noteq> []" using p(1) bss(2) by auto
  ultimately show ?thesis
    using p(1) decodeObjectId_encodeObjectId [OF obj]
    by (intro exI [of _ "collect pvs' False n0"] exI [of _ pvs'])
      (auto simp: collect_header collect_properties collect_main n0_def emptyCovNotification_def)
qed

text \<open>
  C25: A COV notification is parsed to the subscriber process, monitored object, confirmed flag,
  invoke id and the reported properties in order (up to the receiver table size), and its main
  value is the reported Present_Value, or the first property when there is none.
\<close>

theorem covNotification_roundtrip:
  assumes "buildCovNotification cap pid dev obj time pvs confirmed i = Ok out"
    and "validObjectId obj" and "list_all readableReport pvs" and "length out \<le> 65000"
  shows "\<exists>n pvs'. parseCovNotification out = Ok n \<and> list_all2 sameReport pvs' pvs \<and>
    cnProcessId n = pid \<and> cnObject n = obj \<and> cnConfirmed n = confirmed \<and>
    cnInvokeId n = (if confirmed then i else 0) \<and> cnProperties n = take kMaxProperties pvs' \<and>
    mainReport n = reported pvs'"
  by (rule parseCovNotification_built [OF assms])

theorem covNotification_roundtrip_witness:
  "\<exists>n pvs'. parseCovNotification
      [129, 10, 0, 40, 1, 4, 0, 5, 5, 1, 9, 17, 28, 2, 0, 0, 1, 44, 0, 128, 0, 7, 57, 60, 78, 9, 85, 46,
       34, 1, 244, 47, 9, 111, 46, 130, 4, 0, 47, 79] = Ok n \<and>
    cnProcessId n = 17 \<and> cnInvokeId n = 5 \<and> cnConfirmed n \<and> cnProperties n = take kMaxProperties pvs' \<and>
    list_all2 sameReport pvs'
      [\<lparr>cpProperty = 85, cpArrayIndex = kBacnetNoArrayIndex, cpValue = emptyValue\<lparr>vType := TyUnsigned, vUnsigned := 500\<rparr>\<rparr>,
       \<lparr>cpProperty = 111, cpArrayIndex = kBacnetNoArrayIndex, cpValue = emptyValue\<lparr>vType := TyBitString, vBitCount := 4\<rparr>\<rparr>]"
proof -
  let ?pvs = "[\<lparr>cpProperty = 85, cpArrayIndex = kBacnetNoArrayIndex, cpValue = emptyValue\<lparr>vType := TyUnsigned, vUnsigned := 500\<rparr>\<rparr>,
       \<lparr>cpProperty = 111, cpArrayIndex = kBacnetNoArrayIndex, cpValue = emptyValue\<lparr>vType := TyBitString, vBitCount := 4\<rparr>\<rparr>]"
  have build: "buildCovNotification 80 17 \<lparr>objType = 8, objInstance = 1\<rparr> \<lparr>objType = 2, objInstance = 7\<rparr> 60 ?pvs True 5 =
      Ok [129, 10, 0, 40, 1, 4, 0, 5, 5, 1, 9, 17, 28, 2, 0, 0, 1, 44, 0, 128, 0, 7, 57, 60, 78, 9, 85, 46,
       34, 1, 244, 47, 9, 111, 46, 130, 4, 0, 47, 79]" by code_simp
  have obj: "validObjectId \<lparr>objType = 2, objInstance = 7\<rparr>" by code_simp
  have pvs: "list_all readableReport ?pvs" by code_simp
  from covNotification_roundtrip [OF build obj pvs] show ?thesis by auto
qed

end
