(* ===== verification/WireProperties.thy ===== *)
theory WireProperties
  imports CovNotification
begin

text \<open>
  Properties of the protocol layer as a whole: the parsers never leave the datagram they are
  given except in the cases named here, the builders never leave a buffer of the sizes named
  here, and application values survive the wire. The request and response round trips are in
  \<open>RequestLaws\<close>, \<open>ResponseLaws\<close> and \<open>CovNotification\<close>.
\<close>

text \<open>
  C17: Every parser of an incoming datagram that does not decode an application value stays
  inside the datagram, whatever bytes it holds.
\<close>

theorem request_parsers_stay_inside:
  "safe (parseWhoIsRequest buf) \<and> safe (parseConfirmedRequestHeader buf) \<and>
   safe (parseReadPropertyRequest buf) \<and> safe (parseSubscribeCovRequest buf) \<and>
   safe (parseIAmResponse buf) \<and> safe (parseReadPropertyError buf i) \<and>
   safe (classifyReadPropertyResponse buf i) \<and> safe (classifyWritePropertyResponse buf i) \<and>
   safe (isSimpleAck buf i s) \<and> safe (classifySubscribeCovResponse buf i s) \<and>
   safe (classifyConfirmedCovNotificationResponse buf i) \<and> safe (readPropertyUnexpectedStatus buf)"
  by (simp add: safety)

text \<open>
  C18: The parsers that decode application values can only go wrong on a Real whose text
  conversion has no defined result; on every other datagram they stay inside it.
\<close>

theorem value_parsers_stay_inside:
  assumes "parseWritePropertyRequest buf = Undef \<or> parseReadPropertyAck buf i r = Undef \<or>
    parseReadPropertyAckOf buf i p = Undef \<or> parseReadPriorityArrayAck buf i r = Undef"
  shows "\<exists>off. unconvertibleReal buf off"
proof (rule ccontr)
  assume "\<not> ?thesis"
  then have ok: "\<And>off. \<not> unconvertibleReal buf off" by blast
  show False
    using assms safe_parseWritePropertyRequest [OF ok] safe_parseReadPropertyAck [OF ok]
      safe_parseReadPropertyAckOf [OF ok] safe_parseReadPriorityArrayAck [OF ok]
    by (auto simp: safe_def)
qed

text \<open>A WriteProperty request whose Real is a NaN.\<close>

theorem value_parsers_stay_inside_witness:
  "\<exists>off. unconvertibleReal
     [129, 10, 0, 24, 1, 4, 0, 5, 9, 15, 12, 0, 128, 0, 7, 25, 85, 0x3E, 0x44, 0x7F, 0xC0, 0, 0, 0x3F] off"
proof (rule value_parsers_stay_inside, rule disjI1)
  show "parseWritePropertyRequest
     [129, 10, 0, 24, 1, 4, 0, 5, 9, 15, 12, 0, 128, 0, 7, 25, 85, 0x3E, 0x44, 0x7F, 0xC0, 0, 0, 0x3F] = Undef"
    by code_simp
qed

text \<open>
  A Real that is a NaN or an infinity always reaches the undefined conversion, whatever
  room its text has.
\<close>

theorem nonfinite_real_is_undefined:
  assumes "\<not> f32_isfinite x"
  shows "writeFixed3Decimal 24 x = Undef"
proof -
  define y where "y = (if f32_less x f32_zero then f32_neg x else x)"
  have "\<not> f32_isfinite y" using assms by (simp add: y_def f32_isfinite_neg)
  then have "\<not> f32_isfinite (f32_add (f32_mul y f32_thousand) f32_half)"
    by (intro f32_add_nonfinite f32_mul_nonfinite) (simp_all add: f32_eval)
  then have "f32_to_u32 (f32_add (f32_mul y f32_thousand) f32_half) = Undef"
    by (simp add: f32_to_u32_def)
  then show ?thesis by (simp add: writeFixed3Decimal_def Let_def y_def)
qed

theorem nonfinite_real_is_undefined_witness: "writeFixed3Decimal 24 0xFF800000 = Undef"
  by (rule nonfinite_real_is_undefined) (simp add: f32_isfinite_def f32_exp_def)

text \<open>
  C19: The COV notification parser can leave the datagram in one further case, a confirmed
  notification that ends right after its invoke id.
\<close>

theorem cov_parser_stays_inside:
  assumes "parseCovNotification buf = Undef"
  shows "truncatedConfirmedCov buf \<or> (\<exists>off. unconvertibleReal buf off)"
  by (rule parseCovNotification_Undef [OF assms])

theorem cov_parser_stays_inside_witness:
  "truncatedConfirmedCov [129, 10, 0, 20, 1, 0x20, 0, 0, 7, 1, 2, 3, 4, 5, 6, 7, 9, 0, 5, 1] \<or>
   (\<exists>off. unconvertibleReal [129, 10, 0, 20, 1, 0x20, 0, 0, 7, 1, 2, 3, 4, 5, 6, 7, 9, 0, 5, 1] off)"
proof (rule cov_parser_stays_inside)
  show "parseCovNotification [129, 10, 0, 20, 1, 0x20, 0, 0, 7, 1, 2, 3, 4, 5, 6, 7, 9, 0, 5, 1] = Undef"
    by code_simp
qed

text \<open>
  C20: The builders whose size checks are complete stay inside a buffer of any size.
\<close>

theorem builders_stay_inside:
  "safe (buildWhoIsRequest cap) \<and> safe (buildIAmResponse cap device) \<and> safe (buildRejectResponse cap i r) \<and>
   safe (buildReadPropertyRequest cap request i) \<and>
   safe (buildSubscribeCovRequest cap pid obj life conf) \<and>
   safe (buildSubscribeCovPropertyRequest cap pid obj pr life conf idx has inc) \<and>
   safe (buildReadPropertyError cap i c e) \<and> safe (buildWritePropertyError cap i c e) \<and>
   safe (buildServiceErrorResponse cap i s c e) \<and> safe (buildWritePropertyAck cap i) \<and>
   safe (buildSimpleAckResponse cap i s)"
  by (simp add: safety)

section \<open>Exact bounds of the remaining builders\<close>

lemma emit_overrun: "cap < length out + length bs \<Longrightarrow> emit cap bs out = Undef"
  by (simp add: emit_def)

lemma longest_context: "length (writeContextUnsigned t 0x1000000) = 5"
  by (simp add: writeContextUnsigned_def)

definition longRequest :: BacnetReadPropertyRequestHeader where
  "longRequest = \<lparr>rrInvokeId = 0, rrRequest = \<lparr>rqObject = \<lparr>objType = 0, objInstance = 0\<rparr>,
     rqProperty = 0x1000000, rqArrayIndex = 0x1000000\<rparr>\<rparr>"

lemma longRequest_overruns:
  "20 \<le> cap \<Longrightarrow> cap < 24 \<Longrightarrow> buildReadPropertyAck cap longRequest v = Undef"
  "16 \<le> cap \<Longrightarrow> cap < 24 \<Longrightarrow> writeReadPropertyAckPrefix cap longRequest = Undef"
  by (simp_all add: buildReadPropertyAck_def writeReadPropertyAckPrefix_def longRequest_def Let_def
      responsePrefix_def kObjectInstanceMask_def kBacnetNoArrayIndex_def emit_overrun longest_context
      writeContextObjectIdentifier_def beBytes_def)

text \<open>
  C21: The acknowledgement builder admits buffers from 20 bytes on, but some request makes it
  write past a buffer of 20 to 23 bytes: it is safe for every request and value exactly
  outside that range.
\<close>

theorem readPropertyAck_exact_bound:
  "(\<forall>request v. safe (buildReadPropertyAck cap request v)) \<longleftrightarrow> cap < 20 \<or> 24 \<le> cap"
proof
  assume "\<forall>request v. safe (buildReadPropertyAck cap request v)"
  then have "safe (buildReadPropertyAck cap longRequest emptyValue)" by blast
  then show "cap < 20 \<or> 24 \<le> cap"
    using longRequest_overruns(1) [of cap emptyValue] by (force simp: safe_def)
next
  assume bound: "cap < 20 \<or> 24 \<le> cap"
  have "buildReadPropertyAck cap request v = Fail" if "cap < 20" for request v
    using that by (simp add: buildReadPropertyAck_def Let_def)
  then show "\<forall>request v. safe (buildReadPropertyAck cap request v)"
    using bound safe_buildReadPropertyAck by (auto simp: safe_def)
qed

text \<open>
  The list acknowledgements (priority array, object list, property list, strings, empty
  list) admit buffers from 16 bytes on and are safe exactly below that and from 24 bytes on.
\<close>

theorem listAck_exact_bound:
  "(\<forall>request. safe (buildReadPropertyEmptyListAck cap request) \<and>
     (\<forall>n objectAt. safe (buildReadPropertyObjectListAck cap request n objectAt)) \<and>
     (\<forall>n propertyAt. safe (buildReadPropertyPropertyListAck cap request n propertyAt)) \<and>
     (\<forall>n valueAt. safe (buildReadPropertyPriorityArrayAck cap request n valueAt)) \<and>
     (\<forall>strings. safe (buildReadPropertyCharacterStringListAck cap request strings)))
   \<longleftrightarrow> cap < 16 \<or> 24 \<le> cap"
    (is "?safe \<longleftrightarrow> _")
proof
  assume ?safe
  then have s: "safe (buildReadPropertyObjectListAck cap longRequest 1 (Some (\<lambda>i. None)))" by blast
  show "cap < 16 \<or> 24 \<le> cap"
  proof (rule ccontr)
    assume "\<not> ?thesis"
    then have "writeReadPropertyAckPrefix cap longRequest = Undef"
      by (intro longRequest_overruns(2)) auto
    with s show False by (simp add: buildReadPropertyObjectListAck_def openListAck_def safe_def)
  qed
next
  assume "cap < 16 \<or> 24 \<le> cap"
  then show ?safe
  proof
    assume small: "cap < 16"
    then have fail: "openListAck cap request = Fail" "writeReadPropertyAckPrefix cap request = Fail" for request
      by (simp_all add: openListAck_def writeReadPropertyAckPrefix_def Let_def)
    show ?safe
      by (auto simp: buildReadPropertyEmptyListAck_def buildReadPropertyObjectListAck_def
          buildReadPropertyPropertyListAck_def buildReadPropertyPriorityArrayAck_def
          buildReadPropertyCharacterStringListAck_def safe_def fail Let_def split: option.splits)
  qed (simp add: safe_list_acks)
qed

text \<open>
  The WriteProperty builder admits buffers from 24 bytes on and is safe for every request
  exactly below that and from 25 bytes on: at 24 bytes the longest prefix overruns the buffer.
\<close>

theorem writePropertyRequest_exact_bound:
  "(\<forall>object property v options invokeId.
      safe (buildWritePropertyRequest cap object property v options invokeId)) \<longleftrightarrow> cap < 24 \<or> 25 \<le> cap"
proof
  assume all: "\<forall>object property v options invokeId.
    safe (buildWritePropertyRequest cap object property v options invokeId)"
  have "buildWritePropertyRequest 24 \<lparr>objType = 0, objInstance = 0\<rparr> 0x1000000 emptyValue
      \<lparr>woArrayIndex = 0x1000000, woHasPriority = False, woPriority = 0\<rparr> 0 = Undef"
    by (simp add: buildWritePropertyRequest_def Let_def confirmedRequestPrefix_def emit_overrun
        longest_context kObjectInstanceMask_def kBacnetNoArrayIndex_def
        writeContextObjectIdentifier_def beBytes_def)
  then have "cap \<noteq> 24" using all by (auto simp: safe_def)
  then show "cap < 24 \<or> 25 \<le> cap" by linarith
next
  assume bound: "cap < 24 \<or> 25 \<le> cap"
  have "buildWritePropertyRequest cap object property v options i = Fail" if "cap < 24"
    for object property v options i
    using that by (simp add: buildWritePropertyRequest_def Let_def)
  then show "\<forall>object property v options invokeId.
      safe (buildWritePropertyRequest cap object property v options invokeId)"
    using bound safe_buildWritePropertyRequest by (auto simp: safe_def)
qed

section \<open>Application values\<close>

text \<open>
  C22: Every application value the encoder accepts is decoded from the same bytes, at any offset
  of any datagram, to a value with the same meaning, and the decoder consumes exactly those
  bytes.
\<close>

theorem applicationValue_roundtrip:
  assumes "encodeApplicationValue room v = Some bs" and "sits buf off bs"
    and "singleValueRead p idx" and "realPrintable v"
  shows "\<exists>w. parseReadPropertyApplicationValue buf off p v0 idx = Ok (w, off + length bs) \<and>
    normalValue w = normalValue v"
  by (rule value_roundtrip [OF assms])

theorem applicationValue_roundtrip_witness:
  "\<exists>w. parseReadPropertyApplicationValue [0x3E, 0x32, 0xFF, 0x38, 0x3F] 1 85 emptyValue kBacnetNoArrayIndex =
      Ok (w, 1 + length [0x32, 0xFF, 0x38 :: u8]) \<and>
    normalValue w = normalValue (emptyValue\<lparr>vType := TySigned, vSigned := -200\<rparr>)"
proof -
  have enc: "encodeApplicationValue 8 (emptyValue\<lparr>vType := TySigned, vSigned := -200\<rparr>) = Some [0x32, 0xFF, 0x38]"
    and sits: "sits [0x3E, 0x32, 0xFF, 0x38, 0x3F] 1 [0x32, 0xFF, 0x38]"
    and read: "singleValueRead 85 kBacnetNoArrayIndex"
    and real: "realPrintable (emptyValue\<lparr>vType := TySigned, vSigned := -200\<rparr>)"
    by code_simp+
  from applicationValue_roundtrip [OF enc sits read real] show ?thesis by blast
qed

text \<open>
  The decimal text of an unsigned value is its value in base ten, without a leading zero
  lost or a digit cut off, for every buffer the text fits in.
\<close>

theorem unsigned_text_value:
  assumes "writeUnsignedDecimal n v = Some ds"
  shows "digitsValue (rev ds) = unat v \<and> length ds < n"
proof -
  have "unat v < 2 ^ 32" using unsigned_less [of v] by simp
  then show ?thesis
    using writeUnsignedDecimal_Some [OF assms] digitsValue_reversedDigits [of v 10] by auto
qed

theorem unsigned_text_value_witness:
  "digitsValue (rev [0x34, 0x32, 0x39, 0x34, 0x39, 0x36, 0x37, 0x32, 0x39, 0x35]) = unat (0xFFFFFFFF :: u32) \<and>
   length [0x34, 0x32, 0x39, 0x34, 0x39, 0x36, 0x37, 0x32, 0x39, 0x35 :: u8] < 11"
proof (rule unsigned_text_value)
  show "writeUnsignedDecimal 11 0xFFFFFFFF =
    Some [0x34, 0x32, 0x39, 0x34, 0x39, 0x36, 0x37, 0x32, 0x39, 0x35]" by code_simp
qed

end
