(* ===== verification/CommandPriority.thy ===== *)
theory CommandPriority
  imports BacnetTypes
begin

text \<open>
  Commandable objects: the 16-slot priority array of
  src/src/core/objects/BacnetCommandPriority.h and the operations on it in
  src/src/core/server/BacnetServer.cpp (\<open>applyAnalogPriorityValue\<close>,
  \<open>BacnetServerBinaryOutput::applyPriorityValue\<close>, \<open>setRelinquishDefaultValue\<close>, the local writes
  of \<open>BacnetBinaryOutput\<close>) with the calls they make. The abstract view of a priority array is a
  partial map from priorities to values; the \<open>priority_array\<close> locale states what the operations
  promise over it, and its lemmas are the rules an application relies on.
\<close>

section \<open>The priority array\<close>

text \<open>\<open>slots\<close> and \<open>occupied\<close> have \<open>kSlotCount\<close> elements.\<close>

record 'a BacnetCommandPriority =
  relinquishDefault :: 'a
  slots :: "'a list"
  occupied :: "bool list"

definition wfPriority :: "'a BacnetCommandPriority \<Rightarrow> bool" where
  "wfPriority p \<longleftrightarrow> length (slots p) = kSlotCount \<and> length (occupied p) = kSlotCount"

text \<open>The loops' search for the first occupied index.\<close>

fun firstOccupied :: "bool list \<Rightarrow> nat \<Rightarrow> nat option" where
  "firstOccupied [] index = None"
| "firstOccupied (b # bs) index = (if b then Some index else firstOccupied bs (Suc index))"

definition effectiveValue :: "'a BacnetCommandPriority \<Rightarrow> 'a" where
  "effectiveValue p =
     (case firstOccupied (occupied p) 0 of
        Some index \<Rightarrow> slots p ! index | None \<Rightarrow> relinquishDefault p)"

definition effectivePriority :: "'a BacnetCommandPriority \<Rightarrow> u8" where
  "effectivePriority p =
     (case firstOccupied (occupied p) 0 of
        Some index \<Rightarrow> word_of_nat (index + 1) | None \<Rightarrow> 0)"

definition writePriority ::
    "'a BacnetCommandPriority \<Rightarrow> u8 \<Rightarrow> bool \<Rightarrow> 'a \<Rightarrow> 'a BacnetCommandPriority option" where
  "writePriority p priority relinquish v =
     (if priority = 0 \<or> unat priority > kSlotCount then None
      else
        let index = unat priority - 1;
            p = p\<lparr>occupied := (occupied p)[index := \<not> relinquish]\<rparr>
        in Some (if relinquish then p else p\<lparr>slots := (slots p)[index := v]\<rparr>))"

section \<open>Operations with their callbacks\<close>

datatype BacnetChangeOrigin = OriginLocal | OriginBacnetWriteProperty | OriginRelinquishDefault

text \<open>
  The calls an operation makes: the output hook and the four listeners with the structure they
  are passed. A listener's own context pointer is passed back unchanged and is left out.
\<close>

datatype 'a CommandEvent =
    OutputApplied 'a bool
  | PriorityValueChanged BacnetObjectId u8 bool 'a bool 'a BacnetChangeOrigin
  | EffectivePriorityChanged BacnetObjectId u8 u8 'a 'a BacnetChangeOrigin
  | PresentValueChanged BacnetObjectId 'a 'a BacnetChangeOrigin
  | Relinquished BacnetObjectId u8 'a 'a u8 bool BacnetChangeOrigin

text \<open>Which listeners of the callback storage are set.\<close>

record CallbackStorage =
  onPresentValue :: bool
  onPriorityValue :: "bool list"
  onEffectivePriority :: bool
  onRelinquish :: bool

text \<open>
  The part of a commandable object the operations use: the objects of the server extend it.
  \<open>callbackInProgress\<close> is true while the calls below run and false again afterwards.
\<close>

record 'a Commandable =
  coPriority :: "'a BacnetCommandPriority"
  coOutOfService :: bool
  coApply :: bool
  coCallbacks :: "CallbackStorage option"
  coBusy :: bool

text \<open>
  \<open>differs\<close> is the value type's \<open>!=\<close>: inequality on \<open>bool\<close>, the IEEE comparison on \<open>float\<close>.
\<close>

definition priorityEvents ::
    "('a \<Rightarrow> 'a \<Rightarrow> bool) \<Rightarrow> BacnetObjectId \<Rightarrow> ('a, 'b) Commandable_scheme \<Rightarrow>
     'a BacnetCommandPriority \<Rightarrow> u8 \<Rightarrow> bool \<Rightarrow> BacnetChangeOrigin \<Rightarrow> 'a CommandEvent list" where
  "priorityEvents differs object co new priority relinquish origin =
     (let old = coPriority co; index = unat priority - 1;
          oldOccupied = occupied old ! index; oldSlot = slots old ! index;
          newOccupied = occupied new ! index; newSlot = slots new ! index;
          oldValue = effectiveValue old; newValue = effectiveValue new;
          oldEffective = effectivePriority old; newEffective = effectivePriority new;
          slotChanged = (oldOccupied \<noteq> newOccupied \<or>
                         (oldOccupied \<and> newOccupied \<and> differs oldSlot newSlot))
      in (if coApply co \<and> differs oldValue newValue
          then [OutputApplied newValue (coOutOfService co)] else []) @
         (case coCallbacks co of None \<Rightarrow> []
          | Some cb \<Rightarrow>
              (if slotChanged \<and> onPriorityValue cb ! index
               then [PriorityValueChanged object priority oldOccupied oldSlot newOccupied newSlot origin]
               else []) @
              (if oldEffective \<noteq> newEffective \<and> onEffectivePriority cb
               then [EffectivePriorityChanged object oldEffective newEffective oldValue newValue origin]
               else []) @
              (if differs oldValue newValue \<and> onPresentValue cb
               then [PresentValueChanged object oldValue newValue origin] else []) @
              (if relinquish \<and> onRelinquish cb
               then [Relinquished object priority oldValue newValue newEffective (newEffective = 0) origin]
               else [])))"

text \<open>\<open>None\<close> is the result \<open>false\<close>, which leaves the object as it is and calls nothing.\<close>

definition applyPriority ::
    "('a \<Rightarrow> 'a \<Rightarrow> bool) \<Rightarrow> BacnetObjectId \<Rightarrow> ('a, 'b) Commandable_scheme \<Rightarrow> 'a \<Rightarrow> u8 \<Rightarrow> bool \<Rightarrow>
     BacnetChangeOrigin \<Rightarrow> (('a, 'b) Commandable_scheme \<times> 'a CommandEvent list) option" where
  "applyPriority differs object co v priority relinquish origin =
     (if coBusy co \<or> priority = 0 \<or> unat priority > kSlotCount then None
      else case writePriority (coPriority co) priority relinquish v of None \<Rightarrow> None
      | Some new \<Rightarrow>
          Some (co\<lparr>coPriority := new, coBusy := False\<rparr>,
                priorityEvents differs object co new priority relinquish origin))"

definition applyAnalogPriorityValue ::
    "BacnetObjectId \<Rightarrow> (float32, 'b) Commandable_scheme \<Rightarrow> float32 \<Rightarrow> u8 \<Rightarrow> bool \<Rightarrow>
     BacnetChangeOrigin \<Rightarrow> ((float32, 'b) Commandable_scheme \<times> float32 CommandEvent list) option" where
  "applyAnalogPriorityValue = applyPriority (\<lambda>x y. \<not> f32_eq x y)"

definition applyBinaryPriorityValue ::
    "BacnetObjectId \<Rightarrow> (bool, 'b) Commandable_scheme \<Rightarrow> bool \<Rightarrow> u8 \<Rightarrow> bool \<Rightarrow>
     BacnetChangeOrigin \<Rightarrow> ((bool, 'b) Commandable_scheme \<times> bool CommandEvent list) option" where
  "applyBinaryPriorityValue = applyPriority (\<noteq>)"

definition setRelinquishDefaultWith ::
    "('a \<Rightarrow> 'a \<Rightarrow> bool) \<Rightarrow> BacnetObjectId \<Rightarrow> ('a, 'b) Commandable_scheme \<Rightarrow> 'a \<Rightarrow>
     BacnetChangeOrigin \<Rightarrow> (('a, 'b) Commandable_scheme \<times> 'a CommandEvent list) option" where
  "setRelinquishDefaultWith differs object co v origin =
     (if coBusy co then None
      else
        let old = effectiveValue (coPriority co);
            new = (coPriority co)\<lparr>relinquishDefault := v\<rparr>
        in Some (co\<lparr>coPriority := new, coBusy := False\<rparr>,
             (if coApply co \<and> differs old (effectiveValue new)
              then [OutputApplied (effectiveValue new) (coOutOfService co)] else []) @
             (case coCallbacks co of None \<Rightarrow> []
              | Some cb \<Rightarrow> if differs old (effectiveValue new) \<and> onPresentValue cb
                  then [PresentValueChanged object old (effectiveValue new) origin] else [])))"

definition setAnalogRelinquishDefault ::
    "BacnetObjectId \<Rightarrow> (float32, 'b) Commandable_scheme \<Rightarrow> float32 \<Rightarrow>
     BacnetChangeOrigin \<Rightarrow> ((float32, 'b) Commandable_scheme \<times> float32 CommandEvent list) option" where
  "setAnalogRelinquishDefault = setRelinquishDefaultWith (\<lambda>x y. \<not> f32_eq x y)"

definition setBinaryRelinquishDefault ::
    "BacnetObjectId \<Rightarrow> (bool, 'b) Commandable_scheme \<Rightarrow> bool \<Rightarrow>
     BacnetChangeOrigin \<Rightarrow> ((bool, 'b) Commandable_scheme \<times> bool CommandEvent list) option" where
  "setBinaryRelinquishDefault = setRelinquishDefaultWith (\<noteq>)"

section \<open>Local writes of a binary output\<close>

text \<open>Priority 0 updates Relinquish_Default, which cannot be relinquished.\<close>

definition applyLocalWrite ::
    "BacnetObjectId \<Rightarrow> (bool, 'b) Commandable_scheme \<Rightarrow> bool \<Rightarrow> u8 \<Rightarrow> bool \<Rightarrow>
     ((bool, 'b) Commandable_scheme \<times> bool CommandEvent list) option" where
  "applyLocalWrite object co v priority relinquish =
     (if priority = 0 then
        (if relinquish then None else setBinaryRelinquishDefault object co v OriginRelinquishDefault)
      else applyBinaryPriorityValue object co v priority relinquish OriginLocal)"

text \<open>
  The priority of \<open>writeValue(value)\<close>: the object's own, else the server's when the object is
  bound to one, else 16.
\<close>

definition localPriority :: "u8 option \<Rightarrow> u8 option \<Rightarrow> u8" where
  "localPriority ownPriority serverPriority =
     (case ownPriority of Some p \<Rightarrow> p
      | None \<Rightarrow> (case serverPriority of Some p \<Rightarrow> p | None \<Rightarrow> word_of_nat kSlotCount))"

definition writeValue ::
    "BacnetObjectId \<Rightarrow> (bool, 'b) Commandable_scheme \<Rightarrow> u8 option \<Rightarrow> u8 option \<Rightarrow> bool \<Rightarrow>
     ((bool, 'b) Commandable_scheme \<times> bool CommandEvent list) option" where
  "writeValue object co ownPriority serverPriority v =
     applyLocalWrite object co v (localPriority ownPriority serverPriority) False"

definition relinquishLocal ::
    "BacnetObjectId \<Rightarrow> (bool, 'b) Commandable_scheme \<Rightarrow> u8 \<Rightarrow>
     ((bool, 'b) Commandable_scheme \<times> bool CommandEvent list) option" where
  "relinquishLocal object co priority =
     (if priority = 0 then None else applyLocalWrite object co False priority True)"

section \<open>What a priority array promises\<close>

text \<open>
  \<open>cmd p\<close> is the abstract state: the command held at each priority. The laws say how the
  operations act on it; everything below follows from them.
\<close>

locale priority_array =
  fixes cmd :: "'p \<Rightarrow> u8 \<Rightarrow> 'v option" and dflt :: "'p \<Rightarrow> 'v"
    and eff :: "'p \<Rightarrow> 'v" and prio :: "'p \<Rightarrow> u8"
    and wr :: "'p \<Rightarrow> u8 \<Rightarrow> bool \<Rightarrow> 'v \<Rightarrow> 'p option" and wf :: "'p \<Rightarrow> bool"
  assumes no_command_0: "cmd p 0 = None"
    and wr_refused: "wr p n r v = None \<longleftrightarrow> n = 0 \<or> 16 < n"
    and wr_cmd: "wf p \<Longrightarrow> wr p n r v = Some q \<Longrightarrow>
      wf q \<and> cmd q = (cmd p)(n := if r then None else Some v) \<and> dflt q = dflt p"
    and prio_least: "wf p \<Longrightarrow> prio p \<noteq> 0 \<Longrightarrow> cmd p (prio p) \<noteq> None \<and> (\<forall>m < prio p. cmd p m = None)"
    and prio_none: "wf p \<Longrightarrow> prio p = 0 \<Longrightarrow> cmd p m = None"
    and eff_prio: "wf p \<Longrightarrow> eff p = (case cmd p (prio p) of Some v \<Rightarrow> v | None \<Rightarrow> dflt p)"
begin

lemma prio_unique:
  "wf p \<Longrightarrow> cmd p n \<noteq> None \<Longrightarrow> (\<And>m. m < n \<Longrightarrow> cmd p m = None) \<Longrightarrow> prio p = n"
  using prio_least [of p] prio_none [of p n] by (metis linorder_neqE)

lemma same_commands:
  assumes "wf p" "wf q" "cmd p = cmd q" "dflt p = dflt q"
  shows "prio p = prio q \<and> eff p = eff q"
proof -
  have "prio p = prio q"
  proof (cases "prio q = 0")
    case True
    then have "cmd p m = None" for m using prio_none [OF assms(2)] assms(3) by simp
    then show ?thesis using prio_least [OF assms(1)] True by metis
  next
    case False
    then show ?thesis using prio_least [OF assms(2) False] assms(1,3) by (intro prio_unique) auto
  qed
  then show ?thesis unfolding eff_prio [OF assms(1)] eff_prio [OF assms(2)] assms(3) assms(4) by simp
qed

text \<open>A command at least as urgent as the effective one takes effect.\<close>

lemma command_wins:
  assumes "wf p" "wr p n False v = Some q" "prio p = 0 \<or> n \<le> prio p"
  shows "prio q = n \<and> eff q = v"
proof -
  have q: "wf q" "cmd q = (cmd p)(n \<mapsto> v)" using wr_cmd [OF assms(1,2)] by simp_all
  have "prio q = n"
  proof (rule prio_unique [OF q(1)])
    fix m assume m: "m < n"
    have "cmd p m = None"
    proof (cases "prio p = 0")
      case False
      then have "m < prio p" using m assms(3) by (auto intro: order_less_le_trans)
      then show ?thesis using prio_least [OF assms(1) False] by blast
    qed (rule prio_none [OF assms(1)])
    then show "cmd q m = None" using m q(2) by simp
  qed (simp add: q(2))
  then show ?thesis using eff_prio [OF q(1)] q(2) by simp
qed

text \<open>A write below the effective priority changes nothing that can be seen.\<close>

lemma command_masked:
  assumes "wf p" "wr p n r v = Some q" "prio p \<noteq> 0" "prio p < n"
  shows "prio q = prio p \<and> eff q = eff p"
proof -
  have q: "wf q" "cmd q = (cmd p)(n := if r then None else Some v)" using wr_cmd [OF assms(1,2)] by simp_all
  have least: "cmd p (prio p) \<noteq> None" "\<And>m. m < prio p \<Longrightarrow> cmd p m = None"
    using prio_least [OF assms(1,3)] by auto
  have other: "prio p \<noteq> n" using assms(4) by auto
  have "prio q = prio p"
  proof (rule prio_unique [OF q(1)])
    show "cmd q (prio p) \<noteq> None" using least(1) other by (simp add: q(2))
    fix m assume "m < prio p"
    then have "m \<noteq> n" using assms(4) by auto
    then show "cmd q m = None" using least(2) \<open>m < prio p\<close> by (simp add: q(2))
  qed
  moreover have "cmd q (prio p) = cmd p (prio p)" using other by (simp add: q(2))
  ultimately show ?thesis using eff_prio [OF q(1)] eff_prio [OF assms(1)] least(1) by auto
qed

text \<open>Taking a command back restores what was effective before it.\<close>

lemma command_undone:
  assumes "wf p" "cmd p n = None" "wr p n False v = Some q" "wr q n True w = Some r"
  shows "prio r = prio p \<and> eff r = eff p"
proof -
  have q: "wf q" "cmd q = (cmd p)(n \<mapsto> v)" "dflt q = dflt p" using wr_cmd [OF assms(1,3)] by simp_all
  have r: "wf r" "cmd r = (cmd q)(n := None)" "dflt r = dflt q" using wr_cmd [OF q(1) assms(4)] by simp_all
  have "cmd r = cmd p" using assms(2) q(2) r(2) by auto
  then show ?thesis using same_commands [OF r(1) assms(1)] q(3) r(3) by simp
qed

text \<open>Writes at two priorities commute, whatever they are.\<close>

lemma writes_commute:
  assumes "wf p" "m \<noteq> n" "wr p m r v = Some p1" "wr p1 n s w = Some p2"
    and "wr p n s w = Some q1" "wr q1 m r v = Some q2"
  shows "prio p2 = prio q2 \<and> eff p2 = eff q2"
proof -
  have p1: "wf p1" "cmd p1 = (cmd p)(m := if r then None else Some v)" "dflt p1 = dflt p"
    using wr_cmd [OF assms(1,3)] by simp_all
  have p2: "wf p2" "cmd p2 = (cmd p1)(n := if s then None else Some w)" "dflt p2 = dflt p1"
    using wr_cmd [OF p1(1) assms(4)] by simp_all
  have q1: "wf q1" "cmd q1 = (cmd p)(n := if s then None else Some w)" "dflt q1 = dflt p"
    using wr_cmd [OF assms(1,5)] by simp_all
  have q2: "wf q2" "cmd q2 = (cmd q1)(m := if r then None else Some v)" "dflt q2 = dflt q1"
    using wr_cmd [OF q1(1) assms(6)] by simp_all
  have "cmd p2 = cmd q2" unfolding p2 p1 q2 q1 using assms(2) by (simp add: fun_upd_twist)
  then show ?thesis using same_commands [OF p2(1) q2(1)] p1(3) p2(3) q1(3) q2(3) by simp
qed

lemma relinquish_all:
  "wf p \<Longrightarrow> (\<And>n. cmd p n = None) \<Longrightarrow> prio p = 0 \<and> eff p = dflt p"
  using prio_least [of p] eff_prio [of p] by (metis option.case(1))

end

section \<open>The array keeps the promise\<close>

definition commands :: "'a BacnetCommandPriority \<Rightarrow> u8 \<Rightarrow> 'a option" where
  "commands p n =
     (if n \<noteq> 0 \<and> unat n \<le> kSlotCount \<and> occupied p ! (unat n - 1) then Some (slots p ! (unat n - 1))
      else None)"

lemma firstOccupied_Some:
  "firstOccupied bs k = Some i \<Longrightarrow>
     k \<le> i \<and> i - k < length bs \<and> bs ! (i - k) \<and> (\<forall>j < i - k. \<not> bs ! j)"
proof (induction bs k rule: firstOccupied.induct)
  case (2 b bs k)
  show ?case
  proof (cases b)
    case False
    with 2 have ih: "Suc k \<le> i" "i - Suc k < length bs" "bs ! (i - Suc k)" "\<forall>j < i - Suc k. \<not> bs ! j"
      by simp_all
    then have "i - k = Suc (i - Suc k)" by simp
    with ih False show ?thesis by (auto simp: less_Suc_eq_0_disj)
  qed (use 2 in auto)
qed simp

lemma firstOccupied_None: "firstOccupied bs k = None \<longleftrightarrow> (\<forall>b \<in> set bs. \<not> b)"
  by (induction bs k rule: firstOccupied.induct) auto

lemma unat_slot: "i < kSlotCount \<Longrightarrow> unat (word_of_nat (i + 1) :: u8) = i + 1"
  by (simp add: kSlotCount_def unsigned_of_nat take_bit_eq_mod del: of_nat_add of_nat_Suc)

interpretation priorities: priority_array commands relinquishDefault effectiveValue effectivePriority
    writePriority wfPriority
proof unfold_locales
  fix p :: "'a BacnetCommandPriority" and n m :: u8 and r :: bool and v :: 'a and q
  show "commands p 0 = None" by (simp add: commands_def)
  show "writePriority p n r v = None \<longleftrightarrow> n = 0 \<or> 16 < n"
    by (auto simp: writePriority_def Let_def kSlotCount_def word_less_nat_alt)
  show "wfPriority q \<and> commands q = (commands p)(n := if r then None else Some v) \<and>
      relinquishDefault q = relinquishDefault p"
    if wf: "wfPriority p" and w: "writePriority p n r v = Some q"
  proof -
    have n: "n \<noteq> 0" "unat n \<le> kSlotCount"
      and q: "q = (let p1 = p\<lparr>occupied := (occupied p)[unat n - 1 := \<not> r]\<rparr> in
        if r then p1 else p1\<lparr>slots := (slots p)[unat n - 1 := v]\<rparr>)"
      using w by (auto simp: writePriority_def Let_def not_less split: if_splits)
    have pos: "0 < unat n" using n(1) unat_0_iff [of n] by simp
    have "commands q k = ((commands p)(n := if r then None else Some v)) k" for k
    proof (cases "k = n")
      case True
      then show ?thesis using n pos wf by (auto simp: commands_def q Let_def wfPriority_def)
    next
      case False
      have "unat k - 1 \<noteq> unat n - 1" if "k \<noteq> 0"
        using that False pos unat_0_iff [of k] word_unat_eq_iff [of k n] by force
      with False show ?thesis by (auto simp: commands_def q Let_def)
    qed
    then have "commands q = (commands p)(n := if r then None else Some v)" by (rule ext)
    moreover have "wfPriority q" using wf by (cases r) (simp_all add: q wfPriority_def Let_def)
    moreover have "relinquishDefault q = relinquishDefault p" by (cases r) (simp_all add: q Let_def)
    ultimately show ?thesis by blast
  qed
  show "commands p (effectivePriority p) \<noteq> None \<and> (\<forall>m < effectivePriority p. commands p m = None)"
    if wf: "wfPriority p" and nz: "effectivePriority p \<noteq> 0"
  proof -
    obtain i where i: "firstOccupied (occupied p) 0 = Some i" using nz
      by (cases "firstOccupied (occupied p) 0") (auto simp: effectivePriority_def)
    from firstOccupied_Some [OF i] wf have lt: "i < kSlotCount" "occupied p ! i" "\<forall>j < i. \<not> occupied p ! j"
      by (auto simp: wfPriority_def)
    have e: "unat (effectivePriority p) = i + 1"
      using unat_slot [OF lt(1)] by (simp add: effectivePriority_def i del: of_nat_add of_nat_Suc)
    have "commands p m = None" if "m < effectivePriority p" for m
    proof (cases "m = 0")
      case False
      then have "unat m - 1 < i" using that e unat_0_iff [of m] by (simp add: word_less_nat_alt)
      then show ?thesis using lt(3) by (simp add: commands_def)
    qed (simp add: commands_def)
    then show ?thesis using e lt nz by (simp add: commands_def)
  qed
  show "commands p m = None" if wf: "wfPriority p" and z: "effectivePriority p = 0"
  proof -
    have "firstOccupied (occupied p) 0 = None"
    proof (rule ccontr)
      assume "firstOccupied (occupied p) 0 \<noteq> None"
      then obtain i where i: "firstOccupied (occupied p) 0 = Some i" by auto
      from firstOccupied_Some [OF i] wf have "i < kSlotCount" by (auto simp: wfPriority_def)
      from unat_slot [OF this] z i show False by (simp add: effectivePriority_def del: of_nat_add of_nat_Suc)
    qed
    then have free: "\<forall>b \<in> set (occupied p). \<not> b" by (simp add: firstOccupied_None)
    have none: "\<not> occupied p ! i" if "i < kSlotCount" for i
    proof -
      have "occupied p ! i \<in> set (occupied p)" using that wf by (intro nth_mem) (simp add: wfPriority_def)
      then show ?thesis using free by blast
    qed
    show ?thesis
    proof (cases "m = 0 \<or> unat m > kSlotCount")
      case False
      then have "unat m - 1 < kSlotCount" using unat_0_iff [of m] by linarith
      from none [OF this] show ?thesis by (simp add: commands_def)
    qed (auto simp: commands_def)
  qed
  show "effectiveValue p = (case commands p (effectivePriority p) of Some v \<Rightarrow> v | None \<Rightarrow> relinquishDefault p)"
    if wf: "wfPriority p"
  proof (cases "firstOccupied (occupied p) 0")
    case None
    then show ?thesis by (simp add: effectiveValue_def effectivePriority_def commands_def)
  next
    case (Some i)
    from firstOccupied_Some [OF Some] wf have lt: "i < kSlotCount" "occupied p ! i" by (auto simp: wfPriority_def)
    have e: "unat (effectivePriority p) = i + 1"
      using unat_slot [OF lt(1)] by (simp add: effectivePriority_def Some del: of_nat_add of_nat_Suc)
    then have "effectivePriority p \<noteq> 0" by auto
    with e lt Some show ?thesis by (simp add: effectiveValue_def commands_def)
  qed
qed

section \<open>Laws of commands and their events\<close>

lemma writePriority_Some: "writePriority p n r v \<noteq> None \<longleftrightarrow> n \<noteq> 0 \<and> n \<le> 16"
  using priorities.wr_refused [of p n r v] by auto

lemma applyPriority_Some:
  "applyPriority differs object co v n r origin = Some (co', events) \<longleftrightarrow>
     \<not> coBusy co \<and>
     (\<exists>new. writePriority (coPriority co) n r v = Some new \<and>
       co' = co\<lparr>coPriority := new, coBusy := False\<rparr> \<and>
       events = priorityEvents differs object co new n r origin)"
  by (auto simp: applyPriority_def writePriority_def split: option.splits if_splits)

lemma applyPriority_None:
  "applyPriority differs object co v n r origin = None \<longleftrightarrow> coBusy co \<or> n = 0 \<or> 16 < n"
  using priorities.wr_refused [of "coPriority co" n r v]
  by (auto simp: applyPriority_def kSlotCount_def word_less_nat_alt split: option.splits)

text \<open>Which event is which, in the order the sources make the calls.\<close>

fun eventRank :: "'a CommandEvent \<Rightarrow> nat" where
  "eventRank (OutputApplied _ _) = 0"
| "eventRank (PriorityValueChanged _ _ _ _ _ _ _) = 1"
| "eventRank (EffectivePriorityChanged _ _ _ _ _ _) = 2"
| "eventRank (PresentValueChanged _ _ _ _) = 3"
| "eventRank (Relinquished _ _ _ _ _ _ _) = 4"

lemma priorityEvents_ranks:
  "map eventRank (priorityEvents differs object co new n r origin) =
     (let old = coPriority co; index = unat n - 1;
          changed = differs (effectiveValue old) (effectiveValue new);
          slotChanged = (occupied old ! index \<noteq> occupied new ! index \<or>
            occupied old ! index \<and> occupied new ! index \<and> differs (slots old ! index) (slots new ! index))
      in (if coApply co \<and> changed then [0] else []) @
        (case coCallbacks co of None \<Rightarrow> []
         | Some cb \<Rightarrow> (if slotChanged \<and> onPriorityValue cb ! index then [1] else []) @
             (if effectivePriority old \<noteq> effectivePriority new \<and> onEffectivePriority cb then [2] else []) @
             (if changed \<and> onPresentValue cb then [3] else []) @
             (if r \<and> onRelinquish cb then [4] else [])))"
  by (simp add: priorityEvents_def Let_def split: option.split)

lemma ordered_calls:
  fixes b0 b1 b2 b3 b4
  defines "m \<equiv> (if b0 then [0 :: nat] else []) @ (if b1 then [1] else []) @ (if b2 then [2] else []) @
    (if b3 then [3] else []) @ (if b4 then [4] else [])"
  shows "sorted_wrt (<) m" "0 \<in> set m \<longleftrightarrow> b0" "3 \<in> set m \<longleftrightarrow> b3"
  unfolding m_def by (cases b0; cases b1; cases b2; cases b3; cases b4; simp)+

text \<open>
  C26: A command at least as urgent as the effective one takes effect at once: it becomes the
  effective value and its priority the effective priority, whatever the other slots hold.
\<close>

theorem urgent_command_takes_effect:
  assumes "wfPriority p" and "writePriority p n False v = Some q"
    and "effectivePriority p = 0 \<or> n \<le> effectivePriority p"
  shows "effectivePriority q = n \<and> effectiveValue q = v"
  by (rule priorities.command_wins [OF assms])

theorem urgent_command_takes_effect_witness:
  "effectivePriority \<lparr>relinquishDefault = 7 :: nat, slots = (replicate 16 0)[7 := 3],
     occupied = (replicate 16 False)[7 := True]\<rparr> = 8 \<and>
   effectiveValue \<lparr>relinquishDefault = 7 :: nat, slots = (replicate 16 0)[7 := 3],
     occupied = (replicate 16 False)[7 := True]\<rparr> = 3"
proof (rule urgent_command_takes_effect)
  let ?p = "\<lparr>relinquishDefault = 7 :: nat, slots = replicate 16 0, occupied = replicate 16 False\<rparr>"
  show "wfPriority ?p" by code_simp
  show "writePriority ?p 8 False 3 = Some \<lparr>relinquishDefault = 7 :: nat, slots = (replicate 16 0)[7 := 3],
     occupied = (replicate 16 False)[7 := True]\<rparr>" by code_simp
  show "effectivePriority ?p = 0 \<or> 8 \<le> effectivePriority ?p" by code_simp
qed

text \<open>
  Commanding a free priority and relinquishing it again leaves the effective value and
  priority as they were, whatever was commanded in between.
\<close>

theorem relinquish_restores:
  assumes "wfPriority p" and "commands p n = None"
    and "writePriority p n False v = Some q" and "writePriority q n True w = Some r"
  shows "effectivePriority r = effectivePriority p \<and> effectiveValue r = effectiveValue p"
  by (rule priorities.command_undone [OF assms])

theorem relinquish_restores_witness:
  "effectivePriority \<lparr>relinquishDefault = 7 :: nat, slots = (replicate 16 0)[2 := 5, 0 := 3],
     occupied = (replicate 16 False)[2 := True, 0 := False]\<rparr> =
   effectivePriority \<lparr>relinquishDefault = 7 :: nat, slots = (replicate 16 0)[2 := 5],
     occupied = (replicate 16 False)[2 := True]\<rparr> \<and>
   effectiveValue \<lparr>relinquishDefault = 7 :: nat, slots = (replicate 16 0)[2 := 5, 0 := 3],
     occupied = (replicate 16 False)[2 := True, 0 := False]\<rparr> =
   effectiveValue \<lparr>relinquishDefault = 7 :: nat, slots = (replicate 16 0)[2 := 5],
     occupied = (replicate 16 False)[2 := True]\<rparr>"
proof (rule relinquish_restores)
  let ?p = "\<lparr>relinquishDefault = 7 :: nat, slots = (replicate 16 0)[2 := 5],
     occupied = (replicate 16 False)[2 := True]\<rparr>"
  show "wfPriority ?p" by code_simp
  show "commands ?p 1 = None" by code_simp
  show "writePriority ?p 1 False 3 = Some \<lparr>relinquishDefault = 7 :: nat, slots = (replicate 16 0)[2 := 5, 0 := 3],
     occupied = (replicate 16 False)[2 := True, 0 := True]\<rparr>" by code_simp
  show "writePriority \<lparr>relinquishDefault = 7, slots = (replicate 16 0)[2 := 5, 0 := 3],
     occupied = (replicate 16 False)[2 := True, 0 := True]\<rparr> 1 True 9 =
    Some \<lparr>relinquishDefault = 7 :: nat, slots = (replicate 16 0)[2 := 5, 0 := 3],
     occupied = (replicate 16 False)[2 := True, 0 := False]\<rparr>" by code_simp
qed


text \<open>
  The calls of an accepted command come in a fixed order, each at most once: output hook,
  slot, effective priority, present value, relinquish. The output hook and the present-value
  listener are called exactly when the effective value changes.
\<close>

theorem command_calls_ordered:
  assumes "applyBinaryPriorityValue object co v n r origin = Some (co', events)"
    and "coCallbacks co = Some cb"
  shows "sorted_wrt (<) (map eventRank events) \<and>
    (0 \<in> eventRank ` set events \<longleftrightarrow>
       coApply co \<and> effectiveValue (coPriority co) \<noteq> effectiveValue (coPriority co')) \<and>
    (3 \<in> eventRank ` set events \<longleftrightarrow>
       onPresentValue cb \<and> effectiveValue (coPriority co) \<noteq> effectiveValue (coPriority co'))"
proof -
  obtain new where new: "co' = co\<lparr>coPriority := new, coBusy := False\<rparr>"
      "events = priorityEvents (\<noteq>) object co new n r origin"
    using assms(1) by (auto simp: applyBinaryPriorityValue_def applyPriority_Some)
  define ranks where "ranks = map eventRank events"
  have im: "eventRank ` set events = set ranks" by (simp add: ranks_def)
  have r: "ranks = map eventRank (priorityEvents (\<noteq>) object co new n r origin)" by (simp add: ranks_def new)
  show ?thesis
    unfolding im ranks_def [symmetric] unfolding r priorityEvents_ranks Let_def assms(2) option.case new
    by (simp only: ordered_calls) auto
qed

theorem command_calls_ordered_witness:
  "sorted_wrt (<) (map eventRank
     [OutputApplied True False, PriorityValueChanged \<lparr>objType = 4, objInstance = 1\<rparr> 8 False False True True OriginLocal,
      EffectivePriorityChanged \<lparr>objType = 4, objInstance = 1\<rparr> 0 8 False True OriginLocal,
      PresentValueChanged \<lparr>objType = 4, objInstance = 1\<rparr> False True OriginLocal])"
proof -
  let ?cb = "\<lparr>onPresentValue = True, onPriorityValue = replicate 16 True, onEffectivePriority = True, onRelinquish = True\<rparr>"
  let ?co = "\<lparr>coPriority = \<lparr>relinquishDefault = False, slots = replicate 16 False, occupied = replicate 16 False\<rparr>,
    coOutOfService = False, coApply = True, coCallbacks = Some ?cb, coBusy = False\<rparr>"
  have "applyBinaryPriorityValue \<lparr>objType = 4, objInstance = 1\<rparr> ?co True 8 False OriginLocal =
    Some (?co\<lparr>coPriority := \<lparr>relinquishDefault = False, slots = (replicate 16 False)[7 := True],
        occupied = (replicate 16 False)[7 := True]\<rparr>\<rparr>,
     [OutputApplied True False, PriorityValueChanged \<lparr>objType = 4, objInstance = 1\<rparr> 8 False False True True OriginLocal,
      EffectivePriorityChanged \<lparr>objType = 4, objInstance = 1\<rparr> 0 8 False True OriginLocal,
      PresentValueChanged \<lparr>objType = 4, objInstance = 1\<rparr> False True OriginLocal])" by code_simp
  from command_calls_ordered [OF this, of ?cb] show ?thesis by simp
qed



end
