(* ===== verification/Objects.thy ===== *)
theory Objects
  imports Float32
begin

text \<open>
  The value helpers of src/src/core/objects: the input scaling of \<open>BacnetLinearScale.h\<close> and the
  limit states of \<open>BacnetAnalogValueLimits.h\<close>, with what they guarantee about their results.
  Every comparison and operator is the IEEE one of \<open>Float32\<close>, in the order the sources have them.
\<close>

section \<open>Linear scaling\<close>

record BacnetLinearScale =
  rawMin :: float32
  rawMax :: float32
  valueMin :: float32
  valueMax :: float32

definition isValid :: "BacnetLinearScale \<Rightarrow> bool" where
  "isValid s \<longleftrightarrow> f32_isfinite (rawMin s) \<and> f32_isfinite (rawMax s) \<and>
     f32_isfinite (valueMin s) \<and> f32_isfinite (valueMax s) \<and> \<not> f32_eq (rawMin s) (rawMax s)"

text \<open>The returned flag, and the value the reference parameter holds afterwards.\<close>

definition apply_scale :: "BacnetLinearScale \<Rightarrow> float32 \<Rightarrow> bool \<times> float32" where
  "apply_scale s rawValue =
     (if \<not> isValid s \<or> \<not> f32_isfinite rawValue then (False, f32_zero)
      else
        let ratio = f32_div (f32_sub rawValue (rawMin s)) (f32_sub (rawMax s) (rawMin s));
            ratio = (if f32_less ratio f32_zero then f32_zero
                     else if f32_less f32_one ratio then f32_one else ratio);
            v = f32_add (valueMin s) (f32_mul ratio (f32_sub (valueMax s) (valueMin s)))
        in if \<not> f32_isfinite v then (False, f32_zero) else (True, v))"

section \<open>Limit states\<close>

datatype BacnetAnalogValueLimitState =
  LimitNormal | LowWarning | HighWarning | LowFault | HighFault | SensorFault

record BacnetAnalogValueLimitConfig =
  errorMinimum :: float32
  warningMinimum :: float32
  warningMaximum :: float32
  errorMaximum :: float32
  hysteresis :: float32

record BacnetAnalogValueLimitResult =
  limitState :: BacnetAnalogValueLimitState
  limitEventState :: u8
  limitReliability :: u8
  inAlarm :: bool
  fault :: bool

definition bacnetAnalogValueLimitConfigIsValid :: "BacnetAnalogValueLimitConfig \<Rightarrow> bool" where
  "bacnetAnalogValueLimitConfigIsValid config \<longleftrightarrow>
     f32_isfinite (errorMinimum config) \<and> f32_isfinite (warningMinimum config) \<and>
     f32_isfinite (warningMaximum config) \<and> f32_isfinite (errorMaximum config) \<and>
     f32_isfinite (hysteresis config) \<and> f32_le f32_zero (hysteresis config) \<and>
     f32_le (errorMinimum config) (warningMinimum config) \<and>
     f32_less (warningMinimum config) (warningMaximum config) \<and>
     f32_le (warningMaximum config) (errorMaximum config)"

definition lowWarningLimit :: "BacnetAnalogValueLimitConfig \<Rightarrow> BacnetAnalogValueLimitState \<Rightarrow> float32" where
  "lowWarningLimit config previous =
     f32_sub (warningMinimum config)
       (if previous = LowWarning \<or> previous = LowFault then hysteresis config else f32_zero)"

definition highWarningLimit :: "BacnetAnalogValueLimitConfig \<Rightarrow> BacnetAnalogValueLimitState \<Rightarrow> float32" where
  "highWarningLimit config previous =
     f32_add (warningMaximum config)
       (if previous = HighWarning \<or> previous = HighFault then hysteresis config else f32_zero)"

definition bacnetAnalogValueLimitEvaluate ::
    "float32 \<Rightarrow> bool \<Rightarrow> BacnetAnalogValueLimitConfig \<Rightarrow> BacnetAnalogValueLimitState \<Rightarrow>
     BacnetAnalogValueLimitResult" where
  "bacnetAnalogValueLimitEvaluate v sensorValid config previous =
     (if \<not> sensorValid \<or> \<not> f32_isfinite v then
        \<lparr>limitState = SensorFault, limitEventState = 1, limitReliability = 1, inAlarm = False, fault = True\<rparr>
      else if f32_less v (errorMinimum config) then
        \<lparr>limitState = LowFault, limitEventState = 4, limitReliability = 3, inAlarm = False, fault = True\<rparr>
      else if f32_less (errorMaximum config) v then
        \<lparr>limitState = HighFault, limitEventState = 3, limitReliability = 2, inAlarm = False, fault = True\<rparr>
      else if f32_less v (lowWarningLimit config previous) then
        \<lparr>limitState = LowWarning, limitEventState = 4, limitReliability = 0, inAlarm = True, fault = False\<rparr>
      else if f32_less (highWarningLimit config previous) v then
        \<lparr>limitState = HighWarning, limitEventState = 3, limitReliability = 0, inAlarm = True, fault = False\<rparr>
      else
        \<lparr>limitState = LimitNormal, limitEventState = 0, limitReliability = 0, inAlarm = False, fault = False\<rparr>)"

section \<open>Scaling laws\<close>

text \<open>A quotient of differences that point in opposite directions is clamped to zero.\<close>

lemma f32_clamped_ratio:
  assumes "f32_isfinite d" "f32_mag d \<noteq> 0" "\<not> f32_isnan n"
    and "f32_mag n = 0 \<or> f32_neg_bit n \<noteq> f32_neg_bit d"
  shows "\<not> f32_less f32_one (f32_div n d) \<and>
    (f32_less (f32_div n d) f32_zero \<or> f32_isfinite (f32_div n d) \<and> f32_mag (f32_div n d) = 0)"
proof -
  have d: "\<not> f32_isnan d" "\<not> f32_isinf d" using f32_finite_not_nan [OF assms(1)] by auto
  define neg where "neg = (f32_neg_bit n \<noteq> f32_neg_bit d)"
  define m where "m = (if f32_isinf n then f32_pack neg (255 * 2 ^ 23)
    else f32_round neg (f32_mag n * 2 ^ 149) (f32_mag d))"
  have q: "f32_div n d = m" using d assms(2,3) by (simp add: f32_div_def m_def neg_def Let_def)
  have nan: "\<not> f32_isnan m" by (simp add: m_def f32_pack_not_nan f32_round_not_nan)
  have one: "f32_units f32_one > 0" "\<not> f32_isnan f32_zero" "f32_units f32_zero = 0"
    by (simp_all add: f32_one_def f32_zero_def f32_units_def f32_mag_def f32_neg_bit_def f32_isnan_def
        f32_exp_def f32_man_def)
  show ?thesis
  proof (cases "f32_mag m = 0")
    case True
    have "f32_isfinite m"
    proof (rule ccontr)
      assume "\<not> f32_isfinite m"
      then have "f32_exp m \<noteq> 0" by (simp add: f32_isfinite_def)
      with True show False by (simp add: f32_mag_def)
    qed
    then show ?thesis using True one nan by (simp add: q f32_less_def f32_units_def)
  next
    case False
    have "f32_mag n \<noteq> 0"
    proof
      assume z: "f32_mag n = 0"
      then have "\<not> f32_isinf n" by (auto simp: f32_mag_def f32_isinf_def)
      with z have "m = f32_pack neg 0"
        using assms(2) by (simp add: m_def f32_round_def Let_def nbits.simps)
      with False show False by (simp add: f32_mag_pack_0)
    qed
    then have neg using assms(4) by (simp add: neg_def)
    then have "f32_neg_bit m" by (simp add: m_def f32_neg_bit_pack f32_round_def Let_def)
    then have "f32_units m < 0" using False by (simp add: f32_units_def)
    then show ?thesis using one nan by (simp add: q f32_less_def)
  qed
qed

lemma f32_mul_zero:
  assumes "f32_isfinite z" "f32_mag z = 0" "f32_isfinite x"
  shows "f32_isfinite (f32_mul z x) \<and> f32_mag (f32_mul z x) = 0"
proof -
  have "f32_mul z x = f32_pack (f32_neg_bit z \<noteq> f32_neg_bit x) 0"
    using f32_finite_not_nan [OF assms(1)] f32_finite_not_nan [OF assms(3)] assms(2)
    by (simp add: f32_mul_def f32_round_0 Let_def)
  then show ?thesis by (simp add: f32_finite_pack_0 f32_mag_pack_0)
qed

text \<open>
  Scaling never hands out a non-finite value: it succeeds only for a valid scale and a finite
  input, with a finite result, and leaves zero otherwise.
\<close>

theorem apply_scale_result:
  assumes "apply_scale s x = (ok, v)"
  shows "(ok \<longrightarrow> isValid s \<and> f32_isfinite x \<and> f32_isfinite v) \<and> (\<not> ok \<longrightarrow> v = f32_zero)"
  using assms by (auto simp: apply_scale_def Let_def split: if_splits)

text \<open>A full-scale input of 4095 on the range 0 to 4095, as a percentage.\<close>

theorem apply_scale_result_witness: "f32_isfinite 0x42C80000"
proof -
  have "apply_scale \<lparr>rawMin = 0, rawMax = 0x457FF000, valueMin = 0, valueMax = 0x42C80000\<rparr> 0x457FF000 =
    (True, 0x42C80000)"
  proof -
    have "f32_sub 0x457FF000 0 = 0x457FF000" "f32_div 0x457FF000 0x457FF000 = 0x3F800000"
      "f32_sub 0x42C80000 0 = 0x42C80000" "f32_mul 0x3F800000 0x42C80000 = 0x42C80000"
      "f32_add 0 0x42C80000 = 0x42C80000" "\<not> f32_less 0x3F800000 f32_zero" "\<not> f32_less f32_one 0x3F800000"
      by (simp_all add: f32_eval)
    moreover have "f32_isfinite 0x42C80000" "f32_isfinite 0x457FF000" "f32_isfinite 0" "\<not> f32_eq 0 0x457FF000"
      by (simp_all add: f32_eval)
    ultimately show ?thesis by (simp add: apply_scale_def isValid_def)
  qed
  from apply_scale_result [OF this] show ?thesis by simp
qed

text \<open>\<open>beyondRawMin\<close>: on the far side of \<open>rawMin\<close>, in an ordinary or a reversed raw range.\<close>

definition beyondRawMin :: "BacnetLinearScale \<Rightarrow> float32 \<Rightarrow> bool" where
  "beyondRawMin s x \<longleftrightarrow>
     (f32_less (rawMin s) (rawMax s) \<and> f32_le x (rawMin s)) \<or>
     (f32_less (rawMax s) (rawMin s) \<and> f32_le (rawMin s) x)"

text \<open>
  A raw value on or beyond the lower raw limit (on the far side of it for a reversed range)
  gives the lower value limit, provided neither range is so wide that its width overflows.
\<close>

theorem apply_scale_lower:
  assumes "isValid s" "f32_isfinite x" "beyondRawMin s x"
    and "f32_isfinite (f32_sub (rawMax s) (rawMin s))" "f32_isfinite (f32_sub (valueMax s) (valueMin s))"
  shows "fst (apply_scale s x) \<and> f32_eq (snd (apply_scale s x)) (valueMin s)"
proof -
  have fin: "f32_isfinite (rawMin s)" "f32_isfinite (rawMax s)" "f32_isfinite (valueMin s)"
    using assms(1) by (simp_all add: isValid_def)
  define n d where "n = f32_sub x (rawMin s)" and "d = f32_sub (rawMax s) (rawMin s)"
  note sub = f32_sub_sign [OF assms(2) fin(1), folded n_def] f32_sub_sign [OF fin(2) fin(1), folded d_def]
  have nd: "f32_mag d \<noteq> 0 \<and> (f32_mag n = 0 \<or> f32_neg_bit n \<noteq> f32_neg_bit d)"
    using assms(3) sub by (auto simp: beyondRawMin_def f32_less_def f32_le_def order_le_less)
  have nan: "\<not> f32_isnan n"
    unfolding n_def f32_sub_def using assms(2) fin(1) by (intro f32_add_finite_not_nan) (simp_all add: f32_isfinite_neg)
  define r where "r = f32_div n d"
  define ratio where "ratio = (if f32_less r f32_zero then f32_zero else if f32_less f32_one r then f32_one else r)"
  have "f32_isfinite f32_zero \<and> f32_mag f32_zero = 0"
    by (simp add: f32_zero_def f32_isfinite_def f32_mag_def f32_exp_def f32_man_def)
  then have "f32_isfinite ratio \<and> f32_mag ratio = 0"
    using f32_clamped_ratio [of d n] assms(4) nd nan by (auto simp: ratio_def r_def d_def)
  then have mul: "f32_isfinite (f32_mul ratio (f32_sub (valueMax s) (valueMin s))) \<and>
      f32_mag (f32_mul ratio (f32_sub (valueMax s) (valueMin s))) = 0"
    using assms(5) by (simp add: f32_mul_zero)
  have "apply_scale s x = (let v = f32_add (valueMin s) (f32_mul ratio (f32_sub (valueMax s) (valueMin s)))
      in if \<not> f32_isfinite v then (False, f32_zero) else (True, v))"
    using assms(1,2) by (simp add: apply_scale_def Let_def ratio_def r_def n_def d_def)
  then show ?thesis using f32_add_zero [OF fin(3)] mul by (simp add: Let_def)
qed

theorem apply_scale_lower_witness:
  "f32_eq (snd (apply_scale \<lparr>rawMin = 0x42C80000, rawMax = 0, valueMin = 0x40A00000, valueMax = 0x41200000\<rparr> 0x42CA0000))
     0x40A00000"
proof -
  let ?s = "\<lparr>rawMin = 0x42C80000, rawMax = 0, valueMin = 0x40A00000, valueMax = 0x41200000\<rparr>"
  have "fst (apply_scale ?s 0x42CA0000) \<and> f32_eq (snd (apply_scale ?s 0x42CA0000)) (valueMin ?s)"
    by (rule apply_scale_lower) (simp_all add: isValid_def beyondRawMin_def f32_eval)
  then show ?thesis by simp
qed

text \<open>
  The upper limit is not always reached: there is a valid scale with finite ranges on which
  the upper raw limit itself scales to 0.0 although the upper value limit is 1.0.
\<close>

theorem apply_scale_upper_is_rounded:
  "\<exists>s. isValid s \<and> apply_scale s (rawMax s) = (True, f32_zero) \<and> f32_eq (valueMax s) f32_one"
proof -
  let ?s = "\<lparr>rawMin = 0, rawMax = 0x3F800000, valueMin = 0x4CBEBC20, valueMax = 0x3F800000\<rparr>"
  have "f32_sub 0x3F800000 0 = 0x3F800000" "f32_div 0x3F800000 0x3F800000 = 0x3F800000"
    "f32_sub 0x3F800000 0x4CBEBC20 = 0xCCBEBC20" "f32_mul 0x3F800000 0xCCBEBC20 = 0xCCBEBC20"
    "f32_add 0x4CBEBC20 0xCCBEBC20 = f32_zero" "\<not> f32_less 0x3F800000 f32_zero" "\<not> f32_less f32_one 0x3F800000"
    by (simp_all add: f32_eval)
  moreover have "f32_isfinite 0x3F800000" "f32_isfinite 0x4CBEBC20" "f32_isfinite 0" "\<not> f32_eq 0 0x3F800000"
    "f32_isfinite f32_zero" "f32_eq 0x3F800000 f32_one" by (simp_all add: f32_eval)
  ultimately have "isValid ?s \<and> apply_scale ?s (rawMax ?s) = (True, f32_zero) \<and> f32_eq (valueMax ?s) f32_one"
    by (simp add: apply_scale_def isValid_def)
  then show ?thesis by blast
qed

section \<open>Limit state laws\<close>

text \<open>
  The evaluation of a limit state is consistent: it reports a fault exactly for an invalid
  or non-finite sensor value or one outside the error limits, never an alarm with a fault, a
  reliability other than no-fault-detected exactly with a fault, and a normal event state exactly
  in the normal state.
\<close>

theorem limit_flags:
  "(let r = bacnetAnalogValueLimitEvaluate v ok c p in
     (fault r \<longleftrightarrow>
       \<not> (ok \<and> f32_isfinite v \<and> \<not> f32_less v (errorMinimum c) \<and> \<not> f32_less (errorMaximum c) v)) \<and>
     \<not> (inAlarm r \<and> fault r) \<and> (limitReliability r = 0 \<longleftrightarrow> \<not> fault r) \<and>
     (limitEventState r = 0 \<longleftrightarrow> limitState r = LimitNormal))"
  by (auto simp: bacnetAnalogValueLimitEvaluate_def Let_def)

lemma f32_eq_less: "f32_eq x y \<Longrightarrow> f32_less v x \<longleftrightarrow> f32_less v y" "f32_eq x y \<Longrightarrow> f32_less x v \<longleftrightarrow> f32_less y v"
  by (auto simp: f32_eq_def f32_less_def)

text \<open>Without history the warning limits are the configured ones.\<close>

lemma limits_from_normal:
  assumes "bacnetAnalogValueLimitConfigIsValid c"
  shows "f32_less v (lowWarningLimit c LimitNormal) \<longleftrightarrow> f32_less v (warningMinimum c)"
    "f32_less (highWarningLimit c LimitNormal) v \<longleftrightarrow> f32_less (warningMaximum c) v"
proof -
  have "f32_isfinite (warningMinimum c)" "f32_isfinite (warningMaximum c)"
    using assms by (simp_all add: bacnetAnalogValueLimitConfigIsValid_def)
  moreover have "f32_isfinite f32_zero \<and> f32_mag f32_zero = 0"
    by (simp add: f32_zero_def f32_isfinite_def f32_mag_def f32_exp_def f32_man_def)
  ultimately show "f32_less v (lowWarningLimit c LimitNormal) \<longleftrightarrow> f32_less v (warningMinimum c)"
      "f32_less (highWarningLimit c LimitNormal) v \<longleftrightarrow> f32_less (warningMaximum c) v"
    using f32_sub_zero f32_add_zero [of "warningMaximum c" f32_zero]
    by (auto simp: lowWarningLimit_def highWarningLimit_def f32_eq_less)
qed

text \<open>
  C29: The hysteresis works against its purpose: a steady value between \<open>warningMinimum\<close> less
  the hysteresis and \<open>warningMinimum\<close> is a low warning when the last state was normal, and
  normal when the last state was a low warning, so it alternates for ever.
\<close>

theorem steady_value_alternates:
  assumes "bacnetAnalogValueLimitConfigIsValid c" "f32_isfinite v" "f32_le (errorMinimum c) v"
    and "f32_less v (warningMinimum c)" "f32_le (lowWarningLimit c LowWarning) v"
  shows "limitState (bacnetAnalogValueLimitEvaluate v True c LimitNormal) = LowWarning \<and>
    limitState (bacnetAnalogValueLimitEvaluate v True c LowWarning) = LimitNormal"
proof -
  have high: "f32_le v (warningMaximum c)" "f32_le v (errorMaximum c)"
    using assms(1,4) by (auto simp: bacnetAnalogValueLimitConfigIsValid_def f32_le_def f32_less_def)
  then have no: "\<not> f32_less v (errorMinimum c)" "\<not> f32_less (errorMaximum c) v"
      "\<not> f32_less (warningMaximum c) v" "\<not> f32_less v (lowWarningLimit c LowWarning)"
    using assms(3,5) by (auto simp: f32_le_def f32_less_def)
  have "limitState (bacnetAnalogValueLimitEvaluate v True c LimitNormal) = LowWarning"
    using assms(2,4) no limits_from_normal [OF assms(1)] by (simp add: bacnetAnalogValueLimitEvaluate_def)
  moreover have "highWarningLimit c LowWarning = highWarningLimit c LimitNormal" by (simp add: highWarningLimit_def)
  then have "limitState (bacnetAnalogValueLimitEvaluate v True c LowWarning) = LimitNormal"
    using assms(2) no limits_from_normal [OF assms(1)] by (simp add: bacnetAnalogValueLimitEvaluate_def)
  ultimately show ?thesis by simp
qed

text \<open>The dew-point defaults of the example server (-40, -5, 25, 40, 0.5) and a steady -5.25.\<close>

theorem steady_value_alternates_witness:
  "let c = \<lparr>errorMinimum = 0xC2200000, warningMinimum = 0xC0A00000, warningMaximum = 0x41C80000,
      errorMaximum = 0x42200000, hysteresis = 0x3F000000\<rparr> in
   limitState (bacnetAnalogValueLimitEvaluate 0xC0A80000 True c LimitNormal) = LowWarning \<and>
   limitState (bacnetAnalogValueLimitEvaluate 0xC0A80000 True c LowWarning) = LimitNormal"
  unfolding Let_def
  by (rule steady_value_alternates)
    (simp_all add: bacnetAnalogValueLimitConfigIsValid_def lowWarningLimit_def f32_eval)

end
