(* ===== verification/ObjectProperties.thy ===== *)
theory ObjectProperties
  imports CommandPriority Objects ValueDecode
begin

text \<open>
  The object-centric configuration API of src/src/core/server/BacnetServer.cpp: the fixed table
  of optional properties (\<open>BacnetObjectWithProperties\<close>), the classes \<open>BacnetAnalogInput\<close>,
  \<open>BacnetBinaryInput\<close> and \<open>BacnetBinaryOutput\<close> built on it, and the application environment the
  server reads through. A pointer to an application variable is its address, a callback with its
  context is a handle; \<open>Env\<close> says what they hold and return while one server call runs.
\<close>

section \<open>The application's side\<close>

text \<open>
  \<open>propertyProvider\<close> is \<open>None\<close> when the provider returns false; a provider that returns true
  has set the value. \<open>sendOk\<close> is the result of the transport's \<open>send\<close>.
\<close>

record Env =
  floatAt :: "nat \<Rightarrow> float32"
  boolAt :: "nat \<Rightarrow> bool"
  enumeratedAt :: "nat \<Rightarrow> u32"
  statusFlagsAt :: "nat \<Rightarrow> u32 \<times> u8"
  floatProvider :: "nat \<Rightarrow> float32"
  boolProvider :: "nat \<Rightarrow> bool"
  propertyProvider :: "nat \<Rightarrow> BacnetValue option"
  clockMs :: u32
  sendOk :: "BacnetIpEndpoint \<Rightarrow> bytes \<Rightarrow> bool"

text \<open>\<open>readBoundFloat\<close> and \<open>readBoundBool\<close> on a variable's address, or an application's function.\<close>

datatype FloatSource = BoundFloat "nat option" | FloatFunction nat
datatype BoolSource = BoundBool "nat option" | BoolFunction nat

primrec readBoundFloat :: "Env \<Rightarrow> FloatSource \<Rightarrow> float32" where
  "readBoundFloat env (BoundFloat p) = (case p of None \<Rightarrow> f32_zero | Some a \<Rightarrow> floatAt env a)"
| "readBoundFloat env (FloatFunction h) = floatProvider env h"

primrec readBoundBool :: "Env \<Rightarrow> BoolSource \<Rightarrow> bool" where
  "readBoundBool env (BoundBool p) = (case p of None \<Rightarrow> False | Some a \<Rightarrow> boolAt env a)"
| "readBoundBool env (BoolFunction h) = boolProvider env h"

section \<open>Optional properties\<close>

datatype BacnetObjectConfigurationStatus =
  CfgOk | CfgInvalidArgument | CfgPropertyTypeMismatch | CfgPropertyNotSupported
  | CfgDuplicateProperty | CfgPropertyCapacityExceeded | CfgServerCapacityExceeded
  | CfgRegistrationModeConflict

datatype BacnetObjectPropertyValueType =
  OpCharacterString | OpReal | OpRealReference | OpBoolean | OpBooleanReference | OpEnumerated
  | OpEnumeratedReference | OpBitString | OpBitStringReference

text \<open>The tagged union of a slot: every writer sets the member its tag names.\<close>

datatype SlotValue =
  SlotText cstring
  | SlotReal float32 | SlotRealReference "nat option"
  | SlotBoolean bool | SlotBooleanReference "nat option"
  | SlotEnumerated u32 | SlotEnumeratedReference "nat option"
  | SlotBitString u32 u8 | SlotBitStringReference "nat option"

primrec slotType :: "SlotValue \<Rightarrow> BacnetObjectPropertyValueType" where
  "slotType (SlotText t) = OpCharacterString"
| "slotType (SlotReal x) = OpReal"
| "slotType (SlotRealReference p) = OpRealReference"
| "slotType (SlotBoolean b) = OpBoolean"
| "slotType (SlotBooleanReference p) = OpBooleanReference"
| "slotType (SlotEnumerated x) = OpEnumerated"
| "slotType (SlotEnumeratedReference p) = OpEnumeratedReference"
| "slotType (SlotBitString x n) = OpBitString"
| "slotType (SlotBitStringReference p) = OpBitStringReference"

record BacnetObjectPropertySlot =
  slotProperty :: BacnetPropertyId
  slotValue :: SlotValue

text \<open>\<open>opSlots\<close> holds the \<open>propertyCount_\<close> slots in use of the \<open>propertyCapacity_\<close> there are.\<close>

record BacnetObjectWithProperties =
  opSlots :: "BacnetObjectPropertySlot list"
  opCapacity :: nat
  opStatus :: BacnetObjectConfigurationStatus
  opErrorProperty :: BacnetPropertyId

record BacnetObjectConfigurationError =
  ceStatus :: BacnetObjectConfigurationStatus
  ceObject :: BacnetObjectId
  ceProperty :: BacnetPropertyId
  ceObjectName :: cstring

definition bacnetObjectConfigurationStatusText :: "BacnetObjectConfigurationStatus \<Rightarrow> string" where
  "bacnetObjectConfigurationStatusText status = (case status of
      CfgOk \<Rightarrow> ''ok'' | CfgInvalidArgument \<Rightarrow> ''invalid argument''
    | CfgPropertyTypeMismatch \<Rightarrow> ''property type mismatch''
    | CfgPropertyNotSupported \<Rightarrow> ''property not supported by object type''
    | CfgDuplicateProperty \<Rightarrow> ''duplicate property''
    | CfgPropertyCapacityExceeded \<Rightarrow> ''optional property capacity exceeded''
    | CfgServerCapacityExceeded \<Rightarrow> ''server object capacity exceeded''
    | CfgRegistrationModeConflict \<Rightarrow> ''registration mode conflict'')"

definition bacnetPropertyIdText :: "BacnetPropertyId \<Rightarrow> string" where
  "bacnetPropertyIdText p =
    (if p = PropDescription then ''Description'' else if p = PropEventState then ''Event_State''
     else if p = PropMaxPresentValue then ''Max_Present_Value''
     else if p = PropMinPresentValue then ''Min_Present_Value''
     else if p = PropObjectIdentifier then ''Object_Identifier''
     else if p = PropPresentValue then ''Present_Value'' else if p = PropReliability then ''Reliability''
     else if p = PropResolution then ''Resolution'' else if p = PropStatusFlags then ''Status_Flags''
     else if p = PropUnits then ''Units'' else ''BACnet property'')"

definition hasExpectedPropertyType :: "BacnetPropertyId \<Rightarrow> BacnetObjectPropertyValueType \<Rightarrow> bool" where
  "hasExpectedPropertyType p t =
     (if p = PropDescription then t = OpCharacterString
      else if p = PropMinPresentValue \<or> p = PropMaxPresentValue \<or> p = PropResolution
      then t = OpReal \<or> t = OpRealReference
      else if p = PropOutOfService then t = OpBoolean \<or> t = OpBooleanReference
      else if p = PropReliability \<or> p = PropEventState \<or> p = PropUnits
      then t = OpEnumerated \<or> t = OpEnumeratedReference
      else if p = PropStatusFlags then t = OpBitString \<or> t = OpBitStringReference
      else False)"

definition initializeProperties :: "nat \<Rightarrow> BacnetObjectWithProperties" where
  "initializeProperties capacity =
     \<lparr>opSlots = [], opCapacity = capacity, opStatus = CfgOk, opErrorProperty = PropObjectIdentifier\<rparr>"

definition isConfigurationValid :: "BacnetObjectWithProperties \<Rightarrow> bool" where
  "isConfigurationValid obj \<longleftrightarrow> opStatus obj = CfgOk"

definition recordConfigurationStatus ::
    "BacnetObjectConfigurationStatus \<Rightarrow> BacnetPropertyId \<Rightarrow> BacnetObjectWithProperties \<Rightarrow>
     BacnetObjectConfigurationStatus \<times> BacnetObjectWithProperties" where
  "recordConfigurationStatus status p obj =
     (status, if opStatus obj = CfgOk \<and> status \<noteq> CfgOk
              then obj\<lparr>opStatus := status, opErrorProperty := p\<rparr> else obj)"

definition configurationErrorFor ::
    "BacnetObjectWithProperties \<Rightarrow> BacnetObjectId \<Rightarrow> cstring \<Rightarrow> BacnetObjectConfigurationError" where
  "configurationErrorFor obj object objectName =
     \<lparr>ceStatus = opStatus obj, ceObject = object, ceProperty = opErrorProperty obj, ceObjectName = objectName\<rparr>"

definition addPropertyValue ::
    "(BacnetPropertyId \<Rightarrow> BacnetObjectPropertyValueType \<Rightarrow> bool) \<Rightarrow> BacnetPropertyId \<Rightarrow> SlotValue \<Rightarrow>
     BacnetObjectWithProperties \<Rightarrow> BacnetObjectConfigurationStatus \<times> BacnetObjectWithProperties" where
  "addPropertyValue supportsProperty p v obj =
     (if \<not> hasExpectedPropertyType p (slotType v) then recordConfigurationStatus CfgPropertyTypeMismatch p obj
      else if \<not> supportsProperty p (slotType v) then recordConfigurationStatus CfgPropertyNotSupported p obj
      else if \<exists>slot \<in> set (opSlots obj). slotProperty slot = p
      then recordConfigurationStatus CfgDuplicateProperty p obj
      else if length (opSlots obj) = opCapacity obj
      then recordConfigurationStatus CfgPropertyCapacityExceeded p obj
      else (CfgOk, obj\<lparr>opSlots := opSlots obj @ [\<lparr>slotProperty = p, slotValue = v\<rparr>]\<rparr>))"

text \<open>The overloads of \<open>addProperty\<close> refuse a null pointer and pass everything else on.\<close>

fun nullSlot :: "SlotValue \<Rightarrow> bool" where
  "nullSlot (SlotText t) = (t = None)"
| "nullSlot (SlotRealReference p) = (p = None)"
| "nullSlot (SlotEnumeratedReference p) = (p = None)"
| "nullSlot (SlotBitStringReference p) = (p = None)"
| "nullSlot v = False"

definition addProperty ::
    "(BacnetPropertyId \<Rightarrow> BacnetObjectPropertyValueType \<Rightarrow> bool) \<Rightarrow> BacnetPropertyId \<Rightarrow> SlotValue \<Rightarrow>
     BacnetObjectWithProperties \<Rightarrow> BacnetObjectConfigurationStatus \<times> BacnetObjectWithProperties" where
  "addProperty supportsProperty p v obj =
     (if nullSlot v then recordConfigurationStatus CfgInvalidArgument p obj
      else addPropertyValue supportsProperty p v obj)"

definition textValue :: "bytes \<Rightarrow> BacnetValue" where
  "textValue t = emptyValue\<lparr>vType := TyCharacterString, vText := t, vTextLength := length t\<rparr>"

definition realValue :: "float32 \<Rightarrow> BacnetValue" where
  "realValue x = emptyValue\<lparr>vType := TyReal, vReal := x\<rparr>"

definition finiteReal :: "float32 \<Rightarrow> BacnetValue option" where
  "finiteReal x = (if f32_isfinite x then Some (realValue x) else None)"

definition booleanValue :: "bool \<Rightarrow> BacnetValue" where
  "booleanValue b = emptyValue\<lparr>vType := TyBoolean, vBoolean := b\<rparr>"

definition enumeratedValue :: "u32 \<Rightarrow> BacnetValue" where
  "enumeratedValue x = emptyValue\<lparr>vType := TyEnumerated, vUnsigned := x\<rparr>"

definition bitStringValue :: "u32 \<Rightarrow> u8 \<Rightarrow> BacnetValue" where
  "bitStringValue x n = emptyValue\<lparr>vType := TyBitString, vBitString := x, vBitCount := n\<rparr>"

definition bitStringSlot :: "u32 \<times> u8 \<Rightarrow> BacnetValue option" where
  "bitStringSlot f = (if snd f \<noteq> 0 then Some (bitStringValue (fst f) (snd f)) else None)"

text \<open>What a slot reads as; the first slot of a property decides.\<close>

primrec readSlot :: "Env \<Rightarrow> SlotValue \<Rightarrow> BacnetValue option" where
  "readSlot env (SlotText t) =
     (case t of None \<Rightarrow> None | Some s \<Rightarrow> if length s \<ge> kMaxTextLength then None else Some (textValue s))"
| "readSlot env (SlotReal x) = finiteReal x"
| "readSlot env (SlotRealReference p) = (case p of None \<Rightarrow> None | Some a \<Rightarrow> finiteReal (floatAt env a))"
| "readSlot env (SlotBoolean b) = Some (booleanValue b)"
| "readSlot env (SlotBooleanReference p) =
     (case p of None \<Rightarrow> None | Some a \<Rightarrow> Some (booleanValue (boolAt env a)))"
| "readSlot env (SlotEnumerated x) = Some (enumeratedValue x)"
| "readSlot env (SlotEnumeratedReference p) =
     (case p of None \<Rightarrow> None | Some a \<Rightarrow> Some (enumeratedValue (enumeratedAt env a)))"
| "readSlot env (SlotBitString x n) = bitStringSlot (x, n)"
| "readSlot env (SlotBitStringReference p) =
     (case p of None \<Rightarrow> None | Some a \<Rightarrow> bitStringSlot (statusFlagsAt env a))"

fun readSlots :: "Env \<Rightarrow> BacnetPropertyId \<Rightarrow> BacnetObjectPropertySlot list \<Rightarrow> BacnetValue option" where
  "readSlots env p [] = None"
| "readSlots env p (slot # rest) =
     (if slotProperty slot \<noteq> p then readSlots env p rest else readSlot env (slotValue slot))"

definition readStoredProperty ::
    "Env \<Rightarrow> BacnetObjectWithProperties \<Rightarrow> BacnetPropertyId \<Rightarrow> BacnetValue option" where
  "readStoredProperty env obj p = readSlots env p (opSlots obj)"

definition storedPropertyAt :: "BacnetObjectWithProperties \<Rightarrow> nat \<Rightarrow> BacnetPropertyId option" where
  "storedPropertyAt obj index =
     (if index \<ge> length (opSlots obj) then None else Some (slotProperty (opSlots obj ! index)))"

definition storedPropertyCount :: "BacnetObjectWithProperties \<Rightarrow> nat" where
  "storedPropertyCount obj = length (opSlots obj)"

section \<open>Analog and binary inputs, binary outputs\<close>

definition validObjectConfiguration :: "u32 \<Rightarrow> cstring \<Rightarrow> bool" where
  "validObjectConfiguration instanceNumber objectName \<longleftrightarrow>
     instanceNumber \<le> kObjectInstanceMask \<and>
     (case objectName of None \<Rightarrow> False | Some t \<Rightarrow> length t < kMaxTextLength)"

record BacnetServerAnalogInput =
  aiInstance :: u32
  aiObjectName :: cstring
  aiPresentValue :: float32
  aiUnits :: u32
  aiOutOfService :: bool
  aiProvider :: "FloatSource option"
  aiScale :: BacnetLinearScale
  aiHasScale :: bool

record BacnetAnalogInput = BacnetServerAnalogInput +
  aiProperties :: BacnetObjectWithProperties

record BacnetServerBinaryInput =
  biInstance :: u32
  biObjectName :: cstring
  biPresentValue :: bool
  biOutOfService :: bool
  biProvider :: "BoolSource option"

record BacnetBinaryInput = BacnetServerBinaryInput +
  biProperties :: BacnetObjectWithProperties

record BacnetServerBinaryOutput = "bool Commandable" +
  boInstance :: u32
  boObjectName :: cstring
  boPolarity :: u32
  boReliability :: u32
  boLocalWritePriority :: u8
  boHasLocalWritePriority :: bool

text \<open>\<open>boServerPriority\<close>: whether the object is bound to its server's local write priority.\<close>

record BacnetBinaryOutput = BacnetServerBinaryOutput +
  boProperties :: BacnetObjectWithProperties
  boServerPriority :: bool

definition aiMaxOptionalProperties :: nat where "aiMaxOptionalProperties = 7"
definition biMaxOptionalProperties :: nat where "biMaxOptionalProperties = 4"
definition boMaxOptionalProperties :: nat where "boMaxOptionalProperties = 1"

definition supportsEventProperty :: "BacnetPropertyId \<Rightarrow> BacnetObjectPropertyValueType \<Rightarrow> bool" where
  "supportsEventProperty p t \<longleftrightarrow>
     ((p = PropReliability \<or> p = PropEventState) \<and> (t = OpEnumerated \<or> t = OpEnumeratedReference)) \<or>
     (p = PropStatusFlags \<and> (t = OpBitString \<or> t = OpBitStringReference))"

definition aiSupportsProperty :: "BacnetPropertyId \<Rightarrow> BacnetObjectPropertyValueType \<Rightarrow> bool" where
  "aiSupportsProperty p t \<longleftrightarrow>
     (p = PropDescription \<and> t = OpCharacterString) \<or>
     ((p = PropMinPresentValue \<or> p = PropMaxPresentValue \<or> p = PropResolution) \<and>
      (t = OpReal \<or> t = OpRealReference)) \<or>
     supportsEventProperty p t"

definition biSupportsProperty :: "BacnetPropertyId \<Rightarrow> BacnetObjectPropertyValueType \<Rightarrow> bool" where
  "biSupportsProperty p t \<longleftrightarrow> (p = PropDescription \<and> t = OpCharacterString) \<or> supportsEventProperty p t"

definition boSupportsProperty :: "BacnetPropertyId \<Rightarrow> BacnetObjectPropertyValueType \<Rightarrow> bool" where
  "boSupportsProperty p t \<longleftrightarrow> p = PropDescription \<and> t = OpCharacterString"

definition defaultScale :: BacnetLinearScale where
  "defaultScale = \<lparr>rawMin = f32_zero, rawMax = f32_one, valueMin = f32_zero, valueMax = f32_one\<rparr>"

definition newAnalogInput :: BacnetAnalogInput where
  "newAnalogInput = \<lparr>aiInstance = 0, aiObjectName = None, aiPresentValue = f32_zero, aiUnits = 0,
     aiOutOfService = False, aiProvider = None, aiScale = defaultScale, aiHasScale = False,
     aiProperties = initializeProperties aiMaxOptionalProperties\<rparr>"

definition newBinaryInput :: BacnetBinaryInput where
  "newBinaryInput = \<lparr>biInstance = 0, biObjectName = None, biPresentValue = False, biOutOfService = False,
     biProvider = None, biProperties = initializeProperties biMaxOptionalProperties\<rparr>"

definition newPriority :: "'a \<Rightarrow> 'a BacnetCommandPriority" where
  "newPriority x = \<lparr>relinquishDefault = x, slots = replicate kSlotCount x, occupied = replicate kSlotCount False\<rparr>"

definition newBinaryOutput :: BacnetBinaryOutput where
  "newBinaryOutput = \<lparr>coPriority = newPriority False, coOutOfService = False, coApply = False,
     coCallbacks = None, coBusy = False, boInstance = 0, boObjectName = None, boPolarity = 0,
     boReliability = 0, boLocalWritePriority = 16, boHasLocalWritePriority = False,
     boProperties = initializeProperties boMaxOptionalProperties, boServerPriority = False\<rparr>"

text \<open>An operation on an object that only touches its properties part.\<close>

definition onAiProperties ::
    "(BacnetObjectWithProperties \<Rightarrow> BacnetObjectConfigurationStatus \<times> BacnetObjectWithProperties) \<Rightarrow>
     BacnetAnalogInput \<Rightarrow> BacnetObjectConfigurationStatus \<times> BacnetAnalogInput" where
  "onAiProperties f ai = (let (status, obj) = f (aiProperties ai) in (status, ai\<lparr>aiProperties := obj\<rparr>))"

definition onBiProperties ::
    "(BacnetObjectWithProperties \<Rightarrow> BacnetObjectConfigurationStatus \<times> BacnetObjectWithProperties) \<Rightarrow>
     BacnetBinaryInput \<Rightarrow> BacnetObjectConfigurationStatus \<times> BacnetBinaryInput" where
  "onBiProperties f bi = (let (status, obj) = f (biProperties bi) in (status, bi\<lparr>biProperties := obj\<rparr>))"

definition onBoProperties ::
    "(BacnetObjectWithProperties \<Rightarrow> BacnetObjectConfigurationStatus \<times> BacnetObjectWithProperties) \<Rightarrow>
     BacnetBinaryOutput \<Rightarrow> BacnetObjectConfigurationStatus \<times> BacnetBinaryOutput" where
  "onBoProperties f bo = (let (status, obj) = f (boProperties bo) in (status, bo\<lparr>boProperties := obj\<rparr>))"

definition aiConfigure ::
    "u32 \<Rightarrow> cstring \<Rightarrow> BacnetAnalogInput \<Rightarrow> BacnetObjectConfigurationStatus \<times> BacnetAnalogInput" where
  "aiConfigure instanceValue name ai =
     (if \<not> validObjectConfiguration instanceValue name
      then onAiProperties (recordConfigurationStatus CfgInvalidArgument PropObjectIdentifier) ai
      else (CfgOk, ai\<lparr>aiInstance := instanceValue, aiObjectName := name\<rparr>))"

definition aiBindPresentValue ::
    "nat option \<Rightarrow> BacnetAnalogInput \<Rightarrow> BacnetObjectConfigurationStatus \<times> BacnetAnalogInput" where
  "aiBindPresentValue v ai =
     (if v = None then onAiProperties (recordConfigurationStatus CfgInvalidArgument PropPresentValue) ai
      else (CfgOk, ai\<lparr>aiProvider := Some (BoundFloat v), aiHasScale := False\<rparr>))"

definition aiBindInput ::
    "FloatSource option \<Rightarrow> BacnetAnalogInput \<Rightarrow> BacnetObjectConfigurationStatus \<times> BacnetAnalogInput" where
  "aiBindInput provider ai =
     (if provider = None then onAiProperties (recordConfigurationStatus CfgInvalidArgument PropPresentValue) ai
      else (CfgOk, ai\<lparr>aiProvider := provider\<rparr>))"

definition aiSetInputScale ::
    "BacnetLinearScale \<Rightarrow> BacnetAnalogInput \<Rightarrow> BacnetObjectConfigurationStatus \<times> BacnetAnalogInput" where
  "aiSetInputScale scale ai =
     (if \<not> isValid scale then onAiProperties (recordConfigurationStatus CfgInvalidArgument PropPresentValue) ai
      else (CfgOk, ai\<lparr>aiScale := scale, aiHasScale := True\<rparr>))"

definition aiSetUnits :: "u32 \<Rightarrow> BacnetAnalogInput \<Rightarrow> BacnetAnalogInput" where
  "aiSetUnits units ai = ai\<lparr>aiUnits := units\<rparr>"

definition aiAddProperty ::
    "BacnetPropertyId \<Rightarrow> SlotValue \<Rightarrow> BacnetAnalogInput \<Rightarrow> BacnetObjectConfigurationStatus \<times> BacnetAnalogInput" where
  "aiAddProperty p v = onAiProperties (addProperty aiSupportsProperty p v)"

definition aiObjectId :: "('a) BacnetServerAnalogInput_scheme \<Rightarrow> BacnetObjectId" where
  "aiObjectId ai = \<lparr>objType = ObjAnalogInput, objInstance = aiInstance ai\<rparr>"

definition aiConfigurationError :: "BacnetAnalogInput \<Rightarrow> BacnetObjectConfigurationError" where
  "aiConfigurationError ai = configurationErrorFor (aiProperties ai) (aiObjectId ai) (aiObjectName ai)"

definition biConfigure ::
    "u32 \<Rightarrow> cstring \<Rightarrow> BacnetBinaryInput \<Rightarrow> BacnetObjectConfigurationStatus \<times> BacnetBinaryInput" where
  "biConfigure instanceValue name bi =
     (if \<not> validObjectConfiguration instanceValue name
      then onBiProperties (recordConfigurationStatus CfgInvalidArgument PropObjectIdentifier) bi
      else (CfgOk, bi\<lparr>biInstance := instanceValue, biObjectName := name\<rparr>))"

definition biBindPresentValue ::
    "nat option \<Rightarrow> BacnetBinaryInput \<Rightarrow> BacnetObjectConfigurationStatus \<times> BacnetBinaryInput" where
  "biBindPresentValue v bi =
     (if v = None then onBiProperties (recordConfigurationStatus CfgInvalidArgument PropPresentValue) bi
      else (CfgOk, bi\<lparr>biProvider := Some (BoundBool v)\<rparr>))"

definition biAddProperty ::
    "BacnetPropertyId \<Rightarrow> SlotValue \<Rightarrow> BacnetBinaryInput \<Rightarrow> BacnetObjectConfigurationStatus \<times> BacnetBinaryInput" where
  "biAddProperty p v = onBiProperties (addProperty biSupportsProperty p v)"

definition biObjectId :: "('a) BacnetServerBinaryInput_scheme \<Rightarrow> BacnetObjectId" where
  "biObjectId bi = \<lparr>objType = ObjBinaryInput, objInstance = biInstance bi\<rparr>"

definition biConfigurationError :: "BacnetBinaryInput \<Rightarrow> BacnetObjectConfigurationError" where
  "biConfigurationError bi = configurationErrorFor (biProperties bi) (biObjectId bi) (biObjectName bi)"

definition boObjectId :: "('a) BacnetServerBinaryOutput_scheme \<Rightarrow> BacnetObjectId" where
  "boObjectId bo = \<lparr>objType = ObjBinaryOutput, objInstance = boInstance bo\<rparr>"

definition boConfigure ::
    "u32 \<Rightarrow> cstring \<Rightarrow> BacnetBinaryOutput \<Rightarrow> BacnetObjectConfigurationStatus \<times> BacnetBinaryOutput" where
  "boConfigure instanceValue name bo =
     (if \<not> validObjectConfiguration instanceValue name
      then onBoProperties (recordConfigurationStatus CfgInvalidArgument PropObjectIdentifier) bo
      else (CfgOk, bo\<lparr>boInstance := instanceValue, boObjectName := name\<rparr>))"

text \<open>The result of the update is dropped; its calls remain.\<close>

definition boSetRelinquishDefault :: "bool \<Rightarrow> BacnetBinaryOutput \<Rightarrow> BacnetBinaryOutput \<times> bool CommandEvent list" where
  "boSetRelinquishDefault v bo =
     (case setBinaryRelinquishDefault (boObjectId bo) bo v OriginRelinquishDefault of
        None \<Rightarrow> (bo, []) | Some r \<Rightarrow> r)"

definition boSetLocalWritePriority :: "u8 \<Rightarrow> BacnetBinaryOutput \<Rightarrow> bool \<times> BacnetBinaryOutput" where
  "boSetLocalWritePriority v bo =
     (if v = 0 \<or> unat v > kSlotCount then (False, bo)
      else (True, bo\<lparr>boLocalWritePriority := v, boHasLocalWritePriority := True\<rparr>))"

definition boAttachOutput :: "bool \<Rightarrow> BacnetBinaryOutput \<Rightarrow> BacnetBinaryOutput" where
  "boAttachOutput outputApply bo = bo\<lparr>coApply := outputApply\<rparr>"

definition boAttachCallbacks :: "CallbackStorage \<Rightarrow> BacnetBinaryOutput \<Rightarrow> BacnetBinaryOutput" where
  "boAttachCallbacks storage bo = bo\<lparr>coCallbacks := Some storage\<rparr>"

text \<open>Setting a listener (\<open>True\<close>) or clearing it with a null pointer.\<close>

definition boOnCallbacks ::
    "(CallbackStorage \<Rightarrow> CallbackStorage) \<Rightarrow> BacnetBinaryOutput \<Rightarrow> bool \<times> BacnetBinaryOutput" where
  "boOnCallbacks f bo =
     (case coCallbacks bo of None \<Rightarrow> (False, bo) | Some cb \<Rightarrow> (True, bo\<lparr>coCallbacks := Some (f cb)\<rparr>))"

definition boOnPresentValueChange :: "bool \<Rightarrow> BacnetBinaryOutput \<Rightarrow> bool \<times> BacnetBinaryOutput" where
  "boOnPresentValueChange callback = boOnCallbacks (\<lambda>cb. cb\<lparr>onPresentValue := callback\<rparr>)"

definition boOnPriorityValueChange :: "u8 \<Rightarrow> bool \<Rightarrow> BacnetBinaryOutput \<Rightarrow> bool \<times> BacnetBinaryOutput" where
  "boOnPriorityValueChange priority callback bo =
     (if priority = 0 \<or> unat priority > kSlotCount then (False, bo)
      else boOnCallbacks
        (\<lambda>cb. cb\<lparr>onPriorityValue := (onPriorityValue cb)[unat priority - 1 := callback]\<rparr>) bo)"

definition boOnEffectivePriorityChange :: "bool \<Rightarrow> BacnetBinaryOutput \<Rightarrow> bool \<times> BacnetBinaryOutput" where
  "boOnEffectivePriorityChange callback = boOnCallbacks (\<lambda>cb. cb\<lparr>onEffectivePriority := callback\<rparr>)"

definition boOnRelinquish :: "bool \<Rightarrow> BacnetBinaryOutput \<Rightarrow> bool \<times> BacnetBinaryOutput" where
  "boOnRelinquish callback = boOnCallbacks (\<lambda>cb. cb\<lparr>onRelinquish := callback\<rparr>)"

definition boAddProperty ::
    "BacnetPropertyId \<Rightarrow> SlotValue \<Rightarrow> BacnetBinaryOutput \<Rightarrow> BacnetObjectConfigurationStatus \<times> BacnetBinaryOutput" where
  "boAddProperty p v = onBoProperties (addProperty boSupportsProperty p v)"

definition boConfigurationError :: "BacnetBinaryOutput \<Rightarrow> BacnetObjectConfigurationError" where
  "boConfigurationError bo = configurationErrorFor (boProperties bo) (boObjectId bo) (boObjectName bo)"

section \<open>What a property table promises\<close>

text \<open>
  \<open>stored\<close> is the abstract table. An entry, once there, is never replaced; an operation that does
  not succeed changes nothing in it.
\<close>

locale property_table =
  fixes stored :: "'o \<Rightarrow> 'p \<Rightarrow> 'v option" and entries :: "'o \<Rightarrow> 'p list"
    and room :: "'o \<Rightarrow> nat" and add :: "'p \<Rightarrow> 'v \<Rightarrow> 'o \<Rightarrow> bool \<times> 'o" and wf :: "'o \<Rightarrow> bool"
  assumes entries_dom: "wf obj \<Longrightarrow> set (entries obj) = dom (stored obj)"
    and entries_distinct: "wf obj \<Longrightarrow> distinct (entries obj)"
    and entries_room: "wf obj \<Longrightarrow> length (entries obj) \<le> room obj"
    and add_wf: "wf obj \<Longrightarrow> wf (snd (add p v obj)) \<and> room (snd (add p v obj)) = room obj"
    and add_ok: "wf obj \<Longrightarrow> add p v obj = (True, obj') \<Longrightarrow> stored obj p = None \<and> stored obj' = (stored obj)(p \<mapsto> v)"
    and add_refused: "wf obj \<Longrightarrow> add p v obj = (False, obj') \<Longrightarrow> stored obj' = stored obj"
begin

lemma stored_card: "wf obj \<Longrightarrow> card (dom (stored obj)) \<le> room obj"
  using entries_dom [of obj] entries_distinct [of obj] entries_room [of obj]
  by (metis distinct_card)

lemma stored_kept:
  assumes "wf obj" "stored obj q = Some w"
  shows "stored (snd (add p v obj)) q = Some w"
proof (cases "add p v obj")
  case (Pair ok obj')
  then show ?thesis
    using assms add_ok [of obj p v obj'] add_refused [of obj p v obj'] by (cases ok) auto
qed

text \<open>A whole configuration: the operations in order.\<close>

primrec addAll :: "('p \<times> 'v) list \<Rightarrow> 'o \<Rightarrow> 'o" where
  "addAll [] obj = obj"
| "addAll (pv # pvs) obj = addAll pvs (snd (add (fst pv) (snd pv) obj))"

lemma addAll_wf: "wf obj \<Longrightarrow> wf (addAll pvs obj) \<and> room (addAll pvs obj) = room obj"
proof (induction pvs arbitrary: obj)
  case (Cons pv pvs)
  then show ?case using add_wf [of obj "fst pv" "snd pv"] by simp
qed simp

lemma first_entry_wins:
  "wf obj \<Longrightarrow> stored obj p = Some v \<Longrightarrow> stored (addAll pvs obj) p = Some v"
proof (induction pvs arbitrary: obj)
  case (Cons pv pvs)
  then show ?case using add_wf [of obj "fst pv" "snd pv"] stored_kept [of obj p v] by simp
qed simp

lemma only_given_entries:
  "wf obj \<Longrightarrow> stored (addAll pvs obj) p = Some v \<Longrightarrow> stored obj p = Some v \<or> (p, v) \<in> set pvs"
proof (induction pvs arbitrary: obj)
  case (Cons pv pvs)
  obtain q w where pv: "pv = (q, w)" by fastforce
  obtain ok obj' where a: "add q w obj = (ok, obj')" by fastforce
  have "wf obj'" using add_wf [OF Cons.prems(1), of q w] a by simp
  then have c: "stored obj' p = Some v \<or> (p, v) \<in> set pvs" using Cons.IH Cons.prems(2) by (simp add: pv a)
  show ?case
  proof (cases ok)
    case True
    with add_ok [OF Cons.prems(1), of q w obj'] a have "stored obj' = (stored obj)(q \<mapsto> w)" by simp
    with c show ?thesis by (auto simp: pv split: if_splits)
  next
    case False
    with add_refused [OF Cons.prems(1), of q w obj'] a c show ?thesis by (auto simp: pv)
  qed
qed simp

end

section \<open>The table of an object keeps the promise\<close>

fun lookupSlot :: "BacnetObjectPropertySlot list \<Rightarrow> BacnetPropertyId \<Rightarrow> SlotValue option" where
  "lookupSlot [] p = None"
| "lookupSlot (slot # rest) p = (if slotProperty slot = p then Some (slotValue slot) else lookupSlot rest p)"

definition storedProperties :: "BacnetObjectWithProperties \<Rightarrow> BacnetPropertyId \<Rightarrow> SlotValue option" where
  "storedProperties obj = lookupSlot (opSlots obj)"

definition wfProperties :: "BacnetObjectWithProperties \<Rightarrow> bool" where
  "wfProperties obj \<longleftrightarrow> distinct (map slotProperty (opSlots obj)) \<and> length (opSlots obj) \<le> opCapacity obj"

definition tryAddProperty ::
    "(BacnetPropertyId \<Rightarrow> BacnetObjectPropertyValueType \<Rightarrow> bool) \<Rightarrow> BacnetPropertyId \<Rightarrow> SlotValue \<Rightarrow>
     BacnetObjectWithProperties \<Rightarrow> bool \<times> BacnetObjectWithProperties" where
  "tryAddProperty supp p v obj = (let (status, obj') = addProperty supp p v obj in (status = CfgOk, obj'))"

lemma lookupSlot_dom: "dom (lookupSlot ss) = slotProperty ` set ss"
  by (induction ss) (auto simp: dom_def)

lemma lookupSlot_append:
  "lookupSlot (ss @ [slot]) p =
     (case lookupSlot ss p of Some v \<Rightarrow> Some v
      | None \<Rightarrow> if slotProperty slot = p then Some (slotValue slot) else None)"
  by (induction ss) auto

lemma addProperty_cases:
  obtains (added) "addProperty supp p v obj = (CfgOk, obj\<lparr>opSlots := opSlots obj @ [\<lparr>slotProperty = p, slotValue = v\<rparr>]\<rparr>)"
      "p \<notin> slotProperty ` set (opSlots obj)" "length (opSlots obj) \<noteq> opCapacity obj"
  | (refused) status obj' where "addProperty supp p v obj = (status, obj')" "status \<noteq> CfgOk"
      "opSlots obj' = opSlots obj" "opCapacity obj' = opCapacity obj"
      "opStatus obj' = (if opStatus obj = CfgOk then status else opStatus obj)"
      "opErrorProperty obj' = (if opStatus obj = CfgOk then p else opErrorProperty obj)"
proof -
  have rec: thesis if "addProperty supp p v obj = recordConfigurationStatus status p obj" "status \<noteq> CfgOk" for status
    using that refused [of status "snd (recordConfigurationStatus status p obj)"]
    by (simp add: recordConfigurationStatus_def)
  show thesis
  proof (cases "nullSlot v \<or> \<not> hasExpectedPropertyType p (slotType v) \<or> \<not> supp p (slotType v) \<or>
      (\<exists>slot \<in> set (opSlots obj). slotProperty slot = p) \<or> length (opSlots obj) = opCapacity obj")
    case True
    let ?status = "if nullSlot v then CfgInvalidArgument
      else if \<not> hasExpectedPropertyType p (slotType v) then CfgPropertyTypeMismatch
      else if \<not> supp p (slotType v) then CfgPropertyNotSupported
      else if \<exists>slot \<in> set (opSlots obj). slotProperty slot = p then CfgDuplicateProperty
      else CfgPropertyCapacityExceeded"
    have "addProperty supp p v obj = recordConfigurationStatus ?status p obj"
      using True by (auto simp: addProperty_def addPropertyValue_def)
    then show thesis by (rule rec) simp
  next
    case False
    then have "addProperty supp p v obj = (CfgOk, obj\<lparr>opSlots := opSlots obj @ [\<lparr>slotProperty = p, slotValue = v\<rparr>]\<rparr>)"
      by (simp add: addProperty_def addPropertyValue_def)
    with False show thesis by (intro added) auto
  qed
qed

interpretation properties: property_table storedProperties "\<lambda>obj. map slotProperty (opSlots obj)"
    opCapacity "tryAddProperty supp" wfProperties for supp
proof unfold_locales
  fix p and obj obj' :: BacnetObjectWithProperties and v
  show "set (map slotProperty (opSlots obj)) = dom (storedProperties obj)"
    by (simp add: storedProperties_def lookupSlot_dom)
  show "distinct (map slotProperty (opSlots obj))" "length (map slotProperty (opSlots obj)) \<le> opCapacity obj"
    if "wfProperties obj" using that by (simp_all add: wfProperties_def)
  show "wfProperties (snd (tryAddProperty supp p v obj)) \<and> opCapacity (snd (tryAddProperty supp p v obj)) = opCapacity obj"
    if "wfProperties obj"
    using that by (cases rule: addProperty_cases [of supp p v obj]) (auto simp: tryAddProperty_def wfProperties_def)
  show "storedProperties obj p = None \<and> storedProperties obj' = (storedProperties obj)(p \<mapsto> v)"
    if "wfProperties obj" "tryAddProperty supp p v obj = (True, obj')"
  proof (cases rule: addProperty_cases [of supp p v obj])
    case added
    then have o: "obj' = obj\<lparr>opSlots := opSlots obj @ [\<lparr>slotProperty = p, slotValue = v\<rparr>]\<rparr>"
      using that(2) by (simp add: tryAddProperty_def)
    have none: "lookupSlot (opSlots obj) p = None"
      using added(2) lookupSlot_dom [of "opSlots obj"] by (metis domIff)
    show ?thesis
      by (auto simp: storedProperties_def o lookupSlot_append none fun_eq_iff split: option.split)
  qed (use that in \<open>auto simp: tryAddProperty_def\<close>)
  show "storedProperties obj' = storedProperties obj"
    if "wfProperties obj" "tryAddProperty supp p v obj = (False, obj')"
    using that by (cases rule: addProperty_cases [of supp p v obj]) (auto simp: tryAddProperty_def storedProperties_def)
qed

lemma readStoredProperty_stored:
  "readStoredProperty env obj p = Option.bind (storedProperties obj p) (readSlot env)"
proof -
  have "readSlots env p ss = Option.bind (lookupSlot ss p) (readSlot env)" for ss
    by (induction ss) auto
  then show ?thesis by (simp add: readStoredProperty_def storedProperties_def)
qed

text \<open>
  Whatever further properties are added, in any order and with any values, an optional
  property that is in an object's table keeps the value it was first given; the table never
  holds a property twice and never more than its capacity.
\<close>

theorem optional_property_is_kept:
  assumes "wfProperties obj" and "storedProperties obj p = Some v"
  shows "(let obj' = fold (\<lambda>(q, w) obj. snd (addProperty supp q w obj)) additions obj in
    readStoredProperty env obj' p = readSlot env v \<and>
    distinct (map slotProperty (opSlots obj')) \<and> length (opSlots obj') \<le> opCapacity obj)"
proof -
  have tr: "snd (tryAddProperty supp q w ob) = snd (addProperty supp q w ob)" for q w ob
    by (simp add: tryAddProperty_def case_prod_beta)
  have all: "fold (\<lambda>(q, w) obj. snd (addProperty supp q w obj)) additions obj = properties.addAll supp additions obj"
    by (induction additions arbitrary: obj) (auto simp: tr case_prod_beta)
  show ?thesis
    using properties.first_entry_wins [OF assms, of supp additions] properties.addAll_wf [OF assms(1), of supp additions]
    by (simp add: all Let_def readStoredProperty_stored wfProperties_def)
qed

text \<open>A description and a second attempt at it, on a table of one slot.\<close>

theorem optional_property_is_kept_witness:
  "\<forall>env. readStoredProperty env
     (snd (addProperty boSupportsProperty PropDescription (SlotText (Some [0x42]))
        \<lparr>opSlots = [\<lparr>slotProperty = PropDescription, slotValue = SlotText (Some [0x41])\<rparr>], opCapacity = 1,
         opStatus = CfgOk, opErrorProperty = PropObjectIdentifier\<rparr>)) PropDescription =
   Some (textValue [0x41])"
proof -
  let ?o = "\<lparr>opSlots = [\<lparr>slotProperty = PropDescription, slotValue = SlotText (Some [0x41])\<rparr>], opCapacity = 1,
         opStatus = CfgOk, opErrorProperty = PropObjectIdentifier\<rparr>"
  have "wfProperties ?o" "storedProperties ?o PropDescription = Some (SlotText (Some [0x41]))"
    by (simp_all add: wfProperties_def storedProperties_def)
  from optional_property_is_kept [OF this, of boSupportsProperty
      "[(PropDescription, SlotText (Some [0x42]))]"]
  show ?thesis by (simp add: Let_def kMaxTextLength_def)
qed

text \<open>
  The first error sticks: once an object's configuration has failed, no later addition,
  successful or not, changes the recorded status or the property it names.
\<close>

theorem first_configuration_error_sticks:
  assumes "\<not> isConfigurationValid obj"
  shows "opStatus (snd (addProperty supp p v obj)) = opStatus obj \<and>
    opErrorProperty (snd (addProperty supp p v obj)) = opErrorProperty obj"
  using assms by (cases rule: addProperty_cases [of supp p v obj]) (simp_all add: isConfigurationValid_def)

theorem first_configuration_error_sticks_witness:
  "opStatus (snd (addProperty boSupportsProperty PropDescription (SlotText None)
     ((initializeProperties 1)\<lparr>opStatus := CfgDuplicateProperty\<rparr>))) = CfgDuplicateProperty"
proof -
  have "\<not> isConfigurationValid ((initializeProperties 1)\<lparr>opStatus := CfgDuplicateProperty\<rparr>)"
    by (simp add: isConfigurationValid_def)
  from first_configuration_error_sticks [OF this] show ?thesis by simp
qed

end
