(* ===== verification/ServerState.thy ===== *)
theory ServerState
  imports ObjectProperties
begin

text \<open>
  The state of \<open>BacnetServer\<close> (src/src/core/server/BacnetServer.h and .cpp): the device profile,
  the registered objects of every class, the optional property registrations and the COV
  subscription table; the registration operations, the lookups, and the object and property
  lists computed from them. The caller-owned arrays the server points to are lists inside the
  state; the arrays the sources index by subscription are the fields of one slot.
\<close>

section \<open>Data\<close>

record BacnetServerDevice =
  dvInstance :: u32
  dvVendorId :: u16
  dvObjectName :: cstring
  dvVendorName :: cstring
  dvModelName :: cstring
  dvFirmwareRevision :: cstring
  dvApplicationSoftwareVersion :: cstring
  dvMaxApdu :: u32
  dvApduTimeout :: u32
  dvApduRetries :: u32
  dvDatabaseRevision :: u32
  dvProtocolVersion :: u8
  dvProtocolRevision :: u8
  dvSegmentation :: u8

definition defaultDevice :: "u32 \<Rightarrow> BacnetServerDevice" where
  "defaultDevice deviceInstance = \<lparr>dvInstance = deviceInstance, dvVendorId = 0, dvObjectName = None,
     dvVendorName = None, dvModelName = None, dvFirmwareRevision = None,
     dvApplicationSoftwareVersion = None, dvMaxApdu = 1476, dvApduTimeout = 3000, dvApduRetries = 3,
     dvDatabaseRevision = 0, dvProtocolVersion = 1, dvProtocolRevision = 14, dvSegmentation = 3\<rparr>"

record BacnetServerPropertyRegistration =
  rgObject :: BacnetObjectId
  rgProperty :: BacnetPropertyId
  rgProvider :: "nat option"

record BacnetServerAnalogValue =
  avInstance :: u32
  avObjectName :: cstring
  avPresentValue :: float32
  avUnits :: u32
  avOutOfService :: bool
  avProvider :: "FloatSource option"

text \<open>
  A commandable analog value and an analog output have the same fields, except that the former
  has no output hook: its operations pass none.
\<close>

record BacnetServerCommandableAnalog = "float32 Commandable" +
  caInstance :: u32
  caObjectName :: cstring
  caUnits :: u32

type_synonym BacnetServerCommandableAnalogValue = BacnetServerCommandableAnalog
type_synonym BacnetServerAnalogOutput = BacnetServerCommandableAnalog

record BacnetServerBinaryValue =
  bvInstance :: u32
  bvObjectName :: cstring
  bvPriority :: "bool BacnetCommandPriority"
  bvOutOfService :: bool

text \<open>\<open>msStateText\<close> is null or an array of at least \<open>msNumberOfStates\<close> strings.\<close>

record BacnetServerMultiStateValue =
  msInstance :: u32
  msObjectName :: cstring
  msPresentValue :: u32
  msNumberOfStates :: u32
  msStateText :: "cstring list option"
  msOutOfService :: bool

datatype BacnetServerCovSubscriptionState = CovInactive | CovActive | CovAwaitingConfirmedAck

record BacnetServerCovSubscription =
  csState :: BacnetServerCovSubscriptionState
  csPeer :: BacnetIpEndpoint
  csProcessId :: u32
  csObject :: BacnetObjectId
  csProperty :: BacnetPropertyId
  csArrayIndex :: u32
  csIsProperty :: bool
  csHasIncrement :: bool
  csIncrement :: float32
  csConfirmed :: bool
  csLifetime :: u32
  csExpiresAt :: u32
  csLastSent :: u32
  csLastAck :: u32
  csPendingInvokeId :: u8

definition emptySubscription :: BacnetServerCovSubscription where
  "emptySubscription = \<lparr>csState = CovInactive, csPeer = emptyEndpoint, csProcessId = 0,
     csObject = emptyObjectId, csProperty = PropPresentValue, csArrayIndex = kBacnetNoArrayIndex,
     csIsProperty = False, csHasIncrement = False, csIncrement = f32_zero, csConfirmed = False,
     csLifetime = 0, csExpiresAt = 0, csLastSent = 0, csLastAck = 0, csPendingInvokeId = 0\<rparr>"

text \<open>\<open>covSnapshotTypes_ ... covSnapshotValid_\<close> of one subscription and one property.\<close>

record CovSnapshot =
  snType :: BacnetValueType
  snBoolean :: bool
  snUnsigned :: u32
  snReal :: float32
  snBitString :: u32
  snBitCount :: u8
  snValid :: bool

record CovSlot =
  slSubscription :: BacnetServerCovSubscription
  slSnapshots :: "CovSnapshot list"
  slConfirmedRetries :: u8
  slSendRetries :: u8
  slRetryAt :: u32

definition kMaxCovSubscriptions :: nat where "kMaxCovSubscriptions = 8"
definition kCovObjectPropertyCount :: nat where "kCovObjectPropertyCount = 2"

definition emptySnapshot :: CovSnapshot where
  "emptySnapshot = \<lparr>snType = TyEmpty, snBoolean = False, snUnsigned = 0, snReal = f32_zero, snBitString = 0,
     snBitCount = 0, snValid = False\<rparr>"

definition emptySlot :: CovSlot where
  "emptySlot = \<lparr>slSubscription = emptySubscription, slSnapshots = replicate kCovObjectPropertyCount emptySnapshot,
     slConfirmedRetries = 0, slSendRetries = 0, slRetryAt = 0\<rparr>"

record BacnetServer =
  svTransport :: bool
  svRunning :: bool
  svDevice :: BacnetServerDevice
  svPort :: u16
  svAnalogValues :: "BacnetServerAnalogValue list"
  svCommandableAnalogValues :: "BacnetServerCommandableAnalogValue list"
  svAnalogOutputs :: "BacnetServerAnalogOutput list"
  svAnalogInputs :: "BacnetServerAnalogInput list"
  svObjectAnalogInputs :: "BacnetAnalogInput list"
  svBinaryInputs :: "BacnetServerBinaryInput list"
  svObjectBinaryInputs :: "BacnetBinaryInput list"
  svBinaryOutputs :: "BacnetServerBinaryOutput list"
  svObjectBinaryOutputs :: "BacnetBinaryOutput list"
  svBinaryValues :: "BacnetServerBinaryValue list"
  svMultiStateValues :: "BacnetServerMultiStateValue list"
  svRegistrations :: "BacnetServerPropertyRegistration list"
  svActivityListener :: bool
  svCovListener :: bool
  svLocalWritePriority :: u8
  svClock :: bool
  svCov :: "CovSlot list"
  svNextCovInvokeId :: u8

definition newServer :: "bool \<Rightarrow> BacnetServer" where
  "newServer transport = \<lparr>svTransport = transport, svRunning = False, svDevice = defaultDevice 0,
     svPort = 47808, svAnalogValues = [], svCommandableAnalogValues = [], svAnalogOutputs = [],
     svAnalogInputs = [], svObjectAnalogInputs = [], svBinaryInputs = [], svObjectBinaryInputs = [],
     svBinaryOutputs = [], svObjectBinaryOutputs = [], svBinaryValues = [], svMultiStateValues = [],
     svRegistrations = [], svActivityListener = False, svCovListener = False, svLocalWritePriority = 16,
     svClock = False, svCov = replicate kMaxCovSubscriptions emptySlot, svNextCovInvokeId = 1\<rparr>"

section \<open>Lookups\<close>

definition findAnalogValue :: "BacnetServer \<Rightarrow> u32 \<Rightarrow> BacnetServerAnalogValue option" where
  "findAnalogValue s n = List.find (\<lambda>x. avInstance x = n) (svAnalogValues s)"

definition findCommandableAnalogValue :: "BacnetServer \<Rightarrow> u32 \<Rightarrow> BacnetServerCommandableAnalogValue option" where
  "findCommandableAnalogValue s n = List.find (\<lambda>x. caInstance x = n) (svCommandableAnalogValues s)"

definition findAnalogOutput :: "BacnetServer \<Rightarrow> u32 \<Rightarrow> BacnetServerAnalogOutput option" where
  "findAnalogOutput s n = List.find (\<lambda>x. caInstance x = n) (svAnalogOutputs s)"

definition findBinaryValue :: "BacnetServer \<Rightarrow> u32 \<Rightarrow> BacnetServerBinaryValue option" where
  "findBinaryValue s n = List.find (\<lambda>x. bvInstance x = n) (svBinaryValues s)"

definition findMultiStateValue :: "BacnetServer \<Rightarrow> u32 \<Rightarrow> BacnetServerMultiStateValue option" where
  "findMultiStateValue s n = List.find (\<lambda>x. msInstance x = n) (svMultiStateValues s)"

text \<open>Where objects were added one by one, the array is not used.\<close>

definition analogInputsOf :: "BacnetServer \<Rightarrow> BacnetServerAnalogInput list" where
  "analogInputsOf s = (if svObjectAnalogInputs s \<noteq> []
     then map BacnetServerAnalogInput.truncate (svObjectAnalogInputs s) else svAnalogInputs s)"

definition binaryInputsOf :: "BacnetServer \<Rightarrow> BacnetServerBinaryInput list" where
  "binaryInputsOf s = (if svObjectBinaryInputs s \<noteq> []
     then map BacnetServerBinaryInput.truncate (svObjectBinaryInputs s) else svBinaryInputs s)"

definition binaryOutputsOf :: "BacnetServer \<Rightarrow> BacnetServerBinaryOutput list" where
  "binaryOutputsOf s = (if svObjectBinaryOutputs s \<noteq> []
     then map BacnetServerBinaryOutput.truncate (svObjectBinaryOutputs s) else svBinaryOutputs s)"

definition findAnalogInput :: "BacnetServer \<Rightarrow> u32 \<Rightarrow> BacnetServerAnalogInput option" where
  "findAnalogInput s n = List.find (\<lambda>x. aiInstance x = n) (analogInputsOf s)"

definition findBinaryInput :: "BacnetServer \<Rightarrow> u32 \<Rightarrow> BacnetServerBinaryInput option" where
  "findBinaryInput s n = List.find (\<lambda>x. biInstance x = n) (binaryInputsOf s)"

definition findBinaryOutput :: "BacnetServer \<Rightarrow> u32 \<Rightarrow> BacnetServerBinaryOutput option" where
  "findBinaryOutput s n = List.find (\<lambda>x. boInstance x = n) (binaryOutputsOf s)"

definition analogValueCount :: "BacnetServer \<Rightarrow> nat" where
  "analogValueCount s = length (svAnalogValues s) + length (svCommandableAnalogValues s)"

definition analogInputCount :: "BacnetServer \<Rightarrow> nat" where
  "analogInputCount s = (if length (svObjectAnalogInputs s) \<noteq> 0 then length (svObjectAnalogInputs s)
     else length (svAnalogInputs s))"

definition binaryInputCount :: "BacnetServer \<Rightarrow> nat" where
  "binaryInputCount s = (if length (svObjectBinaryInputs s) \<noteq> 0 then length (svObjectBinaryInputs s)
     else length (svBinaryInputs s))"

definition binaryOutputCount :: "BacnetServer \<Rightarrow> nat" where
  "binaryOutputCount s = (if length (svObjectBinaryOutputs s) \<noteq> 0 then length (svObjectBinaryOutputs s)
     else length (svBinaryOutputs s))"

definition listAt :: "'a list \<Rightarrow> nat \<Rightarrow> 'a option" where
  "listAt xs index = (if index < length xs then Some (xs ! index) else None)"

definition analogInputAt :: "BacnetServer \<Rightarrow> nat \<Rightarrow> BacnetServerAnalogInput option" where
  "analogInputAt s = listAt (analogInputsOf s)"

definition binaryInputAt :: "BacnetServer \<Rightarrow> nat \<Rightarrow> BacnetServerBinaryInput option" where
  "binaryInputAt s = listAt (binaryInputsOf s)"

definition binaryOutputAt :: "BacnetServer \<Rightarrow> nat \<Rightarrow> BacnetServerBinaryOutput option" where
  "binaryOutputAt s = listAt (binaryOutputsOf s)"

definition binaryValueAt :: "BacnetServer \<Rightarrow> nat \<Rightarrow> BacnetServerBinaryValue option" where
  "binaryValueAt s = listAt (svBinaryValues s)"

definition multiStateValueAt :: "BacnetServer \<Rightarrow> nat \<Rightarrow> BacnetServerMultiStateValue option" where
  "multiStateValueAt s = listAt (svMultiStateValues s)"

text \<open>The property tables of the objects that were added one by one.\<close>

definition findObjectPropertySource :: "BacnetServer \<Rightarrow> BacnetObjectId \<Rightarrow> BacnetObjectWithProperties option" where
  "findObjectPropertySource s object =
     (if objType object = ObjAnalogInput then
        map_option aiProperties (List.find (\<lambda>x. aiObjectId x = object) (svObjectAnalogInputs s))
      else if objType object = ObjBinaryInput then
        map_option biProperties (List.find (\<lambda>x. biObjectId x = object) (svObjectBinaryInputs s))
      else if objType object = ObjBinaryOutput then
        map_option boProperties (List.find (\<lambda>x. boObjectId x = object) (svObjectBinaryOutputs s))
      else None)"

definition findPropertyRegistration ::
    "BacnetServer \<Rightarrow> BacnetObjectId \<Rightarrow> BacnetPropertyId \<Rightarrow> BacnetServerPropertyRegistration option" where
  "findPropertyRegistration s object p =
     List.find (\<lambda>r. rgObject r = object \<and> rgProperty r = p) (svRegistrations s)"

end
