(* ===== verification/ServerRegistration.thy ===== *)
theory ServerRegistration
  imports ServerState
begin

text \<open>
  The registration half of src/src/core/server/BacnetServer.cpp: the operations by which the
  application gives the server its objects and property providers, and the object list and
  property lists the server computes from them. An array argument is the list of its elements,
  \<open>None\<close> for a null pointer; it has at least \<open>count\<close> elements.
\<close>

section \<open>Accepting an array of objects\<close>

text \<open>The loops over \<open>index\<close> and \<open>previous\<close>: every object is valid and no key occurs twice.\<close>

fun acceptAll :: "('a \<Rightarrow> bool) \<Rightarrow> ('a \<Rightarrow> 'k) \<Rightarrow> 'k list \<Rightarrow> 'a list \<Rightarrow> bool" where
  "acceptAll valid key seen [] = True"
| "acceptAll valid key seen (x # xs) =
     (valid x \<and> key x \<notin> set seen \<and> acceptAll valid key (key x # seen) xs)"

definition registerArray :: "('a list \<Rightarrow> bool) \<Rightarrow> 'a list option \<Rightarrow> nat \<Rightarrow> 'a list option" where
  "registerArray accepted arr count =
     (if count = 0 then Some []
      else case arr of None \<Rightarrow> None
      | Some xs \<Rightarrow> if accepted (take count xs) then Some (take count xs) else None)"

definition validText :: "cstring \<Rightarrow> bool" where
  "validText t = (case t of None \<Rightarrow> False | Some s \<Rightarrow> length s < kMaxTextLength)"

definition validMultiStateValueConfiguration :: "BacnetServerMultiStateValue \<Rightarrow> bool" where
  "validMultiStateValueConfiguration v \<longleftrightarrow>
     validObjectConfiguration (msInstance v) (msObjectName v) \<and>
     msNumberOfStates v \<noteq> 0 \<and> msPresentValue v \<noteq> 0 \<and> msPresentValue v \<le> msNumberOfStates v \<and>
     (case msStateText v of None \<Rightarrow> False
      | Some texts \<Rightarrow> list_all validText (take (unat (msNumberOfStates v)) texts))"

definition setAnalogValues ::
    "BacnetServerAnalogValue list option \<Rightarrow> nat \<Rightarrow> BacnetServer \<Rightarrow> bool \<times> BacnetServer" where
  "setAnalogValues arr count s =
     (case registerArray (acceptAll (\<lambda>v. validObjectConfiguration (avInstance v) (avObjectName v) \<and>
            findCommandableAnalogValue s (avInstance v) = None) avInstance []) arr count of
        None \<Rightarrow> (False, s) | Some xs \<Rightarrow> (True, s\<lparr>svAnalogValues := xs\<rparr>))"

definition setCommandableAnalogValues ::
    "BacnetServerCommandableAnalogValue list option \<Rightarrow> nat \<Rightarrow> BacnetServer \<Rightarrow> bool \<times> BacnetServer" where
  "setCommandableAnalogValues arr count s =
     (case registerArray (acceptAll (\<lambda>v. validObjectConfiguration (caInstance v) (caObjectName v) \<and>
            findAnalogValue s (caInstance v) = None) caInstance []) arr count of
        None \<Rightarrow> (False, s) | Some xs \<Rightarrow> (True, s\<lparr>svCommandableAnalogValues := xs\<rparr>))"

definition setAnalogOutputs ::
    "BacnetServerAnalogOutput list option \<Rightarrow> nat \<Rightarrow> BacnetServer \<Rightarrow> bool \<times> BacnetServer" where
  "setAnalogOutputs arr count s =
     (case registerArray (acceptAll (\<lambda>v. validObjectConfiguration (caInstance v) (caObjectName v))
            caInstance []) arr count of
        None \<Rightarrow> (False, s) | Some xs \<Rightarrow> (True, s\<lparr>svAnalogOutputs := xs\<rparr>))"

definition setAnalogInputs ::
    "BacnetServerAnalogInput list option \<Rightarrow> nat \<Rightarrow> BacnetServer \<Rightarrow> bool \<times> BacnetServer" where
  "setAnalogInputs arr count s =
     (if length (svObjectAnalogInputs s) \<noteq> 0 then (False, s)
      else case registerArray (acceptAll (\<lambda>v. validObjectConfiguration (aiInstance v) (aiObjectName v))
            aiInstance []) arr count of
        None \<Rightarrow> (False, s) | Some xs \<Rightarrow> (True, s\<lparr>svAnalogInputs := xs\<rparr>))"

definition setBinaryInputs ::
    "BacnetServerBinaryInput list option \<Rightarrow> nat \<Rightarrow> BacnetServer \<Rightarrow> bool \<times> BacnetServer" where
  "setBinaryInputs arr count s =
     (if length (svObjectBinaryInputs s) \<noteq> 0 then (False, s)
      else case registerArray (acceptAll (\<lambda>v. validObjectConfiguration (biInstance v) (biObjectName v))
            biInstance []) arr count of
        None \<Rightarrow> (False, s) | Some xs \<Rightarrow> (True, s\<lparr>svBinaryInputs := xs\<rparr>))"

definition setBinaryOutputs ::
    "BacnetServerBinaryOutput list option \<Rightarrow> nat \<Rightarrow> BacnetServer \<Rightarrow> bool \<times> BacnetServer" where
  "setBinaryOutputs arr count s =
     (if length (svObjectBinaryOutputs s) \<noteq> 0 then (False, s)
      else case registerArray (acceptAll (\<lambda>v. validObjectConfiguration (boInstance v) (boObjectName v) \<and>
            boPolarity v \<le> 1) boInstance []) arr count of
        None \<Rightarrow> (False, s) | Some xs \<Rightarrow> (True, s\<lparr>svBinaryOutputs := xs\<rparr>))"

definition setBinaryValues ::
    "BacnetServerBinaryValue list option \<Rightarrow> nat \<Rightarrow> BacnetServer \<Rightarrow> bool \<times> BacnetServer" where
  "setBinaryValues arr count s =
     (case registerArray (acceptAll (\<lambda>v. validObjectConfiguration (bvInstance v) (bvObjectName v))
            bvInstance []) arr count of
        None \<Rightarrow> (False, s) | Some xs \<Rightarrow> (True, s\<lparr>svBinaryValues := xs\<rparr>))"

definition setMultiStateValues ::
    "BacnetServerMultiStateValue list option \<Rightarrow> nat \<Rightarrow> BacnetServer \<Rightarrow> bool \<times> BacnetServer" where
  "setMultiStateValues arr count s =
     (case registerArray (acceptAll validMultiStateValueConfiguration msInstance []) arr count of
        None \<Rightarrow> (False, s) | Some xs \<Rightarrow> (True, s\<lparr>svMultiStateValues := xs\<rparr>))"

section \<open>Adding one object\<close>

definition kMaxObjectCentric :: nat where "kMaxObjectCentric = 8"

definition addAnalogInput ::
    "BacnetAnalogInput \<Rightarrow> BacnetServer \<Rightarrow> BacnetObjectConfigurationStatus \<times> BacnetServer" where
  "addAnalogInput ob s =
     (if \<not> isConfigurationValid (aiProperties ob) then (opStatus (aiProperties ob), s)
      else if length (svAnalogInputs s) \<noteq> 0 then (CfgRegistrationModeConflict, s)
      else if \<not> validObjectConfiguration (aiInstance ob) (aiObjectName ob) then (CfgInvalidArgument, s)
      else if aiInstance ob \<in> aiInstance ` set (svObjectAnalogInputs s) then (CfgDuplicateProperty, s)
      else if length (svObjectAnalogInputs s) = kMaxObjectCentric then (CfgServerCapacityExceeded, s)
      else (CfgOk, s\<lparr>svObjectAnalogInputs := svObjectAnalogInputs s @ [ob]\<rparr>))"

definition addBinaryInput ::
    "BacnetBinaryInput \<Rightarrow> BacnetServer \<Rightarrow> BacnetObjectConfigurationStatus \<times> BacnetServer" where
  "addBinaryInput ob s =
     (if \<not> isConfigurationValid (biProperties ob) then (opStatus (biProperties ob), s)
      else if length (svBinaryInputs s) \<noteq> 0 then (CfgRegistrationModeConflict, s)
      else if \<not> validObjectConfiguration (biInstance ob) (biObjectName ob) then (CfgInvalidArgument, s)
      else if biInstance ob \<in> biInstance ` set (svObjectBinaryInputs s) then (CfgDuplicateProperty, s)
      else if length (svObjectBinaryInputs s) = kMaxObjectCentric then (CfgServerCapacityExceeded, s)
      else (CfgOk, s\<lparr>svObjectBinaryInputs := svObjectBinaryInputs s @ [ob]\<rparr>))"

definition addBinaryOutput ::
    "BacnetBinaryOutput \<Rightarrow> BacnetServer \<Rightarrow> BacnetObjectConfigurationStatus \<times> BacnetServer" where
  "addBinaryOutput ob s =
     (if \<not> isConfigurationValid (boProperties ob) then (opStatus (boProperties ob), s)
      else if length (svBinaryOutputs s) \<noteq> 0 then (CfgRegistrationModeConflict, s)
      else if \<not> validObjectConfiguration (boInstance ob) (boObjectName ob) \<or> boPolarity ob > 1
      then (CfgInvalidArgument, s)
      else if boInstance ob \<in> boInstance ` set (svObjectBinaryOutputs s) then (CfgDuplicateProperty, s)
      else if length (svObjectBinaryOutputs s) = kMaxObjectCentric then (CfgServerCapacityExceeded, s)
      else (CfgOk, s\<lparr>svObjectBinaryOutputs :=
             svObjectBinaryOutputs s @ [ob\<lparr>boServerPriority := True\<rparr>]\<rparr>))"

section \<open>Property registrations and settings\<close>

definition isDeviceMetadataProperty :: "BacnetPropertyId \<Rightarrow> bool" where
  "isDeviceMetadataProperty p \<longleftrightarrow> p = PropDescription \<or> p = PropLocation \<or> p = PropSerialNumber"

definition validRegistration :: "BacnetServerPropertyRegistration \<Rightarrow> bool" where
  "validRegistration r \<longleftrightarrow> \<not> (rgProvider r = None \<or> objInstance (rgObject r) > kObjectInstanceMask \<or>
     rgProperty r = PropPropertyList \<or>
     (objType (rgObject r) = ObjDevice \<and> \<not> isDeviceMetadataProperty (rgProperty r)))"

definition setPropertyRegistrations ::
    "BacnetServerPropertyRegistration list option \<Rightarrow> nat \<Rightarrow> BacnetServer \<Rightarrow> bool \<times> BacnetServer" where
  "setPropertyRegistrations arr count s =
     (case registerArray (acceptAll validRegistration (\<lambda>r. (rgObject r, rgProperty r)) []) arr count of
        None \<Rightarrow> (False, s) | Some xs \<Rightarrow> (True, s\<lparr>svRegistrations := xs\<rparr>))"

definition setTransport :: "BacnetServer \<Rightarrow> bool \<times> BacnetServer" where
  "setTransport s = (if svRunning s then (False, s) else (True, s\<lparr>svTransport := True\<rparr>))"

definition setLocalWritePriority :: "u8 \<Rightarrow> BacnetServer \<Rightarrow> bool \<times> BacnetServer" where
  "setLocalWritePriority priority s =
     (if priority = 0 \<or> unat priority > kSlotCount then (False, s)
      else (True, s\<lparr>svLocalWritePriority := priority\<rparr>))"

definition setClock :: "bool \<Rightarrow> BacnetServer \<Rightarrow> BacnetServer" where
  "setClock clock s = s\<lparr>svClock := clock\<rparr>"

definition setActivityListener :: "bool \<Rightarrow> BacnetServer \<Rightarrow> BacnetServer" where
  "setActivityListener listener s = s\<lparr>svActivityListener := listener\<rparr>"

definition setCovDiagnosticListener :: "bool \<Rightarrow> BacnetServer \<Rightarrow> BacnetServer" where
  "setCovDiagnosticListener listener s = s\<lparr>svCovListener := listener\<rparr>"

section \<open>Property lists\<close>

definition kDeviceProperties :: "BacnetPropertyId list" where
  "kDeviceProperties = [PropObjectIdentifier, PropObjectName, PropObjectType, PropSystemStatus,
     PropVendorName, PropVendorIdentifier, PropModelName, PropFirmwareRevision,
     PropApplicationSoftwareVersion, PropProtocolVersion, PropProtocolRevision,
     PropProtocolServicesSupported, PropProtocolObjectTypesSupported, PropObjectList,
     PropMaxApduLengthAccepted, PropSegmentationSupported, PropApduTimeout, PropNumberOfApduRetries,
     PropDeviceAddressBinding, PropDatabaseRevision, PropPropertyList]"

definition kAnalogValueProperties :: "BacnetPropertyId list" where
  "kAnalogValueProperties = [PropObjectIdentifier, PropObjectName, PropObjectType, PropPresentValue,
     PropStatusFlags, PropEventState, PropOutOfService, PropUnits, PropPropertyList]"

definition kCommandableAnalogValueProperties :: "BacnetPropertyId list" where
  "kCommandableAnalogValueProperties = [PropObjectIdentifier, PropObjectName, PropObjectType,
     PropPresentValue, PropStatusFlags, PropEventState, PropOutOfService, PropUnits,
     PropPriorityArray, PropRelinquishDefault, PropPropertyList]"

definition kAnalogOutputProperties :: "BacnetPropertyId list" where
  "kAnalogOutputProperties = [PropObjectIdentifier, PropObjectName, PropObjectType,
     PropPresentValue, PropStatusFlags, PropEventState, PropOutOfService, PropUnits,
     PropPriorityArray, PropRelinquishDefault, PropPropertyList]"

definition kAnalogInputProperties :: "BacnetPropertyId list" where
  "kAnalogInputProperties = [PropObjectIdentifier, PropObjectName, PropObjectType, PropPresentValue,
     PropStatusFlags, PropEventState, PropOutOfService, PropUnits, PropPropertyList]"

definition kBinaryInputProperties :: "BacnetPropertyId list" where
  "kBinaryInputProperties = [PropObjectIdentifier, PropObjectName, PropObjectType, PropPresentValue,
     PropStatusFlags, PropEventState, PropOutOfService, PropPropertyList]"

definition kBinaryOutputProperties :: "BacnetPropertyId list" where
  "kBinaryOutputProperties = [PropObjectIdentifier, PropObjectName, PropObjectType, PropPresentValue,
     PropStatusFlags, PropEventState, PropOutOfService, PropReliability, PropPolarity,
     PropPriorityArray, PropRelinquishDefault, PropPropertyList]"

definition kBinaryValueProperties :: "BacnetPropertyId list" where
  "kBinaryValueProperties = [PropObjectIdentifier, PropObjectName, PropObjectType, PropPresentValue,
     PropStatusFlags, PropEventState, PropOutOfService, PropPriorityArray, PropRelinquishDefault,
     PropPropertyList]"

definition kMultiStateValueProperties :: "BacnetPropertyId list" where
  "kMultiStateValueProperties = [PropObjectIdentifier, PropObjectName, PropObjectType, PropPresentValue,
     PropStatusFlags, PropEventState, PropOutOfService, PropNumberOfStates, PropStateText,
     PropPropertyList]"

definition isBaseProperty :: "BacnetObjectId \<Rightarrow> BacnetPropertyId \<Rightarrow> bool" where
  "isBaseProperty object p =
     (p \<in> set (if objType object = ObjAnalogValue then kAnalogValueProperties
       else if objType object = ObjAnalogInput then kAnalogInputProperties
       else if objType object = ObjBinaryInput then kBinaryInputProperties
       else if objType object = ObjBinaryOutput then kBinaryOutputProperties
       else if objType object = ObjBinaryValue then kBinaryValueProperties
       else if objType object = ObjMultiStateValue then kMultiStateValueProperties else []))"

text \<open>\<open>baseProperties\<close> and \<open>baseCount\<close>; \<open>None\<close> where no object of that type is served.\<close>

definition baseProperties :: "BacnetServer \<Rightarrow> BacnetObjectId \<Rightarrow> BacnetPropertyId list option" where
  "baseProperties s object =
     (if objType object = ObjAnalogValue then
        (if findCommandableAnalogValue s (objInstance object) \<noteq> None
         then Some kCommandableAnalogValueProperties else Some kAnalogValueProperties)
      else if objType object = ObjAnalogInput then Some kAnalogInputProperties
      else if objType object = ObjAnalogOutput then Some kAnalogOutputProperties
      else if objType object = ObjBinaryInput then Some kBinaryInputProperties
      else if objType object = ObjBinaryOutput then Some kBinaryOutputProperties
      else if objType object = ObjBinaryValue then Some kBinaryValueProperties
      else if objType object = ObjMultiStateValue then Some kMultiStateValueProperties else None)"

definition deviceObject :: "BacnetServer \<Rightarrow> BacnetObjectId" where
  "deviceObject s = \<lparr>objType = ObjDevice, objInstance = dvInstance (svDevice s)\<rparr>"

text \<open>
  The loops that count down \<open>optionalIndex\<close> over the matching entries: the entry found, or what
  is left of the index.
\<close>

fun seek :: "('a \<Rightarrow> bool) \<Rightarrow> 'a list \<Rightarrow> nat \<Rightarrow> 'a + nat" where
  "seek matches [] n = Inr n"
| "seek matches (x # xs) n =
     (if \<not> matches x then seek matches xs n else if n = 0 then Inl x else seek matches xs (n - 1))"

definition devicePropertyCount :: "BacnetServer \<Rightarrow> nat" where
  "devicePropertyCount s =
     length kDeviceProperties + length (filter (\<lambda>r. rgObject r = deviceObject s) (svRegistrations s))"

definition devicePropertyAt :: "BacnetServer \<Rightarrow> nat \<Rightarrow> BacnetPropertyId option" where
  "devicePropertyAt s index =
     (if index < length kDeviceProperties then Some (kDeviceProperties ! index)
      else case seek (\<lambda>r. rgObject r = deviceObject s) (svRegistrations s)
             (index - length kDeviceProperties) of
        Inl r \<Rightarrow> Some (rgProperty r) | Inr n \<Rightarrow> None)"

definition objectPropertyCount :: "BacnetServer \<Rightarrow> BacnetObjectId \<Rightarrow> nat" where
  "objectPropertyCount s object =
     (let base = (case baseProperties s object of None \<Rightarrow> [] | Some ps \<Rightarrow> ps) in
      length base +
      length (filter (\<lambda>r. rgObject r = object \<and> rgProperty r \<notin> set base) (svRegistrations s)) +
      (case findObjectPropertySource s object of None \<Rightarrow> 0
       | Some source \<Rightarrow> length (filter (\<lambda>index. case storedPropertyAt source index of
             None \<Rightarrow> False | Some p \<Rightarrow> p \<notin> set base) [0..<storedPropertyCount source])))"

definition objectPropertyAt :: "BacnetServer \<Rightarrow> BacnetObjectId \<Rightarrow> nat \<Rightarrow> BacnetPropertyId option" where
  "objectPropertyAt s object index =
     (case baseProperties s object of None \<Rightarrow> None
      | Some base \<Rightarrow>
          if index < length base then Some (base ! index)
          else case seek (\<lambda>r. rgObject r = object \<and> rgProperty r \<notin> set base) (svRegistrations s)
                 (index - length base) of
            Inl r \<Rightarrow> Some (rgProperty r)
          | Inr n \<Rightarrow>
              (case findObjectPropertySource s object of None \<Rightarrow> None
               | Some source \<Rightarrow>
                   (case seek (\<lambda>i. case storedPropertyAt source i of
                        None \<Rightarrow> False | Some p \<Rightarrow> \<not> isBaseProperty object p)
                      [0..<storedPropertyCount source] n of
                      Inl i \<Rightarrow> storedPropertyAt source i | Inr m \<Rightarrow> None)))"

section \<open>The object list\<close>

definition objectCount :: "BacnetServer \<Rightarrow> nat" where
  "objectCount s = analogValueCount s + analogInputCount s + binaryInputCount s +
     length (svAnalogOutputs s) + binaryOutputCount s + length (svBinaryValues s) +
     length (svMultiStateValues s) + 1"

definition objectListEntry :: "BacnetServer \<Rightarrow> nat \<Rightarrow> BacnetObjectId option" where
  "objectListEntry s index =
     (if index \<ge> objectCount s then None
      else if index = 0 then Some (deviceObject s)
      else let index = index - 1 in
      if index < length (svAnalogValues s)
      then Some \<lparr>objType = ObjAnalogValue, objInstance = avInstance (svAnalogValues s ! index)\<rparr>
      else let index = index - length (svAnalogValues s) in
      if index < length (svCommandableAnalogValues s)
      then Some \<lparr>objType = ObjAnalogValue, objInstance = caInstance (svCommandableAnalogValues s ! index)\<rparr>
      else let index = index - length (svCommandableAnalogValues s) in
      if index < analogInputCount s
      then map_option (\<lambda>x. \<lparr>objType = ObjAnalogInput, objInstance = aiInstance x\<rparr>) (analogInputAt s index)
      else let index = index - analogInputCount s in
      if index < binaryInputCount s
      then map_option (\<lambda>x. \<lparr>objType = ObjBinaryInput, objInstance = biInstance x\<rparr>) (binaryInputAt s index)
      else let index = index - binaryInputCount s in
      if index < length (svAnalogOutputs s)
      then Some \<lparr>objType = ObjAnalogOutput, objInstance = caInstance (svAnalogOutputs s ! index)\<rparr>
      else let index = index - length (svAnalogOutputs s) in
      if index < binaryOutputCount s
      then map_option (\<lambda>x. \<lparr>objType = ObjBinaryOutput, objInstance = boInstance x\<rparr>) (binaryOutputAt s index)
      else let index = index - binaryOutputCount s in
      if index < length (svBinaryValues s)
      then map_option (\<lambda>x. \<lparr>objType = ObjBinaryValue, objInstance = bvInstance x\<rparr>) (binaryValueAt s index)
      else let index = index - length (svBinaryValues s) in
      map_option (\<lambda>x. \<lparr>objType = ObjMultiStateValue, objInstance = msInstance x\<rparr>) (multiStateValueAt s index))"

end
