(* ===== verification/ServerRead.thy ===== *)
theory ServerRead
  imports ServerRegistration ResponseLaws
begin

text \<open>
  ReadProperty in src/src/core/server/BacnetServer.cpp: what each object class answers for each
  property, the decision between an answer and an error, and the response that is sent. A read
  is \<open>Fail\<close> where the sources return false; it is \<open>Undef\<close> where a provider or an object name is
  null or a name does not fit \<open>BacnetValue::text\<close>. What a handler does to the outside is the
  list of its events.
\<close>

section \<open>Results and events\<close>

datatype BacnetServerPollResult =
  NotRunning | NoDatagram | Ignored | Malformed | IAmSent | RejectSent | ReadPropertyAckSent
  | ReadPropertyErrorSent | WritePropertyAckSent | WritePropertyErrorSent | SubscribeCovAckSent
  | SubscribeCovErrorSent | CovNotificationSent | SendFailed

datatype BacnetServerCovDiagnosticEvent =
  SubscriptionActivated | ChangeDetected | NotificationSent | NotificationSendFailed

datatype BacnetServerActivityService = ActivityReadProperty | ActivityWriteProperty

record BacnetServerActivity =
  acPeer :: BacnetIpEndpoint
  acService :: BacnetServerActivityService
  acObject :: BacnetObjectId
  acProperty :: BacnetPropertyId
  acHasPriority :: bool
  acPriority :: u8

text \<open>The calls the server makes: the transport's \<open>send\<close>, its listeners, its objects' hooks.\<close>

datatype ServerEvent =
    Datagram BacnetIpEndpoint bytes
  | Activity BacnetServerActivity
  | CovDiagnostic BacnetServerCovDiagnosticEvent BacnetServerCovSubscription
  | AnalogCall "float32 CommandEvent"
  | BinaryCall "bool CommandEvent"

definition kMaxDatagramSize :: nat where "kMaxDatagramSize = 1476"

text \<open>\<open>responseSize == 0 || !send(...)\<close>\<close>

definition respond ::
    "Env \<Rightarrow> BacnetIpEndpoint \<Rightarrow> bytes outcome \<Rightarrow> BacnetServerPollResult \<Rightarrow>
     (BacnetServerPollResult \<times> ServerEvent list) outcome" where
  "respond env destination response result =
     (case response of Undef \<Rightarrow> Undef
      | Fail \<Rightarrow> Ok (SendFailed, [])
      | Ok bs \<Rightarrow> Ok (if sendOk env destination bs then result else SendFailed, [Datagram destination bs]))"

section \<open>Property values\<close>

definition objectIdValue :: "BacnetObjectId \<Rightarrow> BacnetValue" where
  "objectIdValue object = emptyValue\<lparr>vType := TyObjectIdentifier, vObject := object\<rparr>"

definition setText :: "cstring \<Rightarrow> BacnetValue outcome" where
  "setText t = (case t of None \<Rightarrow> Fail | Some s \<Rightarrow> if length s \<ge> kMaxTextLength then Fail else Ok (textValue s))"

text \<open>\<open>strlen\<close> and \<open>memcpy\<close> without a check.\<close>

definition copyName :: "cstring \<Rightarrow> BacnetValue outcome" where
  "copyName t = (case t of None \<Rightarrow> Undef | Some s \<Rightarrow> if length s \<ge> kMaxTextLength then Undef else Ok (textValue s))"

definition callProvider :: "Env \<Rightarrow> BacnetServerPropertyRegistration \<Rightarrow> BacnetValue outcome" where
  "callProvider env r =
     (case rgProvider r of None \<Rightarrow> Undef | Some h \<Rightarrow> of_option (propertyProvider env h))"

text \<open>A registration for the property takes the place of the \<open>switch\<close>.\<close>

definition readRegistered ::
    "Env \<Rightarrow> BacnetServer \<Rightarrow> BacnetObjectId \<Rightarrow> BacnetPropertyId \<Rightarrow> BacnetValue outcome \<Rightarrow> BacnetValue outcome" where
  "readRegistered env s object p base =
     (case findPropertyRegistration s object p of Some r \<Rightarrow> callProvider env r | None \<Rightarrow> base)"

text \<open>A property in the object's own table goes first.\<close>

definition readOptional ::
    "Env \<Rightarrow> BacnetServer \<Rightarrow> BacnetObjectId \<Rightarrow> BacnetPropertyId \<Rightarrow> BacnetValue outcome \<Rightarrow> BacnetValue outcome" where
  "readOptional env s object p base =
     (case findObjectPropertySource s object of None \<Rightarrow> base
      | Some source \<Rightarrow>
          (case readStoredProperty env source p of Some v \<Rightarrow> Ok v | None \<Rightarrow> base))"

text \<open>The cases all object classes have in common; \<open>own\<close> stands for the other ones.\<close>

definition readCommon ::
    "BacnetObjectId \<Rightarrow> cstring \<Rightarrow> bool \<Rightarrow> BacnetPropertyId \<Rightarrow> BacnetValue outcome \<Rightarrow> BacnetValue outcome" where
  "readCommon object objectName outOfService p own =
     (if p = PropObjectIdentifier then Ok (objectIdValue object)
      else if p = PropObjectName then copyName objectName
      else if p = PropObjectType then Ok (enumeratedValue (ucast (objType object)))
      else if p = PropStatusFlags then Ok (bitStringValue (if outOfService then 8 else 0) 4)
      else if p = PropEventState then Ok (enumeratedValue 0)
      else if p = PropOutOfService then Ok (booleanValue outOfService)
      else own)"

definition boolEnumerated :: "bool \<Rightarrow> BacnetValue" where
  "boolEnumerated b = enumeratedValue (if b then 1 else 0)"

definition readDeviceProperty :: "Env \<Rightarrow> BacnetServer \<Rightarrow> BacnetPropertyId \<Rightarrow> BacnetValue outcome" where
  "readDeviceProperty env s p =
     (let d = svDevice s;
          writable = (svAnalogOutputs s \<noteq> [] \<or> svCommandableAnalogValues s \<noteq> [] \<or>
                      binaryOutputCount s \<noteq> 0 \<or> svBinaryValues s \<noteq> [])
      in readRegistered env s (deviceObject s) p
       (if p = PropObjectIdentifier then Ok (objectIdValue (deviceObject s))
        else if p = PropObjectName then setText (dvObjectName d)
        else if p = PropVendorName then setText (dvVendorName d)
        else if p = PropModelName then setText (dvModelName d)
        else if p = PropFirmwareRevision then setText (dvFirmwareRevision d)
        else if p = PropApplicationSoftwareVersion then
          setText (if dvApplicationSoftwareVersion d \<noteq> None \<and> dvApplicationSoftwareVersion d \<noteq> Some []
                   then dvApplicationSoftwareVersion d else dvFirmwareRevision d)
        else if p = PropObjectType then Ok (enumeratedValue (ucast ObjDevice))
        else if p = PropSystemStatus then Ok (enumeratedValue 0)
        else if p = PropVendorIdentifier then Ok (unsignedValue (ucast (dvVendorId d)))
        else if p = PropProtocolVersion then Ok (unsignedValue (ucast (dvProtocolVersion d)))
        else if p = PropProtocolRevision then Ok (unsignedValue (ucast (dvProtocolRevision d)))
        else if p = PropMaxApduLengthAccepted then Ok (unsignedValue (dvMaxApdu d))
        else if p = PropSegmentationSupported then Ok (enumeratedValue (ucast (dvSegmentation d)))
        else if p = PropApduTimeout then Ok (unsignedValue (dvApduTimeout d))
        else if p = PropNumberOfApduRetries then Ok (unsignedValue (dvApduRetries d))
        else if p = PropDatabaseRevision then Ok (unsignedValue (dvDatabaseRevision d))
        else if p = PropProtocolServicesSupported then
          Ok (bitStringValue (push_bit 5 1 OR push_bit 12 1 OR (if writable then push_bit 15 1 else 0))
            (if writable then 16 else 13))
        else if p = PropProtocolObjectTypesSupported then
          Ok (bitStringValue (push_bit 8 1 OR (if analogInputCount s \<noteq> 0 then push_bit 0 1 else 0) OR
              (if analogValueCount s \<noteq> 0 then push_bit 2 1 else 0) OR
              (if svAnalogOutputs s \<noteq> [] then push_bit 1 1 else 0) OR
              (if binaryInputCount s \<noteq> 0 then push_bit 3 1 else 0) OR
              (if binaryOutputCount s \<noteq> 0 then push_bit 4 1 else 0) OR
              (if svBinaryValues s \<noteq> [] then push_bit 5 1 else 0) OR
              (if svMultiStateValues s \<noteq> [] then push_bit 19 1 else 0))
            (if svMultiStateValues s = [] then 9 else 20))
        else Fail))"

definition readAnalogValueProperty ::
    "Env \<Rightarrow> BacnetServer \<Rightarrow> BacnetServerAnalogValue \<Rightarrow> BacnetPropertyId \<Rightarrow> BacnetValue outcome" where
  "readAnalogValueProperty env s x p =
     (let object = \<lparr>objType = ObjAnalogValue, objInstance = avInstance x\<rparr> in
      readRegistered env s object p
        (readCommon object (avObjectName x) (avOutOfService x) p
          (if p = PropPresentValue then Ok (realValue (case avProvider x of
               None \<Rightarrow> avPresentValue x | Some src \<Rightarrow> readBoundFloat env src))
           else if p = PropUnits then Ok (enumeratedValue (avUnits x))
           else Fail)))"

definition readCommandable ::
    "BacnetObjectId \<Rightarrow> BacnetServerCommandableAnalog \<Rightarrow> BacnetPropertyId \<Rightarrow> BacnetValue outcome" where
  "readCommandable object x p =
     readCommon object (caObjectName x) (coOutOfService x) p
       (if p = PropPresentValue then Ok (realValue (effectiveValue (coPriority x)))
        else if p = PropUnits then Ok (enumeratedValue (caUnits x))
        else if p = PropRelinquishDefault then Ok (realValue (relinquishDefault (coPriority x)))
        else Fail)"

definition readCommandableAnalogValueProperty ::
    "Env \<Rightarrow> BacnetServer \<Rightarrow> BacnetServerCommandableAnalogValue \<Rightarrow> BacnetPropertyId \<Rightarrow> BacnetValue outcome" where
  "readCommandableAnalogValueProperty env s x p =
     (let object = \<lparr>objType = ObjAnalogValue, objInstance = caInstance x\<rparr> in
      readRegistered env s object p (readCommandable object x p))"

definition readAnalogOutputProperty ::
    "Env \<Rightarrow> BacnetServer \<Rightarrow> BacnetServerAnalogOutput \<Rightarrow> BacnetPropertyId \<Rightarrow> BacnetValue outcome" where
  "readAnalogOutputProperty env s x p =
     (let object = \<lparr>objType = ObjAnalogOutput, objInstance = caInstance x\<rparr> in
      readRegistered env s object p (readCommandable object x p))"

definition analogInputPresentValue :: "Env \<Rightarrow> BacnetServerAnalogInput \<Rightarrow> BacnetValue outcome" where
  "analogInputPresentValue env x =
     (let raw = (case aiProvider x of None \<Rightarrow> aiPresentValue x | Some src \<Rightarrow> readBoundFloat env src) in
      if aiHasScale x
      then (let (ok, scaled) = apply_scale (aiScale x) raw in if ok then Ok (realValue scaled) else Fail)
      else Ok (realValue raw))"

definition readAnalogInputProperty ::
    "Env \<Rightarrow> BacnetServer \<Rightarrow> BacnetServerAnalogInput \<Rightarrow> BacnetPropertyId \<Rightarrow> BacnetValue outcome" where
  "readAnalogInputProperty env s x p =
     (let object = \<lparr>objType = ObjAnalogInput, objInstance = aiInstance x\<rparr> in
      readOptional env s object p (readRegistered env s object p
        (readCommon object (aiObjectName x) (aiOutOfService x) p
          (if p = PropPresentValue then analogInputPresentValue env x
           else if p = PropUnits then Ok (enumeratedValue (aiUnits x))
           else Fail))))"

definition readBinaryInputProperty ::
    "Env \<Rightarrow> BacnetServer \<Rightarrow> BacnetServerBinaryInput \<Rightarrow> BacnetPropertyId \<Rightarrow> BacnetValue outcome" where
  "readBinaryInputProperty env s x p =
     (let object = \<lparr>objType = ObjBinaryInput, objInstance = biInstance x\<rparr> in
      readOptional env s object p (readRegistered env s object p
        (readCommon object (biObjectName x) (biOutOfService x) p
          (if p = PropPresentValue then Ok (boolEnumerated (case biProvider x of
               None \<Rightarrow> biPresentValue x | Some src \<Rightarrow> readBoundBool env src))
           else Fail))))"

definition readBinaryOutputProperty ::
    "Env \<Rightarrow> BacnetServer \<Rightarrow> BacnetServerBinaryOutput \<Rightarrow> BacnetPropertyId \<Rightarrow> BacnetValue outcome" where
  "readBinaryOutputProperty env s x p =
     (let object = \<lparr>objType = ObjBinaryOutput, objInstance = boInstance x\<rparr> in
      readOptional env s object p (readRegistered env s object p
        (readCommon object (boObjectName x) (coOutOfService x) p
          (if p = PropPresentValue then Ok (boolEnumerated (effectiveValue (coPriority x)))
           else if p = PropReliability then Ok (enumeratedValue (boReliability x))
           else if p = PropPolarity then Ok (enumeratedValue (boPolarity x))
           else if p = PropRelinquishDefault then Ok (boolEnumerated (relinquishDefault (coPriority x)))
           else Fail))))"

definition readBinaryValueProperty ::
    "Env \<Rightarrow> BacnetServer \<Rightarrow> BacnetServerBinaryValue \<Rightarrow> BacnetPropertyId \<Rightarrow> BacnetValue outcome" where
  "readBinaryValueProperty env s x p =
     (let object = \<lparr>objType = ObjBinaryValue, objInstance = bvInstance x\<rparr> in
      readRegistered env s object p
        (readCommon object (bvObjectName x) (bvOutOfService x) p
          (if p = PropPresentValue then Ok (boolEnumerated (effectiveValue (bvPriority x)))
           else if p = PropRelinquishDefault then Ok (boolEnumerated (relinquishDefault (bvPriority x)))
           else Fail)))"

definition readMultiStateValueProperty ::
    "Env \<Rightarrow> BacnetServer \<Rightarrow> BacnetServerMultiStateValue \<Rightarrow> BacnetPropertyId \<Rightarrow> BacnetValue outcome" where
  "readMultiStateValueProperty env s x p =
     (let object = \<lparr>objType = ObjMultiStateValue, objInstance = msInstance x\<rparr> in
      readRegistered env s object p
        (readCommon object (msObjectName x) (msOutOfService x) p
          (if p = PropPresentValue then Ok (unsignedValue (msPresentValue x))
           else if p = PropNumberOfStates then Ok (unsignedValue (msNumberOfStates x))
           else Fail)))"

section \<open>Priority arrays\<close>

definition binaryPriorityEntry :: "bool BacnetCommandPriority \<Rightarrow> nat \<Rightarrow> BacnetValue option" where
  "binaryPriorityEntry priority index =
     (if index \<ge> kSlotCount then None
      else Some (emptyValue\<lparr>vType := (if occupied priority ! index then TyEnumerated else TyNull),
             vUnsigned := (if slots priority ! index then 1 else 0)\<rparr>))"

definition analogPriorityEntry :: "float32 BacnetCommandPriority \<Rightarrow> nat \<Rightarrow> BacnetValue option" where
  "analogPriorityEntry priority index =
     (if index \<ge> kSlotCount then None
      else if \<not> occupied priority ! index then Some (emptyValue\<lparr>vType := TyNull\<rparr>)
      else Some (realValue (slots priority ! index)))"

section \<open>Handling a request\<close>

text \<open>What the request's object identifier names: the pointers at the head of the handler.\<close>

record Target =
  tgDevice :: bool
  tgAnalogValue :: "BacnetServerAnalogValue option"
  tgCommandableAnalogValue :: "BacnetServerCommandableAnalogValue option"
  tgAnalogOutput :: "BacnetServerAnalogOutput option"
  tgAnalogInput :: "BacnetServerAnalogInput option"
  tgBinaryInput :: "BacnetServerBinaryInput option"
  tgBinaryOutput :: "BacnetServerBinaryOutput option"
  tgBinaryValue :: "BacnetServerBinaryValue option"
  tgMultiStateValue :: "BacnetServerMultiStateValue option"

definition target :: "BacnetServer \<Rightarrow> BacnetObjectId \<Rightarrow> Target" where
  "target s object = (let k = objType object; n = objInstance object in
     \<lparr>tgDevice = (k = ObjDevice \<and> n = dvInstance (svDevice s)),
      tgAnalogValue = (if k = ObjAnalogValue then findAnalogValue s n else None),
      tgCommandableAnalogValue = (if k = ObjAnalogValue then findCommandableAnalogValue s n else None),
      tgAnalogOutput = (if k = ObjAnalogOutput then findAnalogOutput s n else None),
      tgAnalogInput = (if k = ObjAnalogInput then findAnalogInput s n else None),
      tgBinaryInput = (if k = ObjBinaryInput then findBinaryInput s n else None),
      tgBinaryOutput = (if k = ObjBinaryOutput then findBinaryOutput s n else None),
      tgBinaryValue = (if k = ObjBinaryValue then findBinaryValue s n else None),
      tgMultiStateValue = (if k = ObjMultiStateValue then findMultiStateValue s n else None)\<rparr>)"

definition noTarget :: "Target \<Rightarrow> bool" where
  "noTarget t \<longleftrightarrow> \<not> tgDevice t \<and> tgAnalogValue t = None \<and> tgCommandableAnalogValue t = None \<and>
     tgAnalogOutput t = None \<and> tgAnalogInput t = None \<and> tgBinaryInput t = None \<and>
     tgBinaryOutput t = None \<and> tgBinaryValue t = None \<and> tgMultiStateValue t = None"

definition commandableTarget :: "Target \<Rightarrow> bool" where
  "commandableTarget t \<longleftrightarrow> tgCommandableAnalogValue t \<noteq> None \<or> tgAnalogOutput t \<noteq> None \<or>
     tgBinaryOutput t \<noteq> None \<or> tgBinaryValue t \<noteq> None"

text \<open>One \<open>x != nullptr && !read(x, property, value)\<close> of the chain.\<close>

definition readIf :: "'a option \<Rightarrow> ('a \<Rightarrow> BacnetValue outcome) \<Rightarrow> BacnetValue \<Rightarrow> BacnetValue outcome" where
  "readIf x read v = (case x of None \<Rightarrow> Ok v | Some o' \<Rightarrow> read o')"

definition readTarget :: "Env \<Rightarrow> BacnetServer \<Rightarrow> Target \<Rightarrow> BacnetPropertyId \<Rightarrow> BacnetValue outcome" where
  "readTarget env s t p =
     obind (readIf (tgAnalogValue t) (\<lambda>x. readAnalogValueProperty env s x p) emptyValue) (\<lambda>v.
     obind (readIf (tgCommandableAnalogValue t) (\<lambda>x. readCommandableAnalogValueProperty env s x p) v) (\<lambda>v.
     obind (readIf (tgAnalogOutput t) (\<lambda>x. readAnalogOutputProperty env s x p) v) (\<lambda>v.
     obind (readIf (tgAnalogInput t) (\<lambda>x. readAnalogInputProperty env s x p) v) (\<lambda>v.
     obind (readIf (tgBinaryInput t) (\<lambda>x. readBinaryInputProperty env s x p) v) (\<lambda>v.
     obind (readIf (tgBinaryOutput t) (\<lambda>x. readBinaryOutputProperty env s x p) v) (\<lambda>v.
     obind (readIf (tgBinaryValue t) (\<lambda>x. readBinaryValueProperty env s x p) v) (\<lambda>v.
     readIf (tgMultiStateValue t) (\<lambda>x. readMultiStateValueProperty env s x p) v)))))))"

text \<open>
  The chain of conditions: the error class and code, \<open>(0, 0)\<close> for none, and the value read.
\<close>

type_synonym ReadDecision = "(u32 \<times> u32) \<times> BacnetValue"

definition readError :: "u32 \<Rightarrow> u32 \<Rightarrow> ReadDecision" where
  "readError errorClass errorCode = ((errorClass, errorCode), emptyValue)"

definition noReadError :: "BacnetValue \<Rightarrow> ReadDecision" where
  "noReadError v = ((0, 0), v)"

definition indexError :: "bool \<Rightarrow> ReadDecision" where
  "indexError bad = (if bad then readError 2 42 else noReadError emptyValue)"

definition decideDeviceRead :: "Env \<Rightarrow> BacnetServer \<Rightarrow> BacnetPropertyId \<Rightarrow> u32 \<Rightarrow> ReadDecision outcome" where
  "decideDeviceRead env s p arrayIndex =
     (if p = PropObjectList
      then Ok (indexError (arrayIndex \<noteq> kBacnetNoArrayIndex \<and> unat arrayIndex > objectCount s))
      else if p = PropPropertyList
      then Ok (indexError (arrayIndex \<noteq> kBacnetNoArrayIndex \<and> unat arrayIndex > devicePropertyCount s))
      else if p = PropDeviceAddressBinding then Ok (indexError (arrayIndex \<noteq> kBacnetNoArrayIndex))
      else if arrayIndex \<noteq> kBacnetNoArrayIndex then Ok (readError 2 42)
      else on_fail (obind (readDeviceProperty env s p) (\<lambda>v. Ok (noReadError v))) (readError 2 32))"

definition decideRead :: "Env \<Rightarrow> BacnetServer \<Rightarrow> BacnetPropertyRequest \<Rightarrow> ReadDecision outcome" where
  "decideRead env s r =
     (let t = target s (rqObject r); p = rqProperty r; arrayIndex = rqArrayIndex r;
          indexed = (arrayIndex \<noteq> kBacnetNoArrayIndex);
          rest =
            (if p = PropPropertyList
             then Ok (indexError (indexed \<and> unat arrayIndex > objectPropertyCount s (rqObject r)))
             else if indexed
             then Ok (indexError (\<not> (commandableTarget t \<and> p = PropPriorityArray \<and> unat arrayIndex \<le> kSlotCount)))
             else if commandableTarget t \<and> p = PropPriorityArray then Ok (noReadError emptyValue)
             else on_fail (obind (readTarget env s t p) (\<lambda>v. Ok (noReadError v))) (readError 2 32))
      in if noTarget t then Ok (readError 1 31)
      else if tgDevice t then decideDeviceRead env s p arrayIndex
      else case tgMultiStateValue t of
        None \<Rightarrow> rest
      | Some m \<Rightarrow>
          (if \<not> validMultiStateValueConfiguration m then Ok (readError 2 37)
           else if p = PropStateText
           then Ok (indexError (indexed \<and> arrayIndex > msNumberOfStates m))
           else rest))"

text \<open>The acknowledgement of a read that is not refused.\<close>

definition readAck ::
    "BacnetServer \<Rightarrow> BacnetReadPropertyRequestHeader \<Rightarrow> BacnetValue \<Rightarrow> bytes outcome" where
  "readAck s request v =
     (let object = rqObject (rrRequest request); p = rqProperty (rrRequest request);
          t = target s object; cap = kMaxDatagramSize;
          slots = (\<lambda>entry. buildReadPropertyPriorityArrayAck cap request kSlotCount (Some entry)) in
      if tgDevice t \<and> p = PropObjectList
      then buildReadPropertyObjectListAck cap request (objectCount s) (Some (objectListEntry s))
      else if tgDevice t \<and> p = PropPropertyList
      then buildReadPropertyPropertyListAck cap request (devicePropertyCount s) (Some (devicePropertyAt s))
      else if \<not> tgDevice t \<and> p = PropPropertyList
      then buildReadPropertyPropertyListAck cap request (objectPropertyCount s object) (Some (objectPropertyAt s object))
      else case (if p = PropStateText then tgMultiStateValue t else None) of
        Some m \<Rightarrow> buildReadPropertyCharacterStringListAck cap request
          (take (unat (msNumberOfStates m)) (case msStateText m of None \<Rightarrow> [] | Some texts \<Rightarrow> texts))
      | None \<Rightarrow>
      (case (if p = PropPriorityArray then tgBinaryOutput t else None) of
        Some x \<Rightarrow> slots (binaryPriorityEntry (coPriority x))
      | None \<Rightarrow>
      (case (if p = PropPriorityArray then tgBinaryValue t else None) of
        Some x \<Rightarrow> slots (binaryPriorityEntry (bvPriority x))
      | None \<Rightarrow>
      (case (if p = PropPriorityArray then tgCommandableAnalogValue t else None) of
        Some x \<Rightarrow> slots (analogPriorityEntry (coPriority x))
      | None \<Rightarrow>
      (case (if p = PropPriorityArray then tgAnalogOutput t else None) of
        Some x \<Rightarrow> slots (analogPriorityEntry (coPriority x))
      | None \<Rightarrow>
          if tgDevice t \<and> p = PropDeviceAddressBinding then buildReadPropertyEmptyListAck cap request
          else buildReadPropertyAck cap request v)))))"

definition handleReadProperty ::
    "Env \<Rightarrow> BacnetServer \<Rightarrow> BacnetIpEndpoint \<Rightarrow> BacnetReadPropertyRequestHeader \<Rightarrow>
     (BacnetServerPollResult \<times> ServerEvent list) outcome" where
  "handleReadProperty env s source request =
     obind (decideRead env s (rrRequest request)) (\<lambda>((errorClass, errorCode), v).
       if errorCode = 0
       then respond env source (readAck s request v) ReadPropertyAckSent
       else respond env source
         (buildReadPropertyError kMaxDatagramSize (rrInvokeId request) errorClass errorCode)
         ReadPropertyErrorSent)"

end
