(* ===== verification/ServerWrite.thy ===== *)
theory ServerWrite
  imports ServerRead
begin

text \<open>
  WriteProperty in src/src/core/server/BacnetServer.cpp (\<open>handleWriteProperty\<close>): which object a
  request addresses, the checks in their order, the command or the Out_Of_Service update with
  the calls it makes, and the response. The object found is a pointer in the sources; here its
  new value replaces the first object of that instance.
\<close>

section \<open>Updating an object in place\<close>

fun replaceFirst :: "('a \<Rightarrow> 'k) \<Rightarrow> 'a \<Rightarrow> 'a list \<Rightarrow> 'a list" where
  "replaceFirst key y [] = []"
| "replaceFirst key y (x # xs) = (if key x = key y then y # xs else x # replaceFirst key y xs)"

definition putCommandableAnalogValue :: "BacnetServerCommandableAnalogValue \<Rightarrow> BacnetServer \<Rightarrow> BacnetServer" where
  "putCommandableAnalogValue y s =
     s\<lparr>svCommandableAnalogValues := replaceFirst caInstance y (svCommandableAnalogValues s)\<rparr>"

definition putAnalogOutput :: "BacnetServerAnalogOutput \<Rightarrow> BacnetServer \<Rightarrow> BacnetServer" where
  "putAnalogOutput y s = s\<lparr>svAnalogOutputs := replaceFirst caInstance y (svAnalogOutputs s)\<rparr>"

definition putBinaryValue :: "BacnetServerBinaryValue \<Rightarrow> BacnetServer \<Rightarrow> BacnetServer" where
  "putBinaryValue y s = s\<lparr>svBinaryValues := replaceFirst bvInstance y (svBinaryValues s)\<rparr>"

text \<open>An object added on its own keeps its properties part.\<close>

fun replaceBinaryOutput :: "BacnetServerBinaryOutput \<Rightarrow> BacnetBinaryOutput list \<Rightarrow> BacnetBinaryOutput list" where
  "replaceBinaryOutput y [] = []"
| "replaceBinaryOutput y (x # xs) =
     (if boInstance x = boInstance y
      then BacnetServerBinaryOutput.extend y (BacnetServerBinaryOutput.more x) # xs
      else x # replaceBinaryOutput y xs)"

definition putBinaryOutput :: "BacnetServerBinaryOutput \<Rightarrow> BacnetServer \<Rightarrow> BacnetServer" where
  "putBinaryOutput y s =
     (if svObjectBinaryOutputs s \<noteq> []
      then s\<lparr>svObjectBinaryOutputs := replaceBinaryOutput y (svObjectBinaryOutputs s)\<rparr>
      else s\<lparr>svBinaryOutputs := replaceFirst boInstance y (svBinaryOutputs s)\<rparr>)"

section \<open>Commanding the present value\<close>

text \<open>
  What a command leaves: the new state and the calls, \<open>None\<close> where it is refused. A commandable
  analog value has no output hook.
\<close>

definition commandPresentValue ::
    "BacnetServer \<Rightarrow> BacnetObjectId \<Rightarrow> BacnetValue \<Rightarrow> u8 \<Rightarrow> bool \<Rightarrow> (BacnetServer \<times> ServerEvent list) option" where
  "commandPresentValue s object v priority relinquish =
     (let t = target s object in
      case tgCommandableAnalogValue t of
        Some x \<Rightarrow>
          map_option (\<lambda>(y, calls). (putCommandableAnalogValue y s, map AnalogCall calls))
            (applyAnalogPriorityValue object (x\<lparr>coApply := False\<rparr>) (vReal v) priority relinquish
               OriginBacnetWriteProperty)
      | None \<Rightarrow>
      (case tgAnalogOutput t of
        Some x \<Rightarrow>
          map_option (\<lambda>(y, calls). (putAnalogOutput y s, map AnalogCall calls))
            (applyAnalogPriorityValue object x (vReal v) priority relinquish OriginBacnetWriteProperty)
      | None \<Rightarrow>
      (case tgBinaryOutput t of
        Some x \<Rightarrow>
          map_option (\<lambda>(y, calls). (putBinaryOutput y s, map BinaryCall calls))
            (applyBinaryPriorityValue object x (vUnsigned v = 1) priority relinquish OriginBacnetWriteProperty)
      | None \<Rightarrow>
      (case tgBinaryValue t of
        Some x \<Rightarrow>
          map_option (\<lambda>p. (putBinaryValue (x\<lparr>bvPriority := p\<rparr>) s, []))
            (writePriority (bvPriority x) priority relinquish (vUnsigned v = 1))
      | None \<Rightarrow> None))))"

text \<open>Writing Out_Of_Service, which calls the output hook.\<close>

definition outputCall :: "('a, 'b) Commandable_scheme \<Rightarrow> 'a CommandEvent list" where
  "outputCall x = (if coApply x then [OutputApplied (effectiveValue (coPriority x)) (coOutOfService x)] else [])"

definition writeOutOfService ::
    "BacnetServer \<Rightarrow> BacnetObjectId \<Rightarrow> bool \<Rightarrow> BacnetServer \<times> ServerEvent list" where
  "writeOutOfService s object b =
     (let t = target s object in
      case tgAnalogOutput t of
        Some x \<Rightarrow> let y = x\<lparr>coOutOfService := b\<rparr> in (putAnalogOutput y s, map AnalogCall (outputCall y))
      | None \<Rightarrow>
      (case tgCommandableAnalogValue t of
        Some x \<Rightarrow> (putCommandableAnalogValue (x\<lparr>coOutOfService := b\<rparr>) s, [])
      | None \<Rightarrow>
      (case tgBinaryOutput t of
        Some x \<Rightarrow> let y = x\<lparr>coOutOfService := b\<rparr> in (putBinaryOutput y s, map BinaryCall (outputCall y))
      | None \<Rightarrow>
      (case tgBinaryValue t of
        Some x \<Rightarrow> (putBinaryValue (x\<lparr>bvOutOfService := b\<rparr>) s, [])
      | None \<Rightarrow> (s, [])))))"

section \<open>The handler\<close>

definition validCommandValue :: "Target \<Rightarrow> BacnetValue \<Rightarrow> bool" where
  "validCommandValue t v \<longleftrightarrow>
     (if tgCommandableAnalogValue t \<noteq> None \<or> tgAnalogOutput t \<noteq> None
      then vType v = TyNull \<or> vType v = TyReal
      else vType v = TyNull \<or> (vType v = TyEnumerated \<and> vUnsigned v \<le> 1))"

definition commandPriorityOf :: "BacnetWritePropertyRequestHeader \<Rightarrow> u8" where
  "commandPriorityOf request = (if wrHasPriority request then wrPriority request else 16)"

text \<open>The error class and code, \<open>(0, 0)\<close> for none, with the new state and the calls.\<close>

definition decideWrite ::
    "BacnetServer \<Rightarrow> BacnetWritePropertyRequestHeader \<Rightarrow> (u32 \<times> u32) \<times> BacnetServer \<times> ServerEvent list" where
  "decideWrite s request =
     (let r = wrRequest request; object = rqObject r; t = target s object; v = wrValue request in
      if \<not> commandableTarget t then ((1, 31), s, [])
      else if rqArrayIndex r \<noteq> kBacnetNoArrayIndex then ((2, 42), s, [])
      else if rqProperty r = PropPresentValue then
        (let priority = commandPriorityOf request; relinquish = (vType v = TyNull) in
         if priority = 0 \<or> unat priority > kSlotCount then ((2, 37), s, [])
         else if \<not> validCommandValue t v then ((2, 9), s, [])
         else case commandPresentValue s object v priority relinquish of
           None \<Rightarrow> ((2, 37), s, []) | Some (s', calls) \<Rightarrow> ((0, 0), s', calls))
      else if rqProperty r = PropOutOfService then
        (if wrHasPriority request \<or> vType v \<noteq> TyBoolean then ((2, 9), s, [])
         else ((0, 0), writeOutOfService s object (vBoolean v)))
      else ((2, 40), s, []))"

definition handleWriteProperty ::
    "Env \<Rightarrow> BacnetServer \<Rightarrow> BacnetIpEndpoint \<Rightarrow> BacnetWritePropertyRequestHeader \<Rightarrow>
     (BacnetServerPollResult \<times> BacnetServer \<times> ServerEvent list) outcome" where
  "handleWriteProperty env s source request =
     (let ((errorClass, errorCode), s', calls) = decideWrite s request;
          (response, result) =
            (if errorCode = 0
             then (buildWritePropertyAck kMaxDatagramSize (wrInvokeId request), WritePropertyAckSent)
             else (buildWritePropertyError kMaxDatagramSize (wrInvokeId request) errorClass errorCode,
                   WritePropertyErrorSent))
      in obind (respond env source response result) (\<lambda>(result, sent). Ok (result, s', calls @ sent)))"

end
