(* ===== verification/ServerCov.thy ===== *)
theory ServerCov
  imports ServerWrite CovNotification
begin

text \<open>
  Change-of-value reporting in src/src/core/server/BacnetServer.cpp: what a subscription
  observes, when a value counts as changed, sending a notification with its retry bookkeeping,
  the scan of the subscription table and the SubscribeCOV handler. The parallel arrays indexed
  by subscription are the slots \<open>svCov\<close>; \<open>slot index\<close> is \<open>covSubscriptions_[index]\<close> with its
  row of every array.
\<close>

section \<open>Reading what a subscription observes\<close>

definition endpointEquals :: "BacnetIpEndpoint \<Rightarrow> BacnetIpEndpoint \<Rightarrow> bool" where
  "endpointEquals left right \<longleftrightarrow> epPort left = epPort right \<and>
     epA left = epA right \<and> epB left = epB right \<and> epC left = epC right \<and> epD left = epD right"

definition nowMs :: "Env \<Rightarrow> BacnetServer \<Rightarrow> u32" where
  "nowMs env s = (if svClock s then clockMs env else 0)"

definition covSubscriptionCount :: "BacnetServer \<Rightarrow> nat" where
  "covSubscriptionCount s = length (filter (\<lambda>slot. csState (slSubscription slot) \<noteq> CovInactive) (svCov s))"

definition covSubscriptionAt :: "BacnetServer \<Rightarrow> nat \<Rightarrow> BacnetServerCovSubscription option" where
  "covSubscriptionAt s index =
     (case seek (\<lambda>slot. csState (slSubscription slot) \<noteq> CovInactive) (svCov s) index of
        Inl slot \<Rightarrow> Some (slSubscription slot) | Inr n \<Rightarrow> None)"

definition readFound :: "'a option \<Rightarrow> ('a \<Rightarrow> BacnetValue outcome) \<Rightarrow> BacnetValue outcome" where
  "readFound found read = (case found of None \<Rightarrow> Fail | Some x \<Rightarrow> read x)"

definition readCovValue ::
    "Env \<Rightarrow> BacnetServer \<Rightarrow> BacnetObjectId \<Rightarrow> BacnetPropertyId \<Rightarrow> u32 \<Rightarrow> BacnetValue outcome" where
  "readCovValue env s object p arrayIndex =
     (let k = objType object; n = objInstance object in
      if arrayIndex \<noteq> kBacnetNoArrayIndex then Fail
      else if k = ObjAnalogValue then
        (case findAnalogValue s n of Some x \<Rightarrow> readAnalogValueProperty env s x p
         | None \<Rightarrow> readFound (findCommandableAnalogValue s n) (\<lambda>x. readCommandableAnalogValueProperty env s x p))
      else if k = ObjAnalogOutput then readFound (findAnalogOutput s n) (\<lambda>x. readAnalogOutputProperty env s x p)
      else if k = ObjAnalogInput then readFound (findAnalogInput s n) (\<lambda>x. readAnalogInputProperty env s x p)
      else if k = ObjBinaryInput then readFound (findBinaryInput s n) (\<lambda>x. readBinaryInputProperty env s x p)
      else if k = ObjBinaryOutput then readFound (findBinaryOutput s n) (\<lambda>x. readBinaryOutputProperty env s x p)
      else if k = ObjBinaryValue then readFound (findBinaryValue s n) (\<lambda>x. readBinaryValueProperty env s x p)
      else Fail)"

definition kObjectCovProperties :: "BacnetPropertyId list" where
  "kObjectCovProperties = [PropPresentValue, PropStatusFlags]"

fun readCovValues ::
    "Env \<Rightarrow> BacnetServer \<Rightarrow> BacnetObjectId \<Rightarrow> (BacnetPropertyId \<times> u32) list \<Rightarrow> BacnetCovPropertyValue list outcome" where
  "readCovValues env s object [] = Ok []"
| "readCovValues env s object ((p, idx) # ps) =
     obind (readCovValue env s object p idx) (\<lambda>v.
     obind (readCovValues env s object ps) (\<lambda>vs.
       Ok (\<lparr>cpProperty = p, cpArrayIndex = idx, cpValue = v\<rparr> # vs)))"

definition observedProperties :: "BacnetServerCovSubscription \<Rightarrow> (BacnetPropertyId \<times> u32) list" where
  "observedProperties sub =
     (if csIsProperty sub then [(csProperty sub, csArrayIndex sub)]
      else map (\<lambda>p. (p, kBacnetNoArrayIndex)) kObjectCovProperties)"

text \<open>The result array has \<open>kCovObjectPropertyCount\<close> elements at every call.\<close>

definition collectCovValues ::
    "Env \<Rightarrow> BacnetServer \<Rightarrow> BacnetServerCovSubscription \<Rightarrow> BacnetCovPropertyValue list outcome" where
  "collectCovValues env s sub = readCovValues env s (csObject sub) (observedProperties sub)"

section \<open>Changes\<close>

definition realChanged :: "BacnetServerCovSubscription \<Rightarrow> bool \<Rightarrow> float32 \<Rightarrow> float32 \<Rightarrow> bool" where
  "realChanged sub firstValue old new \<longleftrightarrow>
     \<not> f32_eq old new \<and>
     (if \<not> csHasIncrement sub \<or> \<not> firstValue then True
      else let difference = f32_sub new old;
               difference = (if f32_less difference f32_zero then f32_neg difference else difference)
           in f32_le (csIncrement sub) difference)"

definition covValueChanged :: "BacnetServerCovSubscription \<Rightarrow> bool \<Rightarrow> CovSnapshot \<Rightarrow> BacnetValue \<Rightarrow> bool" where
  "covValueChanged sub firstValue sn v \<longleftrightarrow>
     \<not> snValid sn \<or> snType sn \<noteq> vType v \<or>
     (case vType v of
        TyBoolean \<Rightarrow> snBoolean sn \<noteq> vBoolean v
      | TyReal \<Rightarrow> realChanged sub firstValue (snReal sn) (vReal v)
      | TyBitString \<Rightarrow> snBitString sn \<noteq> vBitString v \<or> snBitCount sn \<noteq> vBitCount v
      | TyUnsigned \<Rightarrow> snUnsigned sn \<noteq> vUnsigned v
      | TyEnumerated \<Rightarrow> snUnsigned sn \<noteq> vUnsigned v
      | _ \<Rightarrow> True)"

fun anyChanged ::
    "BacnetServerCovSubscription \<Rightarrow> bool \<Rightarrow> CovSnapshot list \<Rightarrow> BacnetCovPropertyValue list \<Rightarrow> bool" where
  "anyChanged sub firstValue (sn # sns) (v # vs) =
     (covValueChanged sub firstValue sn (cpValue v) \<or> anyChanged sub False sns vs)"
| "anyChanged sub firstValue sns vs = False"

definition covValuesChanged :: "CovSlot \<Rightarrow> BacnetCovPropertyValue list \<Rightarrow> bool" where
  "covValuesChanged slot values =
     (length values = 0 \<or> length values > kCovObjectPropertyCount \<or>
      anyChanged (slSubscription slot) True (slSnapshots slot) values)"

definition snapshotOf :: "BacnetValue \<Rightarrow> CovSnapshot" where
  "snapshotOf v = \<lparr>snType = vType v, snBoolean = vBoolean v, snUnsigned = vUnsigned v, snReal = vReal v,
     snBitString = vBitString v, snBitCount = vBitCount v, snValid = True\<rparr>"

fun storeSnapshots :: "CovSnapshot list \<Rightarrow> BacnetCovPropertyValue list \<Rightarrow> CovSnapshot list" where
  "storeSnapshots (sn # sns) (v # vs) = snapshotOf (cpValue v) # storeSnapshots sns vs"
| "storeSnapshots sns vs = sns"

definition storeCovValues :: "BacnetCovPropertyValue list \<Rightarrow> CovSlot \<Rightarrow> CovSlot" where
  "storeCovValues values slot = slot\<lparr>slSnapshots := storeSnapshots (slSnapshots slot) values\<rparr>"

definition clearSnapshots :: "CovSlot \<Rightarrow> CovSlot" where
  "clearSnapshots slot = slot\<lparr>slSnapshots := map (\<lambda>sn. sn\<lparr>snValid := False\<rparr>) (slSnapshots slot)\<rparr>"

section \<open>Sending a notification\<close>

definition slot :: "BacnetServer \<Rightarrow> nat \<Rightarrow> CovSlot" where
  "slot s index = svCov s ! index"

definition putSlot :: "nat \<Rightarrow> CovSlot \<Rightarrow> BacnetServer \<Rightarrow> BacnetServer" where
  "putSlot index sl s = s\<lparr>svCov := (svCov s)[index := sl]\<rparr>"

definition covDiagnostic ::
    "BacnetServer \<Rightarrow> BacnetServerCovDiagnosticEvent \<Rightarrow> BacnetServerCovSubscription \<Rightarrow> ServerEvent list" where
  "covDiagnostic s event sub = (if svCovListener s then [CovDiagnostic event sub] else [])"

definition timeRemainingSeconds :: "BacnetServer \<Rightarrow> BacnetServerCovSubscription \<Rightarrow> u32 \<Rightarrow> u32" where
  "timeRemainingSeconds s sub now =
     (if csLifetime sub = 0 \<or> \<not> svClock s then 0 else (csExpiresAt sub - now + 999) div 1000)"

text \<open>The bookkeeping of a notification that was not sent; \<open>0\<close> denotes no pending retry.\<close>

definition retryDelayMs :: "BacnetServerDevice \<Rightarrow> u8 \<Rightarrow> u32" where
  "retryDelayMs d sendRetries =
     (let delay = (if dvApduTimeout d \<noteq> 0 then dvApduTimeout d else 1000);
          multiplier = (if sendRetries \<noteq> 0 then ucast sendRetries else (1 :: u32))
      in word_of_nat (min (unat delay * unat multiplier) (2 ^ 31 - 2)))"

definition scheduleRetry :: "BacnetServerDevice \<Rightarrow> u32 \<Rightarrow> CovSlot \<Rightarrow> CovSlot" where
  "scheduleRetry d now sl =
     (let retries = (if ucast (slSendRetries sl) < dvApduRetries d then slSendRetries sl + 1 else slSendRetries sl);
          retryAt = now + retryDelayMs d retries
      in sl\<lparr>slSendRetries := retries, slRetryAt := (if retryAt = 0 then 1 else retryAt)\<rparr>)"

definition markSent :: "u32 \<Rightarrow> u8 \<Rightarrow> BacnetCovPropertyValue list \<Rightarrow> CovSlot \<Rightarrow> CovSlot" where
  "markSent now invokeId values sl =
     (let sub = slSubscription sl in
      storeCovValues values (sl\<lparr>slSendRetries := 0, slRetryAt := 0,
        slSubscription := sub\<lparr>csLastSent := now, csPendingInvokeId := invokeId,
          csState := (if csConfirmed sub then CovAwaitingConfirmedAck else CovActive)\<rparr>\<rparr>))"

definition sendCovNotification ::
    "Env \<Rightarrow> BacnetServer \<Rightarrow> nat \<Rightarrow> BacnetCovPropertyValue list \<Rightarrow> u32 \<Rightarrow>
     (bool \<times> BacnetServer \<times> ServerEvent list) outcome" where
  "sendCovNotification env s index values now =
     (let sl = slot s index; sub = slSubscription sl;
          invokeId = (if csConfirmed sub then svNextCovInvokeId s else 0);
          nextId = (if csConfirmed sub then svNextCovInvokeId s + 1 else svNextCovInvokeId s);
          s = s\<lparr>svNextCovInvokeId := (if nextId = 0 then 1 else nextId)\<rparr>;
          failed = (let s' = putSlot index (scheduleRetry (svDevice s) now sl) s in
            (False, s', covDiagnostic s' NotificationSendFailed sub))
      in case buildCovNotification kMaxDatagramSize (csProcessId sub) (deviceObject s) (csObject sub)
             (timeRemainingSeconds s sub now) values (csConfirmed sub) invokeId of
           Undef \<Rightarrow> Undef
         | Fail \<Rightarrow> Ok failed
         | Ok notification \<Rightarrow>
             if \<not> sendOk env (csPeer sub) notification
             then Ok (let (r, s', ev) = failed in (r, s', Datagram (csPeer sub) notification # ev))
             else let sl' = markSent now invokeId values sl in
               Ok (True, putSlot index sl' s,
                   Datagram (csPeer sub) notification # covDiagnostic s NotificationSent (slSubscription sl')))"

section \<open>The scan of the table\<close>

definition clearSubscription :: "CovSlot \<Rightarrow> CovSlot" where
  "clearSubscription sl = clearSnapshots (sl\<lparr>slSubscription := emptySubscription, slConfirmedRetries := 0\<rparr>)"

definition expireSlot :: "CovSlot \<Rightarrow> CovSlot" where
  "expireSlot sl = (clearSubscription sl)\<lparr>slSendRetries := 0, slRetryAt := 0\<rparr>"

definition expired :: "BacnetServer \<Rightarrow> u32 \<Rightarrow> BacnetServerCovSubscription \<Rightarrow> bool" where
  "expired s now sub \<longleftrightarrow> csLifetime sub \<noteq> 0 \<and> svClock s \<and> 0 \<le> sint (now - csExpiresAt sub)"

definition retryPending :: "u32 \<Rightarrow> CovSlot \<Rightarrow> bool" where
  "retryPending now sl \<longleftrightarrow> slRetryAt sl \<noteq> 0 \<and> sint (now - slRetryAt sl) < 0"

definition snapshotValue :: "CovSnapshot \<Rightarrow> BacnetValue" where
  "snapshotValue sn = emptyValue\<lparr>vType := snType sn, vBoolean := snBoolean sn, vUnsigned := snUnsigned sn,
     vReal := snReal sn, vBitString := snBitString sn, vBitCount := snBitCount sn\<rparr>"

text \<open>The values of an unacknowledged notification, rebuilt from the snapshots.\<close>

definition retryValues :: "CovSlot \<Rightarrow> BacnetCovPropertyValue list" where
  "retryValues sl =
     map (\<lambda>((p, idx), sn). \<lparr>cpProperty = p, cpArrayIndex = idx, cpValue = snapshotValue sn\<rparr>)
       (zip (observedProperties (slSubscription sl)) (slSnapshots sl))"

definition sendResult ::
    "(bool \<times> BacnetServer \<times> ServerEvent list) outcome \<Rightarrow>
     (BacnetServerPollResult option \<times> BacnetServer \<times> ServerEvent list) outcome" where
  "sendResult m = obind m (\<lambda>(sent, s, ev). Ok (Some (if sent then CovNotificationSent else SendFailed), s, ev))"

text \<open>One round of the loop: the result it returns from the function with, \<open>None\<close> to go on.\<close>

definition processSlot ::
    "Env \<Rightarrow> u32 \<Rightarrow> nat \<Rightarrow> BacnetServer \<Rightarrow>
     (BacnetServerPollResult option \<times> BacnetServer \<times> ServerEvent list) outcome" where
  "processSlot env now index s =
     (let sl = slot s index; sub = slSubscription sl in
      if csState sub = CovInactive then Ok (None, s, [])
      else if expired s now sub then Ok (None, putSlot index (expireSlot sl) s, [])
      else if retryPending now sl then Ok (None, s, [])
      else if csState sub = CovAwaitingConfirmedAck then
        (if svClock s \<and> dvApduTimeout (svDevice s) \<le> now - csLastSent sub then
           (if dvApduRetries (svDevice s) \<le> ucast (slConfirmedRetries sl)
            then Ok (None, putSlot index (sl\<lparr>slSubscription := sub\<lparr>csState := CovActive\<rparr>, slConfirmedRetries := 0\<rparr>) s, [])
            else sendResult (sendCovNotification env
              (putSlot index (sl\<lparr>slConfirmedRetries := slConfirmedRetries sl + 1\<rparr>) s) index (retryValues sl) now))
         else Ok (None, s, []))
      else case collectCovValues env s sub of
        Undef \<Rightarrow> Undef
      | Fail \<Rightarrow> Ok (None, s, [])
      | Ok values \<Rightarrow>
          if \<not> covValuesChanged sl values then Ok (None, s, [])
          else obind (sendResult (sendCovNotification env (putSlot index (sl\<lparr>slConfirmedRetries := 0\<rparr>) s) index values now))
            (\<lambda>(r, s', ev). Ok (r, s', covDiagnostic s ChangeDetected sub @ ev)))"

fun processSlots ::
    "Env \<Rightarrow> u32 \<Rightarrow> nat list \<Rightarrow> BacnetServer \<Rightarrow> (BacnetServerPollResult \<times> BacnetServer \<times> ServerEvent list) outcome" where
  "processSlots env now [] s = Ok (NoDatagram, s, [])"
| "processSlots env now (index # rest) s =
     obind (processSlot env now index s) (\<lambda>(r, s', ev).
       case r of Some result \<Rightarrow> Ok (result, s', ev) | None \<Rightarrow> processSlots env now rest s')"

definition processCovSubscriptions ::
    "Env \<Rightarrow> BacnetServer \<Rightarrow> (BacnetServerPollResult \<times> BacnetServer \<times> ServerEvent list) outcome" where
  "processCovSubscriptions env s = processSlots env (nowMs env s) [0..<kMaxCovSubscriptions] s"

section \<open>SubscribeCOV\<close>

definition subscriptionKey ::
    "BacnetServerCovSubscription \<Rightarrow> BacnetIpEndpoint \<times> u32 \<times> BacnetObjectId \<times> bool \<times> BacnetPropertyId \<times> u32" where
  "subscriptionKey sub =
     (csPeer sub, csProcessId sub, csObject sub, csIsProperty sub, csProperty sub, csArrayIndex sub)"

definition requestedProperty :: "BacnetSubscribeCovRequestHeader \<Rightarrow> BacnetPropertyId" where
  "requestedProperty request = (if scIsProperty request then scProperty request else PropPresentValue)"

definition matchesRequest ::
    "BacnetIpEndpoint \<Rightarrow> BacnetSubscribeCovRequestHeader \<Rightarrow> BacnetServerCovSubscription \<Rightarrow> bool" where
  "matchesRequest source request sub \<longleftrightarrow>
     csState sub \<noteq> CovInactive \<and> endpointEquals (csPeer sub) source \<and>
     csProcessId sub = scProcessId request \<and>
     objType (csObject sub) = objType (scObject request) \<and>
     objInstance (csObject sub) = objInstance (scObject request) \<and>
     csIsProperty sub = scIsProperty request \<and> csProperty sub = requestedProperty request \<and>
     csArrayIndex sub = scArrayIndex request"

text \<open>The first index that satisfies a condition.\<close>

fun findIndex :: "('a \<Rightarrow> bool) \<Rightarrow> 'a list \<Rightarrow> nat option" where
  "findIndex P [] = None"
| "findIndex P (x # xs) = (if P x then Some 0 else map_option Suc (findIndex P xs))"

definition activate ::
    "Env \<Rightarrow> BacnetServer \<Rightarrow> BacnetIpEndpoint \<Rightarrow> BacnetSubscribeCovRequestHeader \<Rightarrow> CovSlot \<Rightarrow> CovSlot" where
  "activate env s source request sl =
     (clearSnapshots sl)\<lparr>slSubscription :=
        \<lparr>csState = CovActive, csPeer = source, csProcessId = scProcessId request, csObject = scObject request,
         csProperty = requestedProperty request, csArrayIndex = scArrayIndex request,
         csIsProperty = scIsProperty request, csHasIncrement = scHasIncrement request,
         csIncrement = scIncrement request, csConfirmed = scConfirmed request,
         csLifetime = scLifetime request,
         csExpiresAt = (if \<not> svClock s then 0 else nowMs env s + scLifetime request * 1000),
         csLastSent = 0, csLastAck = 0, csPendingInvokeId = 0\<rparr>,
       slConfirmedRetries := 0, slSendRetries := 0, slRetryAt := 0\<rparr>"

text \<open>
  Whether the request can be served: the error code of the response, \<open>0\<close> for none. The second
  read of an object subscription overwrites the value of the first.
\<close>

definition checkSubscription ::
    "Env \<Rightarrow> BacnetServer \<Rightarrow> BacnetSubscribeCovRequestHeader \<Rightarrow> u32 outcome" where
  "checkSubscription env s request =
     on_fail
      (obind (readCovValue env s (scObject request) (requestedProperty request) (scArrayIndex request)) (\<lambda>v.
       obind (if scIsProperty request then Ok v
              else readCovValue env s (scObject request) PropStatusFlags kBacnetNoArrayIndex) (\<lambda>v.
       Ok (if scHasIncrement request \<and>
              (\<not> scIsProperty request \<or> requestedProperty request \<noteq> PropPresentValue \<or> vType v \<noteq> TyReal)
           then 37 else 0)))) 32"

text \<open>The table after the request, \<open>None\<close> where there is no free slot.\<close>

definition updateTable ::
    "Env \<Rightarrow> BacnetServer \<Rightarrow> BacnetIpEndpoint \<Rightarrow> BacnetSubscribeCovRequestHeader \<Rightarrow>
     (BacnetServer \<times> ServerEvent list) option" where
  "updateTable env s source request =
     (let matched = findIndex (\<lambda>sl. matchesRequest source request (slSubscription sl)) (svCov s);
          freeSlot = findIndex (\<lambda>sl. csState (slSubscription sl) = CovInactive) (svCov s) in
      if scLifetime request = 0 then
        Some (case matched of None \<Rightarrow> (s, []) | Some index \<Rightarrow>
          (putSlot index (clearSubscription (slot s index)) s, []))
      else case (case matched of Some index \<Rightarrow> Some index | None \<Rightarrow> freeSlot) of
        None \<Rightarrow> None
      | Some index \<Rightarrow>
          let sl = activate env s source request (slot s index) in
          Some (putSlot index sl s, covDiagnostic s SubscriptionActivated (slSubscription sl)))"

definition handleSubscribeCov ::
    "Env \<Rightarrow> BacnetServer \<Rightarrow> BacnetIpEndpoint \<Rightarrow> BacnetSubscribeCovRequestHeader \<Rightarrow>
     (BacnetServerPollResult \<times> BacnetServer \<times> ServerEvent list) outcome" where
  "handleSubscribeCov env s source request =
     (let serviceChoice = (if scIsProperty request then 0x1C else 0x05);
          refuse = (\<lambda>errorCode. obind (respond env source
              (buildServiceErrorResponse kMaxDatagramSize (scInvokeId request) serviceChoice 2 errorCode)
              SubscribeCovErrorSent) (\<lambda>(result, sent). Ok (result, s, sent)))
      in obind (checkSubscription env s request) (\<lambda>errorCode.
        if errorCode \<noteq> 0 then refuse errorCode
        else case updateTable env s source request of
          None \<Rightarrow> refuse 18
        | Some (s', ev) \<Rightarrow>
            obind (respond env source
              (buildSimpleAckResponse kMaxDatagramSize (scInvokeId request) serviceChoice) SubscribeCovAckSent)
              (\<lambda>(result, sent). Ok (result, s', ev @ sent))))"

end
