(* ===== verification/Server.thy ===== *)
theory Server
  imports ServerCov
begin

text \<open>
  The life cycle of \<open>BacnetServer\<close> (src/src/core/server/BacnetServer.cpp): \<open>begin\<close>, \<open>end\<close> and
  \<open>poll\<close>, which receives one datagram and either completes a confirmed notification, answers
  Who-Is, dispatches a confirmed request to its handler or rejects it; without a datagram it
  looks after the subscriptions. The step relation is the program as its application sees it.
\<close>

section \<open>Begin and end\<close>

definition resetSubscriptions :: "BacnetServer \<Rightarrow> BacnetServer" where
  "resetSubscriptions s = s\<lparr>svCov := map clearSubscription (svCov s)\<rparr>"

text \<open>\<open>bindOk\<close> is the result of the transport's \<open>begin\<close>.\<close>

definition beginServer :: "bool \<Rightarrow> BacnetServerDevice \<Rightarrow> u16 \<Rightarrow> BacnetServer \<Rightarrow> bool \<times> BacnetServer" where
  "beginServer bindOk configuredDevice localPort s =
     (if \<not> svTransport s \<or> dvInstance configuredDevice > kObjectInstanceMask then (False, s)
      else if \<exists>r \<in> set (svRegistrations s). objType (rgObject r) = ObjDevice \<and>
                objInstance (rgObject r) \<noteq> dvInstance configuredDevice then (False, s)
      else if \<not> bindOk then (False, s)
      else (True, (resetSubscriptions (s\<lparr>svDevice := configuredDevice, svPort := localPort\<rparr>))\<lparr>svRunning := True\<rparr>))"

definition beginServerInstance :: "bool \<Rightarrow> u32 \<Rightarrow> u16 \<Rightarrow> BacnetServer \<Rightarrow> bool \<times> BacnetServer" where
  "beginServerInstance bindOk deviceInstance localPort s =
     beginServer bindOk (defaultDevice deviceInstance) localPort s"

definition endServer :: "BacnetServer \<Rightarrow> BacnetServer" where
  "endServer s = resetSubscriptions (s\<lparr>svRunning := False\<rparr>)"

section \<open>Poll\<close>

definition kMaxIAmResponseSize :: nat where "kMaxIAmResponseSize = 26"
definition kRejectReasonUnrecognizedService :: u8 where "kRejectReasonUnrecognizedService = 9"

definition sendIAm ::
    "Env \<Rightarrow> BacnetServer \<Rightarrow> BacnetIpEndpoint \<Rightarrow> (BacnetServerPollResult \<times> ServerEvent list) outcome" where
  "sendIAm env s destination =
     respond env destination
       (buildIAmResponse kMaxIAmResponseSize
         \<lparr>iaDeviceInstance = dvInstance (svDevice s), iaMaxApdu = dvMaxApdu (svDevice s),
          iaSegmentation = dvSegmentation (svDevice s), iaVendorId = dvVendorId (svDevice s)\<rparr>) IAmSent"

definition sendReject ::
    "Env \<Rightarrow> BacnetIpEndpoint \<Rightarrow> u8 \<Rightarrow> (BacnetServerPollResult \<times> ServerEvent list) outcome" where
  "sendReject env destination invokeId =
     respond env destination
       (buildRejectResponse kRejectResponseSize invokeId kRejectReasonUnrecognizedService) RejectSent"

definition pure :: "BacnetServer \<Rightarrow> ServerEvent list \<Rightarrow>
    (BacnetServerPollResult \<times> ServerEvent list) outcome \<Rightarrow>
    (BacnetServerPollResult \<times> BacnetServer \<times> ServerEvent list) outcome" where
  "pure s before m = obind m (\<lambda>(result, ev). Ok (result, s, before @ ev))"

text \<open>
  The loop over the subscriptions that await an acknowledgement from the sender; \<open>Ok None\<close> when
  none of them takes the datagram.
\<close>

fun completeConfirmed ::
    "Env \<Rightarrow> bytes \<Rightarrow> BacnetIpEndpoint \<Rightarrow> nat list \<Rightarrow> BacnetServer \<Rightarrow> BacnetServer option outcome" where
  "completeConfirmed env packet source [] s = Ok None"
| "completeConfirmed env packet source (index # rest) s =
     (let sl = slot s index; sub = slSubscription sl in
      if csState sub \<noteq> CovAwaitingConfirmedAck \<or> \<not> endpointEquals (csPeer sub) source
      then completeConfirmed env packet source rest s
      else obind (classifyConfirmedCovNotificationResponse packet (csPendingInvokeId sub)) (\<lambda>(response, reason).
        if response = ScAck
        then Ok (Some (putSlot index (sl\<lparr>slSubscription := sub\<lparr>csState := CovActive, csLastAck := nowMs env s\<rparr>,
               slConfirmedRetries := 0\<rparr>) s))
        else if response = ScError \<or> response = ScReject \<or> response = ScAbort
        then Ok (Some (putSlot index (sl\<lparr>slSubscription := sub\<lparr>csState := CovActive\<rparr>, slConfirmedRetries := 0\<rparr>) s))
        else completeConfirmed env packet source rest s))"

definition activityEvents :: "BacnetServer \<Rightarrow> BacnetServerActivity \<Rightarrow> ServerEvent list" where
  "activityEvents s activity = (if svActivityListener s then [Activity activity] else [])"

definition readActivity :: "BacnetIpEndpoint \<Rightarrow> BacnetReadPropertyRequestHeader \<Rightarrow> BacnetServerActivity" where
  "readActivity source r = \<lparr>acPeer = source, acService = ActivityReadProperty,
     acObject = rqObject (rrRequest r), acProperty = rqProperty (rrRequest r), acHasPriority = False, acPriority = 0\<rparr>"

definition writeActivity :: "BacnetIpEndpoint \<Rightarrow> BacnetWritePropertyRequestHeader \<Rightarrow> BacnetServerActivity" where
  "writeActivity source w = \<lparr>acPeer = source, acService = ActivityWriteProperty,
     acObject = rqObject (wrRequest w), acProperty = rqProperty (wrRequest w),
     acHasPriority = wrHasPriority w, acPriority = wrPriority w\<rparr>"

definition dispatchConfirmed ::
    "Env \<Rightarrow> BacnetServer \<Rightarrow> bytes \<Rightarrow> BacnetIpEndpoint \<Rightarrow> u8 \<Rightarrow>
     (BacnetServerPollResult \<times> BacnetServer \<times> ServerEvent list) outcome" where
  "dispatchConfirmed env s packet source invokeId =
     obind (parseReadPropertyRequest packet) (\<lambda>(readStatus, readProperty).
       if readStatus = RrMalformed then Ok (Malformed, s, [])
       else if readStatus = ReadProperty
       then pure s (activityEvents s (readActivity source readProperty)) (handleReadProperty env s source readProperty)
       else obind (parseWritePropertyRequest packet) (\<lambda>(writeStatus, writeProperty).
         if writeStatus = WrMalformed then Ok (Malformed, s, [])
         else if writeStatus = WriteProperty
         then obind (handleWriteProperty env s source writeProperty) (\<lambda>(result, s', ev).
           Ok (result, s', activityEvents s (writeActivity source writeProperty) @ ev))
         else obind (parseSubscribeCovRequest packet) (\<lambda>(subscribeStatus, subscribeCov).
           if subscribeStatus = CovMalformed then Ok (Malformed, s, [])
           else if subscribeStatus = SubscribeCov \<or> subscribeStatus = SubscribeCovProperty
           then handleSubscribeCov env s source subscribeCov
           else pure s [] (sendReject env source invokeId))))"

definition handleDatagram ::
    "Env \<Rightarrow> BacnetServer \<Rightarrow> bytes \<Rightarrow> BacnetIpEndpoint \<Rightarrow>
     (BacnetServerPollResult \<times> BacnetServer \<times> ServerEvent list) outcome" where
  "handleDatagram env s packet source =
     (case parseWhoIsRequest packet of
        Undef \<Rightarrow> Undef
      | Ok whoIs \<Rightarrow>
          if \<not> whoIsIncludes whoIs (dvInstance (svDevice s)) then Ok (Ignored, s, [])
          else pure s [] (sendIAm env s source)
      | Fail \<Rightarrow>
          obind (parseConfirmedRequestHeader packet) (\<lambda>(status, confirmed).
            if status = CrMalformed then Ok (Malformed, s, [])
            else if status \<noteq> Confirmed then Ok (Ignored, s, [])
            else dispatchConfirmed env s packet source (crInvokeId confirmed)))"

text \<open>
  \<open>received\<close> is what the transport's \<open>receive\<close> delivers: \<open>None\<close> for no bytes, else the source
  and the datagram, whose length is the result of \<open>receive\<close>.
\<close>

definition poll ::
    "Env \<Rightarrow> (BacnetIpEndpoint \<times> bytes) option \<Rightarrow> BacnetServer \<Rightarrow>
     (BacnetServerPollResult \<times> BacnetServer \<times> ServerEvent list) outcome" where
  "poll env received s =
     (if \<not> svRunning s \<or> \<not> svTransport s then Ok (NotRunning, s, [])
      else case received of None \<Rightarrow> processCovSubscriptions env s
      | Some (source, packet) \<Rightarrow>
          if length packet = 0 then processCovSubscriptions env s
          else if length packet > kMaxDatagramSize then Ok (Malformed, s, [])
          else obind (completeConfirmed env packet source [0..<kMaxCovSubscriptions] s) (\<lambda>completed.
            case completed of Some s' \<Rightarrow> Ok (Ignored, s', [])
            | None \<Rightarrow> handleDatagram env s packet source))"

end
