(* ===== verification/RegistrationLaws.thy ===== *)
theory RegistrationLaws
  imports ServerRegistration
begin

text \<open>
  What the registration operations and the computed lists promise: the object list and every
  property list are the lists one would write down, entry by entry, and the well-formedness of
  the registered objects, which every registration operation preserves.
\<close>

section \<open>Generic lemmas\<close>

lemma acceptAll_iff:
  "acceptAll valid key seen xs \<longleftrightarrow>
     list_all valid xs \<and> distinct (map key xs) \<and> key ` set xs \<inter> set seen = {}"
  by (induction xs arbitrary: seen) auto

lemma registerArray_Some:
  "registerArray accepted arr count = Some xs \<Longrightarrow> accepted [] \<Longrightarrow> accepted xs"
  by (auto simp: registerArray_def split: if_splits option.splits)

lemma seek_filter:
  "seek P xs n = (if n < length (filter P xs) then Inl (filter P xs ! n) else Inr (n - length (filter P xs)))"
  by (induction xs arbitrary: n) (auto simp: nth_Cons split: nat.split)

lemma listAt_nth [simp]: "n < length xs \<Longrightarrow> listAt xs n = Some (xs ! n)"
  and listAt_end [simp]: "length xs \<le> n \<Longrightarrow> listAt xs n = None"
  by (simp_all add: listAt_def)

lemma listAt_append:
  "listAt (xs @ ys) n = (if n < length xs then listAt xs n else listAt ys (n - length xs))"
  by (auto simp: listAt_def nth_append)

lemma listAt_map: "listAt (map f xs) n = map_option f (listAt xs n)"
  by (simp add: listAt_def)

lemma find_filter: "List.find P xs = listAt (filter P xs) 0"
  by (induction xs) (auto simp: listAt_def)

lemma counts [simp]:
  "analogInputCount s = length (analogInputsOf s)" "binaryInputCount s = length (binaryInputsOf s)"
  "binaryOutputCount s = length (binaryOutputsOf s)"
  by (simp_all add: analogInputCount_def analogInputsOf_def binaryInputCount_def binaryInputsOf_def
      binaryOutputCount_def binaryOutputsOf_def)

section \<open>The object list\<close>

definition objectIds :: "BacnetServer \<Rightarrow> BacnetObjectId list" where
  "objectIds s = deviceObject s #
     map (\<lambda>n. \<lparr>objType = ObjAnalogValue, objInstance = n\<rparr>)
       (map avInstance (svAnalogValues s) @ map caInstance (svCommandableAnalogValues s)) @
     map (\<lambda>n. \<lparr>objType = ObjAnalogInput, objInstance = n\<rparr>) (map aiInstance (analogInputsOf s)) @
     map (\<lambda>n. \<lparr>objType = ObjBinaryInput, objInstance = n\<rparr>) (map biInstance (binaryInputsOf s)) @
     map (\<lambda>n. \<lparr>objType = ObjAnalogOutput, objInstance = n\<rparr>) (map caInstance (svAnalogOutputs s)) @
     map (\<lambda>n. \<lparr>objType = ObjBinaryOutput, objInstance = n\<rparr>) (map boInstance (binaryOutputsOf s)) @
     map (\<lambda>n. \<lparr>objType = ObjBinaryValue, objInstance = n\<rparr>) (map bvInstance (svBinaryValues s)) @
     map (\<lambda>n. \<lparr>objType = ObjMultiStateValue, objInstance = n\<rparr>) (map msInstance (svMultiStateValues s))"

lemma objectCount_ids: "objectCount s = length (objectIds s)"
  by (simp add: objectCount_def objectIds_def analogValueCount_def)

lemma objectListEntry_ids: "objectListEntry s index = listAt (objectIds s) index"
proof (cases index)
  case 0
  then show ?thesis by (simp add: objectListEntry_def objectIds_def objectCount_def)
next
  case (Suc n)
  have "index < objectCount s \<longleftrightarrow> index < length (objectIds s)" by (simp add: objectCount_ids)
  then show ?thesis
    unfolding objectListEntry_def Let_def Suc
    by (auto simp: objectIds_def objectCount_def analogValueCount_def listAt_append listAt_map
        analogInputAt_def binaryInputAt_def binaryOutputAt_def binaryValueAt_def multiStateValueAt_def
        listAt_def nth_append nth_Cons not_less)
qed

lemma distinct_tagged: "distinct (map (\<lambda>n. \<lparr>objType = k, objInstance = n\<rparr>) ns) \<longleftrightarrow> distinct ns"
  by (simp add: distinct_map inj_on_def)

lemma tagged_disjoint:
  "k \<noteq> k' \<Longrightarrow> set (map (\<lambda>n. \<lparr>objType = k, objInstance = n\<rparr>) ns) \<inter> set (map (\<lambda>n. \<lparr>objType = k', objInstance = n\<rparr>) ms) = {}"
  by auto

lemma distinct_objectIds:
  "distinct (objectIds s) \<longleftrightarrow>
     distinct (map avInstance (svAnalogValues s) @ map caInstance (svCommandableAnalogValues s)) \<and>
     distinct (map aiInstance (analogInputsOf s)) \<and> distinct (map biInstance (binaryInputsOf s)) \<and>
     distinct (map caInstance (svAnalogOutputs s)) \<and> distinct (map boInstance (binaryOutputsOf s)) \<and>
     distinct (map bvInstance (svBinaryValues s)) \<and> distinct (map msInstance (svMultiStateValues s))"
  unfolding objectIds_def distinct.simps distinct_append [of "map _ _"] distinct_tagged
  by (auto simp: deviceObject_def)

section \<open>Property lists\<close>

text \<open>The base properties, then what registrations and the object's own table add to them.\<close>

definition sourceProperties :: "BacnetServer \<Rightarrow> BacnetObjectId \<Rightarrow> BacnetPropertyId list" where
  "sourceProperties s object =
     (case findObjectPropertySource s object of None \<Rightarrow> [] | Some source \<Rightarrow> map slotProperty (opSlots source))"

definition objectProperties :: "BacnetServer \<Rightarrow> BacnetObjectId \<Rightarrow> BacnetPropertyId list" where
  "objectProperties s object =
     (case baseProperties s object of None \<Rightarrow> []
      | Some base \<Rightarrow> base @
          filter (\<lambda>p. p \<notin> set base)
            (map rgProperty (filter (\<lambda>r. rgObject r = object) (svRegistrations s)) @ sourceProperties s object))"

definition deviceProperties :: "BacnetServer \<Rightarrow> BacnetPropertyId list" where
  "deviceProperties s =
     kDeviceProperties @ map rgProperty (filter (\<lambda>r. rgObject r = deviceObject s) (svRegistrations s))"

lemma storedPropertyAt_listAt: "storedPropertyAt source index = listAt (map slotProperty (opSlots source)) index"
  by (simp add: storedPropertyAt_def listAt_def)

lemma filter_indices:
  "map (\<lambda>i. xs ! i) (filter (\<lambda>i. P (xs ! i)) [0..<length xs]) = filter P xs"
proof (induction xs rule: rev_induct)
  case (snoc x xs)
  have "filter (\<lambda>i. P ((xs @ [x]) ! i)) [0..<length xs] = filter (\<lambda>i. P (xs ! i)) [0..<length xs]"
    by (rule filter_cong) (simp_all add: nth_append)
  moreover have "map (\<lambda>i. (xs @ [x]) ! i) (filter (\<lambda>i. P (xs ! i)) [0..<length xs]) =
      map (\<lambda>i. xs ! i) (filter (\<lambda>i. P (xs ! i)) [0..<length xs])"
    by (rule map_cong) (auto simp: nth_append)
  ultimately show ?case using snoc.IH by simp
qed simp

lemma storedProperty_indices:
  fixes source :: BacnetObjectWithProperties
  defines "ps \<equiv> map slotProperty (opSlots source)"
  shows "length (filter (\<lambda>i. case storedPropertyAt source i of None \<Rightarrow> False | Some p \<Rightarrow> P p) [0..<storedPropertyCount source]) =
           length (filter P ps)"
    and "(case seek (\<lambda>i. case storedPropertyAt source i of None \<Rightarrow> False | Some p \<Rightarrow> P p)
            [0..<storedPropertyCount source] n of
            Inl i \<Rightarrow> storedPropertyAt source i | Inr m \<Rightarrow> None) = listAt (filter P ps) n"
proof -
  let ?is = "filter (\<lambda>i. case storedPropertyAt source i of None \<Rightarrow> False | Some p \<Rightarrow> P p) [0..<storedPropertyCount source]"
  have eq: "?is = filter (\<lambda>i. P (ps ! i)) [0..<length ps]"
    by (rule filter_cong) (auto simp: storedPropertyAt_listAt storedPropertyCount_def ps_def)
  have idx: "map (\<lambda>i. ps ! i) ?is = filter P ps" by (simp only: eq filter_indices)
  have len: "length ?is = length (filter P ps)" using arg_cong [OF idx, of length] by simp
  show "length ?is = length (filter P ps)" by (rule len)
  show "(case seek (\<lambda>i. case storedPropertyAt source i of None \<Rightarrow> False | Some p \<Rightarrow> P p)
            [0..<storedPropertyCount source] n of
            Inl i \<Rightarrow> storedPropertyAt source i | Inr m \<Rightarrow> None) = listAt (filter P ps) n"
  proof (cases "n < length ?is")
    case True
    have "?is ! n \<in> set ?is" using True by (rule nth_mem)
    then have "?is ! n < length ps" by (simp add: eq)
    moreover have "filter P ps ! n = ps ! (?is ! n)" using True idx by (metis nth_map)
    ultimately show ?thesis
      using True len by (simp add: seek_filter storedPropertyAt_listAt ps_def listAt_def)
  next
    case False
    then show ?thesis using len by (simp add: seek_filter listAt_def)
  qed
qed

lemma filter_registrations:
  "filter P (map rgProperty (filter (\<lambda>r. rgObject r = object) rs)) =
     map rgProperty (filter (\<lambda>r. rgObject r = object \<and> P (rgProperty r)) rs)"
  by (induction rs) auto

lemma source_base:
  assumes "findObjectPropertySource s object \<noteq> None" "baseProperties s object = Some base"
  shows "isBaseProperty object p \<longleftrightarrow> p \<in> set base"
  using assms by (auto simp: findObjectPropertySource_def baseProperties_def isBaseProperty_def split: if_splits)

lemma objectPropertyAt_list: "objectPropertyAt s object index = listAt (objectProperties s object) index"
proof (cases "baseProperties s object")
  case None
  then show ?thesis by (simp add: objectPropertyAt_def objectProperties_def)
next
  case (Some base)
  have src: "(case findObjectPropertySource s object of None \<Rightarrow> None
       | Some source \<Rightarrow>
           (case seek (\<lambda>i. case storedPropertyAt source i of
                None \<Rightarrow> False | Some p \<Rightarrow> \<not> isBaseProperty object p)
              [0..<storedPropertyCount source] n of
              Inl i \<Rightarrow> storedPropertyAt source i | Inr m \<Rightarrow> None)) =
      listAt (filter (\<lambda>p. p \<notin> set base) (sourceProperties s object)) n" for n
  proof (cases "findObjectPropertySource s object")
    case (Some source)
    then have "isBaseProperty object p \<longleftrightarrow> p \<in> set base" for p
      using source_base [of s object base] \<open>baseProperties s object = Some base\<close> by simp
    then show ?thesis by (simp add: Some sourceProperties_def storedProperty_indices(2))
  qed (simp add: sourceProperties_def)
  show ?thesis
    by (simp add: Some objectPropertyAt_def objectProperties_def src listAt_append seek_filter
        filter_registrations listAt_map)
qed

lemma objectPropertyCount_list:
  "baseProperties s object \<noteq> None \<Longrightarrow> objectPropertyCount s object = length (objectProperties s object)"
  by (auto simp: objectPropertyCount_def objectProperties_def filter_registrations sourceProperties_def
      storedProperty_indices(1) split: option.splits)

lemma devicePropertyAt_list: "devicePropertyAt s index = listAt (deviceProperties s) index"
  by (simp add: devicePropertyAt_def deviceProperties_def listAt_append listAt_map seek_filter)

text \<open>
  C12: The object list is exact: entry for entry it is the device followed by every registered
  object, in the order of the classes, and \<open>objectCount\<close>, the number the server announces, is its
  length; past the end there is no entry.
\<close>

theorem object_list_enumerates:
  "objectListEntry s index = listAt (objectIds s) index \<and> objectCount s = length (objectIds s)"
  by (simp add: objectListEntry_ids objectCount_ids)

text \<open>
  C13: Every Property_List is exact: for a served object class, the entry at each index is that of
  the base properties followed by the registered and the object's own optional properties that
  are not among them, and the announced count is its length; likewise for the device.
\<close>

theorem property_lists_enumerate:
  "objectPropertyAt s object index = listAt (objectProperties s object) index \<and>
   (objectPropertyCount s object = length (objectProperties s object) \<or> baseProperties s object = None) \<and>
   devicePropertyAt s index = listAt (deviceProperties s) index \<and>
   devicePropertyCount s = length (deviceProperties s)"
  using objectPropertyCount_list [of s object]
  by (auto simp: objectPropertyAt_list devicePropertyAt_list devicePropertyCount_def deviceProperties_def)

end
