(* ===== verification/ServerInvariant.thy ===== *)
theory ServerInvariant
  imports Server RegistrationLaws
begin

text \<open>
  The server as a state machine and its invariant. \<open>wfServer\<close> says that the registered objects
  have valid, distinct identities, that their priority arrays have their sixteen slots, and that
  the subscription table has its eight slots with at most one subscription per key. Every
  operation of the application and every poll preserves it.
\<close>

section \<open>The invariant\<close>

text \<open>One class of objects: valid identities and names, no instance twice.\<close>

definition wfClass :: "('a \<Rightarrow> u32) \<Rightarrow> ('a \<Rightarrow> cstring) \<Rightarrow> 'a list \<Rightarrow> bool" where
  "wfClass key name xs \<longleftrightarrow>
     list_all (\<lambda>x. validObjectConfiguration (key x) (name x)) xs \<and> distinct (map key xs)"

definition wfObjects :: "BacnetServer \<Rightarrow> bool" where
  "wfObjects s \<longleftrightarrow>
     wfClass avInstance avObjectName (svAnalogValues s) \<and>
     wfClass caInstance caObjectName (svCommandableAnalogValues s) \<and>
     avInstance ` set (svAnalogValues s) \<inter> caInstance ` set (svCommandableAnalogValues s) = {} \<and>
     wfClass caInstance caObjectName (svAnalogOutputs s) \<and>
     wfClass aiInstance aiObjectName (svAnalogInputs s) \<and>
     wfClass aiInstance aiObjectName (svObjectAnalogInputs s) \<and>
     wfClass biInstance biObjectName (svBinaryInputs s) \<and>
     wfClass biInstance biObjectName (svObjectBinaryInputs s) \<and>
     wfClass boInstance boObjectName (svBinaryOutputs s) \<and>
     wfClass boInstance boObjectName (svObjectBinaryOutputs s) \<and>
     wfClass bvInstance bvObjectName (svBinaryValues s) \<and>
     wfClass msInstance msObjectName (svMultiStateValues s)"

definition wfPriorities :: "BacnetServer \<Rightarrow> bool" where
  "wfPriorities s \<longleftrightarrow>
     list_all (\<lambda>x. wfPriority (coPriority x)) (svCommandableAnalogValues s) \<and>
     list_all (\<lambda>x. wfPriority (coPriority x)) (svAnalogOutputs s) \<and>
     list_all (\<lambda>x. wfPriority (coPriority x)) (svBinaryOutputs s) \<and>
     list_all (\<lambda>x. wfPriority (coPriority x)) (svObjectBinaryOutputs s) \<and>
     list_all (\<lambda>x. wfPriority (bvPriority x)) (svBinaryValues s)"

text \<open>Objects of a class are registered as an array or one by one, not both.\<close>

definition wfModes :: "BacnetServer \<Rightarrow> bool" where
  "wfModes s \<longleftrightarrow>
     (svAnalogInputs s = [] \<or> svObjectAnalogInputs s = []) \<and>
     (svBinaryInputs s = [] \<or> svObjectBinaryInputs s = []) \<and>
     (svBinaryOutputs s = [] \<or> svObjectBinaryOutputs s = []) \<and>
     length (svObjectAnalogInputs s) \<le> kMaxObjectCentric \<and>
     length (svObjectBinaryInputs s) \<le> kMaxObjectCentric \<and>
     length (svObjectBinaryOutputs s) \<le> kMaxObjectCentric"

definition wfRegistrations :: "BacnetServer \<Rightarrow> bool" where
  "wfRegistrations s \<longleftrightarrow> list_all validRegistration (svRegistrations s) \<and>
     distinct (map (\<lambda>r. (rgObject r, rgProperty r)) (svRegistrations s))"

definition wfSlot :: "CovSlot \<Rightarrow> bool" where
  "wfSlot sl \<longleftrightarrow> length (slSnapshots sl) = kCovObjectPropertyCount \<and>
     (csState (slSubscription sl) = CovAwaitingConfirmedAck \<longrightarrow> csConfirmed (slSubscription sl)) \<and>
     (csState (slSubscription sl) \<noteq> CovInactive \<longrightarrow> csLifetime (slSubscription sl) \<noteq> 0 \<and>
        csArrayIndex (slSubscription sl) = kBacnetNoArrayIndex)"

definition isActive :: "CovSlot \<Rightarrow> bool" where
  "isActive sl \<longleftrightarrow> csState (slSubscription sl) \<noteq> CovInactive"

definition slotKey :: "CovSlot \<Rightarrow> BacnetIpEndpoint \<times> u32 \<times> BacnetObjectId \<times> bool \<times> BacnetPropertyId \<times> u32" where
  "slotKey sl = subscriptionKey (slSubscription sl)"

definition uniqueKeys :: "CovSlot list \<Rightarrow> bool" where
  "uniqueKeys sls \<longleftrightarrow> (\<forall>i < length sls. \<forall>j < length sls.
     isActive (sls ! i) \<and> isActive (sls ! j) \<and> slotKey (sls ! i) = slotKey (sls ! j) \<longrightarrow> i = j)"

definition wfTable :: "CovSlot list \<Rightarrow> bool" where
  "wfTable sls \<longleftrightarrow> length sls = kMaxCovSubscriptions \<and> list_all wfSlot sls \<and> uniqueKeys sls"

definition wfServer :: "BacnetServer \<Rightarrow> bool" where
  "wfServer s \<longleftrightarrow> wfObjects s \<and> wfPriorities s \<and> wfModes s \<and> wfRegistrations s \<and>
     dvInstance (svDevice s) \<le> kObjectInstanceMask \<and> wfTable (svCov s) \<and> svNextCovInvokeId s \<noteq> 0"

lemmas wfServer_defs = wfServer_def wfObjects_def wfPriorities_def wfModes_def wfRegistrations_def

lemma wfClass_Nil [simp]: "wfClass key name []"
  by (simp add: wfClass_def)

lemma wfClass_append1:
  "wfClass key name (xs @ [x]) \<longleftrightarrow>
     wfClass key name xs \<and> validObjectConfiguration (key x) (name x) \<and> key x \<notin> key ` set xs"
  by (auto simp: wfClass_def)

section \<open>Registration\<close>

lemma wf_newServer: "wfServer (newServer tr)"
  by (simp add: wfServer_defs wfTable_def uniqueKeys_def newServer_def defaultDevice_def list_all_iff
      wfSlot_def isActive_def emptySlot_def emptySubscription_def)

lemma find_None_iff_keys: "List.find (\<lambda>x. key x = n) xs = None \<longleftrightarrow> n \<notin> key ` set xs"
  by (auto simp: find_None_iff)

text \<open>What an accepted array is like.\<close>

lemma registered_cases:
  assumes "registerArray (acceptAll valid key []) arr count = Some xs"
  shows "list_all valid xs \<and> distinct (map key xs)"
  using registerArray_Some [OF assms] by (simp add: acceptAll_iff)

lemma registered_class:
  assumes "registerArray (acceptAll valid key []) arr count = Some xs"
    and "\<And>x. valid x \<Longrightarrow> validObjectConfiguration (key x) (name x)"
  shows "wfClass key name xs"
  using registered_cases [OF assms(1)] assms(2) by (auto simp: wfClass_def list_all_iff)

lemma registered_all:
  assumes "registerArray accepted arr count = Some xs" "\<And>ys. arr = Some ys \<Longrightarrow> list_all P ys"
  shows "list_all P xs"
  using assms by (auto simp: registerArray_def list_all_iff dest: in_set_takeD split: if_splits option.splits)

lemma wf_setAnalogValues: "wfServer s \<Longrightarrow> wfServer (snd (setAnalogValues arr count s))"
  using registered_class [of _ avInstance arr count _ avObjectName] registered_cases [of _ avInstance arr count]
  by (fastforce simp: setAnalogValues_def wfServer_defs list_all_iff findCommandableAnalogValue_def
      find_None_iff_keys split: option.split)

lemma wf_setCommandableAnalogValues:
  assumes "wfServer s" "\<And>xs. arr = Some xs \<Longrightarrow> list_all (\<lambda>x. wfPriority (coPriority x)) xs"
  shows "wfServer (snd (setCommandableAnalogValues arr count s))"
proof (cases "registerArray (acceptAll (\<lambda>v. validObjectConfiguration (caInstance v) (caObjectName v) \<and>
            findAnalogValue s (caInstance v) = None) caInstance []) arr count")
  case None
  then show ?thesis using assms(1) by (simp add: setCommandableAnalogValues_def)
next
  case (Some xs)
  have "wfClass caInstance caObjectName xs" by (rule registered_class [OF Some]) simp
  moreover have "caInstance x \<notin> avInstance ` set (svAnalogValues s)" if "x \<in> set xs" for x
    using registered_cases [OF Some] that by (simp add: list_all_iff findAnalogValue_def find_None_iff_keys)
  then have "avInstance ` set (svAnalogValues s) \<inter> caInstance ` set xs = {}"
    unfolding disjoint_iff by (metis imageE)
  moreover have "list_all (\<lambda>x. wfPriority (coPriority x)) xs" by (rule registered_all [OF Some assms(2)])
  ultimately show ?thesis
    using assms(1) by (simp add: setCommandableAnalogValues_def Some wfServer_defs)
qed

lemma wf_setAnalogOutputs:
  assumes "wfServer s" "\<And>xs. arr = Some xs \<Longrightarrow> list_all (\<lambda>x. wfPriority (coPriority x)) xs"
  shows "wfServer (snd (setAnalogOutputs arr count s))"
  using assms(1) registered_class [of _ caInstance arr count _ caObjectName]
    registered_all [of _ arr count _ "\<lambda>x. wfPriority (coPriority x)", OF _ assms(2)]
  by (auto simp: setAnalogOutputs_def wfServer_defs split: option.split)

lemma wf_setAnalogInputs: "wfServer s \<Longrightarrow> wfServer (snd (setAnalogInputs arr count s))"
  using registered_class [of _ aiInstance arr count _ aiObjectName]
  by (auto simp: setAnalogInputs_def wfServer_defs split: option.split)

lemma wf_setBinaryInputs: "wfServer s \<Longrightarrow> wfServer (snd (setBinaryInputs arr count s))"
  using registered_class [of _ biInstance arr count _ biObjectName]
  by (auto simp: setBinaryInputs_def wfServer_defs split: option.split)

lemma wf_setBinaryOutputs:
  assumes "wfServer s" "\<And>xs. arr = Some xs \<Longrightarrow> list_all (\<lambda>x. wfPriority (coPriority x)) xs"
  shows "wfServer (snd (setBinaryOutputs arr count s))"
  using assms(1) registered_class [of _ boInstance arr count _ boObjectName]
    registered_all [of _ arr count _ "\<lambda>x. wfPriority (coPriority x)", OF _ assms(2)]
  by (auto simp: setBinaryOutputs_def wfServer_defs split: option.split)

lemma wf_setBinaryValues:
  assumes "wfServer s" "\<And>xs. arr = Some xs \<Longrightarrow> list_all (\<lambda>x. wfPriority (bvPriority x)) xs"
  shows "wfServer (snd (setBinaryValues arr count s))"
  using assms(1) registered_class [of _ bvInstance arr count _ bvObjectName]
    registered_all [of _ arr count _ "\<lambda>x. wfPriority (bvPriority x)", OF _ assms(2)]
  by (auto simp: setBinaryValues_def wfServer_defs split: option.split)

lemma wf_setMultiStateValues: "wfServer s \<Longrightarrow> wfServer (snd (setMultiStateValues arr count s))"
  using registered_class [of validMultiStateValueConfiguration msInstance arr count _ msObjectName]
  by (auto simp: setMultiStateValues_def wfServer_defs validMultiStateValueConfiguration_def split: option.split)

lemma wf_setPropertyRegistrations: "wfServer s \<Longrightarrow> wfServer (snd (setPropertyRegistrations arr count s))"
  using registered_cases [of validRegistration "\<lambda>r. (rgObject r, rgProperty r)" arr count]
  by (auto simp: setPropertyRegistrations_def wfServer_defs split: option.split)

lemma wf_addAnalogInput: "wfServer s \<Longrightarrow> wfServer (snd (addAnalogInput ob s))"
  by (auto simp: addAnalogInput_def wfServer_defs wfClass_append1)

lemma wf_addBinaryInput: "wfServer s \<Longrightarrow> wfServer (snd (addBinaryInput ob s))"
  by (auto simp: addBinaryInput_def wfServer_defs wfClass_append1)

lemma wf_addBinaryOutput:
  "wfServer s \<Longrightarrow> wfPriority (coPriority ob) \<Longrightarrow> wfServer (snd (addBinaryOutput ob s))"
  by (auto simp: addBinaryOutput_def wfServer_defs wfClass_append1)

lemma wf_settings:
  "wfServer s \<Longrightarrow> wfServer (snd (setTransport s))"
  "wfServer s \<Longrightarrow> wfServer (snd (setLocalWritePriority p s))"
  "wfServer s \<Longrightarrow> wfServer (setClock b s)"
  "wfServer s \<Longrightarrow> wfServer (setActivityListener b s)"
  "wfServer s \<Longrightarrow> wfServer (setCovDiagnosticListener b s)"
  by (simp_all add: setTransport_def setLocalWritePriority_def setClock_def setActivityListener_def
      setCovDiagnosticListener_def wfServer_defs)

section \<open>The subscription table\<close>

text \<open>A slot may change as long as it stays inactive, keeps its key or takes a key of its own.\<close>

lemma wfTable_update:
  assumes "wfTable sls" "wfSlot sl"
    and "\<not> isActive sl \<or> (isActive (sls ! i) \<and> slotKey sl = slotKey (sls ! i)) \<or>
      (\<forall>j < length sls. isActive (sls ! j) \<longrightarrow> slotKey (sls ! j) \<noteq> slotKey sl)"
  shows "wfTable (sls[i := sl])"
proof -
  have "list_all wfSlot (sls[i := sl])"
    using assms(1,2) by (auto simp: wfTable_def list_all_iff dest!: set_update_subset_insert [THEN subsetD])
  moreover have "uniqueKeys (sls[i := sl])"
    unfolding uniqueKeys_def
  proof (intro allI impI; elim conjE)
    fix j k assume jk: "j < length (sls[i := sl])" "k < length (sls[i := sl])"
      and act: "isActive (sls[i := sl] ! j)" "isActive (sls[i := sl] ! k)"
      and key: "slotKey (sls[i := sl] ! j) = slotKey (sls[i := sl] ! k)"
    have old: "j' = k'" if "j' < length sls" "k' < length sls" "isActive (sls ! j')" "isActive (sls ! k')"
        "slotKey (sls ! j') = slotKey (sls ! k')" for j' k'
      using assms(1) that by (simp add: wfTable_def uniqueKeys_def)
    show "j = k"
      using jk act key old assms(3) by (cases "j = i"; cases "k = i") (simp_all, metis+)
  qed
  ultimately show ?thesis using assms(1) by (simp add: wfTable_def)
qed

lemma wf_putSlot:
  assumes "wfServer s" "wfSlot sl"
    and "\<not> isActive sl \<or> (isActive (slot s index) \<and> slotKey sl = slotKey (slot s index)) \<or>
      (\<forall>j < length (svCov s). isActive (slot s j) \<longrightarrow> slotKey (slot s j) \<noteq> slotKey sl)"
  shows "wfServer (putSlot index sl s)"
  using assms wfTable_update [of "svCov s" sl index] by (simp add: wfServer_defs putSlot_def slot_def)

lemma wf_slot: "wfServer s \<Longrightarrow> index < kMaxCovSubscriptions \<Longrightarrow> wfSlot (slot s index)"
  by (simp add: wfServer_def wfTable_def slot_def list_all_length)

lemma slot_putSlot [simp]:
  "index < length (svCov s) \<Longrightarrow> slot (putSlot index sl s) j = (if j = index then sl else slot s j)"
  by (simp add: slot_def putSlot_def)

lemma putSlot_simps [simp]:
  "putSlot index sl (putSlot index sl' s) = putSlot index sl s"
  "svCov (putSlot index sl s) = (svCov s)[index := sl]"
  "svNextCovInvokeId (putSlot index sl s) = svNextCovInvokeId s"
  "svDevice (putSlot index sl s) = svDevice s" "svClock (putSlot index sl s) = svClock s"
  by (simp_all add: putSlot_def)

lemma length_svCov: "wfServer s \<Longrightarrow> length (svCov s) = kMaxCovSubscriptions"
  by (simp add: wfServer_def wfTable_def)

lemma length_storeSnapshots [simp]: "length (storeSnapshots sns vs) = length sns"
  by (induction sns vs rule: storeSnapshots.induct) simp_all

lemma wfSlot_markSent: "wfSlot sl \<Longrightarrow> isActive sl \<Longrightarrow> wfSlot (markSent now i vs sl)"
  by (auto simp: wfSlot_def markSent_def storeCovValues_def isActive_def Let_def)

lemma markSent_active: "isActive (markSent now i vs sl)" "slotKey (markSent now i vs sl) = slotKey sl"
  by (simp_all add: isActive_def slotKey_def subscriptionKey_def markSent_def storeCovValues_def Let_def)

lemma wfSlot_clear: "wfSlot sl \<Longrightarrow> wfSlot (clearSubscription sl) \<and> \<not> isActive (clearSubscription sl)"
  "wfSlot sl \<Longrightarrow> wfSlot (expireSlot sl) \<and> \<not> isActive (expireSlot sl)"
  by (simp_all add: wfSlot_def clearSubscription_def expireSlot_def clearSnapshots_def emptySubscription_def isActive_def)

lemma wfSlot_schedule:
  "wfSlot sl \<Longrightarrow> wfSlot (scheduleRetry d now sl)" "isActive (scheduleRetry d now sl) = isActive sl"
  "slotKey (scheduleRetry d now sl) = slotKey sl"
  by (simp_all add: wfSlot_def scheduleRetry_def isActive_def slotKey_def Let_def)

lemma wf_sendCovNotification:
  assumes "wfServer s" "index < kMaxCovSubscriptions" "isActive (slot s index)"
    and "sendCovNotification env s index vs now = Ok (sent, s', ev)"
  shows "wfServer s'"
proof -
  let ?next = "if csConfirmed (slSubscription (slot s index)) then svNextCovInvokeId s + 1 else svNextCovInvokeId s"
  let ?s = "s\<lparr>svNextCovInvokeId := if ?next = 0 then 1 else ?next\<rparr>"
  have s: "wfServer ?s" using assms(1) by (simp add: wfServer_defs)
  have sl: "slot ?s j = slot s j" for j by (simp add: slot_def)
  note wf = wf_slot [OF assms(1,2)]
  have "wfServer (putSlot index (scheduleRetry (svDevice s) now (slot s index)) ?s)"
    by (rule wf_putSlot [OF s]) (simp_all add: wf wfSlot_schedule sl assms(3))
  moreover have "wfServer (putSlot index (markSent now i vs (slot s index)) ?s)" for i
    by (rule wf_putSlot [OF s]) (simp_all add: wf wfSlot_markSent markSent_active sl assms(3))
  ultimately show ?thesis
    using assms(4) by (auto simp: sendCovNotification_def Let_def split: outcome.splits if_splits)
qed

lemma isActive_confirmed [simp]:
  "isActive (sl\<lparr>slConfirmedRetries := n\<rparr>) = isActive sl" "slotKey (sl\<lparr>slConfirmedRetries := n\<rparr>) = slotKey sl"
  "wfSlot (sl\<lparr>slConfirmedRetries := n\<rparr>) = wfSlot sl"
  by (simp_all add: isActive_def slotKey_def wfSlot_def)

text \<open>A subscription that no longer waits for an acknowledgement.\<close>

lemma wf_reactivate:
  assumes "wfServer s" "index < kMaxCovSubscriptions" "csState (slSubscription (slot s index)) = CovAwaitingConfirmedAck"
  shows "wfServer (putSlot index ((slot s index)\<lparr>slSubscription := (slSubscription (slot s index))\<lparr>csState := CovActive,
           csLastAck := a\<rparr>, slConfirmedRetries := 0\<rparr>) s)"
    and "wfServer (putSlot index ((slot s index)\<lparr>slSubscription := (slSubscription (slot s index))\<lparr>csState := CovActive\<rparr>,
           slConfirmedRetries := 0\<rparr>) s)"
  using wf_slot [OF assms(1,2)] assms(3)
  by (auto intro!: wf_putSlot [OF assms(1)] simp: wfSlot_def isActive_def slotKey_def subscriptionKey_def)

lemma wf_processSlot:
  assumes "wfServer s" "index < kMaxCovSubscriptions" "processSlot env now index s = Ok (r, s', ev)"
  shows "wfServer s'"
proof -
  have len: "index < length (svCov s)" using assms(1,2) by (simp add: length_svCov)
  note wf = wf_slot [OF assms(1,2)]
  have retry: "wfServer (putSlot index ((slot s index)\<lparr>slConfirmedRetries := n\<rparr>) s)" if "isActive (slot s index)" for n
    using that by (intro wf_putSlot [OF assms(1)]) (simp_all add: wf)
  have sent: "wfServer s''" if "isActive (slot s index)"
      "sendCovNotification env (putSlot index ((slot s index)\<lparr>slConfirmedRetries := n\<rparr>) s) index vs now = Ok (b, s'', ev')"
      for n vs b s'' ev'
    using wf_sendCovNotification [OF retry [OF that(1)] assms(2) _ that(2)] that(1) len by simp
  have "wfServer (putSlot index (expireSlot (slot s index)) s)"
    by (rule wf_putSlot [OF assms(1)]) (simp_all add: wfSlot_clear wf)
  then show ?thesis
    using assms(3) assms(1) wf_reactivate(2) [OF assms(1,2)] sent
    by (auto simp: processSlot_def sendResult_def Let_def isActive_def split: if_splits outcome.splits)
qed

lemma wf_processSlots:
  "wfServer s \<Longrightarrow> \<forall>i \<in> set is. i < kMaxCovSubscriptions \<Longrightarrow> processSlots env now is s = Ok (r, s', ev) \<Longrightarrow> wfServer s'"
proof (induction "is" arbitrary: s)
  case (Cons i "is")
  then show ?case
    by (auto split: option.splits dest: wf_processSlot)
qed simp

lemma wf_processCov: "wfServer s \<Longrightarrow> processCovSubscriptions env s = Ok (r, s', ev) \<Longrightarrow> wfServer s'"
  unfolding processCovSubscriptions_def by (erule wf_processSlots) auto

section \<open>SubscribeCOV\<close>

lemma findIndex_Some: "findIndex P xs = Some i \<Longrightarrow> i < length xs \<and> P (xs ! i)"
  by (induction xs arbitrary: i) (auto split: if_splits)

lemma findIndex_None: "findIndex P xs = None \<longleftrightarrow> (\<forall>x \<in> set xs. \<not> P x)"
  by (induction xs) auto

definition requestKey ::
    "BacnetIpEndpoint \<Rightarrow> BacnetSubscribeCovRequestHeader \<Rightarrow> BacnetIpEndpoint \<times> u32 \<times> BacnetObjectId \<times> bool \<times> BacnetPropertyId \<times> u32" where
  "requestKey source request =
     (source, scProcessId request, scObject request, scIsProperty request, requestedProperty request, scArrayIndex request)"

lemma endpointEquals_eq: "endpointEquals a b \<longleftrightarrow> a = b"
  by (auto simp: endpointEquals_def intro: BacnetIpEndpoint.equality)

lemma matchesRequest_key:
  "matchesRequest source request (slSubscription sl) \<longleftrightarrow> isActive sl \<and> slotKey sl = requestKey source request"
  by (auto simp: matchesRequest_def isActive_def slotKey_def subscriptionKey_def requestKey_def endpointEquals_eq
      intro: BacnetObjectId.equality)

lemma activate_slot:
  "isActive (activate env s source request sl)" "slotKey (activate env s source request sl) = requestKey source request"
  by (simp_all add: activate_def isActive_def slotKey_def subscriptionKey_def requestKey_def)

lemma wfSlot_activate:
  "wfSlot sl \<Longrightarrow> scLifetime request \<noteq> 0 \<Longrightarrow> scArrayIndex request = kBacnetNoArrayIndex \<Longrightarrow>
     wfSlot (activate env s source request sl)"
  by (simp add: wfSlot_def activate_def clearSnapshots_def)

lemma wf_updateTable:
  assumes "wfServer s" "scArrayIndex request = kBacnetNoArrayIndex"
    and "updateTable env s source request = Some (s', ev)"
  shows "wfServer s'"
proof -
  let ?matches = "\<lambda>sl. matchesRequest source request (slSubscription sl)"
  have bound: "i < kMaxCovSubscriptions" if "findIndex P (svCov s) = Some i" for P i
    using findIndex_Some [OF that] length_svCov [OF assms(1)] by simp
  have clear: "wfServer (putSlot i (clearSubscription (slot s i)) s)" if "findIndex P (svCov s) = Some i" for P i
    using wfSlot_clear(1) [OF wf_slot [OF assms(1) bound [OF that]]] by (intro wf_putSlot [OF assms(1)]) auto
  have act: "wfServer (putSlot i (activate env s source request (slot s i)) s)"
    if i: "i < kMaxCovSubscriptions" and life: "scLifetime request \<noteq> 0"
      and key: "(isActive (slot s i) \<and> slotKey (slot s i) = requestKey source request) \<or>
        (\<forall>sl \<in> set (svCov s). \<not> ?matches sl)" for i
    using key wfSlot_activate [OF wf_slot [OF assms(1) i] life assms(2)]
    by (intro wf_putSlot [OF assms(1)]) (auto simp: activate_slot matchesRequest_key slot_def)
  show ?thesis
  proof (cases "findIndex ?matches (svCov s)")
    case None
    then show ?thesis
      using assms(1,3) act bound findIndex_None [of ?matches "svCov s"]
      by (auto simp: updateTable_def Let_def split: if_splits option.splits)
  next
    case (Some i)
    have "isActive (slot s i) \<and> slotKey (slot s i) = requestKey source request"
      using findIndex_Some [OF Some] by (simp add: matchesRequest_key slot_def)
    then show ?thesis
      using assms(3) act [OF bound [OF Some]] clear [OF Some]
      by (auto simp: updateTable_def Let_def Some split: if_splits)
  qed
qed

lemma checkSubscription_index:
  "checkSubscription env s request = Ok 0 \<Longrightarrow> scArrayIndex request = kBacnetNoArrayIndex"
  by (auto simp: checkSubscription_def on_fail_eq_Ok readCovValue_def Let_def split: if_splits)

lemma wf_handleSubscribeCov:
  assumes "wfServer s" "handleSubscribeCov env s source request = Ok (r, s', ev)"
  shows "wfServer s'"
  using assms checkSubscription_index [of env s request] wf_updateTable [OF assms(1), of request env source]
  by (auto simp: handleSubscribeCov_def Let_def split: if_splits option.splits)

section \<open>WriteProperty\<close>

lemma replaceFirst_keys: "map key (replaceFirst key y xs) = map key xs"
  by (induction xs) auto

lemma replaceFirst_all: "list_all P xs \<Longrightarrow> P y \<Longrightarrow> list_all P (replaceFirst key y xs)"
  by (induction xs) auto

lemma key_set: "map key ys = map key xs \<Longrightarrow> key ` set ys = key ` set xs"
  by (metis set_map)

lemma found_in: "List.find (\<lambda>x. key x = n) xs = Some x \<Longrightarrow> x \<in> set xs \<and> key x = n"
  by (auto simp: find_Some_iff)

lemma replaceFirst_class:
  assumes "wfClass key name xs" "x \<in> set xs" "key y = key x" "name y = name x"
  shows "wfClass key name (replaceFirst key y xs)"
  using assms replaceFirst_all [of "\<lambda>x. validObjectConfiguration (key x) (name x)" xs y key]
    replaceFirst_keys [of key y xs]
  by (auto simp: wfClass_def list_all_iff)

lemma replaceBinaryOutput_keys: "map boInstance (replaceBinaryOutput y xs) = map boInstance xs"
  by (induction xs) (auto simp: BacnetServerBinaryOutput.defs)

lemma replaceBinaryOutput_all:
  "list_all P xs \<Longrightarrow> (\<And>m. P (BacnetServerBinaryOutput.extend y m)) \<Longrightarrow> list_all P (replaceBinaryOutput y xs)"
  by (induction xs) auto

lemma extend_simps [simp]:
  "boInstance (BacnetServerBinaryOutput.extend y m) = boInstance y"
  "boObjectName (BacnetServerBinaryOutput.extend y m) = boObjectName y"
  "coPriority (BacnetServerBinaryOutput.extend y m) = coPriority y"
  "coOutOfService (BacnetServerBinaryOutput.extend y m) = coOutOfService y"
  by (simp_all add: BacnetServerBinaryOutput.defs)

lemma truncate_simps [simp]:
  "boInstance (BacnetServerBinaryOutput.truncate x) = boInstance x"
  "boObjectName (BacnetServerBinaryOutput.truncate x) = boObjectName x"
  "coPriority (BacnetServerBinaryOutput.truncate x) = coPriority x"
  "coOutOfService (BacnetServerBinaryOutput.truncate x) = coOutOfService x"
  by (simp_all add: BacnetServerBinaryOutput.defs)

text \<open>The object a handler finds, with what the invariant says of it.\<close>

lemma wf_putCommandableAnalogValue:
  assumes "wfServer s" "findCommandableAnalogValue s n = Some x"
    and "caInstance y = caInstance x" "caObjectName y = caObjectName x" "wfPriority (coPriority y)"
  shows "wfServer (putCommandableAnalogValue y s)"
  using assms found_in [of caInstance n "svCommandableAnalogValues s" x]
    replaceFirst_class [of caInstance caObjectName "svCommandableAnalogValues s" x y]
    replaceFirst_all [of "\<lambda>x. wfPriority (coPriority x)" "svCommandableAnalogValues s" y caInstance]
    key_set [OF replaceFirst_keys, of caInstance y "svCommandableAnalogValues s"]
  by (simp add: wfServer_defs putCommandableAnalogValue_def findCommandableAnalogValue_def)

lemma wf_putAnalogOutput:
  assumes "wfServer s" "findAnalogOutput s n = Some x"
    and "caInstance y = caInstance x" "caObjectName y = caObjectName x" "wfPriority (coPriority y)"
  shows "wfServer (putAnalogOutput y s)"
  using assms found_in [of caInstance n "svAnalogOutputs s" x]
    replaceFirst_class [of caInstance caObjectName "svAnalogOutputs s" x y]
    replaceFirst_all [of "\<lambda>x. wfPriority (coPriority x)" "svAnalogOutputs s" y caInstance]
  by (simp add: wfServer_defs putAnalogOutput_def findAnalogOutput_def)

lemma wf_putBinaryValue:
  assumes "wfServer s" "findBinaryValue s n = Some x"
    and "bvInstance y = bvInstance x" "bvObjectName y = bvObjectName x" "wfPriority (bvPriority y)"
  shows "wfServer (putBinaryValue y s)"
  using assms found_in [of bvInstance n "svBinaryValues s" x]
    replaceFirst_class [of bvInstance bvObjectName "svBinaryValues s" x y]
    replaceFirst_all [of "\<lambda>x. wfPriority (bvPriority x)" "svBinaryValues s" y bvInstance]
  by (simp add: wfServer_defs putBinaryValue_def findBinaryValue_def)

lemma wf_putBinaryOutput:
  assumes "wfServer s" "findBinaryOutput s n = Some x"
    and "boInstance y = boInstance x" "boObjectName y = boObjectName x" "wfPriority (coPriority y)"
  shows "wfServer (putBinaryOutput y s)"
proof -
  note x = found_in [OF assms(2) [unfolded findBinaryOutput_def]]
  show ?thesis
  proof (cases "svObjectBinaryOutputs s = []")
    case True
    then show ?thesis
      using assms x replaceFirst_class [of boInstance boObjectName "svBinaryOutputs s" x y]
        replaceFirst_all [of "\<lambda>x. wfPriority (coPriority x)" "svBinaryOutputs s" y boInstance]
      by (simp add: wfServer_defs putBinaryOutput_def binaryOutputsOf_def)
  next
    case False
    then obtain z where z: "z \<in> set (svObjectBinaryOutputs s)" "x = BacnetServerBinaryOutput.truncate z"
      using x by (auto simp: binaryOutputsOf_def)
    have "wfClass boInstance boObjectName (replaceBinaryOutput y (svObjectBinaryOutputs s))"
      using assms z replaceBinaryOutput_keys [of y "svObjectBinaryOutputs s"]
        replaceBinaryOutput_all [of "\<lambda>x. validObjectConfiguration (boInstance x) (boObjectName x)" "svObjectBinaryOutputs s" y]
      by (auto simp: wfServer_defs wfClass_def list_all_iff)
    moreover have "list_all (\<lambda>x. wfPriority (coPriority x)) (replaceBinaryOutput y (svObjectBinaryOutputs s))"
      using assms replaceBinaryOutput_all [of "\<lambda>x. wfPriority (coPriority x)" "svObjectBinaryOutputs s" y]
      by (simp add: wfServer_defs)
    moreover have "length (replaceBinaryOutput y (svObjectBinaryOutputs s)) = length (svObjectBinaryOutputs s)"
      using arg_cong [OF replaceBinaryOutput_keys, of length y "svObjectBinaryOutputs s"] by simp
    ultimately show ?thesis
      using assms(1) False by (auto simp: wfServer_defs putBinaryOutput_def)
  qed
qed

lemma writePriority_wf: "writePriority p n r v = Some q \<Longrightarrow> wfPriority p \<Longrightarrow> wfPriority q"
  by (auto simp: writePriority_def wfPriority_def Let_def split: if_splits)

lemma found_priorities:
  assumes "wfServer s"
  shows "findCommandableAnalogValue s n = Some ca \<Longrightarrow> wfPriority (coPriority ca)"
    and "findAnalogOutput s n = Some ao \<Longrightarrow> wfPriority (coPriority ao)"
    and "findBinaryOutput s n = Some bo \<Longrightarrow> wfPriority (coPriority bo)"
    and "findBinaryValue s n = Some bv \<Longrightarrow> wfPriority (bvPriority bv)"
  using assms
  by (auto simp: wfServer_defs findCommandableAnalogValue_def findAnalogOutput_def findBinaryOutput_def
      findBinaryValue_def binaryOutputsOf_def list_all_iff split: if_splits dest!: found_in)

text \<open>Which object a command changes, and how.\<close>

lemma commandPresentValue_cases:
  assumes "commandPresentValue s object v n r = Some (s', calls)"
  obtains
    (analogValue) x p where "objType object = ObjAnalogValue"
      "findCommandableAnalogValue s (objInstance object) = Some x"
      "writePriority (coPriority x) n r (vReal v) = Some p"
      "s' = putCommandableAnalogValue (x\<lparr>coApply := False, coPriority := p, coBusy := False\<rparr>) s"
  | (analogOutput) x p where "objType object = ObjAnalogOutput"
      "findAnalogOutput s (objInstance object) = Some x"
      "writePriority (coPriority x) n r (vReal v) = Some p"
      "s' = putAnalogOutput (x\<lparr>coPriority := p, coBusy := False\<rparr>) s"
  | (binaryOutput) x p where "objType object = ObjBinaryOutput"
      "findBinaryOutput s (objInstance object) = Some x"
      "writePriority (coPriority x) n r (vUnsigned v = 1) = Some p"
      "s' = putBinaryOutput (x\<lparr>coPriority := p, coBusy := False\<rparr>) s"
  | (binaryValue) x p where "objType object = ObjBinaryValue"
      "findBinaryValue s (objInstance object) = Some x"
      "writePriority (bvPriority x) n r (vUnsigned v = 1) = Some p"
      "s' = putBinaryValue (x\<lparr>bvPriority := p\<rparr>) s"
proof -
  consider "objType object = ObjAnalogValue" | "objType object = ObjAnalogOutput"
    | "objType object = ObjBinaryOutput" | "objType object = ObjBinaryValue"
    using assms by (fastforce simp: commandPresentValue_def target_def Let_def split: if_splits)
  then show thesis
  proof cases
    case 1
    with assms analogValue show thesis
      by (auto simp: commandPresentValue_def target_def Let_def applyAnalogPriorityValue_def applyPriority_Some
          split: option.splits)
  next
    case 2
    with assms analogOutput show thesis
      by (auto simp: commandPresentValue_def target_def Let_def applyAnalogPriorityValue_def applyPriority_Some
          split: option.splits)
  next
    case 3
    with assms binaryOutput show thesis
      by (auto simp: commandPresentValue_def target_def Let_def applyBinaryPriorityValue_def applyPriority_Some
          split: option.splits)
  next
    case 4
    with assms binaryValue show thesis
      by (auto simp: commandPresentValue_def target_def Let_def split: option.splits)
  qed
qed

lemma wf_commandPresentValue:
  assumes "wfServer s" "commandPresentValue s object v n r = Some (s', calls)"
  shows "wfServer s'"
  using assms(2)
proof (cases rule: commandPresentValue_cases)
  case (analogValue x p)
  then show ?thesis
    using found_priorities(1) [OF assms(1) analogValue(2)] writePriority_wf [OF analogValue(3)]
    by (auto intro: wf_putCommandableAnalogValue [OF assms(1) analogValue(2)])
next
  case (analogOutput x p)
  then show ?thesis
    using found_priorities(2) [OF assms(1) analogOutput(2)] writePriority_wf [OF analogOutput(3)]
    by (auto intro: wf_putAnalogOutput [OF assms(1) analogOutput(2)])
next
  case (binaryOutput x p)
  then show ?thesis
    using found_priorities(3) [OF assms(1) binaryOutput(2)] writePriority_wf [OF binaryOutput(3)]
    by (auto intro: wf_putBinaryOutput [OF assms(1) binaryOutput(2)])
next
  case (binaryValue x p)
  then show ?thesis
    using found_priorities(4) [OF assms(1) binaryValue(2)] writePriority_wf [OF binaryValue(3)]
    by (auto intro: wf_putBinaryValue [OF assms(1) binaryValue(2)])
qed

lemma wf_writeOutOfService:
  assumes "wfServer s"
  shows "wfServer (fst (writeOutOfService s object b))"
proof -
  note put = wf_putCommandableAnalogValue [OF assms] wf_putAnalogOutput [OF assms]
    wf_putBinaryOutput [OF assms] wf_putBinaryValue [OF assms]
  show ?thesis
    using assms
    by (auto simp: writeOutOfService_def target_def Let_def put found_priorities [OF assms] split: option.split)
qed

lemma wf_handleWriteProperty:
  assumes "wfServer s" "handleWriteProperty env s source request = Ok (r, s', ev)"
  shows "wfServer s'"
proof -
  have "wfServer (fst (snd (decideWrite s request)))"
    using assms(1) wf_commandPresentValue [OF assms(1)] wf_writeOutOfService [OF assms(1)]
    by (auto simp: decideWrite_def Let_def split: option.splits)
  then show ?thesis
    using assms(2) by (auto simp: handleWriteProperty_def Let_def split: prod.splits if_splits)
qed

section \<open>Poll, begin and end\<close>

lemma wf_completeConfirmed:
  "wfServer s \<Longrightarrow> \<forall>i \<in> set is. i < kMaxCovSubscriptions \<Longrightarrow>
     completeConfirmed env packet source is s = Ok (Some s') \<Longrightarrow> wfServer s'"
  by (induction "is") (auto simp: Let_def wf_reactivate split: if_splits)

lemma wf_poll:
  assumes "wfServer s" "poll env received s = Ok (r, s', ev)"
  shows "wfServer s'"
  using assms wf_processCov [OF assms(1)] wf_completeConfirmed [OF assms(1), of "[0..<kMaxCovSubscriptions]" env]
    wf_handleWriteProperty [OF assms(1)] wf_handleSubscribeCov [OF assms(1)]
  by (auto simp: poll_def handleDatagram_def dispatchConfirmed_def pure_def split: if_splits option.splits outcome.splits)

lemma wf_resetSubscriptions: "wfServer s \<Longrightarrow> wfServer (resetSubscriptions s)"
  using wfSlot_clear(1)
  by (auto simp: resetSubscriptions_def wfServer_defs wfTable_def uniqueKeys_def list_all_iff)

lemma wf_beginServer: "wfServer s \<Longrightarrow> wfServer (snd (beginServer bindOk d port s))"
  using wf_resetSubscriptions [of "s\<lparr>svDevice := d, svPort := port\<rparr>"]
  by (auto simp: beginServer_def not_less) (auto simp: wfServer_defs)

lemma wf_endServer: "wfServer s \<Longrightarrow> wfServer (endServer s)"
  using wf_resetSubscriptions [of "s\<lparr>svRunning := False\<rparr>"] by (simp add: endServer_def wfServer_defs)

section \<open>The state machine\<close>

text \<open>
  Between two calls the application, which owns the objects, may change what it likes in them
  except their identity.
\<close>

definition sameIdentities :: "('a \<Rightarrow> u32) \<Rightarrow> ('a \<Rightarrow> cstring) \<Rightarrow> 'a list \<Rightarrow> 'a list \<Rightarrow> bool" where
  "sameIdentities key name xs ys \<longleftrightarrow> map (\<lambda>x. (key x, name x)) xs = map (\<lambda>x. (key x, name x)) ys"

definition ownerMayChange :: "BacnetServer \<Rightarrow> BacnetServer \<Rightarrow> bool" where
  "ownerMayChange s s' \<longleftrightarrow> wfPriorities s' \<and>
     sameIdentities avInstance avObjectName (svAnalogValues s) (svAnalogValues s') \<and>
     sameIdentities caInstance caObjectName (svCommandableAnalogValues s) (svCommandableAnalogValues s') \<and>
     sameIdentities caInstance caObjectName (svAnalogOutputs s) (svAnalogOutputs s') \<and>
     sameIdentities aiInstance aiObjectName (svAnalogInputs s) (svAnalogInputs s') \<and>
     sameIdentities aiInstance aiObjectName (svObjectAnalogInputs s) (svObjectAnalogInputs s') \<and>
     sameIdentities biInstance biObjectName (svBinaryInputs s) (svBinaryInputs s') \<and>
     sameIdentities biInstance biObjectName (svObjectBinaryInputs s) (svObjectBinaryInputs s') \<and>
     sameIdentities boInstance boObjectName (svBinaryOutputs s) (svBinaryOutputs s') \<and>
     sameIdentities boInstance boObjectName (svObjectBinaryOutputs s) (svObjectBinaryOutputs s') \<and>
     sameIdentities bvInstance bvObjectName (svBinaryValues s) (svBinaryValues s') \<and>
     sameIdentities msInstance msObjectName (svMultiStateValues s) (svMultiStateValues s') \<and>
     svRegistrations s' = svRegistrations s \<and> svDevice s' = svDevice s \<and> svCov s' = svCov s \<and>
     svNextCovInvokeId s' = svNextCovInvokeId s \<and> svRunning s' = svRunning s \<and>
     svTransport s' = svTransport s \<and> svClock s' = svClock s"

lemma sameIdentitiesD:
  assumes "sameIdentities key name xs ys"
  shows "wfClass key name xs = wfClass key name ys \<and> key ` set ys = key ` set xs \<and>
    (ys = [] \<longleftrightarrow> xs = []) \<and> length ys = length xs"
proof -
  note eq = assms [unfolded sameIdentities_def]
  have keys: "map key xs = map key ys"
    using arg_cong [OF eq, of "map fst"] by (simp add: comp_def)
  have valid: "list_all (\<lambda>x. validObjectConfiguration (key x) (name x)) xs =
      list_all (\<lambda>x. validObjectConfiguration (key x) (name x)) ys"
    using arg_cong [OF eq, of "list_all (\<lambda>(n, t). validObjectConfiguration n t)"] by (simp add: list.pred_map comp_def)
  have "length ys = length xs" using arg_cong [OF keys, of length] by simp
  then show ?thesis by (auto simp: wfClass_def valid keys key_set [OF keys])
qed

lemma wf_ownerMayChange: "wfServer s \<Longrightarrow> ownerMayChange s s' \<Longrightarrow> wfServer s'"
  unfolding ownerMayChange_def wfServer_def wfObjects_def wfModes_def wfRegistrations_def
  by (elim conjE, drule sameIdentitiesD, drule sameIdentitiesD, drule sameIdentitiesD, drule sameIdentitiesD,
      drule sameIdentitiesD, drule sameIdentitiesD, drule sameIdentitiesD, drule sameIdentitiesD,
      drule sameIdentitiesD, drule sameIdentitiesD, drule sameIdentitiesD) simp

text \<open>
  One call of the application into the server, or a change of its own objects. The arrays it
  passes hold priority arrays of sixteen slots, as their C++ type makes sure.
\<close>

inductive serverStep :: "BacnetServer \<Rightarrow> BacnetServer \<Rightarrow> bool" where
  analog_values_set: "serverStep s (snd (setAnalogValues avs count s))"
| "(\<And>xs. cavs = Some xs \<Longrightarrow> list_all (\<lambda>x. wfPriority (coPriority x)) xs) \<Longrightarrow>
     serverStep s (snd (setCommandableAnalogValues cavs count s))"
| "(\<And>xs. aos = Some xs \<Longrightarrow> list_all (\<lambda>x. wfPriority (coPriority x)) xs) \<Longrightarrow>
     serverStep s (snd (setAnalogOutputs aos count s))"
| "serverStep s (snd (setAnalogInputs ais count s))"
| "serverStep s (snd (setBinaryInputs bis count s))"
| "(\<And>xs. bos = Some xs \<Longrightarrow> list_all (\<lambda>x. wfPriority (coPriority x)) xs) \<Longrightarrow>
     serverStep s (snd (setBinaryOutputs bos count s))"
| values_set: "(\<And>xs. bvs = Some xs \<Longrightarrow> list_all (\<lambda>x. wfPriority (bvPriority x)) xs) \<Longrightarrow>
     serverStep s (snd (setBinaryValues bvs count s))"
| "serverStep s (snd (setMultiStateValues msvs count s))"
| "serverStep s (snd (addAnalogInput ai s))"
| "serverStep s (snd (addBinaryInput bi s))"
| output_added: "wfPriority (coPriority bo) \<Longrightarrow> serverStep s (snd (addBinaryOutput bo s))"
| "serverStep s (snd (setPropertyRegistrations regs count s))"
| "serverStep s (snd (setTransport s))"
| "serverStep s (snd (setLocalWritePriority p s))"
| clock_set: "serverStep s (setClock b s)"
| "serverStep s (setActivityListener b s)"
| "serverStep s (setCovDiagnosticListener b s)"
| begun: "serverStep s (snd (beginServer bindOk d port s))"
| ended: "serverStep s (endServer s)"
| polled: "poll env received s = Ok (result, s', ev) \<Longrightarrow> serverStep s s'"
| "ownerMayChange s s' \<Longrightarrow> serverStep s s'"

inductive reachable :: "BacnetServer \<Rightarrow> bool" where
  reachable_new: "reachable (newServer tr)"
| reachable_step: "reachable s \<Longrightarrow> serverStep s s' \<Longrightarrow> reachable s'"

lemmas wf_operations = wf_setAnalogValues wf_setCommandableAnalogValues wf_setAnalogOutputs
  wf_setAnalogInputs wf_setBinaryInputs wf_setBinaryOutputs wf_setBinaryValues wf_setMultiStateValues
  wf_addAnalogInput wf_addBinaryInput wf_addBinaryOutput wf_setPropertyRegistrations wf_settings
  wf_beginServer wf_endServer

lemma wf_step: "serverStep s s' \<Longrightarrow> wfServer s \<Longrightarrow> wfServer s'"
  by (induction rule: serverStep.induct)
    (blast intro: wf_operations wf_poll wf_ownerMayChange)+

lemma wf_reachable: "reachable s \<Longrightarrow> wfServer s"
  by (induction rule: reachable.induct) (auto intro: wf_newServer wf_step)

lemma distinct_ids_wf: "wfServer s \<Longrightarrow> distinct (objectIds s)"
  by (auto simp: wfServer_defs wfClass_def distinct_objectIds analogInputsOf_def binaryInputsOf_def
      binaryOutputsOf_def comp_def BacnetServerAnalogInput.defs BacnetServerBinaryInput.defs)

end
