(* ===== verification/ServerSafety.thy ===== *)
theory ServerSafety
  imports ServerInvariant
begin

text \<open>
  Runs of the server: the invariant holds in every reachable state, no poll leaves its buffers
  there, and a poll sends at most one datagram and reports it truthfully.
\<close>

section \<open>Reads are defined\<close>

lemma safe_registration: "validRegistration r \<Longrightarrow> safe (callProvider env r)"
  by (auto simp: validRegistration_def callProvider_def)

lemma safe_readRegistered:
  "wfServer s \<Longrightarrow> safe base \<Longrightarrow> safe (readRegistered env s object p base)"
  using safe_registration
  by (auto simp: readRegistered_def findPropertyRegistration_def wfServer_defs list_all_iff find_Some_iff split: option.split)

lemma safe_readOptional: "safe base \<Longrightarrow> safe (readOptional env s object p base)"
  by (auto simp: readOptional_def split: option.split)

lemma safe_readCommon:
  "validObjectConfiguration n name \<Longrightarrow> safe own \<Longrightarrow> safe (readCommon object name out p own)"
  by (auto simp: readCommon_def copyName_def validObjectConfiguration_def split: option.splits)

lemma safe_setText [simp]: "safe (setText t)"
  by (auto simp: setText_def split: option.split)

lemma safe_readDeviceProperty: "wfServer s \<Longrightarrow> safe (readDeviceProperty env s p)"
  unfolding readDeviceProperty_def Let_def by (rule safe_readRegistered) simp_all

lemma found_names:
  assumes "wfServer s"
  shows "findAnalogValue s n = Some av \<Longrightarrow> validObjectConfiguration (avInstance av) (avObjectName av)"
    and "findCommandableAnalogValue s n = Some ca \<Longrightarrow> validObjectConfiguration (caInstance ca) (caObjectName ca)"
    and "findAnalogOutput s n = Some ao \<Longrightarrow> validObjectConfiguration (caInstance ao) (caObjectName ao)"
    and "findAnalogInput s n = Some ai \<Longrightarrow> validObjectConfiguration (aiInstance ai) (aiObjectName ai)"
    and "findBinaryInput s n = Some bi \<Longrightarrow> validObjectConfiguration (biInstance bi) (biObjectName bi)"
    and "findBinaryOutput s n = Some bo \<Longrightarrow> validObjectConfiguration (boInstance bo) (boObjectName bo)"
    and "findBinaryValue s n = Some bv \<Longrightarrow> validObjectConfiguration (bvInstance bv) (bvObjectName bv)"
    and "findMultiStateValue s n = Some ms \<Longrightarrow> validObjectConfiguration (msInstance ms) (msObjectName ms)"
  using assms
  by (auto simp: wfServer_defs wfClass_def findAnalogValue_def findCommandableAnalogValue_def findAnalogOutput_def
      findAnalogInput_def findBinaryInput_def findBinaryOutput_def findBinaryValue_def findMultiStateValue_def
      analogInputsOf_def binaryInputsOf_def binaryOutputsOf_def list_all_iff
      BacnetServerAnalogInput.defs BacnetServerBinaryInput.defs
      split: if_splits dest!: found_in)

lemma safe_analogInputPresentValue [simp]: "safe (analogInputPresentValue env x)"
  by (auto simp: analogInputPresentValue_def Let_def split: prod.split)

lemmas safe_object_read = safe_readRegistered safe_readOptional safe_readCommon

lemma safe_readProperties:
  assumes "wfServer s"
  shows "validObjectConfiguration n (avObjectName av) \<Longrightarrow> safe (readAnalogValueProperty env s av p)"
    and "validObjectConfiguration n (caObjectName ca) \<Longrightarrow> safe (readCommandableAnalogValueProperty env s ca p)"
    and "validObjectConfiguration n (caObjectName ao) \<Longrightarrow> safe (readAnalogOutputProperty env s ao p)"
    and "validObjectConfiguration n (aiObjectName ai) \<Longrightarrow> safe (readAnalogInputProperty env s ai p)"
    and "validObjectConfiguration n (biObjectName bi) \<Longrightarrow> safe (readBinaryInputProperty env s bi p)"
    and "validObjectConfiguration n (boObjectName bo) \<Longrightarrow> safe (readBinaryOutputProperty env s bo p)"
    and "validObjectConfiguration n (bvObjectName bv) \<Longrightarrow> safe (readBinaryValueProperty env s bv p)"
    and "validObjectConfiguration n (msObjectName ms) \<Longrightarrow> safe (readMultiStateValueProperty env s ms p)"
  unfolding readAnalogValueProperty_def readCommandableAnalogValueProperty_def readAnalogOutputProperty_def
    readAnalogInputProperty_def readBinaryInputProperty_def readBinaryOutputProperty_def readBinaryValueProperty_def
    readMultiStateValueProperty_def readCommandable_def Let_def
  by (auto intro!: safe_readOptional safe_readRegistered [OF assms] safe_readCommon)

lemmas safe_found = safe_readProperties(1) [OF _ found_names(1)] safe_readProperties(2) [OF _ found_names(2)]
  safe_readProperties(3) [OF _ found_names(3)] safe_readProperties(4) [OF _ found_names(4)]
  safe_readProperties(5) [OF _ found_names(5)] safe_readProperties(6) [OF _ found_names(6)]
  safe_readProperties(7) [OF _ found_names(7)] safe_readProperties(8) [OF _ found_names(8)]

lemma safe_readIf: "(\<And>o'. x = Some o' \<Longrightarrow> safe (f o')) \<Longrightarrow> safe (readIf x f v)"
  by (auto simp: readIf_def split: option.split)

lemma safe_readTarget: "wfServer s \<Longrightarrow> safe (readTarget env s (target s object) p)"
  unfolding readTarget_def target_def Let_def Target.simps
  by (intro safe_obind safe_readIf) (simp_all split: if_splits add: safe_found)

lemma safe_decideRead: "wfServer s \<Longrightarrow> safe (decideRead env s r)"
  unfolding decideRead_def decideDeviceRead_def Let_def
  by (auto simp: safe_readTarget safe_readDeviceProperty intro!: safe_obind split: option.split)

section \<open>Handlers are defined\<close>

lemma safe_respond: "safe response \<Longrightarrow> safe (respond env destination response result)"
  by (cases response) (auto simp: respond_def safe_def)

lemma datagram_room: "24 \<le> kMaxDatagramSize"
  by (simp add: kMaxDatagramSize_def)

lemma safe_readAck: "safe (readAck s request v)"
  unfolding readAck_def Let_def
  by (auto simp: safe_list_acks [OF datagram_room] safe_buildReadPropertyAck [OF datagram_room] split: option.split)

lemma safe_handleReadProperty: "wfServer s \<Longrightarrow> safe (handleReadProperty env s source request)"
  unfolding handleReadProperty_def
  by (auto simp: safety safe_readAck intro!: safe_obind safe_respond safe_decideRead split: prod.split)

lemma safe_handleWriteProperty: "safe (handleWriteProperty env s source request)"
  unfolding handleWriteProperty_def Let_def
  by (auto simp: safety intro!: safe_obind safe_respond split: prod.split)

lemma safe_readCovValue: "wfServer s \<Longrightarrow> safe (readCovValue env s object p idx)"
  unfolding readCovValue_def readFound_def Let_def by (auto simp: safe_found split: option.split)

lemma safe_readCovValues: "wfServer s \<Longrightarrow> safe (readCovValues env s object ps)"
  by (induction ps) (auto intro!: safe_obind safe_readCovValue)

lemma safe_checkSubscription: "wfServer s \<Longrightarrow> safe (checkSubscription env s request)"
  unfolding checkSubscription_def by (auto intro!: safe_obind safe_readCovValue)

lemma safe_handleSubscribeCov: "wfServer s \<Longrightarrow> safe (handleSubscribeCov env s source request)"
  unfolding handleSubscribeCov_def Let_def
  by (auto simp: safety intro!: safe_obind safe_respond safe_checkSubscription split: option.split)

lemma safe_sendCovNotification:
  "length vs \<le> kCovObjectPropertyCount \<Longrightarrow> safe (sendCovNotification env s index vs now)"
  using safe_buildCovNotification [of vs kMaxDatagramSize]
  unfolding sendCovNotification_def Let_def
  by (auto simp: kCovObjectPropertyCount_def kMaxDatagramSize_def safe_def split: outcome.split)

lemma length_observed: "length (observedProperties sub) \<le> kCovObjectPropertyCount"
  by (simp add: observedProperties_def kObjectCovProperties_def kCovObjectPropertyCount_def)

lemma length_readCovValues: "readCovValues env s object ps = Ok vs \<Longrightarrow> length vs = length ps"
  by (induction ps arbitrary: vs) auto

lemma safe_sendResult: "safe m \<Longrightarrow> safe (sendResult m)"
  unfolding sendResult_def by (auto intro!: safe_obind)

lemma safe_processSlot:
  assumes "wfServer s"
  shows "safe (processSlot env now index s)"
proof -
  let ?sl = "slot s index"
  have retry: "length (retryValues ?sl) \<le> kCovObjectPropertyCount"
    using length_observed [of "slSubscription ?sl"] by (simp add: retryValues_def)
  have "length vs \<le> kCovObjectPropertyCount" if "collectCovValues env s (slSubscription ?sl) = Ok vs" for vs
    using length_readCovValues [of env s _ _ vs] that length_observed [of "slSubscription ?sl"]
    by (auto simp: collectCovValues_def)
  then have send: "safe (sendResult (sendCovNotification env s' index vs now))"
    if "collectCovValues env s (slSubscription ?sl) = Ok vs" for s' vs
    using that by (intro safe_sendResult safe_sendCovNotification)
  have "collectCovValues env s (slSubscription ?sl) \<noteq> Undef"
    using safe_readCovValues [OF assms] by (auto simp: collectCovValues_def safe_def)
  then show ?thesis
    unfolding processSlot_def Let_def
    using safe_sendResult [OF safe_sendCovNotification [OF retry]] send
    by (auto split: outcome.split intro!: safe_obind)
qed

lemma safe_processSlots:
  "wfServer s \<Longrightarrow> \<forall>i \<in> set is. i < kMaxCovSubscriptions \<Longrightarrow> safe (processSlots env now is s)"
proof (induction "is" arbitrary: s)
  case (Cons i "is")
  show ?case
    unfolding processSlots.simps
    using Cons safe_processSlot [OF Cons.prems(1)] wf_processSlot [OF Cons.prems(1), of i]
    by (auto intro!: safe_obind split: option.split)
qed simp

lemma safe_completeConfirmed: "safe (completeConfirmed env packet source is s)"
  by (induction "is") (auto simp: Let_def safety intro!: safe_obind)

lemma safe_poll:
  assumes "wfServer s" "\<And>off source packet. received = Some (source, packet) \<Longrightarrow> \<not> unconvertibleReal packet off"
  shows "safe (poll env received s)"
proof -
  have cov: "safe (processCovSubscriptions env s)"
    unfolding processCovSubscriptions_def by (rule safe_processSlots [OF assms(1)]) simp
  have pure: "safe (pure s' ev m)" if "safe m" for s' ev m
    unfolding pure_def using that by (auto intro!: safe_obind)
  have iam: "safe (sendIAm env s d)" "safe (sendReject env d i)" for d i
    unfolding sendIAm_def sendReject_def by (auto intro!: safe_respond simp: safety)
  have "safe (handleDatagram env s packet source)" if "\<And>off. \<not> unconvertibleReal packet off" for packet source
  proof -
    have "safe (parseWhoIsRequest packet)" by (simp add: safety)
    then have "parseWhoIsRequest packet \<noteq> Undef" by (simp add: safe_def)
    moreover have "safe (dispatchConfirmed env s packet source i)" for i
      unfolding dispatchConfirmed_def
      using safe_parseWritePropertyRequest [OF that]
      by (auto simp: safety iam intro!: safe_obind pure safe_handleReadProperty [OF assms(1)] safe_handleWriteProperty
          safe_handleSubscribeCov [OF assms(1)])
    moreover have "safe (parseConfirmedRequestHeader packet)" by (simp add: safety)
    ultimately show ?thesis
      unfolding handleDatagram_def
      by (auto simp: iam intro!: safe_obind pure split: outcome.split)
  qed
  then show ?thesis
    unfolding poll_def using cov assms(2)
    by (auto intro!: safe_obind safe_completeConfirmed split: option.split)
qed

end
