(* ===== verification/ServerRuns.thy ===== *)
theory ServerRuns
  imports ServerSafety
begin

text \<open>
  Runs of the server: the claims about every reachable state, and about what one poll sends and
  reports.
\<close>

section \<open>A running server\<close>

text \<open>A server on a transport that has begun as device 7, for the examples.\<close>

definition demoServer :: BacnetServer where
  "demoServer = snd (beginServer True (defaultDevice 7) 47808 (newServer True))"

lemma demoServer_reachable: "reachable demoServer"
  unfolding demoServer_def by (rule reachable_step [OF reachable_new begun])

lemma demoServer_state:
  "svRunning demoServer" "svTransport demoServer" "svCov demoServer = replicate kMaxCovSubscriptions emptySlot"
  "svRegistrations demoServer = []" "svDevice demoServer = defaultDevice 7" "svActivityListener demoServer = False"
  "svCovListener demoServer = False" "svClock demoServer = False"
  by (simp_all add: demoServer_def beginServer_def newServer_def defaultDevice_def kObjectInstanceMask_def
      resetSubscriptions_def clearSubscription_def clearSnapshots_def emptySlot_def emptySnapshot_def map_replicate)

text \<open>An application whose variables and providers read as zero, on a transport that always or never sends.\<close>

definition demoEnv :: "bool \<Rightarrow> Env" where
  "demoEnv sends = \<lparr>floatAt = \<lambda>a. 0, boolAt = \<lambda>a. False, enumeratedAt = \<lambda>a. 0, statusFlagsAt = \<lambda>a. (0, 4),
     floatProvider = \<lambda>h. 0, boolProvider = \<lambda>h. False, propertyProvider = \<lambda>h. None, clockMs = 0,
     sendOk = \<lambda>d b. sends\<rparr>"

lemma completeConfirmed_inactive:
  "(\<And>i. i \<in> set is \<Longrightarrow> csState (slSubscription (slot s i)) \<noteq> CovAwaitingConfirmedAck) \<Longrightarrow>
     completeConfirmed env packet source is s = Ok None"
  by (induction "is") auto

lemma demoServer_completes: "completeConfirmed env packet source [0..<kMaxCovSubscriptions] demoServer = Ok None"
  by (rule completeConfirmed_inactive)
    (auto simp: slot_def demoServer_state emptySlot_def emptySubscription_def)

section \<open>Every reachable state\<close>

lemma wfClass_small: "wfClass key name xs \<Longrightarrow> \<forall>x \<in> set xs. key x \<le> kObjectInstanceMask"
  by (auto simp: wfClass_def list_all_iff validObjectConfiguration_def)

lemma small_ids_wf: "wfServer s \<Longrightarrow> \<forall>ob \<in> set (objectIds s). objInstance ob \<le> kObjectInstanceMask"
  unfolding wfServer_def wfObjects_def
  by (elim conjE, (drule wfClass_small)+)
    (auto simp: objectIds_def deviceObject_def analogInputsOf_def binaryInputsOf_def binaryOutputsOf_def
        BacnetServerAnalogInput.defs BacnetServerBinaryInput.defs)



text \<open>
  C9: The subscription table of every reachable state has eight slots, no two of which hold a
  subscription of the same peer, process, object and property; only confirmed subscriptions
  await an acknowledgement, every subscription has a lifetime, and the next invoke id of a
  confirmed notification is never zero.
\<close>

theorem reachable_subscriptions:
  assumes "reachable s"
  shows "length (svCov s) = kMaxCovSubscriptions \<and> uniqueKeys (svCov s) \<and> svNextCovInvokeId s \<noteq> 0 \<and>
    list_all wfSlot (svCov s)"
  using wf_reachable [OF assms] by (simp add: wfServer_def wfTable_def)

theorem reachable_subscriptions_witness:
  "length (svCov (endServer demoServer)) = 8 \<and> uniqueKeys (svCov (endServer demoServer))"
proof -
  have "reachable (endServer demoServer)" by (rule reachable_step [OF demoServer_reachable ended])
  from reachable_subscriptions [OF this] show ?thesis by (simp add: kMaxCovSubscriptions_def)
qed

text \<open>
  C1: Memory safety of the server: in a reachable state a poll has a defined result, whatever
  datagram arrives, whatever its providers return and whether or not sending works, unless the
  datagram carries a Real whose text conversion is undefined.
\<close>

theorem poll_is_defined:
  assumes "reachable s" and "poll env received s = Undef"
  shows "\<exists>source packet off. received = Some (source, packet) \<and> unconvertibleReal packet off"
proof (rule ccontr)
  assume "\<not> ?thesis"
  then have "safe (poll env received s)" by (intro safe_poll wf_reachable [OF assms(1)]) blast
  with assms(2) show False by simp
qed

text \<open>A WriteProperty request whose Real is a NaN takes any running server there.\<close>

lemma nan_request:
  defines "packet \<equiv> [129, 10, 0, 24, 1, 4, 0, 5, 9, 15, 12, 0, 128, 0, 7, 25, 85, 0x3E, 0x44, 0x7F, 0xC0, 0, 0, 0x3F] :: bytes"
  shows "parseWhoIsRequest packet = Fail" "map_option fst (case parseConfirmedRequestHeader packet of Ok x \<Rightarrow> Some x | _ \<Rightarrow> None) = Some Confirmed"
    "map_option fst (case parseReadPropertyRequest packet of Ok x \<Rightarrow> Some x | _ \<Rightarrow> None) = Some RrUnrelated"
    "parseWritePropertyRequest packet = Undef"
  unfolding packet_def by code_simp+

theorem poll_is_defined_witness:
  "\<exists>source packet off. Some (emptyEndpoint,
     [129, 10, 0, 24, 1, 4, 0, 5, 9, 15, 12, 0, 128, 0, 7, 25, 85, 0x3E, 0x44, 0x7F, 0xC0, 0, 0, 0x3F]) =
     Some (source :: BacnetIpEndpoint, packet) \<and> unconvertibleReal packet off"
proof (rule poll_is_defined [OF demoServer_reachable])
  fix env
  show "poll env (Some (emptyEndpoint,
     [129, 10, 0, 24, 1, 4, 0, 5, 9, 15, 12, 0, 128, 0, 7, 25, 85, 0x3E, 0x44, 0x7F, 0xC0, 0, 0, 0x3F])) demoServer = Undef"
    using nan_request
    by (simp add: poll_def demoServer_state demoServer_completes handleDatagram_def dispatchConfirmed_def
        kMaxDatagramSize_def split: outcome.splits prod.splits)
qed

section \<open>What a poll sends\<close>

definition isDatagram :: "ServerEvent \<Rightarrow> bool" where
  "isDatagram ev \<longleftrightarrow> (case ev of Datagram d b \<Rightarrow> True | _ \<Rightarrow> False)"

text \<open>The results that say a datagram was sent.\<close>

definition reportsSent :: "BacnetServerPollResult \<Rightarrow> bool" where
  "reportsSent r \<longleftrightarrow> r \<notin> {NotRunning, NoDatagram, Ignored, Malformed, SendFailed}"

definition truthful :: "Env \<Rightarrow> BacnetServerPollResult \<Rightarrow> ServerEvent list \<Rightarrow> bool" where
  "truthful env r ev \<longleftrightarrow> length (filter isDatagram ev) \<le> 1 \<and>
     (reportsSent r \<longleftrightarrow> (\<exists>d b. Datagram d b \<in> set ev \<and> sendOk env d b))"

lemma isDatagram_simps [simp]:
  "isDatagram (Datagram d b)" "\<not> isDatagram (Activity a)" "\<not> isDatagram (CovDiagnostic e sub)"
  "\<not> isDatagram (AnalogCall c1)" "\<not> isDatagram (BinaryCall c2)"
  by (simp_all add: isDatagram_def)

lemma silent_simps [simp]:
  "filter isDatagram (map AnalogCall cs) = []" "filter isDatagram (map BinaryCall ds) = []"
  "filter isDatagram (covDiagnostic s e sub) = []" "filter isDatagram (activityEvents s a) = []"
  by (auto simp: filter_empty_conv covDiagnostic_def activityEvents_def)

lemma silent_events:
  "filter isDatagram ev = [] \<Longrightarrow> Datagram d b \<notin> set ev"
  by (auto simp: filter_empty_conv)

text \<open>Events before and after that send nothing do not matter.\<close>

lemma truthful_append:
  "filter isDatagram before = [] \<Longrightarrow> truthful env r (before @ ev) = truthful env r ev"
  "filter isDatagram before = [] \<Longrightarrow> truthful env r (ev @ before) = truthful env r ev"
  by (auto simp: truthful_def dest: silent_events)

lemma truthful_silent: "filter isDatagram ev = [] \<Longrightarrow> truthful env r ev \<longleftrightarrow> \<not> reportsSent r"
  by (auto simp: truthful_def dest: silent_events)

lemma truthful_single:
  "filter isDatagram ev = [] \<Longrightarrow> truthful env r (Datagram d b # ev) \<longleftrightarrow> (reportsSent r \<longleftrightarrow> sendOk env d b)"
  by (auto simp: truthful_def dest: silent_events)

lemma reports_simps [simp]:
  "reportsSent IAmSent" "reportsSent RejectSent" "reportsSent ReadPropertyAckSent" "reportsSent ReadPropertyErrorSent"
  "reportsSent WritePropertyAckSent" "reportsSent WritePropertyErrorSent" "reportsSent SubscribeCovAckSent"
  "reportsSent SubscribeCovErrorSent" "reportsSent CovNotificationSent" "\<not> reportsSent SendFailed"
  "\<not> reportsSent NotRunning" "\<not> reportsSent NoDatagram" "\<not> reportsSent Ignored" "\<not> reportsSent Malformed"
  by (simp_all add: reportsSent_def)

lemma truthful_respond:
  "respond env d response result = Ok (r, ev) \<Longrightarrow> reportsSent result \<Longrightarrow> truthful env r ev"
  by (auto simp: respond_def truthful_def reportsSent_def split: outcome.splits if_splits)

lemmas truthful_responses = truthful_respond [OF _ reports_simps(1)] truthful_respond [OF _ reports_simps(2)]
  truthful_respond [OF _ reports_simps(3)] truthful_respond [OF _ reports_simps(4)]
  truthful_respond [OF _ reports_simps(5)] truthful_respond [OF _ reports_simps(6)]
  truthful_respond [OF _ reports_simps(7)] truthful_respond [OF _ reports_simps(8)]

lemma commandPresentValue_silent:
  "commandPresentValue s object v n r = Some (s', calls) \<Longrightarrow> filter isDatagram calls = []"
  unfolding commandPresentValue_def Let_def by (auto split: option.splits)

lemma writeOutOfService_silent: "filter isDatagram (snd (writeOutOfService s object b)) = []"
  unfolding writeOutOfService_def Let_def by (auto split: option.splits)

lemma decideWrite_silent: "filter isDatagram (snd (snd (decideWrite s request))) = []"
  using commandPresentValue_silent [of s] writeOutOfService_silent [of s]
  unfolding decideWrite_def Let_def by (auto split: option.split)

lemma truthful_handlers:
  "handleReadProperty env s source rr = Ok (r, ev) \<Longrightarrow> truthful env r ev"
  "handleWriteProperty env s source wr = Ok (r, s', ev) \<Longrightarrow> truthful env r ev"
  "handleSubscribeCov env s source sr = Ok (r, s', ev) \<Longrightarrow> truthful env r ev"
proof -
  show "handleReadProperty env s source rr = Ok (r, ev) \<Longrightarrow> truthful env r ev"
    by (auto simp: handleReadProperty_def split: if_splits dest: truthful_responses)
  show "handleWriteProperty env s source wr = Ok (r, s', ev) \<Longrightarrow> truthful env r ev"
    using decideWrite_silent [of s wr]
    by (auto simp: handleWriteProperty_def Let_def truthful_append split: if_splits prod.splits
        dest: truthful_responses)
  have "filter isDatagram ev' = []" if "updateTable env s source sr = Some (s'', ev')" for s'' ev'
    using that by (auto simp: updateTable_def Let_def split: if_splits option.splits)
  then show "handleSubscribeCov env s source sr = Ok (r, s', ev) \<Longrightarrow> truthful env r ev"
    by (auto simp: handleSubscribeCov_def Let_def truthful_append split: if_splits option.splits
        dest!: truthful_responses)
qed

lemma truthful_send:
  "sendCovNotification env s index vs now = Ok (sent, s', ev) \<Longrightarrow>
     truthful env (if sent then CovNotificationSent else SendFailed) ev"
  by (auto simp: sendCovNotification_def Let_def truthful_silent truthful_single split: outcome.splits if_splits)

lemma processSlot_result:
  "processSlot env now index s = Ok (Some r, s', ev) \<Longrightarrow> truthful env r ev"
  "processSlot env now index s = Ok (None, s', ev) \<Longrightarrow> ev = []"
  by (auto simp: processSlot_def sendResult_def Let_def truthful_append split: if_splits outcome.splits
      dest: truthful_send)

lemma truthful_processSlots: "processSlots env now is s = Ok (r, s', ev) \<Longrightarrow> truthful env r ev"
proof (induction "is" arbitrary: s)
  case Nil
  then show ?case by (auto simp: truthful_silent)
next
  case (Cons i "is")
  then show ?case by (auto split: option.splits dest: processSlot_result)
qed

lemma truthful_pure:
  assumes "pure s before m = Ok (r, s', ev)" "filter isDatagram before = []"
    and "\<And>r ev. m = Ok (r, ev) \<Longrightarrow> truthful env r ev"
  shows "truthful env r ev"
  using assms by (auto simp: pure_def truthful_append)

lemma truthful_dispatch:
  assumes "dispatchConfirmed env s packet source i = Ok (r, s', ev)"
  shows "truthful env r ev"
proof -
  have reject: "truthful env r ev" if "sendReject env source i = Ok (r, ev)" for r ev
    using that by (auto simp: sendReject_def dest: truthful_responses)
  have silent: "truthful env Malformed []" by (simp add: truthful_silent)
  show ?thesis
    using assms silent
    by (auto simp: dispatchConfirmed_def truthful_append split: if_splits
        elim!: truthful_pure [where env = env] intro: truthful_handlers reject)
qed

lemma truthful_datagram:
  assumes "handleDatagram env s packet source = Ok (r, s', ev)"
  shows "truthful env r ev"
proof -
  have iam: "truthful env r ev" if "sendIAm env s source = Ok (r, ev)" for r ev
    using that by (auto simp: sendIAm_def dest: truthful_responses)
  have silent: "truthful env Malformed []" "truthful env Ignored []" by (simp_all add: truthful_silent)
  show ?thesis
    using assms silent
    by (auto simp: handleDatagram_def split: if_splits outcome.splits
        elim!: truthful_pure [where env = env] intro: truthful_dispatch iam)
qed

text \<open>
  C10: A poll sends at most one datagram, and its result is honest: it reports an answer, a
  rejection or a notification as sent exactly when the transport accepted that datagram.
\<close>

theorem poll_reports_truthfully:
  assumes "poll env received s = Ok (r, s', ev)"
  shows "length (filter isDatagram ev) \<le> 1 \<and>
    (reportsSent r \<longleftrightarrow> (\<exists>d b. Datagram d b \<in> set ev \<and> sendOk env d b))"
proof -
  have silent: "truthful env NotRunning []" "truthful env Malformed []" "truthful env Ignored []"
    by (simp_all add: truthful_silent)
  have "truthful env r ev"
    using assms silent
    by (auto simp: poll_def processCovSubscriptions_def split: if_splits option.splits
        dest: truthful_processSlots truthful_datagram)
  then show ?thesis by (simp add: truthful_def)
qed

text \<open>A Who-Is request without a range is answered with I-Am.\<close>

lemma whoIs_evaluated:
  "parseWhoIsRequest [129, 10, 0, 8, 1, 0, 16, 8] = Ok \<lparr>wiHasRange = False, wiLow = 0, wiHigh = 0\<rparr>"
  "buildIAmResponse 26 \<lparr>iaDeviceInstance = 7, iaMaxApdu = 1476, iaSegmentation = 3, iaVendorId = 0\<rparr> =
     Ok [129, 10, 0, 20, 1, 0, 16, 0, 196, 2, 0, 0, 7, 34, 5, 196, 145, 3, 33, 0]"
  by code_simp+

theorem poll_reports_truthfully_witness:
  "\<exists>r s' ev. poll (demoEnv True) (Some (emptyEndpoint, [129, 10, 0, 8, 1, 0, 16, 8])) demoServer = Ok (r, s', ev) \<and>
     r = IAmSent \<and> length (filter isDatagram ev) \<le> 1"
proof -
  have "poll (demoEnv True) (Some (emptyEndpoint, [129, 10, 0, 8, 1, 0, 16, 8])) demoServer =
      Ok (IAmSent, demoServer, [Datagram emptyEndpoint [129, 10, 0, 20, 1, 0, 16, 0, 196, 2, 0, 0, 7, 34, 5, 196, 145, 3, 33, 0]])"
    by (simp add: poll_def demoServer_state demoServer_completes handleDatagram_def whoIs_evaluated
        kMaxDatagramSize_def whoIsIncludes_def sendIAm_def kMaxIAmResponseSize_def defaultDevice_def respond_def
        pure_def demoEnv_def)
  with poll_reports_truthfully [OF this] show ?thesis by blast
qed

end
