(* ===== verification/WriteLaws.thy ===== *)
theory WriteLaws
  imports ServerRuns
begin

text \<open>
  WriteProperty as a client sees it: a refused write changes nothing, an accepted one changes
  what the server answers for the addressed object only, and a command that takes effect is what
  the next ReadProperty of Present_Value returns.
\<close>

section \<open>Lookups after an update\<close>

lemma find_replaceFirst:
  "List.find (\<lambda>x. key x = n) (replaceFirst key y xs) =
     (if n = key y \<and> key y \<in> key ` set xs then Some y else List.find (\<lambda>x. key x = n) xs)"
  by (induction xs) auto

lemma truncate_extend [simp]:
  fixes y :: BacnetServerBinaryOutput and x :: BacnetBinaryOutput
  shows "BacnetServerBinaryOutput.truncate (BacnetServerBinaryOutput.extend y m) = y"
    and "boProperties (BacnetServerBinaryOutput.extend y (BacnetServerBinaryOutput.more x)) = boProperties x"
  by (cases y; cases x; simp add: BacnetServerBinaryOutput.defs)+

lemma find_replaceBinaryOutput:
  "List.find (\<lambda>x. boInstance x = n) (map BacnetServerBinaryOutput.truncate (replaceBinaryOutput y xs)) =
     (if n = boInstance y \<and> boInstance y \<in> boInstance ` set xs then Some y
      else List.find (\<lambda>x. boInstance x = n) (map BacnetServerBinaryOutput.truncate xs))"
  by (induction xs) auto

lemma properties_replaceBinaryOutput:
  "map_option boProperties (List.find (\<lambda>x. boObjectId x = object) (replaceBinaryOutput y xs)) =
   map_option boProperties (List.find (\<lambda>x. boObjectId x = object) xs)"
  by (induction xs) (auto simp: boObjectId_def)

lemma length_replaceFirst [simp]: "length (replaceFirst key y xs) = length xs"
  using arg_cong [OF replaceFirst_keys, of length] by simp

lemma length_replaceBinaryOutput [simp]: "length (replaceBinaryOutput y xs) = length xs"
  using arg_cong [OF replaceBinaryOutput_keys, of length] by simp

lemma replace_empty [simp]:
  "replaceFirst key y xs = [] \<longleftrightarrow> xs = []" "replaceBinaryOutput z ys = [] \<longleftrightarrow> ys = []"
  using length_replaceFirst [of key y xs] length_replaceBinaryOutput [of z ys] by (metis length_0_conv)+

text \<open>
  \<open>sameService object s s'\<close>: whatever is asked of any other object, and of the device, the two
  states have the same to go by.
\<close>

definition sameService :: "BacnetObjectId \<Rightarrow> BacnetServer \<Rightarrow> BacnetServer \<Rightarrow> bool" where
  "sameService object s s' \<longleftrightarrow>
     (\<forall>ob. ob \<noteq> object \<longrightarrow> target s' ob = target s ob) \<and>
     findObjectPropertySource s' = findObjectPropertySource s \<and>
     findPropertyRegistration s' = findPropertyRegistration s \<and>
     objectIds s' = objectIds s \<and> svRegistrations s' = svRegistrations s \<and> svDevice s' = svDevice s \<and>
     (\<forall>n. (findCommandableAnalogValue s' n = None) = (findCommandableAnalogValue s n = None)) \<and>
     length (svAnalogValues s') = length (svAnalogValues s) \<and>
     length (svCommandableAnalogValues s') = length (svCommandableAnalogValues s) \<and>
     length (svAnalogOutputs s') = length (svAnalogOutputs s) \<and>
     length (analogInputsOf s') = length (analogInputsOf s) \<and>
     length (binaryInputsOf s') = length (binaryInputsOf s) \<and>
     length (binaryOutputsOf s') = length (binaryOutputsOf s) \<and>
     length (svBinaryValues s') = length (svBinaryValues s) \<and>
     length (svMultiStateValues s') = length (svMultiStateValues s)"

lemma sameService_refl: "sameService object s s"
  by (simp add: sameService_def)

lemmas find_defs = findAnalogValue_def findCommandableAnalogValue_def findAnalogOutput_def findAnalogInput_def
  findBinaryInput_def findBinaryOutput_def findBinaryValue_def findMultiStateValue_def

lemma service_putCommandableAnalogValue:
  assumes "objType object = ObjAnalogValue" "caInstance y = objInstance object"
  shows "sameService object s (putCommandableAnalogValue y s)"
  using assms key_set [OF replaceFirst_keys, of caInstance y "svCommandableAnalogValues s"]
  by (auto simp: sameService_def putCommandableAnalogValue_def target_def Let_def find_defs find_replaceFirst
      findObjectPropertySource_def fun_eq_iff findPropertyRegistration_def objectIds_def deviceObject_def
      replaceFirst_keys analogInputsOf_def binaryInputsOf_def binaryOutputsOf_def find_None_iff_keys
      intro: BacnetObjectId.equality)

lemma service_putAnalogOutput:
  assumes "objType object = ObjAnalogOutput" "caInstance y = objInstance object"
  shows "sameService object s (putAnalogOutput y s)"
  using assms
  by (auto simp: sameService_def putAnalogOutput_def target_def Let_def find_defs find_replaceFirst
      findObjectPropertySource_def fun_eq_iff findPropertyRegistration_def objectIds_def deviceObject_def
      replaceFirst_keys analogInputsOf_def binaryInputsOf_def binaryOutputsOf_def
      intro: BacnetObjectId.equality)

lemma service_putBinaryValue:
  assumes "objType object = ObjBinaryValue" "bvInstance y = objInstance object"
  shows "sameService object s (putBinaryValue y s)"
  using assms
  by (auto simp: sameService_def putBinaryValue_def target_def Let_def find_defs find_replaceFirst
      findObjectPropertySource_def fun_eq_iff findPropertyRegistration_def objectIds_def deviceObject_def
      replaceFirst_keys analogInputsOf_def binaryInputsOf_def binaryOutputsOf_def
      intro: BacnetObjectId.equality)

lemma binaryOutput_keys:
  "map boInstance (binaryOutputsOf (putBinaryOutput y s)) = map boInstance (binaryOutputsOf s)"
proof -
  have [simp]: "map boInstance (map BacnetServerBinaryOutput.truncate xs) = map boInstance xs" for xs :: "BacnetBinaryOutput list"
    by (simp add: comp_def)
  show ?thesis
    unfolding binaryOutputsOf_def putBinaryOutput_def by (simp add: replaceFirst_keys replaceBinaryOutput_keys del: map_map)
qed

lemma find_putBinaryOutput:
  "findBinaryOutput (putBinaryOutput y s) n =
     (if n = boInstance y \<and> findBinaryOutput s n \<noteq> None then Some y else findBinaryOutput s n)"
  by (auto simp: findBinaryOutput_def putBinaryOutput_def binaryOutputsOf_def find_replaceFirst find_replaceBinaryOutput
      find_None_iff_keys image_image)

lemma service_putBinaryOutput:
  assumes "objType object = ObjBinaryOutput" "boInstance y = objInstance object"
  shows "sameService object s (putBinaryOutput y s)"
proof -
  have len: "length (binaryOutputsOf (putBinaryOutput y s)) = length (binaryOutputsOf s)"
    using arg_cong [OF binaryOutput_keys, of length] by simp
  have src: "findObjectPropertySource (putBinaryOutput y s) = findObjectPropertySource s"
    by (auto simp: findObjectPropertySource_def fun_eq_iff putBinaryOutput_def properties_replaceBinaryOutput)
  have ids: "objectIds (putBinaryOutput y s) = objectIds s"
    unfolding objectIds_def binaryOutput_keys
    by (simp add: putBinaryOutput_def deviceObject_def analogInputsOf_def binaryInputsOf_def)
  have tgt: "target (putBinaryOutput y s) ob = target s ob" if "ob \<noteq> object" for ob
  proof -
    have "ob = object" if "objType ob = objType object" "objInstance ob = objInstance object"
      using that by (auto intro: BacnetObjectId.equality)
    moreover have "findBinaryInput (putBinaryOutput y s) = findBinaryInput s"
      "findAnalogInput (putBinaryOutput y s) = findAnalogInput s"
      "findAnalogValue (putBinaryOutput y s) = findAnalogValue s"
      "findCommandableAnalogValue (putBinaryOutput y s) = findCommandableAnalogValue s"
      "findAnalogOutput (putBinaryOutput y s) = findAnalogOutput s"
      "findBinaryValue (putBinaryOutput y s) = findBinaryValue s"
      "findMultiStateValue (putBinaryOutput y s) = findMultiStateValue s"
      "svDevice (putBinaryOutput y s) = svDevice s"
      by (auto simp: find_defs fun_eq_iff putBinaryOutput_def analogInputsOf_def binaryInputsOf_def)
    ultimately show ?thesis
      using that assms by (auto simp: target_def Let_def find_putBinaryOutput)
  qed
  show ?thesis
    unfolding sameService_def using tgt src ids len
    by (auto simp: putBinaryOutput_def findPropertyRegistration_def fun_eq_iff findCommandableAnalogValue_def
        analogInputsOf_def binaryInputsOf_def)
qed

section \<open>What does not change\<close>

lemma service_base:
  assumes "sameService object s s'"
  shows "readRegistered env s' = readRegistered env s" "readOptional env s' = readOptional env s"
    "deviceObject s' = deviceObject s" "objectCount s' = objectCount s" "objectListEntry s' = objectListEntry s"
    "devicePropertyCount s' = devicePropertyCount s" "devicePropertyAt s' = devicePropertyAt s"
    "objectPropertyCount s' = objectPropertyCount s" "objectPropertyAt s' = objectPropertyAt s"
proof -
  note eq = assms [unfolded sameService_def]
  show dev: "deviceObject s' = deviceObject s" using eq by (simp add: deviceObject_def)
  show "readRegistered env s' = readRegistered env s" using eq by (simp add: readRegistered_def fun_eq_iff)
  show "readOptional env s' = readOptional env s" using eq by (simp add: readOptional_def fun_eq_iff)
  show "objectCount s' = objectCount s" using eq by (simp add: objectCount_ids)
  show "objectListEntry s' = objectListEntry s" using eq by (simp add: objectListEntry_ids fun_eq_iff)
  show "devicePropertyCount s' = devicePropertyCount s" using eq dev by (simp add: devicePropertyCount_def)
  show "devicePropertyAt s' = devicePropertyAt s" using eq dev by (simp add: devicePropertyAt_def fun_eq_iff)
  have base: "baseProperties s' ob = baseProperties s ob" for ob using eq by (simp add: baseProperties_def)
  show "objectPropertyCount s' = objectPropertyCount s" using eq base by (intro ext) (simp add: objectPropertyCount_def)
  have regs: "svRegistrations s' = svRegistrations s" and src: "findObjectPropertySource s' = findObjectPropertySource s"
    using eq by simp_all
  show "objectPropertyAt s' = objectPropertyAt s" by (intro ext) (simp only: objectPropertyAt_def base regs src)
qed

lemma service_device:
  assumes "sameService object s s'"
  shows "readDeviceProperty env s' = readDeviceProperty env s"
proof -
  note eq = assms [unfolded sameService_def]
  have empty: "svAnalogOutputs s' = [] \<longleftrightarrow> svAnalogOutputs s = []"
    "svCommandableAnalogValues s' = [] \<longleftrightarrow> svCommandableAnalogValues s = []"
    "svBinaryValues s' = [] \<longleftrightarrow> svBinaryValues s = []" "svMultiStateValues s' = [] \<longleftrightarrow> svMultiStateValues s = []"
    using eq by (metis length_0_conv)+
  have counts: "binaryOutputCount s' = binaryOutputCount s" "analogInputCount s' = analogInputCount s"
    "binaryInputCount s' = binaryInputCount s" "analogValueCount s' = analogValueCount s" "svDevice s' = svDevice s"
    using eq by (simp_all add: analogValueCount_def)
  show ?thesis
    unfolding readDeviceProperty_def service_base [OF assms] empty counts ..
qed

lemma service_readTarget:
  assumes "sameService object s s'"
  shows "readTarget env s' t p = readTarget env s t p"
  unfolding readTarget_def readAnalogValueProperty_def readCommandableAnalogValueProperty_def readAnalogOutputProperty_def
    readAnalogInputProperty_def readBinaryInputProperty_def readBinaryOutputProperty_def readBinaryValueProperty_def
    readMultiStateValueProperty_def service_base [OF assms] ..

lemma service_handleReadProperty:
  assumes "sameService object s s'" "rqObject (rrRequest q) \<noteq> object"
  shows "handleReadProperty env s' peer q = handleReadProperty env s peer q"
proof -
  have t: "target s' (rqObject (rrRequest q)) = target s (rqObject (rrRequest q))"
    using assms by (simp add: sameService_def)
  have "decideRead env s' (rrRequest q) = decideRead env s (rrRequest q)"
    unfolding decideRead_def decideDeviceRead_def t service_base [OF assms(1)] service_device [OF assms(1)]
      service_readTarget [OF assms(1)] ..
  moreover have "readAck s' q v = readAck s q v" for v
    unfolding readAck_def Let_def t service_base [OF assms(1)] ..
  ultimately show ?thesis by (simp only: handleReadProperty_def)
qed

lemma service_command:
  assumes "commandPresentValue s object v n r = Some (s', calls)"
  shows "sameService object s s'"
  using assms
proof (cases rule: commandPresentValue_cases)
  case (analogValue x p)
  then show ?thesis using found_in [OF analogValue(2) [unfolded findCommandableAnalogValue_def]]
    by (simp add: service_putCommandableAnalogValue)
next
  case (analogOutput x p)
  then show ?thesis using found_in [OF analogOutput(2) [unfolded findAnalogOutput_def]]
    by (simp add: service_putAnalogOutput)
next
  case (binaryOutput x p)
  then show ?thesis using found_in [OF binaryOutput(2) [unfolded findBinaryOutput_def]]
    by (simp add: service_putBinaryOutput)
next
  case (binaryValue x p)
  then show ?thesis using found_in [OF binaryValue(2) [unfolded findBinaryValue_def]]
    by (simp add: service_putBinaryValue)
qed

lemma service_outOfService: "sameService object s (fst (writeOutOfService s object b))"
  by (auto simp: writeOutOfService_def target_def Let_def sameService_refl findCommandableAnalogValue_def
      findAnalogOutput_def findBinaryOutput_def findBinaryValue_def split: option.split dest!: found_in
      intro!: service_putCommandableAnalogValue service_putAnalogOutput service_putBinaryOutput service_putBinaryValue)

lemma service_decideWrite:
  "sameService (rqObject (wrRequest w)) s (fst (snd (decideWrite s w)))"
  using service_command [of s "rqObject (wrRequest w)"] service_outOfService [of "rqObject (wrRequest w)" s]
  unfolding decideWrite_def Let_def by (auto simp: sameService_refl split: option.split)

text \<open>
  C8: A WriteProperty request, accepted or not, changes the answers about the addressed object
  only: every ReadProperty request for another object or for the device, from whichever peer and
  whatever the environment, is answered as it was before.
\<close>

theorem write_touches_one_object:
  assumes "handleWriteProperty env s source w = Ok (r, s', ev)"
    and "rqObject (rrRequest q) \<noteq> rqObject (wrRequest w)"
  shows "handleReadProperty env' s' peer q = handleReadProperty env' s peer q"
proof -
  have "s' = fst (snd (decideWrite s w))"
    using assms(1) by (auto simp: handleWriteProperty_def Let_def split: prod.splits if_splits)
  then show ?thesis using service_handleReadProperty [OF service_decideWrite assms(2)] by simp
qed

section \<open>Reading back a command\<close>

text \<open>The effective priority of a commandable object, and a commanded value as it is read.\<close>

definition presentPriority :: "BacnetServer \<Rightarrow> BacnetObjectId \<Rightarrow> u8" where
  "presentPriority s object =
     (let t = target s object in
      case tgCommandableAnalogValue t of Some x \<Rightarrow> effectivePriority (coPriority x) | None \<Rightarrow>
      (case tgAnalogOutput t of Some x \<Rightarrow> effectivePriority (coPriority x) | None \<Rightarrow>
      (case tgBinaryOutput t of Some x \<Rightarrow> effectivePriority (coPriority x) | None \<Rightarrow>
      (case tgBinaryValue t of Some x \<Rightarrow> effectivePriority (bvPriority x) | None \<Rightarrow> 0))))"

definition commandedValue :: "BacnetObjectId \<Rightarrow> BacnetValue \<Rightarrow> BacnetValue" where
  "commandedValue object v =
     (if objType object = ObjAnalogValue \<or> objType object = ObjAnalogOutput then realValue (vReal v)
      else boolEnumerated (vUnsigned v = 1))"

text \<open>No registration and no optional property stands in for Present_Value.\<close>

definition presentValueIsOwn :: "BacnetServer \<Rightarrow> BacnetObjectId \<Rightarrow> bool" where
  "presentValueIsOwn s object \<longleftrightarrow> findPropertyRegistration s object PropPresentValue = None \<and>
     PropPresentValue \<notin> set (sourceProperties s object)"

lemma readStoredProperty_absent:
  "p \<notin> set (map slotProperty (opSlots source)) \<Longrightarrow> readStoredProperty env source p = None"
proof -
  have "p \<notin> set (map slotProperty ss) \<Longrightarrow> readSlots env p ss = None" for ss
    by (induction ss) auto
  then show "p \<notin> set (map slotProperty (opSlots source)) \<Longrightarrow> readStoredProperty env source p = None"
    by (simp add: readStoredProperty_def)
qed

lemma wf_disjoint:
  "wfServer s \<Longrightarrow> avInstance ` set (svAnalogValues s) \<inter> caInstance ` set (svCommandableAnalogValues s) = {}"
  by (simp add: wfServer_def wfObjects_def)

lemma find_replaced:
  assumes "x \<in> set xs" "key y = key x"
  shows "List.find (\<lambda>z. key z = key x) (replaceFirst key y xs) = Some y"
  using imageI [OF assms(1), of key] assms(2) by (simp add: find_replaceFirst)

lemma readTarget_command:
  assumes wf: "wfServer s" and own: "presentValueIsOwn s object"
    and cmd: "commandPresentValue s object v n False = Some (s', calls)"
    and urgent: "presentPriority s object = 0 \<or> n \<le> presentPriority s object"
  shows "readTarget env s' (target s' object) PropPresentValue = Ok (commandedValue object v) \<and>
    commandableTarget (target s' object) \<and> objType object \<noteq> ObjDevice \<and> objType object \<noteq> ObjMultiStateValue"
proof -
  have same: "sameService object s s'" by (rule service_command [OF cmd])
  have reg: "readRegistered env s' object PropPresentValue b = b" for b
    using own by (simp add: service_base [OF same] readRegistered_def presentValueIsOwn_def)
  have opt: "readOptional env s' object PropPresentValue b = b" for b
    using own readStoredProperty_absent [of PropPresentValue _ env]
    by (auto simp: service_base [OF same] readOptional_def presentValueIsOwn_def sourceProperties_def split: option.splits)
  have ob: "\<lparr>objType = k, objInstance = objInstance object\<rparr> = object" if "objType object = k" for k
    using that by (auto intro: BacnetObjectId.equality)
  have own_read: "readRegistered env s' \<lparr>objType = k, objInstance = objInstance object\<rparr> PropPresentValue b = b"
      "readOptional env s' \<lparr>objType = k, objInstance = objInstance object\<rparr> PropPresentValue b = b"
    if "objType object = k" for k b
    by (simp_all only: ob [OF that] reg opt)
  note wins = priorities.command_wins
  from cmd show ?thesis
  proof (cases rule: commandPresentValue_cases)
    case (analogValue x p)
    note x = found_in [OF analogValue(2) [unfolded findCommandableAnalogValue_def]]
    let ?y = "x\<lparr>coApply := False, coPriority := p, coBusy := False\<rparr>"
    have "objInstance object \<in> caInstance ` set (svCommandableAnalogValues s)" using x by (metis imageI)
    then have "findAnalogValue s (objInstance object) = None"
      using wf_disjoint [OF wf] unfolding findAnalogValue_def find_None_iff_keys by blast
    then have none: "findAnalogValue s' (objInstance object) = None"
      by (simp add: analogValue(4) putCommandableAnalogValue_def findAnalogValue_def)
    have y: "findCommandableAnalogValue s' (objInstance object) = Some ?y"
      using find_replaced [OF x [THEN conjunct1], of caInstance ?y] x
      by (simp add: analogValue(4) putCommandableAnalogValue_def findCommandableAnalogValue_def)
    have "effectiveValue p = vReal v"
      using wins [OF found_priorities(1) [OF wf analogValue(2)] analogValue(3)] urgent analogValue(1,2)
      by (simp add: presentPriority_def target_def)
    then show ?thesis
      using analogValue(1) x
      by (simp add: target_def none y readTarget_def readIf_def readCommandableAnalogValueProperty_def own_read
          readCommandable_def readCommon_def commandedValue_def commandableTarget_def)
  next
    case (analogOutput x p)
    note x = found_in [OF analogOutput(2) [unfolded findAnalogOutput_def]]
    let ?y = "x\<lparr>coPriority := p, coBusy := False\<rparr>"
    have y: "findAnalogOutput s' (objInstance object) = Some ?y"
      using find_replaced [OF x [THEN conjunct1], of caInstance ?y] x
      by (simp add: analogOutput(4) putAnalogOutput_def findAnalogOutput_def)
    have "effectiveValue p = vReal v"
      using wins [OF found_priorities(2) [OF wf analogOutput(2)] analogOutput(3)] urgent analogOutput(1,2)
      by (simp add: presentPriority_def target_def)
    then show ?thesis
      using analogOutput(1) x
      by (simp add: target_def y readTarget_def readIf_def readAnalogOutputProperty_def own_read
          readCommandable_def readCommon_def commandedValue_def commandableTarget_def)
  next
    case (binaryOutput x p)
    note x = found_in [OF binaryOutput(2) [unfolded findBinaryOutput_def]]
    let ?y = "x\<lparr>coPriority := p, coBusy := False\<rparr>"
    have y: "findBinaryOutput s' (objInstance object) = Some ?y"
      using x binaryOutput(2) by (simp add: binaryOutput(4) find_putBinaryOutput)
    have "effectiveValue p = (vUnsigned v = 1)"
      using wins [OF found_priorities(3) [OF wf binaryOutput(2)] binaryOutput(3)] urgent binaryOutput(1,2)
      by (simp add: presentPriority_def target_def)
    then show ?thesis
      using binaryOutput(1) x
      by (simp add: target_def y readTarget_def readIf_def readBinaryOutputProperty_def own_read
          readCommon_def commandedValue_def commandableTarget_def)
  next
    case (binaryValue x p)
    note x = found_in [OF binaryValue(2) [unfolded findBinaryValue_def]]
    let ?y = "x\<lparr>bvPriority := p\<rparr>"
    have y: "findBinaryValue s' (objInstance object) = Some ?y"
      using find_replaced [OF x [THEN conjunct1], of bvInstance ?y] x
      by (simp add: binaryValue(4) putBinaryValue_def findBinaryValue_def)
    have "effectiveValue p = (vUnsigned v = 1)"
      using wins [OF found_priorities(4) [OF wf binaryValue(2)] binaryValue(3)] urgent binaryValue(1,2)
      by (simp add: presentPriority_def target_def)
    then show ?thesis
      using binaryValue(1) x
      by (simp add: target_def y readTarget_def readIf_def readBinaryValueProperty_def own_read
          readCommon_def commandedValue_def commandableTarget_def)
  qed
qed

lemma accepted_command:
  assumes "handleWriteProperty env s source w = Ok (WritePropertyAckSent, s', ev)"
    and "rqProperty (wrRequest w) = PropPresentValue" and "vType (wrValue w) \<noteq> TyNull"
  shows "\<exists>calls. commandPresentValue s (rqObject (wrRequest w)) (wrValue w) (commandPriorityOf w) False = Some (s', calls)"
proof -
  have err: "respond env source resp WritePropertyErrorSent = Ok (WritePropertyAckSent, ev') \<Longrightarrow> False" for resp ev'
    by (auto simp: respond_def split: outcome.splits if_splits)
  have "\<exists>c calls. decideWrite s w = ((c, 0), s', calls)"
    using assms(1) by (auto simp: handleWriteProperty_def Let_def split: prod.splits if_splits dest: err)
  then show ?thesis
    using assms(2,3) by (auto simp: decideWrite_def Let_def split: if_splits option.splits)
qed

text \<open>
  C7: A command is read back: after an acknowledged WriteProperty of Present_Value at a priority
  at least as urgent as the object's present one, a ReadProperty of Present_Value of that object
  is answered with the commanded value, on commandable analog values, analog outputs, binary
  outputs and binary values alike, as long as no registration replaces the property.
\<close>

theorem command_is_read_back:
  assumes "reachable s" and "handleWriteProperty env s source w = Ok (WritePropertyAckSent, s', ev)"
    and "rqProperty (wrRequest w) = PropPresentValue" and "vType (wrValue w) \<noteq> TyNull"
    and "presentPriority s (rqObject (wrRequest w)) = 0 \<or>
      commandPriorityOf w \<le> presentPriority s (rqObject (wrRequest w))"
    and "presentValueIsOwn s (rqObject (wrRequest w))"
    and "rrRequest q = \<lparr>rqObject = rqObject (wrRequest w), rqProperty = PropPresentValue,
      rqArrayIndex = kBacnetNoArrayIndex\<rparr>"
  shows "handleReadProperty env' s' peer q =
    respond env' peer (buildReadPropertyAck kMaxDatagramSize q (commandedValue (rqObject (wrRequest w)) (wrValue w)))
      ReadPropertyAckSent"
proof -
  let ?ob = "rqObject (wrRequest w)"
  obtain calls where cmd: "commandPresentValue s ?ob (wrValue w) (commandPriorityOf w) False = Some (s', calls)"
    using accepted_command [OF assms(2-4)] by blast
  have read: "readTarget env' s' (target s' ?ob) PropPresentValue = Ok (commandedValue ?ob (wrValue w))"
    "commandableTarget (target s' ?ob)" "objType ?ob \<noteq> ObjDevice" "objType ?ob \<noteq> ObjMultiStateValue"
    using readTarget_command [OF wf_reachable [OF assms(1)] assms(6) cmd assms(5)] by simp_all
  have "\<not> noTarget (target s' ?ob)" using read(2) unfolding noTarget_def commandableTarget_def by blast
  moreover have "\<not> tgDevice (target s' ?ob)" "tgMultiStateValue (target s' ?ob) = None"
    using read(3,4) by (simp_all add: target_def Let_def)
  ultimately show ?thesis
    by (simp add: handleReadProperty_def decideRead_def readAck_def assms(7) read kBacnetNoArrayIndex_def noReadError_def)
qed

section \<open>An example\<close>

text \<open>A binary value, instance 1, and a WriteProperty request of Active at priority 8 to it.\<close>

definition demoValue :: BacnetServerBinaryValue where
  "demoValue = \<lparr>bvInstance = 1, bvObjectName = Some [0x41], bvPriority = newPriority False, bvOutOfService = False\<rparr>"

definition valueServer :: BacnetServer where
  "valueServer = snd (setBinaryValues (Some [demoValue]) 1 demoServer)"

definition demoWrite :: BacnetWritePropertyRequestHeader where
  "demoWrite = \<lparr>wrInvokeId = 5, wrRequest = \<lparr>rqObject = \<lparr>objType = ObjBinaryValue, objInstance = 1\<rparr>,
     rqProperty = PropPresentValue, rqArrayIndex = kBacnetNoArrayIndex\<rparr>, wrValue = enumeratedValue 1,
     wrHasPriority = True, wrPriority = 8\<rparr>"

definition demoRead :: "u32 \<Rightarrow> BacnetReadPropertyRequestHeader" where
  "demoRead n = \<lparr>rrInvokeId = 6, rrRequest = \<lparr>rqObject = \<lparr>objType = ObjBinaryValue, objInstance = n\<rparr>,
     rqProperty = PropPresentValue, rqArrayIndex = kBacnetNoArrayIndex\<rparr>\<rparr>"

definition writtenServer :: BacnetServer where
  "writtenServer = fst (snd (decideWrite valueServer demoWrite))"

lemma valueServer_reachable: "reachable valueServer"
proof -
  have "wfPriority (newPriority False)" by (simp add: wfPriority_def newPriority_def kSlotCount_def)
  then show ?thesis
    unfolding valueServer_def by (intro reachable_step [OF demoServer_reachable values_set]) (auto simp: demoValue_def)
qed

lemma demoWrite_done:
  "handleWriteProperty (demoEnv True) valueServer emptyEndpoint demoWrite =
     Ok (WritePropertyAckSent, writtenServer, [Datagram emptyEndpoint [129, 10, 0, 9, 1, 0, 32, 5, 15]])"
  by code_simp

theorem command_is_read_back_witness:
  "handleReadProperty (demoEnv True) writtenServer emptyEndpoint (demoRead 1) =
    respond (demoEnv True) emptyEndpoint (buildReadPropertyAck kMaxDatagramSize (demoRead 1) (enumeratedValue 1))
      ReadPropertyAckSent"
proof -
  have pre: "rqProperty (wrRequest demoWrite) = PropPresentValue" "vType (wrValue demoWrite) \<noteq> TyNull"
    "presentPriority valueServer (rqObject (wrRequest demoWrite)) = 0 \<or>
      commandPriorityOf demoWrite \<le> presentPriority valueServer (rqObject (wrRequest demoWrite))"
    "presentValueIsOwn valueServer (rqObject (wrRequest demoWrite))"
    "rrRequest (demoRead 1) = \<lparr>rqObject = rqObject (wrRequest demoWrite), rqProperty = PropPresentValue,
      rqArrayIndex = kBacnetNoArrayIndex\<rparr>"
    "commandedValue (rqObject (wrRequest demoWrite)) (wrValue demoWrite) = enumeratedValue 1"
    by code_simp+
  from command_is_read_back [OF valueServer_reachable demoWrite_done pre(1-5), of "demoEnv True" emptyEndpoint]
  show ?thesis by (simp only: pre(6))
qed

theorem write_touches_one_object_witness:
  "handleReadProperty (demoEnv True) writtenServer emptyEndpoint (demoRead 2) =
   handleReadProperty (demoEnv True) valueServer emptyEndpoint (demoRead 2)"
proof -
  have "rqObject (rrRequest (demoRead 2)) \<noteq> rqObject (wrRequest demoWrite)" by code_simp
  from write_touches_one_object [OF demoWrite_done this] show ?thesis .
qed

end
