(* ===== verification/CovLaws.thy ===== *)
theory CovLaws
  imports WriteLaws
begin

text \<open>
  What change-of-value subscribers can rely on: the subscription table is a bounded map from
  keys to subscriptions, a subscription lives as long as it was asked to, a failed notification
  is repeated after its delay, an unchanged value is not reported again. And where the code does
  less than that: long lifetimes, a server without a clock, values it cannot compare.
\<close>

section \<open>The interface of a bounded table\<close>

text \<open>
  \<open>view\<close> is the abstract table. \<open>put v\<close> enters \<open>v\<close> under its own key and refuses only a new key
  when the table is full.
\<close>

locale bounded_table =
  fixes view :: "'t \<Rightarrow> 'k \<Rightarrow> 'v option" and key :: "'v \<Rightarrow> 'k" and ok :: "'v \<Rightarrow> bool"
    and put :: "'v \<Rightarrow> 't \<Rightarrow> 't option" and del :: "'k \<Rightarrow> 't \<Rightarrow> 't" and cap :: nat and wf :: "'t \<Rightarrow> bool"
  assumes view_bounded: "wf t \<Longrightarrow> finite (dom (view t)) \<and> card (dom (view t)) \<le> cap"
    and put_ok: "wf t \<Longrightarrow> ok v \<Longrightarrow> put v t = Some t' \<Longrightarrow> wf t' \<and> view t' = (view t)(key v \<mapsto> v)"
    and put_refused: "wf t \<Longrightarrow> put v t = None \<longleftrightarrow> key v \<notin> dom (view t) \<and> card (dom (view t)) = cap"
    and del_view: "wf t \<Longrightarrow> wf (del k t) \<and> view (del k t) = (view t)(k := None)"
begin

text \<open>Renewing an entry always succeeds.\<close>

lemma renewal: "wf t \<Longrightarrow> key v \<in> dom (view t) \<Longrightarrow> put v t \<noteq> None"
  using put_refused by blast

lemma room_for_another: "wf t \<Longrightarrow> card (dom (view t)) < cap \<Longrightarrow> put v t \<noteq> None"
  using put_refused by fastforce

text \<open>After an entry is deleted there is room for one more.\<close>

lemma room_after_delete:
  assumes "wf t" "k \<in> dom (view t)"
  shows "put v (del k t) \<noteq> None"
proof (rule room_for_another)
  show "wf (del k t)" using del_view [OF assms(1)] by simp
  have "dom (view (del k t)) = dom (view t) - {k}" using del_view [OF assms(1), of k] by (auto simp: dom_def)
  then show "card (dom (view (del k t))) < cap"
    using view_bounded [OF assms(1)] assms(2) by (metis card_Diff1_less order_less_le_trans)
qed

text \<open>An operation on one key leaves every other entry alone.\<close>

lemma put_other: "wf t \<Longrightarrow> ok v \<Longrightarrow> put v t = Some t' \<Longrightarrow> k \<noteq> key v \<Longrightarrow> view t' k = view t k"
  using put_ok by (metis fun_upd_apply)

lemma del_other: "wf t \<Longrightarrow> k \<noteq> k' \<Longrightarrow> view (del k t) k' = view t k'"
  using del_view by (metis fun_upd_apply)

end

section \<open>The subscription table implements it\<close>

type_synonym SubscriptionKey = "BacnetIpEndpoint \<times> u32 \<times> BacnetObjectId \<times> bool \<times> BacnetPropertyId \<times> u32"

definition subscriptions :: "CovSlot list \<Rightarrow> SubscriptionKey \<Rightarrow> BacnetServerCovSubscription option" where
  "subscriptions sls k =
     map_option slSubscription (List.find (\<lambda>sl. isActive sl \<and> slotKey sl = k) sls)"

definition freshSlot :: "BacnetServerCovSubscription \<Rightarrow> CovSlot \<Rightarrow> CovSlot" where
  "freshSlot sub sl = (clearSnapshots sl)\<lparr>slSubscription := sub, slConfirmedRetries := 0, slSendRetries := 0, slRetryAt := 0\<rparr>"

definition slotFor :: "SubscriptionKey \<Rightarrow> CovSlot list \<Rightarrow> nat option" where
  "slotFor k sls =
     (case findIndex (\<lambda>sl. isActive sl \<and> slotKey sl = k) sls of Some i \<Rightarrow> Some i
      | None \<Rightarrow> findIndex (\<lambda>sl. \<not> isActive sl) sls)"

definition tablePut :: "BacnetServerCovSubscription \<Rightarrow> CovSlot list \<Rightarrow> CovSlot list option" where
  "tablePut sub sls = map_option (\<lambda>i. sls[i := freshSlot sub (sls ! i)]) (slotFor (subscriptionKey sub) sls)"

definition tableDelete :: "SubscriptionKey \<Rightarrow> CovSlot list \<Rightarrow> CovSlot list" where
  "tableDelete k sls =
     (case findIndex (\<lambda>sl. isActive sl \<and> slotKey sl = k) sls of None \<Rightarrow> sls
      | Some i \<Rightarrow> sls[i := clearSubscription (sls ! i)])"

definition subscriptionOk :: "BacnetServerCovSubscription \<Rightarrow> bool" where
  "subscriptionOk sub \<longleftrightarrow> csState sub = CovActive \<and> csLifetime sub \<noteq> 0 \<and> csArrayIndex sub = kBacnetNoArrayIndex"

lemma subscriptions_nth:
  assumes "uniqueKeys sls" "i < length sls" "isActive (sls ! i)"
  shows "subscriptions sls (slotKey (sls ! i)) = Some (slSubscription (sls ! i))"
proof -
  obtain sl where sl: "List.find (\<lambda>sl. isActive sl \<and> slotKey sl = slotKey (sls ! i)) sls = Some sl"
    using assms(2,3) by (cases "List.find (\<lambda>sl. isActive sl \<and> slotKey sl = slotKey (sls ! i)) sls")
      (auto simp: find_None_iff dest: nth_mem)
  then obtain j where "j < length sls" "sl = sls ! j" "isActive sl" "slotKey sl = slotKey (sls ! i)"
    by (auto simp: find_Some_iff)
  with assms have "sl = sls ! i" unfolding uniqueKeys_def by blast
  with sl show ?thesis by (simp add: subscriptions_def)
qed

lemma subscriptions_iff:
  assumes "uniqueKeys sls"
  shows "subscriptions sls k = Some sub \<longleftrightarrow>
    (\<exists>i < length sls. isActive (sls ! i) \<and> slotKey (sls ! i) = k \<and> slSubscription (sls ! i) = sub)"
  using subscriptions_nth [OF assms] by (auto simp: subscriptions_def find_Some_iff)

lemma subscriptions_None:
  "subscriptions sls k = None \<longleftrightarrow> (\<forall>sl \<in> set sls. \<not> (isActive sl \<and> slotKey sl = k))"
  by (auto simp: subscriptions_def find_None_iff)

lemma option_eqI: "(\<And>v. a = Some v \<longleftrightarrow> b = Some v) \<Longrightarrow> a = b"
  by (cases a; cases b) auto

text \<open>The table after one slot has changed.\<close>

lemma subscriptions_update:
  assumes "uniqueKeys sls" "uniqueKeys (sls[i := sl])" "i < length sls"
  shows "subscriptions (sls[i := sl]) k =
    (if isActive sl \<and> slotKey sl = k then Some (slSubscription sl)
     else if isActive (sls ! i) \<and> slotKey (sls ! i) = k then None else subscriptions sls k)"
proof (cases "isActive sl \<and> slotKey sl = k")
  case True
  then show ?thesis using subscriptions_nth [OF assms(2), of i] assms(3) by simp
next
  case False
  have upd: "subscriptions (sls[i := sl]) k = Some sub \<longleftrightarrow>
      (\<exists>j < length sls. j \<noteq> i \<and> isActive (sls ! j) \<and> slotKey (sls ! j) = k \<and> slSubscription (sls ! j) = sub)" for sub
    unfolding subscriptions_iff [OF assms(2)] by (rule ex_cong1) (use False assms(3) in \<open>auto simp: nth_list_update\<close>)
  show ?thesis
  proof (rule option_eqI)
    fix sub
    show "subscriptions (sls[i := sl]) k = Some sub \<longleftrightarrow>
      (if isActive sl \<and> slotKey sl = k then Some (slSubscription sl)
       else if isActive (sls ! i) \<and> slotKey (sls ! i) = k then None else subscriptions sls k) = Some sub"
    proof (cases "isActive (sls ! i) \<and> slotKey (sls ! i) = k")
      case True
      then show ?thesis using False upd [of sub] assms(1,3) unfolding uniqueKeys_def by (auto split: if_splits)
    next
      case other: False
      then show ?thesis using False upd [of sub] subscriptions_iff [OF assms(1), of k sub] by auto
    qed
  qed
qed

lemma card_subscriptions:
  assumes "uniqueKeys sls"
  shows "card (dom (subscriptions sls)) = length (filter isActive sls)" and "finite (dom (subscriptions sls))"
proof -
  let ?I = "{i. i < length sls \<and> isActive (sls ! i)}"
  have inj: "inj_on (\<lambda>i. slotKey (sls ! i)) ?I"
    using assms unfolding uniqueKeys_def inj_on_def by blast
  have "k \<in> dom (subscriptions sls) \<longleftrightarrow> k \<in> (\<lambda>i. slotKey (sls ! i)) ` ?I" for k
    using subscriptions_iff [OF assms, of k] by (auto simp: dom_def)
  then have "dom (subscriptions sls) = (\<lambda>i. slotKey (sls ! i)) ` ?I" by blast
  with inj show "card (dom (subscriptions sls)) = length (filter isActive sls)" "finite (dom (subscriptions sls))"
    by (simp_all add: card_image length_filter_conv_card)
qed

lemma freshSlot_simps:
  "subscriptionOk sub \<Longrightarrow> isActive (freshSlot sub sl)" "slotKey (freshSlot sub sl) = subscriptionKey sub"
  "slSubscription (freshSlot sub sl) = sub" "subscriptionOk sub \<Longrightarrow> wfSlot sl \<Longrightarrow> wfSlot (freshSlot sub sl)"
  by (simp_all add: freshSlot_def isActive_def slotKey_def subscriptionOk_def wfSlot_def clearSnapshots_def)

lemma slotFor_Some:
  assumes "wfTable sls" "slotFor k sls = Some i"
  shows "i < length sls \<and> (isActive (sls ! i) \<and> slotKey (sls ! i) = k \<or>
    \<not> isActive (sls ! i) \<and> (\<forall>j < length sls. isActive (sls ! j) \<longrightarrow> slotKey (sls ! j) \<noteq> k))"
  using assms(2) findIndex_Some [of _ sls i] findIndex_None [of "\<lambda>sl. isActive sl \<and> slotKey sl = k" sls]
  by (auto simp: slotFor_def split: option.splits)

lemma tablePut_ok:
  assumes "wfTable sls" "subscriptionOk sub" "tablePut sub sls = Some sls'"
  shows "wfTable sls' \<and> subscriptions sls' = (subscriptions sls)(subscriptionKey sub \<mapsto> sub)"
proof -
  obtain i where i: "slotFor (subscriptionKey sub) sls = Some i" "sls' = sls[i := freshSlot sub (sls ! i)]"
    using assms(3) by (auto simp: tablePut_def)
  note slot = slotFor_Some [OF assms(1) i(1)]
  have "wfSlot (sls ! i)" using assms(1) slot by (simp add: wfTable_def list_all_length)
  then have wf: "wfTable sls'"
    using slot unfolding i(2) by (intro wfTable_update [OF assms(1)]) (auto simp: freshSlot_simps assms(2))
  moreover have "subscriptions sls' k = ((subscriptions sls)(subscriptionKey sub \<mapsto> sub)) k" for k
    using subscriptions_update [of sls i "freshSlot sub (sls ! i)" k] assms(1) wf slot
    by (auto simp: i(2) wfTable_def freshSlot_simps assms(2))
  ultimately show ?thesis by (simp add: fun_eq_iff)
qed

lemma tablePut_None:
  assumes "wfTable sls"
  shows "tablePut sub sls = None \<longleftrightarrow>
    subscriptionKey sub \<notin> dom (subscriptions sls) \<and> card (dom (subscriptions sls)) = kMaxCovSubscriptions"
proof -
  have u: "uniqueKeys sls" and len: "length sls = kMaxCovSubscriptions" using assms by (simp_all add: wfTable_def)
  have "tablePut sub sls = None \<longleftrightarrow> findIndex (\<lambda>sl. isActive sl \<and> slotKey sl = subscriptionKey sub) sls = None \<and>
      findIndex (\<lambda>sl. \<not> isActive sl) sls = None"
    by (auto simp: tablePut_def slotFor_def split: option.split)
  moreover have "length (filter isActive sls) = length sls \<longleftrightarrow> (\<forall>sl \<in> set sls. isActive sl)"
    using length_filter_less [of _ sls isActive] by (metis filter_True less_irrefl)
  ultimately show ?thesis
    unfolding card_subscriptions(1) [OF u] len [symmetric] findIndex_None domIff not_not subscriptions_None by simp
qed

lemma tableDelete_ok:
  assumes "wfTable sls"
  shows "wfTable (tableDelete k sls) \<and> subscriptions (tableDelete k sls) = (subscriptions sls)(k := None)"
proof (cases "findIndex (\<lambda>sl. isActive sl \<and> slotKey sl = k) sls")
  case None
  have "subscriptions sls k = None"
    using None by (simp add: findIndex_None subscriptions_None)
  then show ?thesis using assms by (auto simp: tableDelete_def None)
next
  case (Some i)
  note i = findIndex_Some [OF Some]
  have sl: "wfSlot (sls ! i)" using assms i by (simp add: wfTable_def list_all_length)
  have wf: "wfTable (sls[i := clearSubscription (sls ! i)])"
    by (rule wfTable_update [OF assms]) (use wfSlot_clear(1) [OF sl] in auto)
  moreover have "subscriptions (sls[i := clearSubscription (sls ! i)]) k' = ((subscriptions sls)(k := None)) k'" for k'
    using subscriptions_update [of sls i "clearSubscription (sls ! i)" k'] assms wf i wfSlot_clear(1) [OF sl]
    by (auto simp: wfTable_def)
  ultimately show ?thesis by (simp add: tableDelete_def Some fun_eq_iff)
qed

interpretation covTable: bounded_table subscriptions subscriptionKey subscriptionOk tablePut tableDelete
    kMaxCovSubscriptions wfTable
proof unfold_locales
  fix sls sls' :: "CovSlot list" and sub k
  show "finite (dom (subscriptions sls)) \<and> card (dom (subscriptions sls)) \<le> kMaxCovSubscriptions" if "wfTable sls"
    using that card_subscriptions [of sls] length_filter_le [of isActive sls] by (simp add: wfTable_def)
qed (simp_all add: tablePut_ok tablePut_None tableDelete_ok)

section \<open>SubscribeCOV refines the table\<close>

definition newSubscription ::
    "Env \<Rightarrow> BacnetServer \<Rightarrow> BacnetIpEndpoint \<Rightarrow> BacnetSubscribeCovRequestHeader \<Rightarrow> BacnetServerCovSubscription" where
  "newSubscription env s source request =
     \<lparr>csState = CovActive, csPeer = source, csProcessId = scProcessId request, csObject = scObject request,
      csProperty = requestedProperty request, csArrayIndex = scArrayIndex request,
      csIsProperty = scIsProperty request, csHasIncrement = scHasIncrement request,
      csIncrement = scIncrement request, csConfirmed = scConfirmed request,
      csLifetime = scLifetime request,
      csExpiresAt = (if \<not> svClock s then 0 else nowMs env s + scLifetime request * 1000),
      csLastSent = 0, csLastAck = 0, csPendingInvokeId = 0\<rparr>"

lemma activate_fresh: "activate env s source request sl = freshSlot (newSubscription env s source request) sl"
  by (simp add: activate_def freshSlot_def newSubscription_def clearSnapshots_def)

lemma key_new: "subscriptionKey (newSubscription env s source request) = requestKey source request"
  by (simp add: subscriptionKey_def newSubscription_def requestKey_def)

text \<open>The handler's scan of the table is \<open>put\<close> and \<open>del\<close>.\<close>

lemma updateTable_table:
  "map_option (svCov \<circ> fst) (updateTable env s source request) =
     (if scLifetime request = 0 then Some (tableDelete (requestKey source request) (svCov s))
      else tablePut (newSubscription env s source request) (svCov s))"
proof -
  have inactive: "(csState (slSubscription sl) = CovInactive) = (\<not> isActive sl)" for sl by (simp add: isActive_def)
  show ?thesis
    by (auto simp: updateTable_def tableDelete_def tablePut_def slotFor_def key_new matchesRequest_key inactive Let_def
        activate_fresh slot_def split: option.split)
qed

text \<open>
  C5: SubscribeCOV implements a bounded map. Seen as a map from (peer, process, object, property)
  to subscriptions, the table after an accepted request is the table before with that one entry
  deleted (lifetime zero) or replaced by the requested subscription; a new entry is refused
  exactly when eight others are there; a request that is not accepted changes nothing.
\<close>

theorem subscribe_refines_table:
  assumes "reachable s" and "handleSubscribeCov env s source request = Ok (r, s', ev)"
  shows "subscriptions (svCov s') =
    (let subs = subscriptions (svCov s); k = requestKey source request in
     if checkSubscription env s request \<noteq> Ok 0 then subs
     else if scLifetime request = 0 then subs(k := None)
     else if k \<notin> dom subs \<and> card (dom subs) = kMaxCovSubscriptions then subs
     else subs(k \<mapsto> newSubscription env s source request))"
proof -
  have wf: "wfTable (svCov s)" using wf_reachable [OF assms(1)] by (simp add: wfServer_def)
  let ?sub = "newSubscription env s source request"
  show ?thesis
  proof (cases "checkSubscription env s request = Ok 0")
    case False
    then have "s' = s" using assms(2) by (auto simp: handleSubscribeCov_def Let_def split: if_splits)
    then show ?thesis using False by simp
  next
    case True
    have s': "(case updateTable env s source request of None \<Rightarrow> s' = s | Some (s'', ev') \<Rightarrow> s' = s'')"
      using assms(2) True by (auto simp: handleSubscribeCov_def Let_def split: if_splits option.splits)
    show ?thesis
    proof (cases "scLifetime request = 0")
      case life: True
      then have "svCov s' = tableDelete (requestKey source request) (svCov s)"
        using s' updateTable_table [of env s source request] by (auto split: option.splits)
      then show ?thesis using covTable.del_view [OF wf] True life by simp
    next
      case life: False
      have ok: "subscriptionOk ?sub"
        using life checkSubscription_index [OF True] by (simp add: subscriptionOk_def newSubscription_def)
      have t: "map_option (svCov \<circ> fst) (updateTable env s source request) = tablePut ?sub (svCov s)"
        using life updateTable_table [of env s source request] by simp
      show ?thesis
      proof (cases "tablePut ?sub (svCov s)")
        case None
        then have "s' = s" using t s' by (auto split: option.splits)
        then show ?thesis using None covTable.put_refused [OF wf, of ?sub] True life by (simp add: key_new)
      next
        case (Some sls)
        then have "svCov s' = sls" using t s' by (auto split: option.splits)
        then show ?thesis
          using covTable.put_ok [OF wf ok Some] covTable.put_refused [OF wf, of ?sub] Some True life
          by (auto simp: key_new Let_def)
      qed
    qed
  qed
qed

text \<open>A subscription of one minute to the demonstration value.\<close>

definition demoSubscribe :: "BacnetPropertyId \<Rightarrow> BacnetSubscribeCovRequestHeader" where
  "demoSubscribe p = \<lparr>scInvokeId = 9, scProcessId = 1, scObject = \<lparr>objType = ObjBinaryValue, objInstance = 1\<rparr>,
     scIsProperty = (p \<noteq> PropPresentValue), scProperty = p, scArrayIndex = kBacnetNoArrayIndex, scConfirmed = False,
     scLifetime = 60, scHasIncrement = False, scIncrement = 0\<rparr>"

definition subscribedServer :: "BacnetPropertyId \<Rightarrow> BacnetServer" where
  "subscribedServer p = fst (the (updateTable (demoEnv True) valueServer emptyEndpoint (demoSubscribe p)))"

lemma demoSubscribe_done:
  "handleSubscribeCov (demoEnv True) valueServer emptyEndpoint (demoSubscribe PropPresentValue) =
     Ok (SubscribeCovAckSent, subscribedServer PropPresentValue, [Datagram emptyEndpoint [129, 10, 0, 9, 1, 0, 32, 9, 5]])"
  by code_simp

theorem subscribe_refines_table_witness:
  "subscriptions (svCov (subscribedServer PropPresentValue)) =
     (subscriptions (svCov valueServer))
       (requestKey emptyEndpoint (demoSubscribe PropPresentValue) \<mapsto>
        newSubscription (demoEnv True) valueServer emptyEndpoint (demoSubscribe PropPresentValue))"
proof -
  let ?k = "requestKey emptyEndpoint (demoSubscribe PropPresentValue)"
  have accepted: "checkSubscription (demoEnv True) valueServer (demoSubscribe PropPresentValue) = Ok 0" by code_simp
  have "filter isActive (svCov valueServer) = []" by code_simp
  moreover have "wfTable (svCov valueServer)" using wf_reachable [OF valueServer_reachable] by (simp add: wfServer_def)
  ultimately have "card (dom (subscriptions (svCov valueServer))) = 0"
    using card_subscriptions(1) [of "svCov valueServer"] by (simp add: wfTable_def)
  then show ?thesis
    using subscribe_refines_table [OF valueServer_reachable demoSubscribe_done] accepted
    by (simp add: demoSubscribe_def kMaxCovSubscriptions_def)
qed

end
