(* ===== verification/CovTiming.thy ===== *)
theory CovTiming
  imports CovLaws
begin

text \<open>
  Time and change in COV reporting: how long a subscription lives on the 32-bit millisecond
  clock, when a failed notification is tried again, and which values are reported.
\<close>

section \<open>The millisecond clock\<close>

lemma sint_diff:
  assumes "a < 2 ^ 31" "b \<le> 2 ^ 31"
  shows "sint (word_of_nat a - word_of_nat b :: u32) = int a - int b"
proof -
  have "word_of_nat a - word_of_nat b = (word_of_int (int a - int b) :: u32)" by simp
  then have "sint (word_of_nat a - word_of_nat b :: u32) = signed_take_bit 31 (int a - int b)"
    by (simp add: signed_of_int del: of_int_diff)
  also have "\<dots> = int a - int b" using assms by (intro signed_take_bit_int_eq_self) auto
  finally show ?thesis .
qed

lemma expired_new:
  "expired s now (newSubscription env s source request) \<longleftrightarrow>
     scLifetime request \<noteq> 0 \<and> svClock s \<and> 0 \<le> sint (now - (nowMs env s + scLifetime request * 1000))"
  by (auto simp: expired_def newSubscription_def)

text \<open>
  C14: A subscription lives exactly as long as it was asked to, on a clock that wraps around:
  with a lifetime of less than 2^31 milliseconds, and looked at within 2^31 milliseconds, it has
  expired if and only if its lifetime is over.
\<close>

theorem subscription_expires_on_time:
  assumes "svClock s" and "scLifetime request \<noteq> 0" and "unat (scLifetime request) * 1000 < 2 ^ 31" and "elapsed < 2 ^ 31"
  shows "expired s (nowMs env s + word_of_nat elapsed) (newSubscription env s source request) \<longleftrightarrow>
    unat (scLifetime request) * 1000 \<le> elapsed"
proof -
  define d where "d = unat (scLifetime request) * 1000"
  have prod: "scLifetime request * 1000 = word_of_nat d" by (simp add: d_def)
  have "sint (word_of_nat elapsed - word_of_nat d :: u32) = int elapsed - int d"
    by (rule sint_diff) (use assms(3,4) in \<open>simp_all add: d_def\<close>)
  then show ?thesis
    using assms(1,2) unfolding expired_new prod add_diff_cancel_left d_def [symmetric] by simp
qed

text \<open>A one minute subscription made 30 seconds before the clock wraps around.\<close>

definition lateEnv :: Env where
  "lateEnv = (demoEnv True)\<lparr>clockMs := 4294937296\<rparr>"

theorem subscription_expires_on_time_witness:
  "expired (setClock True valueServer) 30000
     (newSubscription lateEnv (setClock True valueServer) emptyEndpoint (demoSubscribe PropPresentValue)) \<and>
   \<not> expired (setClock True valueServer) 29999
     (newSubscription lateEnv (setClock True valueServer) emptyEndpoint (demoSubscribe PropPresentValue))"
proof -
  have now: "nowMs lateEnv (setClock True valueServer) + word_of_nat 60000 = 30000"
    "nowMs lateEnv (setClock True valueServer) + word_of_nat 59999 = 29999"
    by (simp_all add: nowMs_def setClock_def lateEnv_def)
  have pre: "svClock (setClock True valueServer)" "scLifetime (demoSubscribe PropPresentValue) \<noteq> 0"
    "unat (scLifetime (demoSubscribe PropPresentValue)) * 1000 = 60000"
    by (simp_all add: setClock_def demoSubscribe_def)
  note * = subscription_expires_on_time [OF pre(1,2), where env = lateEnv and source = emptyEndpoint, unfolded pre(3)]
  show ?thesis using * [of 60000, unfolded now] * [of 59999, unfolded now] by simp
qed


text \<open>
  Lifetimes from 2147484 to 4294967 seconds (25 to 50 days) are over at once: the product
  with 1000 no longer fits the signed comparison, so the subscription that was just acknowledged
  has already expired and the next look at it deletes it.
\<close>

theorem long_lifetime_expires_at_once:
  assumes "svClock s" and "2147484 \<le> unat (scLifetime request)" and "unat (scLifetime request) \<le> 4294967"
  shows "expired s (nowMs env s) (newSubscription env s source request)"
proof -
  let ?d = "unat (scLifetime request) * 1000"
  have "scLifetime request * 1000 = word_of_nat ?d" by simp
  then have "nowMs env s - (nowMs env s + scLifetime request * 1000) = - word_of_nat ?d" by simp
  also have "\<dots> = word_of_nat (2 ^ 32 - ?d)"
  proof -
    have "word_of_nat (2 ^ 32 - ?d) = (word_of_nat (2 ^ 32) - word_of_nat ?d :: u32)"
      by (rule of_nat_diff) (use assms(3) in simp)
    then show ?thesis by simp
  qed
  finally have eq: "nowMs env s - (nowMs env s + scLifetime request * 1000) = word_of_nat (2 ^ 32 - ?d)" .
  have "sint (word_of_nat (2 ^ 32 - ?d) :: u32) = int (2 ^ 32 - ?d)"
    using sint_diff [of "2 ^ 32 - ?d" 0] assms(2) by simp
  then have "0 \<le> sint (nowMs env s - (nowMs env s + scLifetime request * 1000))"
    unfolding eq by simp
  then show ?thesis using assms(1,2) by (auto simp: expired_new)
qed

theorem long_lifetime_expires_at_once_witness:
  "expired (setClock True valueServer) 4294937296 (newSubscription lateEnv (setClock True valueServer) emptyEndpoint
     ((demoSubscribe PropPresentValue)\<lparr>scLifetime := 2592000\<rparr>))"
proof -
  have now: "nowMs lateEnv (setClock True valueServer) = 4294937296"
    by (simp add: nowMs_def setClock_def lateEnv_def)
  have "expired (setClock True valueServer) (nowMs lateEnv (setClock True valueServer))
      (newSubscription lateEnv (setClock True valueServer) emptyEndpoint
        ((demoSubscribe PropPresentValue)\<lparr>scLifetime := 2592000\<rparr>))"
    by (rule long_lifetime_expires_at_once) (simp_all add: setClock_def)
  then show ?thesis by (simp only: now)
qed


section \<open>Repeating a failed notification\<close>

lemma retryDelay_bounds: "0 < unat (retryDelayMs d n)" "unat (retryDelayMs d n) \<le> 2 ^ 31 - 2"
proof -
  define p where "p = unat (if dvApduTimeout d \<noteq> 0 then dvApduTimeout d else 1000) *
    unat (if n \<noteq> 0 then ucast n else 1 :: u32)"
  have "unat (if dvApduTimeout d \<noteq> 0 then dvApduTimeout d else 1000) \<noteq> 0" by (auto simp: unat_eq_0)
  moreover have "unat (if n \<noteq> 0 then ucast n else 1 :: u32) \<noteq> 0"
  proof -
    have "unat (ucast n :: u32) = unat n" using unsigned_less [of n] by (simp add: unsigned_ucast_eq take_bit_nat_eq_self)
    moreover have "unat n \<noteq> 0" if "n \<noteq> 0" using that by (simp add: unat_eq_0)
    ultimately show ?thesis by (cases "n = 0") (simp_all only: if_True if_False simp_thms unsigned_1 one_neq_zero)
  qed
  ultimately have "0 < p" unfolding p_def by simp
  moreover have "unat (retryDelayMs d n) = min p (2 ^ 31 - 2)"
    unfolding retryDelayMs_def Let_def p_def [symmetric] by (simp add: unsigned_of_nat take_bit_eq_mod)
  ultimately show "0 < unat (retryDelayMs d n)" "unat (retryDelayMs d n) \<le> 2 ^ 31 - 2" by auto
qed

text \<open>
  C15: After a notification that could not be sent, the subscription is left alone for the whole
  delay of its retry and at most one millisecond longer, wherever the clock stands: the deadline
  is never the reserved zero, and the delay is at least 1 and at most 2^31 - 2 milliseconds, so
  that the signed comparison with the deadline is right.
\<close>

theorem failed_notification_is_retried:
  "(let sl' = scheduleRetry d now sl; delay = unat (retryDelayMs d (slSendRetries sl')) in
    0 < delay \<and> delay \<le> 2 ^ 31 - 2 \<and> retryPending (now + word_of_nat (delay - 1)) sl' \<and>
    retryPending now sl' \<and> \<not> retryPending (now + word_of_nat (delay + 1)) sl')"
proof -
  define sl' where "sl' = scheduleRetry d now sl"
  define w where "w = retryDelayMs d (slSendRetries sl')"
  define delay where "delay = unat w"
  have delay: "0 < delay" "delay \<le> 2 ^ 31 - 2"
    using retryDelay_bounds [of d "slSendRetries sl'"] by (simp_all add: delay_def w_def)
  have at: "slRetryAt sl' = (if now + w = 0 then 1 else now + w)"
    by (simp add: sl'_def w_def scheduleRetry_def Let_def)
  have w: "w = word_of_nat delay" by (simp add: delay_def)
  define late where "late = (if now + w = 0 then delay + 1 else delay)"
  have late: "delay \<le> late" "late \<le> delay + 1" by (simp_all add: late_def)
  have at': "slRetryAt sl' = now + word_of_nat late" "slRetryAt sl' \<noteq> 0"
    using at by (auto simp: late_def w add.assoc [symmetric])
  have cmp: "retryPending (now + word_of_nat k) sl' \<longleftrightarrow> k < late" if "k < 2 ^ 31" for k
    using at' sint_diff [of k late] that late delay by (simp add: retryPending_def)
  have "retryPending (now + word_of_nat (delay - 1)) sl'" "retryPending (now + word_of_nat 0) sl'"
      "\<not> retryPending (now + word_of_nat (delay + 1)) sl'"
    using cmp [of "delay - 1"] cmp [of 0] cmp [of "delay + 1"] delay late by simp_all
  then show ?thesis
    using delay unfolding Let_def sl'_def [symmetric] w_def [symmetric] delay_def [symmetric] by simp
qed

text \<open>
  Without a clock a failed notification is never repeated: the server's time stays at zero,
  before the deadline that was computed from it, so that every later scan passes over the
  subscription, whatever its value does.
\<close>

theorem no_retry_without_clock:
  assumes "\<not> svClock s" and "slot s index = scheduleRetry d 0 sl"
  shows "processSlot env (nowMs env s) index s = Ok (None, s, [])"
proof -
  let ?sl = "scheduleRetry d 0 sl" and ?w = "retryDelayMs d (slSendRetries (scheduleRetry d 0 sl))"
  have w: "0 < unat ?w" "unat ?w \<le> 2 ^ 31 - 2" by (rule retryDelay_bounds)+
  then have "?w \<noteq> 0" by auto
  then have at: "slRetryAt ?sl = ?w" by (simp add: scheduleRetry_def Let_def)
  have "sint (word_of_nat 0 - word_of_nat (unat ?w) :: u32) = - int (unat ?w)"
    using sint_diff [of 0 "unat ?w"] w by simp
  then have "sint (- ?w) = - int (unat ?w)" by simp
  then have "sint (- ?w) < 0" using w(1) by linarith
  then have "retryPending (nowMs env s) (slot s index)"
    using assms \<open>?w \<noteq> 0\<close> at by (simp add: retryPending_def nowMs_def)
  then show ?thesis using assms(1) by (simp add: processSlot_def Let_def expired_def)
qed

theorem no_retry_without_clock_witness:
  "processSlot (demoEnv True) 0 0
     (putSlot 0 (scheduleRetry (svDevice (subscribedServer PropPresentValue)) 0 (slot (subscribedServer PropPresentValue) 0))
       (subscribedServer PropPresentValue)) =
   Ok (None, putSlot 0 (scheduleRetry (svDevice (subscribedServer PropPresentValue)) 0
     (slot (subscribedServer PropPresentValue) 0)) (subscribedServer PropPresentValue), [])"
proof -
  let ?s = "putSlot 0 (scheduleRetry (svDevice (subscribedServer PropPresentValue)) 0
    (slot (subscribedServer PropPresentValue) 0)) (subscribedServer PropPresentValue)"
  have clock: "\<not> svClock ?s" by code_simp
  have "0 < length (svCov (subscribedServer PropPresentValue))" by code_simp
  then have at: "slot ?s 0 = scheduleRetry (svDevice (subscribedServer PropPresentValue)) 0
      (slot (subscribedServer PropPresentValue) 0)"
    unfolding slot_def putSlot_def by simp
  have "nowMs (demoEnv True) ?s = 0" using clock by (simp add: nowMs_def)
  then show ?thesis using no_retry_without_clock [OF clock at, of "demoEnv True"] by simp
qed


section \<open>Which values are reported\<close>

text \<open>A value two of which can be compared: not a text, and not a Real that is not a number.\<close>

definition comparable :: "BacnetValue \<Rightarrow> bool" where
  "comparable v \<longleftrightarrow> vType v \<in> {TyBoolean, TyBitString, TyUnsigned, TyEnumerated} \<or>
     (vType v = TyReal \<and> \<not> f32_isnan (vReal v))"

lemma snapshot_unchanged:
  "covValueChanged sub first (snapshotOf v) v \<longleftrightarrow>
     \<not> comparable v \<and> (vType v = TyReal \<longrightarrow> realChanged sub first (vReal v) (vReal v))"
  by (cases "vType v") (auto simp: covValueChanged_def snapshotOf_def comparable_def realChanged_def f32_eq_refl)

lemma anyChanged_stored:
  "length vs \<le> length sns \<Longrightarrow> \<forall>v \<in> set vs. comparable (cpValue v) \<Longrightarrow> \<not> anyChanged sub first (storeSnapshots sns vs) vs"
  by (induction sns vs arbitrary: first rule: storeSnapshots.induct) (auto simp: snapshot_unchanged)

text \<open>
  What was reported is not reported again: right after a notification, a subscription whose
  values are all of a type the server can compare (Boolean, Unsigned, Enumerated, Bit String, or
  a Real that is a number) counts as unchanged until one of them differs.
\<close>

theorem reported_values_are_unchanged:
  assumes "wfSlot sl" and "vs \<noteq> []" and "length vs \<le> kCovObjectPropertyCount"
    and "\<forall>v \<in> set vs. comparable (cpValue v)"
  shows "\<not> covValuesChanged (markSent now invokeId vs sl) vs"
  using assms anyChanged_stored [of vs "slSnapshots sl"]
  by (simp add: covValuesChanged_def markSent_def storeCovValues_def wfSlot_def Let_def)

theorem reported_values_are_unchanged_witness:
  "\<not> covValuesChanged (markSent 5 0 [\<lparr>cpProperty = PropPresentValue, cpArrayIndex = kBacnetNoArrayIndex,
     cpValue = realValue 0x3F800000\<rparr>] emptySlot)
   [\<lparr>cpProperty = PropPresentValue, cpArrayIndex = kBacnetNoArrayIndex, cpValue = realValue 0x3F800000\<rparr>]"
proof -
  let ?v = "\<lparr>cpProperty = PropPresentValue, cpArrayIndex = kBacnetNoArrayIndex, cpValue = realValue 0x3F800000\<rparr>"
  have "wfSlot emptySlot" by code_simp
  moreover have "[?v] \<noteq> []" "length [?v] \<le> kCovObjectPropertyCount" by (simp_all add: kCovObjectPropertyCount_def)
  moreover have "comparable (cpValue ?v)" by code_simp
  ultimately show ?thesis by (intro reported_values_are_unchanged) auto
qed

end
