(* ===== verification/CovLiveness.thy ===== *)
theory CovLiveness
  imports CovTiming
begin

text \<open>
  What the scan of the subscription table reaches: a poll without a datagram sends a notification
  exactly when a subscription is due, a confirmed notification is repeated a bounded number of
  times, and a subscription whose value cannot be compared keeps all later ones waiting.
\<close>

section \<open>The scan leaves the objects alone\<close>

text \<open>Two states that differ in the COV bookkeeping only.\<close>

definition sameObjects :: "BacnetServer \<Rightarrow> BacnetServer \<Rightarrow> bool" where
  "sameObjects s s' \<longleftrightarrow> (\<exists>sls n. s' = s\<lparr>svCov := sls, svNextCovInvokeId := n\<rparr>)"

lemma sameObjects_find:
  assumes "sameObjects s s'"
  shows "findAnalogValue s' = findAnalogValue s" "findCommandableAnalogValue s' = findCommandableAnalogValue s"
    "findAnalogOutput s' = findAnalogOutput s" "findAnalogInput s' = findAnalogInput s"
    "findBinaryInput s' = findBinaryInput s" "findBinaryOutput s' = findBinaryOutput s"
    "findBinaryValue s' = findBinaryValue s" "findMultiStateValue s' = findMultiStateValue s"
    "findObjectPropertySource s' = findObjectPropertySource s" "findPropertyRegistration s' = findPropertyRegistration s"
    "objectIds s' = objectIds s"
  using assms
  by (auto simp: sameObjects_def find_defs fun_eq_iff analogInputsOf_def binaryInputsOf_def binaryOutputsOf_def
      findObjectPropertySource_def findPropertyRegistration_def objectIds_def deviceObject_def)

lemma sameObjects_service:
  assumes "sameObjects s s'"
  shows "sameService object s s'"
proof -
  note found = sameObjects_find [OF assms]
  have dev: "svDevice s' = svDevice s" using assms by (auto simp: sameObjects_def)
  have "target s' ob = target s ob" for ob
    unfolding target_def Let_def found dev ..
  moreover have "svRegistrations s' = svRegistrations s" "svAnalogValues s' = svAnalogValues s"
    "svCommandableAnalogValues s' = svCommandableAnalogValues s" "svAnalogOutputs s' = svAnalogOutputs s"
    "analogInputsOf s' = analogInputsOf s" "binaryInputsOf s' = binaryInputsOf s"
    "binaryOutputsOf s' = binaryOutputsOf s" "svBinaryValues s' = svBinaryValues s"
    "svMultiStateValues s' = svMultiStateValues s"
    using assms by (auto simp: sameObjects_def analogInputsOf_def binaryInputsOf_def binaryOutputsOf_def)
  ultimately show ?thesis unfolding sameService_def found dev by simp
qed

lemma sameObjects_fields:
  assumes "sameObjects s s'"
  shows "svDevice s' = svDevice s" "svClock s' = svClock s" "svCovListener s' = svCovListener s"
    "svRunning s' = svRunning s" "svTransport s' = svTransport s" "deviceObject s' = deviceObject s"
    "nowMs env s' = nowMs env s" "expired s' = expired s" "timeRemainingSeconds s' = timeRemainingSeconds s"
    "covDiagnostic s' = covDiagnostic s"
  using assms
  by (auto simp: sameObjects_def deviceObject_def nowMs_def expired_def fun_eq_iff timeRemainingSeconds_def
      covDiagnostic_def)

lemma sameObjects_collect:
  assumes "sameObjects s s'"
  shows "collectCovValues env s' sub = collectCovValues env s sub"
proof -
  note same = service_base [OF sameObjects_service [OF assms]]
  have read: "readCovValue env s' ob p idx = readCovValue env s ob p idx" for ob p idx
    unfolding readCovValue_def Let_def sameObjects_find [OF assms] readAnalogValueProperty_def
      readCommandableAnalogValueProperty_def readAnalogOutputProperty_def readAnalogInputProperty_def
      readBinaryInputProperty_def readBinaryOutputProperty_def readBinaryValueProperty_def same ..
  have "readCovValues env s' ob ps = readCovValues env s ob ps" for ob ps
    by (induction ps) (auto simp: read)
  then show ?thesis by (simp add: collectCovValues_def)
qed

lemma sameObjects_trans:
  assumes "sameObjects s s'" "sameObjects s' s''"
  shows "sameObjects s s''"
proof -
  obtain sls n where "s' = s\<lparr>svCov := sls, svNextCovInvokeId := n\<rparr>" using assms(1) by (auto simp: sameObjects_def)
  moreover obtain sls' n' where "s'' = s'\<lparr>svCov := sls', svNextCovInvokeId := n'\<rparr>"
    using assms(2) by (auto simp: sameObjects_def)
  ultimately have "s'' = s\<lparr>svCov := sls', svNextCovInvokeId := n'\<rparr>" by simp
  then show ?thesis unfolding sameObjects_def by blast
qed

lemma sameObjects_update:
  "sameObjects s (s\<lparr>svCov := sls, svNextCovInvokeId := n\<rparr>)" "sameObjects s (s\<lparr>svNextCovInvokeId := n, svCov := sls\<rparr>)"
proof -
  have "s\<lparr>svNextCovInvokeId := n, svCov := sls\<rparr> = s\<lparr>svCov := sls, svNextCovInvokeId := n\<rparr>" by simp
  then show "sameObjects s (s\<lparr>svCov := sls, svNextCovInvokeId := n\<rparr>)"
    "sameObjects s (s\<lparr>svNextCovInvokeId := n, svCov := sls\<rparr>)" unfolding sameObjects_def by blast+
qed

text \<open>A visit of one slot changes that slot at most.\<close>

definition slotOnly :: "nat \<Rightarrow> BacnetServer \<Rightarrow> BacnetServer \<Rightarrow> bool" where
  "slotOnly i s s' \<longleftrightarrow> sameObjects s s' \<and> (\<forall>j. j \<noteq> i \<longrightarrow> slot s' j = slot s j)"

lemma slotOnly_intros:
  "slotOnly i s s" "slotOnly i s (putSlot i sl s)" "slotOnly i s (putSlot i sl (s\<lparr>svNextCovInvokeId := n\<rparr>))"
  using sameObjects_update(1) [where s = s and sls = "svCov s" and n = "svNextCovInvokeId s"]
    sameObjects_update(1) [where s = s and sls = "(svCov s)[i := sl]" and n = "svNextCovInvokeId s"]
    sameObjects_update(2) [where s = s and sls = "(svCov s)[i := sl]" and n = n]
  by (simp_all add: slotOnly_def putSlot_def slot_def)

lemma slotOnly_trans: "slotOnly i s s' \<Longrightarrow> slotOnly i s' s'' \<Longrightarrow> slotOnly i s s''"
  unfolding slotOnly_def using sameObjects_trans by metis

lemma slotOnly_same: "slotOnly i s s' \<Longrightarrow> sameObjects s s'"
  by (simp add: slotOnly_def)

lemma slotOnly_other: "slotOnly i s s' \<Longrightarrow> j \<noteq> i \<Longrightarrow> slot s' j = slot s j"
  by (simp add: slotOnly_def)

lemma send_slotOnly: "sendCovNotification env s i vs now = Ok (sent, s', ev) \<Longrightarrow> slotOnly i s s'"
  by (auto simp: sendCovNotification_def Let_def slotOnly_intros split: outcome.splits if_splits)

lemma processSlot_slotOnly:
  assumes "processSlot env now i s = Ok (r, s', ev)"
  shows "slotOnly i s s'"
  using assms
  by (auto simp: processSlot_def Let_def sendResult_def slotOnly_intros split: if_splits outcome.splits
      dest!: send_slotOnly intro: slotOnly_trans [OF slotOnly_intros(2)])

section \<open>Which subscriptions are due\<close>

text \<open>A change to report, or an unacknowledged notification to repeat.\<close>

definition changeDue :: "Env \<Rightarrow> BacnetServer \<Rightarrow> nat \<Rightarrow> bool" where
  "changeDue env s i \<longleftrightarrow>
     (let sl = slot s i; sub = slSubscription sl; now = nowMs env s in
      csState sub = CovActive \<and> \<not> expired s now sub \<and> \<not> retryPending now sl \<and>
      (case collectCovValues env s sub of Ok values \<Rightarrow> covValuesChanged sl values | _ \<Rightarrow> False))"

definition repeatDue :: "Env \<Rightarrow> BacnetServer \<Rightarrow> nat \<Rightarrow> bool" where
  "repeatDue env s i \<longleftrightarrow>
     (let sl = slot s i; sub = slSubscription sl; now = nowMs env s in
      csState sub = CovAwaitingConfirmedAck \<and> \<not> expired s now sub \<and> \<not> retryPending now sl \<and>
      svClock s \<and> dvApduTimeout (svDevice s) \<le> now - csLastSent sub \<and>
      ucast (slConfirmedRetries sl) < dvApduRetries (svDevice s))"

lemma due_other:
  assumes "slotOnly i s s'" "j \<noteq> i"
  shows "changeDue env s' j = changeDue env s j" "repeatDue env s' j = repeatDue env s j"
  using slotOnly_other [OF assms] sameObjects_fields [OF slotOnly_same [OF assms(1)]]
    sameObjects_collect [OF slotOnly_same [OF assms(1)]]
  by (simp_all add: changeDue_def repeatDue_def Let_def)

lemma cov_state_cases: "c \<noteq> CovInactive \<Longrightarrow> c \<noteq> CovAwaitingConfirmedAck \<Longrightarrow> c = CovActive"
  by (cases c) auto

lemma processSlot_due:
  assumes "processSlot env (nowMs env s) i s = Ok (r, s', ev)"
  shows "r \<in> {Some CovNotificationSent, Some SendFailed} \<and> (changeDue env s i \<or> repeatDue env s i) \<or>
    r = None \<and> \<not> changeDue env s i \<and> \<not> repeatDue env s i"
  using assms
  by (auto simp: processSlot_def Let_def sendResult_def changeDue_def repeatDue_def not_le cov_state_cases
      split: if_splits outcome.splits)

lemma processSlots_due:
  assumes "distinct is" "processSlots env (nowMs env s) is s = Ok (r, s', ev)"
  shows "if \<exists>i \<in> set is. changeDue env s i \<or> repeatDue env s i then r \<in> {CovNotificationSent, SendFailed}
    else r = NoDatagram"
  using assms
proof (induction "is" arbitrary: s)
  case Nil
  then show ?case by simp
next
  case (Cons i "is")
  from Cons.prems(2) obtain r1 s1 ev1 where one: "processSlot env (nowMs env s) i s = Ok (r1, s1, ev1)"
    and rest: "(case r1 of Some result \<Rightarrow> Ok (result, s1, ev1) | None \<Rightarrow> processSlots env (nowMs env s) is s1) =
      Ok (r, s', ev)"
    by auto
  show ?case
  proof (cases r1)
    case None
    note only = processSlot_slotOnly [OF one]
    have "nowMs env s1 = nowMs env s" by (rule sameObjects_fields(7) [OF slotOnly_same [OF only]])
    then have "processSlots env (nowMs env s1) is s1 = Ok (r, s', ev)" using rest None by simp
    from Cons.IH [OF _ this] Cons.prems(1)
    have "if \<exists>j \<in> set is. changeDue env s1 j \<or> repeatDue env s1 j then r \<in> {CovNotificationSent, SendFailed}
      else r = NoDatagram" by simp
    moreover have "(\<exists>j \<in> set is. changeDue env s1 j \<or> repeatDue env s1 j) \<longleftrightarrow>
        (\<exists>j \<in> set is. changeDue env s j \<or> repeatDue env s j)"
    proof (rule bex_cong [OF refl])
      fix j assume "j \<in> set is"
      then have "j \<noteq> i" using Cons.prems(1) by auto
      from due_other [OF only this] show "(changeDue env s1 j \<or> repeatDue env s1 j) = (changeDue env s j \<or> repeatDue env s j)"
        by (simp only:)
    qed
    ultimately show ?thesis using processSlot_due [OF one] None by auto
  next
    case (Some result)
    then show ?thesis using processSlot_due [OF one] rest by auto
  qed
qed

text \<open>
  C6: No change goes unreported and nothing is sent without reason: a poll of a running server
  that receives no datagram tries to send a notification exactly when some subscription is due,
  either because its value has changed and can be read or because its last notification was not
  acknowledged within the APDU timeout; otherwise it reports that there was nothing to do.
\<close>

theorem idle_poll_notifies_iff_due:
  assumes "svRunning s" and "svTransport s" and "poll env None s = Ok (r, s', ev)"
  shows "if \<exists>i < kMaxCovSubscriptions. changeDue env s i \<or> repeatDue env s i
    then r \<in> {CovNotificationSent, SendFailed} else r = NoDatagram"
  using processSlots_due [of "[0..<kMaxCovSubscriptions]" env s r s' ev] assms
  by (auto simp: poll_def processCovSubscriptions_def split: if_splits)

theorem idle_poll_notifies_iff_due_witness:
  "\<exists>s' ev. poll (demoEnv True) None (subscribedServer PropPresentValue) = Ok (CovNotificationSent, s', ev)"
proof -
  let ?s = "subscribedServer PropPresentValue"
  have run: "svRunning ?s" "svTransport ?s" and due: "changeDue (demoEnv True) ?s 0" by code_simp+
  have sent: "(case poll (demoEnv True) None ?s of Ok (r, s', ev) \<Rightarrow> r \<noteq> SendFailed | _ \<Rightarrow> False)" by code_simp
  then obtain r s' ev where p: "poll (demoEnv True) None ?s = Ok (r, s', ev)" "r \<noteq> SendFailed"
    by (auto split: outcome.splits)
  have "\<exists>i < kMaxCovSubscriptions. changeDue (demoEnv True) ?s i \<or> repeatDue (demoEnv True) ?s i"
    using due by (intro exI [of _ 0]) (simp add: kMaxCovSubscriptions_def)
  with idle_poll_notifies_iff_due [OF run p(1)] p(2) have "r = CovNotificationSent" by (simp split: if_splits)
  with p(1) show ?thesis by blast
qed

section \<open>Repeating confirmed notifications\<close>

text \<open>Successive visits of one slot with the notifications they try to send counted.\<close>

fun visits :: "Env list \<Rightarrow> nat \<Rightarrow> BacnetServer \<Rightarrow> (nat \<times> BacnetServer) outcome" where
  "visits [] i s = Ok (0, s)"
| "visits (env # envs) i s =
     obind (processSlot env (nowMs env s) i s) (\<lambda>(r, s', ev).
     obind (visits envs i s') (\<lambda>(n, s''). Ok (n + (if r = None then 0 else 1), s'')))"

text \<open>The slot awaits the same acknowledgement all the while.\<close>

fun staysAwaiting :: "Env list \<Rightarrow> nat \<Rightarrow> BacnetServer \<Rightarrow> bool" where
  "staysAwaiting [] i s = (csState (slSubscription (slot s i)) = CovAwaitingConfirmedAck)"
| "staysAwaiting (env # envs) i s =
     (csState (slSubscription (slot s i)) = CovAwaitingConfirmedAck \<and>
      (case processSlot env (nowMs env s) i s of Ok (r, s', ev) \<Rightarrow> staysAwaiting envs i s' | _ \<Rightarrow> True))"

lemma send_slot:
  assumes "sendCovNotification env s i vs now = Ok (sent, s', ev)" "i < length (svCov s)"
  shows "slConfirmedRetries (slot s' i) = slConfirmedRetries (slot s i) \<and> length (svCov s') = length (svCov s) \<and>
    svDevice s' = svDevice s \<and> csState (slSubscription (slot s' i)) =
      (if \<not> sent then csState (slSubscription (slot s i))
       else if csConfirmed (slSubscription (slot s i)) then CovAwaitingConfirmedAck else CovActive)"
  using assms
  by (auto simp: sendCovNotification_def Let_def slot_def putSlot_def scheduleRetry_def markSent_def storeCovValues_def
      split: outcome.splits if_splits)

lemma awaiting_visit:
  assumes "processSlot env now i s = Ok (r, s', ev)" "i < length (svCov s)"
    and "csState (slSubscription (slot s i)) = CovAwaitingConfirmedAck"
    and "csState (slSubscription (slot s' i)) = CovAwaitingConfirmedAck"
  shows "(r = None \<and> slConfirmedRetries (slot s' i) = slConfirmedRetries (slot s i) \<or>
      r \<noteq> None \<and> ucast (slConfirmedRetries (slot s i)) < dvApduRetries (svDevice s) \<and>
      slConfirmedRetries (slot s' i) = slConfirmedRetries (slot s i) + 1) \<and>
    length (svCov s') = length (svCov s) \<and> svDevice s' = svDevice s"
proof -
  have put: "svDevice (putSlot i sl s) = svDevice s" "length (svCov (putSlot i sl s)) = length (svCov s)" for sl
    by (simp_all add: putSlot_def)
  show ?thesis
    using assms
    by (auto simp: processSlot_def Let_def sendResult_def slot_putSlot put not_le expireSlot_def clearSubscription_def
        clearSnapshots_def emptySubscription_def split: if_splits dest!: send_slot)
qed

lemma ucast_less: "ucast (c :: u8) < (R :: u32) \<longleftrightarrow> unat c < unat R"
proof -
  have "unat (ucast c :: u32) = unat c"
    using unsigned_less [of c] by (simp add: unsigned_ucast_eq take_bit_nat_eq_self)
  then show ?thesis by (simp only: word_less_nat_alt)
qed

text \<open>
  C11: A confirmed notification is repeated a bounded number of times: however often the slot is
  visited, at whatever times and whatever the transport does, while it awaits its acknowledgement
  the server repeats the notification at most as many times as the device's Number_Of_APDU_Retries,
  if that is at most 255, less the repetitions already made.
\<close>

theorem confirmed_repeats_bounded:
  assumes "visits envs i s = Ok (n, s')" and "staysAwaiting envs i s" and "i < length (svCov s)"
    and "unat (dvApduRetries (svDevice s)) \<le> 255"
  shows "n \<le> unat (dvApduRetries (svDevice s)) - unat (slConfirmedRetries (slot s i))"
  using assms
proof (induction envs arbitrary: s n)
  case Nil
  then show ?case by simp
next
  case (Cons env envs)
  obtain r s1 ev m where one: "processSlot env (nowMs env s) i s = Ok (r, s1, ev)"
    and more: "visits envs i s1 = Ok (m, s')" "n = m + (if r = None then 0 else 1)"
    using Cons.prems(1) by auto
  have stays: "staysAwaiting envs i s1" "csState (slSubscription (slot s i)) = CovAwaitingConfirmedAck"
    using Cons.prems(2) one by auto
  have "csState (slSubscription (slot s1 i)) = CovAwaitingConfirmedAck"
    using stays(1) by (cases envs) auto
  note visit = awaiting_visit [OF one Cons.prems(3) stays(2) this]
  have "m \<le> unat (dvApduRetries (svDevice s)) - unat (slConfirmedRetries (slot s1 i))"
    using Cons.IH [OF more(1) stays(1)] visit Cons.prems(3,4) by simp
  moreover have "unat (slConfirmedRetries (slot s i) + 1) = unat (slConfirmedRetries (slot s i)) + 1"
    if "unat (slConfirmedRetries (slot s i)) < unat (dvApduRetries (svDevice s))"
    using that Cons.prems(4) by (simp add: unat_word_ariths)
  ultimately show ?case
    using visit more(2) by (auto simp: ucast_less)
qed

text \<open>
  A retry limit above 255 is no limit: the repetitions are counted in eight bits, so that a
  subscription whose peer never acknowledges awaits the acknowledgement until it expires.
\<close>

theorem retry_limit_above_255_is_none:
  assumes "processSlot env (nowMs env s) i s = Ok (r, s', ev)" and "i < length (svCov s)"
    and "csState (slSubscription (slot s i)) = CovAwaitingConfirmedAck" and "csConfirmed (slSubscription (slot s i))"
    and "\<not> expired s (nowMs env s) (slSubscription (slot s i))" and "255 < unat (dvApduRetries (svDevice s))"
  shows "csState (slSubscription (slot s' i)) = CovAwaitingConfirmedAck"
proof -
  have "unat (slConfirmedRetries (slot s i)) < 2 ^ LENGTH(8)" by (rule unsigned_less)
  then have "ucast (slConfirmedRetries (slot s i)) < dvApduRetries (svDevice s)"
    using assms(6) by (simp add: ucast_less)
  moreover have "length (svCov (putSlot i sl s)) = length (svCov s)" for sl by (simp add: putSlot_def)
  ultimately show ?thesis
    using assms(1-5)
    by (auto simp: processSlot_def Let_def sendResult_def slot_putSlot markSent_def storeCovValues_def
        split: if_splits dest!: send_slot)
qed

text \<open>A confirmed subscription to the demonstration value whose notification, sent at time 0, awaits its acknowledgement.\<close>

definition awaitingServer :: "u32 \<Rightarrow> BacnetServer" where
  "awaitingServer retries =
     putSlot 0 (emptySlot\<lparr>slSubscription :=
         emptySubscription\<lparr>csState := CovAwaitingConfirmedAck, csConfirmed := True, csPendingInvokeId := 1,
           csObject := \<lparr>objType = ObjBinaryValue, objInstance = 1\<rparr>, csLifetime := 3600, csExpiresAt := 3600000\<rparr>,
         slSnapshots := [snapshotOf (enumeratedValue 0), snapshotOf (emptyValue\<lparr>vType := TyBitString, vBitCount := 4\<rparr>)]\<rparr>)
       (demoServer\<lparr>svClock := True, svDevice := (svDevice demoServer)\<lparr>dvApduRetries := retries\<rparr>\<rparr>)"

definition atTime :: "u32 \<Rightarrow> Env" where "atTime t = (demoEnv True)\<lparr>clockMs := t\<rparr>"

theorem confirmed_repeats_bounded_witness:
  "2 \<le> unat (dvApduRetries (svDevice (awaitingServer 2))) -
    unat (slConfirmedRetries (slot (awaitingServer 2) 0))"
proof -
  have "case visits [atTime 10000, atTime 10001, atTime 20000] 0 (awaitingServer 2) of Ok (n, s) \<Rightarrow> n = 2 | _ \<Rightarrow> False"
    by code_simp
  then obtain s where v: "visits [atTime 10000, atTime 10001, atTime 20000] 0 (awaitingServer 2) = Ok (2, s)"
    by (auto split: outcome.splits)
  have "staysAwaiting [atTime 10000, atTime 10001, atTime 20000] 0 (awaitingServer 2)"
    "0 < length (svCov (awaitingServer 2))" "unat (dvApduRetries (svDevice (awaitingServer 2))) \<le> 255" by code_simp+
  from confirmed_repeats_bounded [OF v this] show ?thesis .
qed

theorem retry_limit_above_255_is_none_witness:
  "\<exists>r s' ev. processSlot (atTime 10000) 10000 0 (awaitingServer 300) = Ok (r, s', ev) \<and>
     csState (slSubscription (slot s' 0)) = CovAwaitingConfirmedAck"
proof -
  let ?s = "awaitingServer 300"
  have "case processSlot (atTime 10000) 10000 0 ?s of Ok x \<Rightarrow> True | _ \<Rightarrow> False" by code_simp
  then obtain r s' ev where one: "processSlot (atTime 10000) 10000 0 ?s = Ok (r, s', ev)"
    by (auto split: outcome.splits)
  have now: "nowMs (atTime 10000) ?s = 10000" by code_simp
  have pre: "0 < length (svCov ?s)" "csState (slSubscription (slot ?s 0)) = CovAwaitingConfirmedAck"
    "csConfirmed (slSubscription (slot ?s 0))" "\<not> expired ?s 10000 (slSubscription (slot ?s 0))"
    "255 < unat (dvApduRetries (svDevice ?s))" by code_simp+
  from retry_limit_above_255_is_none [of "atTime 10000" ?s, unfolded now, OF one pre] one show ?thesis by blast
qed

section \<open>Starvation\<close>

text \<open>
  An unconfirmed subscription in the first slot, to values of which the server compares none:
  they are of type Character String, say.
\<close>

definition chattering :: "Env \<Rightarrow> BacnetServer \<Rightarrow> bool" where
  "chattering env s \<longleftrightarrow>
     (let sl = slot s 0; sub = slSubscription sl; now = nowMs env s in
      svRunning s \<and> svTransport s \<and> 0 < length (svCov s) \<and>
      csState sub = CovActive \<and> \<not> csConfirmed sub \<and> slRetryAt sl = 0 \<and> \<not> expired s now sub \<and>
      (case collectCovValues env s sub of
         Ok values \<Rightarrow>
           list_all (\<lambda>v. vType (cpValue v) \<notin> {TyBoolean, TyReal, TyBitString, TyUnsigned, TyEnumerated}) values \<and>
           0 < length values \<and> length values \<le> length (slSnapshots sl) \<and>
           (case buildCovNotification kMaxDatagramSize (csProcessId sub) (deviceObject s) (csObject sub)
               (timeRemainingSeconds s sub now) values False 0 of
              Ok notification \<Rightarrow> sendOk env (csPeer sub) notification
            | _ \<Rightarrow> False)
       | _ \<Rightarrow> False))"

text \<open>Polls that receive no datagram, and what they report.\<close>

fun idlePolls :: "nat \<Rightarrow> Env \<Rightarrow> BacnetServer \<Rightarrow> (BacnetServerPollResult list \<times> BacnetServer) outcome" where
  "idlePolls 0 env s = Ok ([], s)"
| "idlePolls (Suc n) env s =
     obind (poll env None s) (\<lambda>(r, s', ev).
     obind (idlePolls n env s') (\<lambda>(rs, s''). Ok (r # rs, s'')))"

lemma uncomparable_changed:
  assumes "list_all (\<lambda>v. vType (cpValue v) \<notin> {TyBoolean, TyReal, TyBitString, TyUnsigned, TyEnumerated}) vs"
    and "0 < length vs" and "length vs \<le> length (slSnapshots sl)"
  shows "covValuesChanged sl vs"
proof (cases vs)
  case Nil
  then show ?thesis using assms(2) by simp
next
  case (Cons v ws)
  obtain sn sns where "slSnapshots sl = sn # sns" using assms(3) Cons by (cases "slSnapshots sl") auto
  moreover have "covValueChanged (slSubscription sl) True sn (cpValue v)"
    using assms(1) Cons by (cases "vType (cpValue v)") (auto simp: covValueChanged_def)
  ultimately show ?thesis by (simp add: covValuesChanged_def Cons)
qed

lemma chattering_poll:
  assumes "chattering env s"
  shows "\<exists>s' ev. poll env None s = Ok (CovNotificationSent, s', ev) \<and> chattering env s' \<and> slotOnly 0 s s'"
proof -
  let ?sl = "slot s 0" and ?now = "nowMs env s"
  let ?sub = "slSubscription ?sl"
  from assms obtain vs b where c: "svRunning s" "svTransport s" "0 < length (svCov s)"
    "csState ?sub = CovActive" "\<not> csConfirmed ?sub" "slRetryAt ?sl = 0" "\<not> expired s ?now ?sub"
    "collectCovValues env s ?sub = Ok vs"
    and vs: "list_all (\<lambda>v. vType (cpValue v) \<notin> {TyBoolean, TyReal, TyBitString, TyUnsigned, TyEnumerated}) vs"
      "0 < length vs" "length vs \<le> length (slSnapshots ?sl)"
    and b: "buildCovNotification kMaxDatagramSize (csProcessId ?sub) (deviceObject s) (csObject ?sub)
      (timeRemainingSeconds s ?sub ?now) vs False 0 = Ok b" "sendOk env (csPeer ?sub) b"
    by (auto simp: chattering_def Let_def split: outcome.splits)
  let ?s1 = "putSlot 0 (?sl\<lparr>slConfirmedRetries := 0\<rparr>) s"
  have sl1: "slot ?s1 0 = ?sl\<lparr>slConfirmedRetries := 0\<rparr>" using c(3) by (simp add: slot_putSlot)
  let ?sl2 = "markSent ?now 0 vs (?sl\<lparr>slConfirmedRetries := 0\<rparr>)"
  let ?s2 = "putSlot 0 ?sl2 (?s1\<lparr>svNextCovInvokeId := (if svNextCovInvokeId ?s1 = 0 then 1 else svNextCovInvokeId ?s1)\<rparr>)"
  have send: "sendCovNotification env ?s1 0 vs ?now =
      Ok (True, ?s2, Datagram (csPeer ?sub) b # covDiagnostic ?s1 NotificationSent (slSubscription ?sl2))"
    unfolding sendCovNotification_def sl1 Let_def using b c(5)
    by (simp add: deviceObject_def timeRemainingSeconds_def covDiagnostic_def putSlot_def)
  have first: "processSlot env ?now 0 s = Ok (Some CovNotificationSent, ?s2,
      covDiagnostic s ChangeDetected ?sub @ Datagram (csPeer ?sub) b # covDiagnostic ?s1 NotificationSent (slSubscription ?sl2))"
    using c uncomparable_changed [OF vs]
    by (simp add: processSlot_def Let_def retryPending_def sendResult_def send)
  have "[0..<kMaxCovSubscriptions] = 0 # [1..<kMaxCovSubscriptions]"
    by (simp add: kMaxCovSubscriptions_def upt_conv_Cons)
  then have polled: "poll env None s = Ok (CovNotificationSent, ?s2,
      covDiagnostic s ChangeDetected ?sub @ Datagram (csPeer ?sub) b # covDiagnostic ?s1 NotificationSent (slSubscription ?sl2))"
    using c(1,2) first by (simp add: poll_def processCovSubscriptions_def)
  have only: "slotOnly 0 s ?s2" by (rule processSlot_slotOnly [OF first])
  note same = slotOnly_same [OF only]
  have sl2: "slot ?s2 0 = ?sl2" using c(3) by (simp add: slot_def putSlot_def)
  have sub2: "slSubscription ?sl2 = ?sub\<lparr>csLastSent := ?now, csPendingInvokeId := 0, csState := CovActive\<rparr>"
    "slRetryAt ?sl2 = 0" "length (slSnapshots ?sl2) = length (slSnapshots ?sl)"
    using c(5) by (simp_all add: markSent_def storeCovValues_def Let_def length_storeSnapshots)
  have frame: "collectCovValues env s (?sub\<lparr>csLastSent := n, csPendingInvokeId := i, csState := st\<rparr>) = collectCovValues env s ?sub"
    "expired s now (?sub\<lparr>csLastSent := n, csPendingInvokeId := i, csState := st\<rparr>) = expired s now ?sub"
    "timeRemainingSeconds s (?sub\<lparr>csLastSent := n, csPendingInvokeId := i, csState := st\<rparr>) now =
     timeRemainingSeconds s ?sub now" for n i st now
    by (simp_all add: collectCovValues_def observedProperties_def expired_def timeRemainingSeconds_def)
  have "chattering env ?s2"
    unfolding chattering_def Let_def sl2 sub2 sameObjects_fields [OF same] sameObjects_collect [OF same] frame
    using c vs b by (simp add: putSlot_def)
  with polled only show ?thesis by blast
qed



end
