(* ===== verification/Client.thy ===== *)
theory Client
  imports Requests Responses CovNotification
begin

text \<open>
  \<open>BacnetClient\<close> (src/src/core/client/BacnetClient.cpp): sending requests, taking one datagram
  from the transport and saying what it means for the request that was sent, the queue of change
  notifications that arrive in between.

  The transport's side is \<open>clInbox\<close>, the datagrams its \<open>receive\<close> will deliver one at a time, and
  \<open>Net\<close>, what one call sees of it and of the build: whether \<open>send\<close> succeeds, the clock, the two
  feature gates. \<open>netLeftover\<close> is what a decoder that fails leaves in its out parameter: the
  model says nothing of it. Operations return the datagrams they hand to \<open>send\<close>; logging is left
  out.
\<close>

section \<open>State\<close>

record Net =
  netSends :: "BacnetIpEndpoint \<Rightarrow> bytes \<Rightarrow> bool"
  netClock :: u32
  netWriteProperty :: bool
  netPriorityWrite :: bool
  netLeftover :: BacnetValue

record BacnetClient =
  clTransport :: bool
  clRunning :: bool
  clLocalPort :: u16
  clClock :: bool
  clQueued :: "BacnetCovNotification list"
  clInbox :: "(BacnetIpEndpoint \<times> bytes) list"

record BacnetIAmDevice =
  idEndpoint :: BacnetIpEndpoint
  idInfo :: BacnetIAmDeviceInfo

datatype BacnetReadPropertyPollStatus =
  PollNone | PollAck | PollError | PollReject | PollAbort | PollDecodeError

datatype BacnetWritePropertyPollStatus =
  WriteNone | WriteAck | WriteError | WriteNotCommandable | WriteReject | WriteAbort | WriteDecodeError
  | WriteDisabled | WriteInvalidArgument | WriteUnsupportedValue | WriteSendFailed

type_synonym Sent = "BacnetIpEndpoint \<times> bytes"

definition kMaxClientQueuedCovNotifications :: nat where "kMaxClientQueuedCovNotifications = 2"

definition newClient :: "bool \<Rightarrow> bool \<Rightarrow> BacnetClient" where
  "newClient transport clock = \<lparr>clTransport = transport, clRunning = False, clLocalPort = 47808,
     clClock = clock, clQueued = [], clInbox = []\<rparr>"

definition beginClient :: "bool \<Rightarrow> u16 \<Rightarrow> BacnetClient \<Rightarrow> bool \<times> BacnetClient" where
  "beginClient bindOk port c =
     (let running = clTransport c \<and> bindOk
      in (running, c\<lparr>clLocalPort := port, clQueued := [], clRunning := running\<rparr>))"

definition endClient :: "BacnetClient \<Rightarrow> BacnetClient" where
  "endClient c = c\<lparr>clRunning := False, clQueued := []\<rparr>"

definition setClientTransport :: "BacnetClient \<Rightarrow> bool \<times> BacnetClient" where
  "setClientTransport c = (if clRunning c then (False, c) else (True, c\<lparr>clTransport := True\<rparr>))"

definition setClientClock :: "bool \<Rightarrow> BacnetClient \<Rightarrow> BacnetClient" where
  "setClientClock clock c = c\<lparr>clClock := clock\<rparr>"

definition clientNow :: "Net \<Rightarrow> BacnetClient \<Rightarrow> u32" where
  "clientNow net c = (if clClock c then netClock net else 0)"

text \<open>\<open>transport_->receive\<close>: no datagram and an empty one are the same result \<open>0\<close>.\<close>

definition receive :: "BacnetClient \<Rightarrow> (BacnetIpEndpoint \<times> bytes) option \<times> BacnetClient" where
  "receive c =
     (case clInbox c of [] \<Rightarrow> (None, c)
      | (source, packet) # rest \<Rightarrow> (if packet = [] then None else Some (source, packet), c\<lparr>clInbox := rest\<rparr>))"

section \<open>Sending\<close>

definition transmit :: "Net \<Rightarrow> BacnetIpEndpoint \<Rightarrow> bytes \<Rightarrow> bool \<times> Sent list" where
  "transmit net destination packet = (netSends net destination packet, [(destination, packet)])"

text \<open>A request that is sent if the client runs and the builder produced one.\<close>

definition sendBuilt ::
    "Net \<Rightarrow> BacnetClient \<Rightarrow> BacnetIpEndpoint \<Rightarrow> bytes outcome \<Rightarrow> (bool \<times> Sent list) outcome" where
  "sendBuilt net c destination built =
     (case built of Undef \<Rightarrow> Undef | Fail \<Rightarrow> Ok (False, [])
      | Ok packet \<Rightarrow> if \<not> clRunning c then Ok (False, []) else Ok (transmit net destination packet))"

definition sendWhoIs :: "Net \<Rightarrow> BacnetClient \<Rightarrow> BacnetIpEndpoint \<Rightarrow> (bool \<times> Sent list) outcome" where
  "sendWhoIs net c destination = sendBuilt net c destination (buildWhoIsRequest kWhoIsRequestSize)"

definition kMaxSubscribeCovRequestSize :: nat where "kMaxSubscribeCovRequestSize = 40"

text \<open>\<open>request[8] = invokeId;\<close> after the request is built.\<close>

definition withInvokeId :: "u8 \<Rightarrow> bytes outcome \<Rightarrow> bytes outcome" where
  "withInvokeId invokeId built = obind built (\<lambda>packet. Ok (packet[8 := invokeId]))"

definition sendSubscribeCov ::
    "Net \<Rightarrow> BacnetClient \<Rightarrow> BacnetIpEndpoint \<Rightarrow> u32 \<Rightarrow> BacnetObjectId \<Rightarrow> u32 \<Rightarrow> u8 \<Rightarrow> bool \<Rightarrow>
     (bool \<times> Sent list) outcome" where
  "sendSubscribeCov net c destination processId object lifetimeSeconds invokeId issueConfirmed =
     sendBuilt net c destination (withInvokeId invokeId
       (buildSubscribeCovRequest kMaxSubscribeCovRequestSize processId object lifetimeSeconds issueConfirmed))"

definition sendSubscribeCovProperty ::
    "Net \<Rightarrow> BacnetClient \<Rightarrow> BacnetIpEndpoint \<Rightarrow> u32 \<Rightarrow> BacnetObjectId \<Rightarrow> BacnetPropertyId \<Rightarrow> u32 \<Rightarrow> u8 \<Rightarrow>
     bool \<Rightarrow> u32 \<Rightarrow> bool \<Rightarrow> float32 \<Rightarrow> (bool \<times> Sent list) outcome" where
  "sendSubscribeCovProperty net c destination processId object p lifetimeSeconds invokeId issueConfirmed
       arrayIndex hasCovIncrement covIncrement =
     sendBuilt net c destination (withInvokeId invokeId
       (buildSubscribeCovPropertyRequest kMaxSubscribeCovRequestSize processId object p lifetimeSeconds
          issueConfirmed arrayIndex hasCovIncrement covIncrement))"

definition sendReadProperty ::
    "Net \<Rightarrow> BacnetClient \<Rightarrow> BacnetIpEndpoint \<Rightarrow> BacnetPropertyRequest \<Rightarrow> u8 \<Rightarrow> (bool \<times> Sent list) outcome" where
  "sendReadProperty net c destination request invokeId =
     (if endpointIsZero destination then Ok (False, [])
      else sendBuilt net c destination (buildReadPropertyRequest kMaxReadPropertyRequestSize request invokeId))"

definition bacnetWritePropertyEnabled :: "Net \<Rightarrow> bool \<Rightarrow> bool" where
  "bacnetWritePropertyEnabled net hasPriority \<longleftrightarrow>
     (if \<not> netWriteProperty net then False
      else if \<not> netPriorityWrite net then \<not> hasPriority else True)"

definition kMaxWritePropertyRequestSize :: nat where "kMaxWritePropertyRequestSize = 544"

text \<open>The common end of both \<open>sendWriteProperty\<close> overloads.\<close>

definition sendWriteBuilt ::
    "Net \<Rightarrow> BacnetIpEndpoint \<Rightarrow> bytes outcome \<Rightarrow> (BacnetWritePropertyPollStatus \<times> Sent list) outcome" where
  "sendWriteBuilt net destination built =
     (case built of Undef \<Rightarrow> Undef | Fail \<Rightarrow> Ok (WriteUnsupportedValue, [])
      | Ok packet \<Rightarrow> (let (sent, datagrams) = transmit net destination packet
          in Ok (if sent then WriteNone else WriteSendFailed, datagrams)))"

definition sendWritePropertyPlain ::
    "Net \<Rightarrow> BacnetClient \<Rightarrow> BacnetIpEndpoint \<Rightarrow> BacnetPropertyRequest \<Rightarrow> BacnetValue \<Rightarrow> u8 \<Rightarrow>
     (BacnetWritePropertyPollStatus \<times> Sent list) outcome" where
  "sendWritePropertyPlain net c destination request v invokeId =
     (if \<not> netWriteProperty net then Ok (WriteDisabled, [])
      else if \<not> clRunning c \<or> endpointIsZero destination then Ok (WriteSendFailed, [])
      else if objType (rqObject request) > 1023 \<or> objInstance (rqObject request) > kObjectInstanceMask
      then Ok (WriteInvalidArgument, [])
      else sendWriteBuilt net destination
        (buildWritePropertyRequestPlain kMaxWritePropertyRequestSize request v invokeId))"

definition sendWriteProperty ::
    "Net \<Rightarrow> BacnetClient \<Rightarrow> BacnetIpEndpoint \<Rightarrow> BacnetObjectId \<Rightarrow> BacnetPropertyId \<Rightarrow> BacnetValue \<Rightarrow>
     BacnetWritePropertyOptions \<Rightarrow> u8 \<Rightarrow> (BacnetWritePropertyPollStatus \<times> Sent list) outcome" where
  "sendWriteProperty net c destination object p v options invokeId =
     (if \<not> bacnetWritePropertyEnabled net (woHasPriority options) then Ok (WriteDisabled, [])
      else if \<not> clRunning c \<or> endpointIsZero destination then Ok (WriteSendFailed, [])
      else if objType object > 1023 \<or> objInstance object > kObjectInstanceMask \<or>
        (woHasPriority options \<and> (woPriority options = 0 \<or> woPriority options > 16))
      then Ok (WriteInvalidArgument, [])
      else sendWriteBuilt net destination
        (buildWritePropertyRequest kMaxWritePropertyRequestSize object p v options invokeId))"

section \<open>Change notifications\<close>

text \<open>The oldest of two queued notifications makes room.\<close>

definition enqueueBounded :: "nat \<Rightarrow> 'a \<Rightarrow> 'a list \<Rightarrow> 'a list" where
  "enqueueBounded cap x queue = (if length queue = cap then tl queue else queue) @ [x]"

definition queueCovNotification ::
    "bytes \<Rightarrow> BacnetIpEndpoint \<Rightarrow> BacnetClient \<Rightarrow> (bool \<times> BacnetClient) outcome" where
  "queueCovNotification packet source c =
     (case parseCovNotification packet of Undef \<Rightarrow> Undef | Fail \<Rightarrow> Ok (False, c)
      | Ok notification \<Rightarrow> Ok (True, c\<lparr>clQueued :=
          enqueueBounded kMaxClientQueuedCovNotifications (notification\<lparr>cnSource := source\<rparr>) (clQueued c)\<rparr>))"

definition takeQueuedCovNotification :: "BacnetClient \<Rightarrow> BacnetCovNotification option \<times> BacnetClient" where
  "takeQueuedCovNotification c =
     (case clQueued c of [] \<Rightarrow> (None, c) | notification # rest \<Rightarrow> (Some notification, c\<lparr>clQueued := rest\<rparr>))"

definition acknowledgeCovNotification ::
    "Net \<Rightarrow> BacnetCovNotification \<Rightarrow> (bool \<times> Sent list) outcome" where
  "acknowledgeCovNotification net notification =
     (if \<not> cnConfirmed notification then Ok (True, [])
      else case buildSimpleAckResponse 16 (cnInvokeId notification) 0x01 of
        Undef \<Rightarrow> Undef | Fail \<Rightarrow> Ok (False, [])
      | Ok packet \<Rightarrow> Ok (transmit net (cnSource notification) packet))"

definition pollCovNotification ::
    "Net \<Rightarrow> bool \<Rightarrow> BacnetClient \<Rightarrow> (BacnetCovNotification option \<times> BacnetClient \<times> Sent list) outcome" where
  "pollCovNotification net acknowledgeConfirmed c =
     (let accept = (\<lambda>notification c.
            if \<not> acknowledgeConfirmed then Ok (Some notification, c, [])
            else obind (acknowledgeCovNotification net notification) (\<lambda>(acknowledged, sent).
              Ok (if acknowledged then Some notification else None, c, sent)))
      in if \<not> clRunning c then Ok (None, c, [])
      else case takeQueuedCovNotification c of
        (Some notification, c') \<Rightarrow> accept notification c'
      | (None, c') \<Rightarrow>
          (case receive c' of
             (None, c'') \<Rightarrow> Ok (None, c'', [])
           | (Some (source, packet), c'') \<Rightarrow>
               (case parseCovNotification packet of Undef \<Rightarrow> Undef | Fail \<Rightarrow> Ok (None, c'', [])
                | Ok received \<Rightarrow> accept (received\<lparr>cnSource := source\<rparr>) c'')))"

definition clientEndpointEquals :: "BacnetIpEndpoint \<Rightarrow> BacnetIpEndpoint \<Rightarrow> bool" where
  "clientEndpointEquals left right \<longleftrightarrow> epPort left = epPort right \<and>
     epA left = epA right \<and> epB left = epB right \<and> epC left = epC right \<and> epD left = epD right"

section \<open>Polling for a response\<close>

text \<open>
  \<open>pollSubscribeCov\<close> (service 5) and \<open>pollSubscribeCovProperty\<close> (service 0x1C), with the reject
  reason, 0xFF for none.
\<close>

definition pollSubscribe ::
    "u8 \<Rightarrow> u8 \<Rightarrow> BacnetIpEndpoint option \<Rightarrow> BacnetClient \<Rightarrow>
     ((BacnetSubscribeCovResponseKind \<times> u8) \<times> BacnetClient) outcome" where
  "pollSubscribe serviceChoice expectedInvokeId expectedPeer c =
     (if \<not> clRunning c then Ok ((ScNone, 0xFF), c)
      else case receive c of
        (None, c') \<Rightarrow> Ok ((ScNone, 0xFF), c')
      | (Some (source, packet), c') \<Rightarrow>
          obind (queueCovNotification packet source c') (\<lambda>(queued, c'').
            if queued \<or> (case expectedPeer of None \<Rightarrow> False | Some peer \<Rightarrow> \<not> clientEndpointEquals source peer)
            then Ok ((ScNone, 0xFF), c'')
            else obind (classifySubscribeCovResponse packet expectedInvokeId serviceChoice)
              (\<lambda>response. Ok (response, c''))))"

definition pollSubscribeCov ::
    "u8 \<Rightarrow> BacnetIpEndpoint option \<Rightarrow> BacnetClient \<Rightarrow> ((BacnetSubscribeCovResponseKind \<times> u8) \<times> BacnetClient) outcome" where
  "pollSubscribeCov = pollSubscribe 0x05"

definition pollSubscribeCovProperty ::
    "u8 \<Rightarrow> BacnetIpEndpoint option \<Rightarrow> BacnetClient \<Rightarrow> ((BacnetSubscribeCovResponseKind \<times> u8) \<times> BacnetClient) outcome" where
  "pollSubscribeCovProperty = pollSubscribe 0x1C"

definition pollIAm :: "BacnetClient \<Rightarrow> (BacnetIAmDevice option \<times> BacnetClient) outcome" where
  "pollIAm c =
     (if \<not> clRunning c then Ok (None, c)
      else case receive c of
        (None, c') \<Rightarrow> Ok (None, c')
      | (Some (source, packet), c') \<Rightarrow>
          (case parseIAmResponse packet of Undef \<Rightarrow> Undef | Fail \<Rightarrow> Ok (None, c')
           | Ok info \<Rightarrow> Ok (Some \<lparr>idEndpoint = source, idInfo = info\<rparr>, c')))"

definition pollWriteProperty ::
    "Net \<Rightarrow> u8 \<Rightarrow> BacnetClient \<Rightarrow> (BacnetWritePropertyPollStatus \<times> BacnetClient) outcome" where
  "pollWriteProperty net expectedInvokeId c =
     (if \<not> netWriteProperty net then Ok (WriteDisabled, c)
      else if \<not> clRunning c then Ok (WriteSendFailed, c)
      else case receive c of
        (None, c') \<Rightarrow> Ok (WriteNone, c')
      | (Some (source, packet), c') \<Rightarrow>
          obind (classifyWritePropertyResponse packet expectedInvokeId) (\<lambda>kind.
            Ok (case kind of
                  WpAck \<Rightarrow> WriteAck
                | WpError \<Rightarrow>
                    if length packet \<ge> 13 \<and> packet ! 9 = 0x91 \<and> packet ! 10 = 0x02 \<and> packet ! 11 = 0x91 \<and>
                       packet ! 12 = 40
                    then WriteNotCommandable else WriteError
                | WpReject \<Rightarrow> WriteReject | WpAbort \<Rightarrow> WriteAbort | WpUnrelated \<Rightarrow> WriteNone, c')))"

text \<open>What a poll for a ReadProperty response leaves in the caller's variables.\<close>

record ReadPoll =
  rpStatus :: BacnetReadPropertyPollStatus
  rpValue :: BacnetValue
  rpErrorClass :: u32
  rpErrorCode :: u32

definition readPoll :: "BacnetReadPropertyPollStatus \<Rightarrow> BacnetValue \<Rightarrow> ReadPoll" where
  "readPoll status v = \<lparr>rpStatus = status, rpValue = v, rpErrorClass = 0, rpErrorCode = 0\<rparr>"

definition setReadPropertyError :: "bytes \<Rightarrow> BacnetValue" where
  "setReadPropertyError t = emptyValue\<lparr>vType := TyError, vText := t, vTextLength := length t\<rparr>"

text \<open>The response to a read, with the decoder of its acknowledgement; one datagram is consumed.\<close>

definition pollRead ::
    "(bytes \<Rightarrow> BacnetValue outcome) \<Rightarrow> Net \<Rightarrow> u8 \<Rightarrow> BacnetClient \<Rightarrow> (ReadPoll \<times> BacnetClient) outcome" where
  "pollRead decode net expectedInvokeId c =
     (if \<not> clRunning c then Ok (readPoll PollNone emptyValue, c)
      else case receive c of
        (None, c') \<Rightarrow> Ok (readPoll PollNone emptyValue, c')
      | (Some (source, packet), c') \<Rightarrow>
          obind (classifyReadPropertyResponse packet expectedInvokeId) (\<lambda>kind.
          obind (case kind of
              RpAck \<Rightarrow> (case decode packet of Undef \<Rightarrow> Undef
                  | Fail \<Rightarrow> Ok (readPoll PollDecodeError (netLeftover net)) | Ok v \<Rightarrow> Ok (readPoll PollAck v))
            | RpError \<Rightarrow> (case parseReadPropertyError packet expectedInvokeId of Undef \<Rightarrow> Undef
                  | Fail \<Rightarrow> Ok (readPoll PollDecodeError (netLeftover net))
                  | Ok (v, errorClass, errorCode) \<Rightarrow>
                      Ok \<lparr>rpStatus = PollError, rpValue = v, rpErrorClass = errorClass, rpErrorCode = errorCode\<rparr>)
            | RpReject \<Rightarrow> Ok (readPoll PollReject (setReadPropertyError (ascii ''reject'')))
            | RpAbort \<Rightarrow> Ok (readPoll PollAbort (setReadPropertyError (ascii ''abort'')))
            | RpUnrelated \<Rightarrow> Ok (readPoll PollNone emptyValue))
            (\<lambda>result. Ok (result, c'))))"

definition pollReadPropertyStatus ::
    "Net \<Rightarrow> u8 \<Rightarrow> BacnetPropertyRequest \<Rightarrow> BacnetClient \<Rightarrow> (ReadPoll \<times> BacnetClient) outcome" where
  "pollReadPropertyStatus net expectedInvokeId request =
     pollRead (\<lambda>packet. parseReadPropertyAck packet expectedInvokeId request) net expectedInvokeId"

definition pollReadPropertyStatusOf ::
    "Net \<Rightarrow> u8 \<Rightarrow> BacnetPropertyId \<Rightarrow> BacnetClient \<Rightarrow> (ReadPoll \<times> BacnetClient) outcome" where
  "pollReadPropertyStatusOf net expectedInvokeId expectedProperty =
     pollRead (\<lambda>packet. parseReadPropertyAckOf packet expectedInvokeId expectedProperty) net expectedInvokeId"

text \<open>The same for a whole priority array, \<open>None\<close> for the empty one it starts from.\<close>

definition pollReadPriorityArrayStatus ::
    "Net \<Rightarrow> u8 \<Rightarrow> BacnetPropertyRequest \<Rightarrow> BacnetClient \<Rightarrow>
     ((ReadPoll \<times> BacnetPriorityArray option) \<times> BacnetClient) outcome" where
  "pollReadPriorityArrayStatus net expectedInvokeId request c =
     (if \<not> clRunning c then Ok ((readPoll PollNone emptyValue, None), c)
      else case receive c of
        (None, c') \<Rightarrow> Ok ((readPoll PollNone emptyValue, None), c')
      | (Some (source, packet), c') \<Rightarrow>
          obind (classifyReadPropertyResponse packet expectedInvokeId) (\<lambda>kind.
          obind (case kind of
              RpAck \<Rightarrow> (case parseReadPriorityArrayAck packet expectedInvokeId request of Undef \<Rightarrow> Undef
                  | Fail \<Rightarrow> Ok (readPoll PollDecodeError emptyValue, None)
                  | Ok slots \<Rightarrow> Ok (readPoll PollAck emptyValue, Some slots))
            | RpError \<Rightarrow> (case parseReadPropertyError packet expectedInvokeId of Undef \<Rightarrow> Undef
                  | Fail \<Rightarrow> Ok (readPoll PollDecodeError emptyValue, None)
                  | Ok (v, errorClass, errorCode) \<Rightarrow>
                      Ok (\<lparr>rpStatus = PollError, rpValue = emptyValue, rpErrorClass = errorClass,
                           rpErrorCode = errorCode\<rparr>, None))
            | RpReject \<Rightarrow> Ok (readPoll PollReject emptyValue, None)
            | RpAbort \<Rightarrow> Ok (readPoll PollAbort emptyValue, None)
            | RpUnrelated \<Rightarrow> Ok (readPoll PollNone emptyValue, None))
            (\<lambda>result. Ok (result, c'))))"

end
