(* ===== verification/SessionData.thy ===== *)
theory SessionData
  imports Client
begin

text \<open>
  The data of a device session (src/src/core/client/BacnetDeviceSession.h): the outcomes of reads
  and writes, how the answer to a read is classified, when two values count as equal, and the
  health state that is derived from an object's status properties.
\<close>

section \<open>Outcomes of reads and writes\<close>

datatype BacnetDeviceSessionReadStatus = DrAck | DrError | DrTimeout | DrSendFailed | DrSkipped | DrBusy

datatype BacnetDeviceSessionWriteStatus =
  DwAck | DwError | DwNotCommandable | DwReject | DwAbort | DwTimeout | DwSendFailed | DwDisabled
| DwInvalidArgument | DwUnsupportedValue | DwBusy

datatype BacnetPropertyReadStatus =
  PrAck | PrUnsupportedProperty | PrTimeout | PrError | PrReject | PrAbort | PrDecodeError
| PrEmptyValue | PrUnsupportedDatatype | PrArrayIndexNotSupported | PrSendFailed | PrBusy | PrSkipped

fun bacnetWriteStatusText :: "BacnetDeviceSessionWriteStatus \<Rightarrow> string" where
  "bacnetWriteStatusText DwAck = ''ack''"
| "bacnetWriteStatusText DwError = ''error''"
| "bacnetWriteStatusText DwNotCommandable = ''not-commandable''"
| "bacnetWriteStatusText DwReject = ''reject''"
| "bacnetWriteStatusText DwAbort = ''abort''"
| "bacnetWriteStatusText DwTimeout = ''timeout''"
| "bacnetWriteStatusText DwSendFailed = ''send-failed''"
| "bacnetWriteStatusText DwDisabled = ''disabled''"
| "bacnetWriteStatusText DwInvalidArgument = ''invalid-argument''"
| "bacnetWriteStatusText DwUnsupportedValue = ''unsupported-value''"
| "bacnetWriteStatusText DwBusy = ''busy''"

fun bacnetReadStatusText :: "BacnetDeviceSessionReadStatus \<Rightarrow> string" where
  "bacnetReadStatusText DrAck = ''ok''"
| "bacnetReadStatusText DrError = ''error''"
| "bacnetReadStatusText DrTimeout = ''timeout''"
| "bacnetReadStatusText DrSendFailed = ''send-failed''"
| "bacnetReadStatusText DrSkipped = ''skipped''"
| "bacnetReadStatusText DrBusy = ''busy''"

fun bacnetPropertyReadStatusText :: "BacnetPropertyReadStatus \<Rightarrow> string" where
  "bacnetPropertyReadStatusText PrAck = ''ok''"
| "bacnetPropertyReadStatusText PrUnsupportedProperty = ''unsupported-property''"
| "bacnetPropertyReadStatusText PrTimeout = ''timeout''"
| "bacnetPropertyReadStatusText PrError = ''error''"
| "bacnetPropertyReadStatusText PrReject = ''reject''"
| "bacnetPropertyReadStatusText PrAbort = ''abort''"
| "bacnetPropertyReadStatusText PrDecodeError = ''decode-error''"
| "bacnetPropertyReadStatusText PrEmptyValue = ''empty''"
| "bacnetPropertyReadStatusText PrUnsupportedDatatype = ''unsupported-datatype''"
| "bacnetPropertyReadStatusText PrArrayIndexNotSupported = ''array-index-not-supported''"
| "bacnetPropertyReadStatusText PrSendFailed = ''send-failed''"
| "bacnetPropertyReadStatusText PrBusy = ''busy''"
| "bacnetPropertyReadStatusText PrSkipped = ''skipped''"

fun deviceReadStatusFromPropertyStatus :: "BacnetPropertyReadStatus \<Rightarrow> BacnetDeviceSessionReadStatus" where
  "deviceReadStatusFromPropertyStatus PrAck = DrAck"
| "deviceReadStatusFromPropertyStatus PrEmptyValue = DrAck"
| "deviceReadStatusFromPropertyStatus PrUnsupportedDatatype = DrAck"
| "deviceReadStatusFromPropertyStatus PrTimeout = DrTimeout"
| "deviceReadStatusFromPropertyStatus PrSendFailed = DrSendFailed"
| "deviceReadStatusFromPropertyStatus PrBusy = DrBusy"
| "deviceReadStatusFromPropertyStatus _ = DrError"

definition classifyDetailedReadStatus ::
    "BacnetReadPropertyPollStatus \<Rightarrow> BacnetValue \<Rightarrow> u32 \<Rightarrow> u32 \<Rightarrow> u32 \<Rightarrow> BacnetPropertyReadStatus" where
  "classifyDetailedReadStatus pollStatus v errorClass errorCode requestArrayIndex =
     (case pollStatus of
        PollAck \<Rightarrow>
          if vType v = TyUnsupported then PrUnsupportedDatatype
          else if vType v = TyEmpty \<or> vType v = TyNull then PrEmptyValue else PrAck
      | PollError \<Rightarrow>
          if errorClass = 2 \<and> errorCode = 32 then PrUnsupportedProperty
          else if requestArrayIndex \<noteq> kBacnetNoArrayIndex \<and> errorClass = 2 \<and> errorCode = 42
          then PrArrayIndexNotSupported else PrError
      | PollReject \<Rightarrow> PrReject | PollAbort \<Rightarrow> PrAbort | PollDecodeError \<Rightarrow> PrDecodeError
      | PollNone \<Rightarrow> PrTimeout)"

section \<open>Readings of a value\<close>

definition objectIdFromObjectListValue :: "BacnetValue \<Rightarrow> BacnetObjectId option" where
  "objectIdFromObjectListValue v = (if vType v \<noteq> TyObjectIdentifier then None else Some (vObject v))"

definition enumValueFromBacnetValue :: "BacnetValue \<Rightarrow> u32 option" where
  "enumValueFromBacnetValue v =
     (if vType v \<noteq> TyEnumerated \<and> vType v \<noteq> TyUnsigned then None else Some (vUnsigned v))"

definition booleanValueFromBacnetValue :: "BacnetValue \<Rightarrow> bool option" where
  "booleanValueFromBacnetValue v = (if vType v \<noteq> TyBoolean then None else Some (vBoolean v))"

definition bacnetPropertyIdFromPropertyListValue :: "BacnetValue \<Rightarrow> BacnetPropertyId option" where
  "bacnetPropertyIdFromPropertyListValue v =
     (if vType v \<noteq> TyEnumerated \<and> vType v \<noteq> TyUnsigned then None else Some (vUnsigned v))"

definition bacnetEngineeringUnitId :: "BacnetValue \<Rightarrow> u32 option" where
  "bacnetEngineeringUnitId v =
     (if vType v = TyEnumerated \<or> vType v = TyUnsigned then Some (vUnsigned v) else None)"

record BacnetStatusFlags =
  sfInAlarm :: bool
  sfFault :: bool
  sfOverridden :: bool
  sfOutOfService :: bool

definition noStatusFlags :: BacnetStatusFlags where
  "noStatusFlags = \<lparr>sfInAlarm = False, sfFault = False, sfOverridden = False, sfOutOfService = False\<rparr>"

definition bacnetDecodeStatusFlags :: "BacnetValue \<Rightarrow> BacnetStatusFlags option" where
  "bacnetDecodeStatusFlags v =
     (if vType v \<noteq> TyBitString \<or> vBitCount v < 4 then None
      else Some \<lparr>sfInAlarm = bit (vBitString v) 0, sfFault = bit (vBitString v) 1,
                 sfOverridden = bit (vBitString v) 2, sfOutOfService = bit (vBitString v) 3\<rparr>)"

text \<open>\<open>strcmp(left.text, right.text) == 0\<close>: a text counts up to its first NUL.\<close>

definition textEquals :: "bytes \<Rightarrow> bytes \<Rightarrow> bool" where
  "textEquals left right \<longleftrightarrow> takeWhile (\<lambda>b. b \<noteq> 0) left = takeWhile (\<lambda>b. b \<noteq> 0) right"

definition bacnetValueEquals :: "BacnetValue \<Rightarrow> BacnetValue \<Rightarrow> bool" where
  "bacnetValueEquals left right \<longleftrightarrow> vType left = vType right \<and>
     (case vType left of
        TyBoolean \<Rightarrow> vBoolean left = vBoolean right
      | TyUnsigned \<Rightarrow> vUnsigned left = vUnsigned right
      | TyEnumerated \<Rightarrow> vUnsigned left = vUnsigned right
      | TySigned \<Rightarrow> vSigned left = vSigned right
      | TyReal \<Rightarrow> f32_eq (vReal left) (vReal right)
      | TyBitString \<Rightarrow> vBitString left = vBitString right \<and> vBitCount left = vBitCount right
      | TyObjectIdentifier \<Rightarrow> objType (vObject left) = objType (vObject right) \<and>
          objInstance (vObject left) = objInstance (vObject right)
      | TyCharacterString \<Rightarrow> textEquals (vText left) (vText right)
      | TyObjectIdentifierList \<Rightarrow> textEquals (vText left) (vText right)
      | TyPropertyIdentifierList \<Rightarrow> textEquals (vText left) (vText right)
      | TyError \<Rightarrow> textEquals (vText left) (vText right)
      | TyUnsupported \<Rightarrow> textEquals (vText left) (vText right)
      | _ \<Rightarrow> True)"

definition bacnetEventStateText :: "u32 \<Rightarrow> string" where
  "bacnetEventStateText state =
     (if state = 0 then ''normal'' else if state = 1 then ''fault''
      else if state = 2 then ''offnormal'' else if state = 3 then ''high-limit''
      else if state = 4 then ''low-limit'' else if state = 5 then ''life-safety-alarm''
      else ''event-state'')"

definition bacnetReliabilityText :: "u32 \<Rightarrow> string" where
  "bacnetReliabilityText reliability =
     (if reliability = 0 then ''no-fault-detected'' else if reliability = 1 then ''no-sensor''
      else if reliability = 2 then ''over-range'' else if reliability = 3 then ''under-range''
      else if reliability = 4 then ''open-loop'' else if reliability = 5 then ''shorted-loop''
      else if reliability = 6 then ''no-output'' else if reliability = 7 then ''unreliable-other''
      else if reliability = 8 then ''process-error'' else if reliability = 9 then ''multi-state-fault''
      else if reliability = 10 then ''configuration-error''
      else if reliability = 12 then ''communication-failure''
      else if reliability = 13 then ''member-fault''
      else if reliability = 14 then ''monitored-object-fault''
      else if reliability = 15 then ''tripped'' else ''reliability'')"

section \<open>The health of an object\<close>

datatype BacnetObjectHealthState = HealthUnknown | HealthNormal | HealthWarning | HealthError | HealthOutOfService

fun bacnetObjectHealthStateText :: "BacnetObjectHealthState \<Rightarrow> string" where
  "bacnetObjectHealthStateText HealthNormal = ''Normal''"
| "bacnetObjectHealthStateText HealthWarning = ''Warning''"
| "bacnetObjectHealthStateText HealthError = ''Error''"
| "bacnetObjectHealthStateText HealthOutOfService = ''OutOfService''"
| "bacnetObjectHealthStateText HealthUnknown = ''Unknown''"

record BacnetObjectStatus =
  osObjectId :: BacnetObjectId
  osPresentValueStatus :: BacnetPropertyReadStatus
  osPresentValue :: BacnetValue
  osStatusFlagsStatus :: BacnetPropertyReadStatus
  osStatusFlags :: BacnetStatusFlags
  osEventStateStatus :: BacnetPropertyReadStatus
  osEventState :: u32
  osReliabilityStatus :: BacnetPropertyReadStatus
  osReliability :: u32
  osOutOfServiceStatus :: BacnetPropertyReadStatus
  osOutOfService :: bool
  osState :: BacnetObjectHealthState

definition emptyObjectStatus :: "BacnetObjectId \<Rightarrow> BacnetObjectStatus" where
  "emptyObjectStatus ob = \<lparr>osObjectId = ob, osPresentValueStatus = PrSkipped, osPresentValue = emptyValue,
     osStatusFlagsStatus = PrSkipped, osStatusFlags = noStatusFlags, osEventStateStatus = PrSkipped,
     osEventState = 0, osReliabilityStatus = PrSkipped, osReliability = 0,
     osOutOfServiceStatus = PrSkipped, osOutOfService = False, osState = HealthUnknown\<rparr>"

definition bacnetDeriveObjectHealthState :: "BacnetObjectStatus \<Rightarrow> bool \<Rightarrow> BacnetObjectHealthState" where
  "bacnetDeriveObjectHealthState status presentValueRequired =
     (if osOutOfServiceStatus status = PrAck \<and> osOutOfService status \<or>
         osStatusFlagsStatus status = PrAck \<and> sfOutOfService (osStatusFlags status)
      then HealthOutOfService
      else if presentValueRequired \<and> osPresentValueStatus status \<noteq> PrAck \<or>
         osStatusFlagsStatus status = PrAck \<and> sfFault (osStatusFlags status) \<or>
         osReliabilityStatus status = PrAck \<and> osReliability status \<noteq> 0 \<or>
         osEventStateStatus status = PrAck \<and> osEventState status = 1
      then HealthError
      else if osStatusFlagsStatus status = PrAck \<and> sfInAlarm (osStatusFlags status) \<or>
         osEventStateStatus status = PrAck \<and>
           (osEventState status = 2 \<or> osEventState status = 3 \<or> osEventState status = 4)
      then HealthWarning
      else if osStatusFlagsStatus status = PrAck \<or> osEventStateStatus status = PrAck \<or>
         osReliabilityStatus status = PrAck \<or> osOutOfServiceStatus status = PrAck
      then HealthNormal else HealthUnknown)"

end
