(* ===== verification/PropertyCache.thy ===== *)
theory PropertyCache
  imports SessionData
begin

text \<open>
  The property cache of a device session (\<open>findCachedProperty\<close>, \<open>findOrCreateCachedProperty\<close>,
  \<open>updatePropertyCache\<close> of src/src/core/client/BacnetDeviceSession.cpp). A slot of
  \<open>propertyCache_\<close> with its flag in \<open>propertyCacheUsed_\<close> is an \<open>option\<close>. The claims: the slots are
  a queue of at most eight distinct requests, a new one displaces the oldest, and what was read
  once is still there after later reads have failed.
\<close>

section \<open>The cache\<close>

record BacnetCachedProperty =
  cpRequest :: BacnetPropertyRequest
  cpStatus :: BacnetPropertyReadStatus
  cpCached :: BacnetValue
  cpUpdatedAtMs :: u32
  cpLastAttemptMs :: u32
  cpLastSuccessMs :: u32
  cpErrorClass :: u32
  cpErrorCode :: u32
  cpHasValue :: bool

definition kMaxCachedProperties :: nat where "kMaxCachedProperties = 8"

record PropertyCache =
  pcSlots :: "BacnetCachedProperty option list"
  pcCount :: nat
  pcNext :: nat

definition emptyCachedProperty :: BacnetCachedProperty where
  "emptyCachedProperty = \<lparr>cpRequest = emptyRequest, cpStatus = PrSkipped, cpCached = emptyValue,
     cpUpdatedAtMs = 0, cpLastAttemptMs = 0, cpLastSuccessMs = 0, cpErrorClass = 0, cpErrorCode = 0,
     cpHasValue = False\<rparr>"

definition emptyCache :: PropertyCache where
  "emptyCache = \<lparr>pcSlots = replicate kMaxCachedProperties None, pcCount = 0, pcNext = 0\<rparr>"

definition propertyRequestEquals :: "BacnetPropertyRequest \<Rightarrow> BacnetPropertyRequest \<Rightarrow> bool" where
  "propertyRequestEquals left right \<longleftrightarrow>
     objType (rqObject left) = objType (rqObject right) \<and>
     objInstance (rqObject left) = objInstance (rqObject right) \<and>
     rqProperty left = rqProperty right \<and> rqArrayIndex left = rqArrayIndex right"

definition holdsRequest :: "BacnetPropertyRequest \<Rightarrow> BacnetCachedProperty option \<Rightarrow> bool" where
  "holdsRequest request sl =
     (case sl of None \<Rightarrow> False | Some entry \<Rightarrow> propertyRequestEquals (cpRequest entry) request)"

definition findCachedProperty :: "PropertyCache \<Rightarrow> BacnetPropertyRequest \<Rightarrow> BacnetCachedProperty option" where
  "findCachedProperty c request =
     (case List.find (holdsRequest request) (pcSlots c) of None \<Rightarrow> None | Some sl \<Rightarrow> sl)"

text \<open>The slot of \<open>request\<close>, taken over for it if it has none.\<close>

definition findOrCreateCachedProperty :: "BacnetPropertyRequest \<Rightarrow> PropertyCache \<Rightarrow> nat \<times> PropertyCache" where
  "findOrCreateCachedProperty request c =
     (case List.find (\<lambda>i. holdsRequest request (pcSlots c ! i)) [0..<kMaxCachedProperties] of
        Some i \<Rightarrow> (i, c)
      | None \<Rightarrow>
          let free = (if pcCount c < kMaxCachedProperties
                then List.find (\<lambda>candidate. pcSlots c ! candidate = None)
                  (map (\<lambda>i. (pcNext c + i) mod kMaxCachedProperties) [0..<kMaxCachedProperties])
                else None);
              sl = (case free of Some candidate \<Rightarrow> candidate | None \<Rightarrow> pcNext c)
          in (sl, \<lparr>pcSlots = (pcSlots c)[sl := Some (emptyCachedProperty\<lparr>cpRequest := request\<rparr>)],
                   pcCount = (if free = None then pcCount c else pcCount c + 1),
                   pcNext = (sl + 1) mod kMaxCachedProperties\<rparr>))"

text \<open>What \<open>updatePropertyCache\<close> does to the entry it found.\<close>

definition recordAttempt ::
    "BacnetPropertyReadStatus \<Rightarrow> BacnetValue option \<Rightarrow> u32 \<Rightarrow> u32 \<Rightarrow> u32 \<Rightarrow> BacnetCachedProperty \<Rightarrow>
     BacnetCachedProperty" where
  "recordAttempt status v attemptAtMs errorClass errorCode entry =
     (let entry = entry\<lparr>cpStatus := status, cpLastAttemptMs := attemptAtMs, cpErrorClass := errorClass,
            cpErrorCode := errorCode\<rparr>
      in case v of None \<Rightarrow> entry
         | Some x \<Rightarrow>
             if status = PrAck
             then entry\<lparr>cpCached := x, cpHasValue := True, cpLastSuccessMs := attemptAtMs,
                    cpUpdatedAtMs := attemptAtMs\<rparr>
             else if \<not> cpHasValue entry then entry\<lparr>cpCached := x\<rparr> else entry)"

definition updatePropertyCache ::
    "BacnetPropertyRequest \<Rightarrow> BacnetPropertyReadStatus \<Rightarrow> BacnetValue option \<Rightarrow> u32 \<Rightarrow> u32 \<Rightarrow> u32 \<Rightarrow>
     PropertyCache \<Rightarrow> PropertyCache" where
  "updatePropertyCache request status v attemptAtMs errorClass errorCode c =
     (let (i, c') = findOrCreateCachedProperty request c
      in c'\<lparr>pcSlots := (pcSlots c')
           [i := map_option (recordAttempt status v attemptAtMs errorClass errorCode) (pcSlots c' ! i)]\<rparr>)"

definition cachedProperty ::
    "PropertyCache \<Rightarrow> BacnetObjectId \<Rightarrow> BacnetPropertyId \<Rightarrow> u32 \<Rightarrow> BacnetCachedProperty option" where
  "cachedProperty c ob p arrayIndex =
     findCachedProperty c \<lparr>rqObject = ob, rqProperty = p, rqArrayIndex = arrayIndex\<rparr>"

section \<open>The interface of a bounded queue of entries\<close>

text \<open>
  \<open>queue\<close> lists the entries from the oldest to the newest. Updating the entry of a key that is
  there leaves the order alone; a new key goes to the end and displaces the oldest entry of a full
  queue.
\<close>

definition queueUpdate :: "nat \<Rightarrow> ('e \<Rightarrow> 'k) \<Rightarrow> ('k \<Rightarrow> 'e) \<Rightarrow> 'k \<Rightarrow> ('e \<Rightarrow> 'e) \<Rightarrow> 'e list \<Rightarrow> 'e list" where
  "queueUpdate cap key fresh k f es =
     (if k \<in> key ` set es then map (\<lambda>e. if key e = k then f e else e) es
      else enqueueBounded cap (f (fresh k)) es)"

definition queueLookup :: "('e \<Rightarrow> 'k) \<Rightarrow> 'k \<Rightarrow> 'e list \<Rightarrow> 'e option" where
  "queueLookup key k es = List.find (\<lambda>e. key e = k) es"

locale displacing_cache =
  fixes queue :: "'c \<Rightarrow> 'e list" and key :: "'e \<Rightarrow> 'k" and fresh :: "'k \<Rightarrow> 'e" and keeps :: "('e \<Rightarrow> 'e) \<Rightarrow> bool"
    and lookup :: "'c \<Rightarrow> 'k \<Rightarrow> 'e option" and update :: "'k \<Rightarrow> ('e \<Rightarrow> 'e) \<Rightarrow> 'c \<Rightarrow> 'c"
    and cap :: nat and wf :: "'c \<Rightarrow> bool"
  assumes cap_pos: "0 < cap"
    and key_fresh: "key (fresh k) = k"
    and keeps_key: "keeps f \<Longrightarrow> key (f e) = key e"
    and bounded: "wf c \<Longrightarrow> length (queue c) \<le> cap \<and> distinct (map key (queue c))"
    and update_wf: "wf c \<Longrightarrow> keeps f \<Longrightarrow> wf (update k f c)"
    and update_queue: "wf c \<Longrightarrow> keeps f \<Longrightarrow> queue (update k f c) = queueUpdate cap key fresh k f (queue c)"
    and lookup_queue: "wf c \<Longrightarrow> lookup c k = queueLookup key k (queue c)"
begin

text \<open>The entry just updated is found.\<close>

lemma queueLookup_map:
  "(\<And>e. key (f e) = key e) \<Longrightarrow>
     queueLookup key j (map (\<lambda>e. if key e = k then f e else e) es) =
       (if j = k then map_option f (queueLookup key k es) else queueLookup key j es)"
  by (induction es) (auto simp: queueLookup_def)

lemma queueLookup_append:
  "queueLookup key k (xs @ ys) = (case queueLookup key k xs of None \<Rightarrow> queueLookup key k ys | Some e \<Rightarrow> Some e)"
  by (induction xs) (auto simp: queueLookup_def)

lemma queueLookup_None: "queueLookup key k es = None \<longleftrightarrow> k \<notin> key ` set es"
  by (auto simp: queueLookup_def find_None_iff)

lemma lookup_updated:
  assumes c: "wf c" "keeps f"
  shows "lookup (update k f c) k = Some (f (case lookup c k of None \<Rightarrow> fresh k | Some e \<Rightarrow> e))"
proof -
  have wf': "wf (update k f c)" using c by (rule update_wf)
  have fk: "key (f e) = key e" for e using c(2) by (rule keeps_key)
  show ?thesis
  proof (cases "k \<in> key ` set (queue c)")
    case True
    then obtain e where "queueLookup key k (queue c) = Some e" using queueLookup_None by fastforce
    with True show ?thesis
      by (simp add: lookup_queue wf' c update_queue queueUpdate_def queueLookup_map fk)
  next
    case False
    then have "queueLookup key k (queue c) = None" by (simp add: queueLookup_None)
    moreover have "queueLookup key k (tl (queue c)) = None"
      using False by (cases "queue c") (auto simp: queueLookup_None)
    moreover have "queueLookup key k [f (fresh k)] = Some (f (fresh k))"
      by (simp add: queueLookup_def fk key_fresh)
    ultimately show ?thesis
      using False by (simp add: lookup_queue wf' c update_queue queueUpdate_def enqueueBounded_def queueLookup_append)
  qed
qed

text \<open>Another key is left alone, unless its entry is the oldest of a full queue and the updated key is new.\<close>

lemma lookup_other:
  assumes c: "wf c" "keeps f" and "j \<noteq> k"
  shows "lookup (update k f c) j =
    (if k \<notin> key ` set (queue c) \<and> length (queue c) = cap \<and> key (hd (queue c)) = j then None else lookup c j)"
proof -
  have wf': "wf (update k f c)" using c by (rule update_wf)
  have fk: "key (f e) = key e" for e using c(2) by (rule keeps_key)
  have new: "queueLookup key j [f (fresh k)] = None"
    using \<open>j \<noteq> k\<close> by (simp add: queueLookup_def fk key_fresh)
  have append: "queueLookup key j (xs @ [f (fresh k)]) = queueLookup key j xs" for xs
    using new by (simp add: queueLookup_append split: option.splits)
  show ?thesis
  proof (cases "k \<in> key ` set (queue c)")
    case True
    then show ?thesis
      using \<open>j \<noteq> k\<close> by (simp add: lookup_queue wf' c update_queue queueUpdate_def queueLookup_map fk)
  next
    case False
    then have q: "queue (update k f c) = enqueueBounded cap (f (fresh k)) (queue c)"
      using c by (simp add: update_queue queueUpdate_def)
    show ?thesis
    proof (cases "length (queue c) = cap")
      case True
      then obtain e es where es: "queue c = e # es" using cap_pos by (cases "queue c") auto
      then have "key e \<notin> key ` set es" using bounded [OF c(1)] by auto
      with es True False show ?thesis
        by (auto simp: lookup_queue wf' c q enqueueBounded_def append queueLookup_None)
          (auto simp: queueLookup_def)
    next
      case other: False
      with False show ?thesis by (simp add: lookup_queue wf' c q enqueueBounded_def append)
    qed
  qed
qed

text \<open>An entry stays until \<open>cap\<close> other new keys have come in after it.\<close>

definition younger :: "'k \<Rightarrow> 'k set \<Rightarrow> 'c \<Rightarrow> bool" where
  "younger k ks c \<longleftrightarrow> (\<exists>pre e post. queue c = pre @ e # post \<and> key e = k \<and> key ` set post \<subseteq> ks)"

lemma younger_update:
  assumes c: "wf c" "keeps f" and y: "younger k ks c" and j: "j \<in> insert k ks"
    and small: "finite ks" "k \<notin> ks" "card ks < cap"
  shows "younger k ks (update j f c)"
proof -
  obtain pre e post where q: "queue c = pre @ e # post" "key e = k" "key ` set post \<subseteq> ks"
    using y by (auto simp: younger_def)
  have fk: "key (f x) = key x" for x using c(2) by (rule keeps_key)
  let ?g = "\<lambda>x. if key x = j then f x else x"
  show ?thesis
  proof (cases "j \<in> key ` set (queue c)")
    case True
    then have "queue (update j f c) = map ?g pre @ ?g e # map ?g post"
      using q by (simp add: update_queue [OF c] queueUpdate_def)
    moreover have "key (?g e) = k" "key ` set (map ?g post) \<subseteq> ks" using q fk by auto
    ultimately show ?thesis unfolding younger_def by blast
  next
    case False
    then have new: "queue (update j f c) = enqueueBounded cap (f (fresh j)) (pre @ e # post)"
      using q by (simp add: update_queue [OF c] queueUpdate_def)
    have jk: "j \<in> ks" "key (f (fresh j)) = j" using False j q fk key_fresh by auto
    have "pre \<noteq> []" if "length (pre @ e # post) = cap"
    proof
      assume "pre = []"
      have d: "distinct (map key post)" using bounded [OF c(1)] q by simp
      have "key ` set post \<subseteq> ks - {j}" using q False by auto
      then have "card (key ` set post) < card ks"
        using small jk by (meson card_mono card_Diff1_less finite_Diff le_less_trans)
      moreover have "card (key ` set post) = length post" using distinct_card [OF d] by simp
      ultimately show False using that \<open>pre = []\<close> small by simp
    qed
    then have "\<exists>pre'. queue (update j f c) = pre' @ e # (post @ [f (fresh j)])"
      unfolding new by (cases pre) (auto simp: enqueueBounded_def)
    then show ?thesis unfolding younger_def using q jk by fastforce
  qed
qed

lemma stays_cached:
  assumes "wf c" "younger k ks c" "\<forall>(j, f) \<in> set us. keeps f \<and> j \<in> insert k ks"
    and small: "finite ks" "k \<notin> ks" "card ks < cap"
  shows "lookup (fold (\<lambda>(j, f). update j f) us c) k \<noteq> None"
  using assms(1-3)
proof (induction us arbitrary: c)
  case Nil
  then have "k \<in> key ` set (queue c)" by (auto simp: younger_def)
  with Nil show ?case by (simp add: lookup_queue queueLookup_None)
next
  case (Cons u us)
  obtain j f where u: "u = (j, f)" by force
  with Cons.prems have jf: "keeps f" "j \<in> insert k ks" by auto
  have "wf (update j f c)" using Cons.prems jf by (simp add: update_wf)
  moreover have "younger k ks (update j f c)" using Cons.prems jf small by (intro younger_update)
  ultimately show ?case using Cons.IH [of "update j f c"] Cons.prems(3) u by simp
qed

lemma fresh_younger:
  assumes "wf c" "keeps f" "lookup c k = None"
  shows "younger k ks (update k f c)"
proof -
  have "k \<notin> key ` set (queue c)" using assms by (simp add: lookup_queue queueLookup_None)
  then have "queue (update k f c) = (if length (queue c) = cap then tl (queue c) else queue c) @ [f (fresh k)]"
    using assms by (simp add: update_queue queueUpdate_def enqueueBounded_def)
  moreover have "key (f (fresh k)) = k" using assms(2) by (simp add: keeps_key key_fresh)
  ultimately show ?thesis unfolding younger_def by fastforce
qed

end

section \<open>The slots are such a queue\<close>

text \<open>
  No slot is ever released, so the slots fill from the first one on and \<open>pcNext\<close> then goes round:
  it is the oldest slot.
\<close>

definition cacheQueue :: "PropertyCache \<Rightarrow> BacnetCachedProperty list" where
  "cacheQueue c = (let es = map the (take (pcCount c) (pcSlots c)) in drop (pcNext c) es @ take (pcNext c) es)"

definition wfCache :: "PropertyCache \<Rightarrow> bool" where
  "wfCache c \<longleftrightarrow>
     length (pcSlots c) = kMaxCachedProperties \<and> pcCount c \<le> kMaxCachedProperties \<and>
     pcNext c < kMaxCachedProperties \<and> (pcCount c < kMaxCachedProperties \<longrightarrow> pcNext c = pcCount c) \<and>
     (\<forall>i < kMaxCachedProperties. pcSlots c ! i \<noteq> None \<longleftrightarrow> i < pcCount c) \<and>
     distinct (map cpRequest (cacheQueue c))"

definition freshEntry :: "BacnetPropertyRequest \<Rightarrow> BacnetCachedProperty" where
  "freshEntry request = emptyCachedProperty\<lparr>cpRequest := request\<rparr>"

definition updateEntry ::
    "BacnetPropertyRequest \<Rightarrow> (BacnetCachedProperty \<Rightarrow> BacnetCachedProperty) \<Rightarrow> PropertyCache \<Rightarrow> PropertyCache" where
  "updateEntry request f c =
     (let (i, c') = findOrCreateCachedProperty request c
      in c'\<lparr>pcSlots := (pcSlots c')[i := map_option f (pcSlots c' ! i)]\<rparr>)"

lemma updatePropertyCache_entry:
  "updatePropertyCache request status v at ec eo = updateEntry request (recordAttempt status v at ec eo)"
  by (simp add: fun_eq_iff updatePropertyCache_def updateEntry_def)

lemma propertyRequestEquals_eq [simp]: "propertyRequestEquals r r' \<longleftrightarrow> r = r'"
  by (cases r; cases r') (auto simp: propertyRequestEquals_def intro: BacnetObjectId.equality)

lemma recordAttempt_request [simp]: "cpRequest (recordAttempt status v at ec eo e) = cpRequest e"
  by (simp add: recordAttempt_def Let_def split: option.splits)

lemma freshEntry_request [simp]: "cpRequest (freshEntry r) = r"
  by (simp add: freshEntry_def)

lemma holdsRequest_iff: "holdsRequest r sl \<longleftrightarrow> (\<exists>e. sl = Some e \<and> cpRequest e = r)"
  by (auto simp: holdsRequest_def split: option.splits)

text \<open>While there is room the queue is the used slots in order; a full queue starts at \<open>pcNext\<close>.\<close>

lemma cacheQueue_room:
  assumes "pcCount c < kMaxCachedProperties" "wfCache c"
  shows "cacheQueue c = map the (take (pcCount c) (pcSlots c))"
  using assms by (simp add: cacheQueue_def wfCache_def Let_def)

lemma set_rotated: "set (drop n xs @ take n xs) = set xs"
  by (metis Un_commute append_take_drop_id set_append)

lemma distinct_rotated: "distinct (drop n xs @ take n xs) \<longleftrightarrow> distinct xs"
  by (metis append_take_drop_id distinct_append Int_commute)

lemma set_cacheQueue:
  assumes "wfCache c"
  shows "set (cacheQueue c) = {e. \<exists>i < pcCount c. pcSlots c ! i = Some e}"
proof -
  have len: "pcCount c \<le> length (pcSlots c)" and used: "\<And>i. i < pcCount c \<Longrightarrow> pcSlots c ! i \<noteq> None"
    using assms by (auto simp: wfCache_def)
  have "set (cacheQueue c) = set (map the (take (pcCount c) (pcSlots c)))"
    unfolding cacheQueue_def Let_def by (rule set_rotated)
  also have "\<dots> = the ` nth (pcSlots c) ` {0..<pcCount c}"
    using len by (simp add: nth_image)
  finally show ?thesis using used by (force simp: image_image)
qed


lemma distinct_requests:
  "wfCache c \<Longrightarrow> distinct (map (\<lambda>sl. cpRequest (the sl)) (take (pcCount c) (pcSlots c)))"
  using distinct_rotated [of "pcNext c" "map cpRequest (map the (take (pcCount c) (pcSlots c)))"]
  by (simp add: wfCache_def cacheQueue_def Let_def comp_def flip: drop_map take_map)

lemma slot_unique:
  assumes "wfCache c" "i < pcCount c" "j < pcCount c"
    "cpRequest (the (pcSlots c ! i)) = cpRequest (the (pcSlots c ! j))"
  shows "i = j"
proof -
  have "pcCount c \<le> length (pcSlots c)" using assms(1) by (simp add: wfCache_def)
  then show ?thesis
    using nth_eq_iff_index_eq [OF distinct_requests [OF assms(1)], of i j] assms(2-4) by simp
qed

lemma rotated_replace:
  assumes "length es = n" "k < n"
  shows "drop (Suc k mod n) (es[k := x]) @ take (Suc k mod n) (es[k := x]) = tl (drop k es @ take k es) @ [x]"
proof -
  have split: "drop k es = es ! k # drop (Suc k) es" using assms by (simp add: Cons_nth_drop_Suc)
  show ?thesis
  proof (cases "Suc k = n")
    case True
    then have "drop (Suc k) es = []" using assms by simp
    with split True assms show ?thesis by (simp add: upd_conv_take_nth_drop)
  next
    case False
    with assms have "Suc k < n" by simp
    with split assms show ?thesis by (simp add: take_Suc_conv_app_nth)
  qed
qed

section \<open>An update is an update of the queue\<close>

lemma findOrCreate_hit:
  assumes "wfCache c" "i < pcCount c" "cpRequest (the (pcSlots c ! i)) = request"
  shows "findOrCreateCachedProperty request c = (i, c)"
proof -
  have used: "\<And>j. j < kMaxCachedProperties \<Longrightarrow> pcSlots c ! j \<noteq> None \<longleftrightarrow> j < pcCount c"
    and i: "i < kMaxCachedProperties" using assms(1,2) by (auto simp: wfCache_def)
  have holds: "holdsRequest request (pcSlots c ! j) \<longleftrightarrow> j = i" if "j < kMaxCachedProperties" for j
    using used [OF that] used [OF i] assms slot_unique [OF assms(1), of i j]
    by (auto simp: holdsRequest_iff)
  have "List.find (\<lambda>j. holdsRequest request (pcSlots c ! j)) [0..<kMaxCachedProperties] = Some i"
    unfolding find_Some_iff using holds i by (intro exI [of _ i]) auto
  then show ?thesis by (simp add: findOrCreateCachedProperty_def)
qed

lemma findOrCreate_miss:
  assumes "wfCache c" "\<And>i. i < pcCount c \<Longrightarrow> cpRequest (the (pcSlots c ! i)) \<noteq> request"
  shows "findOrCreateCachedProperty request c =
    (pcNext c, \<lparr>pcSlots = (pcSlots c)[pcNext c := Some (freshEntry request)],
       pcCount = (if pcCount c < kMaxCachedProperties then pcCount c + 1 else pcCount c),
       pcNext = (pcNext c + 1) mod kMaxCachedProperties\<rparr>)"
proof -
  have used: "\<And>j. j < kMaxCachedProperties \<Longrightarrow> pcSlots c ! j \<noteq> None \<longleftrightarrow> j < pcCount c"
    and nx: "pcNext c < kMaxCachedProperties" "pcCount c < kMaxCachedProperties \<Longrightarrow> pcNext c = pcCount c"
    using assms(1) by (auto simp: wfCache_def)
  have none: "List.find (\<lambda>j. holdsRequest request (pcSlots c ! j)) [0..<kMaxCachedProperties] = None"
    using used assms(2) by (fastforce simp: find_None_iff holdsRequest_iff)
  have free: "List.find (\<lambda>candidate. pcSlots c ! candidate = None)
      (map (\<lambda>i. (pcNext c + i) mod kMaxCachedProperties) [0..<kMaxCachedProperties]) = Some (pcNext c)"
    if "pcCount c < kMaxCachedProperties"
  proof -
    have "[0..<kMaxCachedProperties] = 0 # [1..<kMaxCachedProperties]"
      by (simp add: kMaxCachedProperties_def upt_conv_Cons)
    then show ?thesis using used [OF nx(1)] nx that by simp
  qed
  show ?thesis
    using none free by (simp add: findOrCreateCachedProperty_def freshEntry_def Let_def)
qed

lemma map_the_update: "map the (xs[i := Some y]) = (map the xs)[i := y]"
  by (simp add: map_update)

lemma update_hit:
  assumes c: "wfCache c" and i: "i < pcCount c" "cpRequest (the (pcSlots c ! i)) = request"
    and f: "\<And>e. cpRequest (f e) = cpRequest e"
  shows "cacheQueue (updateEntry request f c) = map (\<lambda>e. if cpRequest e = request then f e else e) (cacheQueue c)"
proof -
  let ?g = "\<lambda>e. if cpRequest e = request then f e else e"
  let ?es = "map the (take (pcCount c) (pcSlots c))"
  have len: "pcCount c \<le> length (pcSlots c)" and some: "\<exists>e. pcSlots c ! i = Some e"
    using c i by (auto simp: wfCache_def)
  then obtain e where e: "pcSlots c ! i = Some e" by blast
  have "?es[i := f e] = map ?g ?es"
  proof (rule nth_equalityI)
    fix j
    assume "j < length (?es[i := f e])"
    then have j: "j < pcCount c" using len by simp
    then show "?es[i := f e] ! j = map ?g ?es ! j"
      using len i e slot_unique [OF c i(1), of j] by (cases "j = i") (auto simp: nth_list_update)
  qed simp
  moreover have "updateEntry request f c = c\<lparr>pcSlots := (pcSlots c)[i := Some (f e)]\<rparr>"
    using findOrCreate_hit [OF c i] e by (simp add: updateEntry_def)
  moreover have "map the (take (pcCount c) ((pcSlots c)[i := Some (f e)])) = ?es[i := f e]"
    by (simp add: take_update_swap map_the_update)
  ultimately show ?thesis by (simp add: cacheQueue_def Let_def drop_map take_map)
qed

lemma updateEntry_miss:
  assumes c: "wfCache c" "\<And>i. i < pcCount c \<Longrightarrow> cpRequest (the (pcSlots c ! i)) \<noteq> request"
  shows "updateEntry request f c =
    \<lparr>pcSlots = (pcSlots c)[pcNext c := Some (f (freshEntry request))],
     pcCount = (if pcCount c < kMaxCachedProperties then pcCount c + 1 else pcCount c),
     pcNext = (pcNext c + 1) mod kMaxCachedProperties\<rparr>"
proof -
  have "pcNext c < length (pcSlots c)" using c(1) by (simp add: wfCache_def)
  then show ?thesis by (simp add: updateEntry_def findOrCreate_miss [OF c])
qed

lemma update_miss:
  assumes c: "wfCache c" "\<And>i. i < pcCount c \<Longrightarrow> cpRequest (the (pcSlots c ! i)) \<noteq> request"
  shows "cacheQueue (updateEntry request f c) = enqueueBounded kMaxCachedProperties (f (freshEntry request)) (cacheQueue c)"
proof (cases "pcCount c < kMaxCachedProperties")
  case True
  let ?n = "pcCount c"
  have n: "?n < length (pcSlots c)" "pcNext c = ?n" "length (pcSlots c) = kMaxCachedProperties"
    using c(1) True by (simp_all add: wfCache_def)
  have "map the (take (Suc ?n) ((pcSlots c)[?n := Some x])) = map the (take ?n (pcSlots c)) @ [x]" for x
    using n by (simp add: take_Suc_conv_app_nth)
  moreover have "length (map the (take ?n (pcSlots c))) = ?n" using n by simp
  moreover have "Suc ?n mod kMaxCachedProperties = Suc ?n \<or> Suc ?n mod kMaxCachedProperties = 0"
    using True by (metis mod_less mod_self Suc_lessI)
  ultimately show ?thesis
    using True n cacheQueue_room [OF True c(1)]
    by (auto simp: updateEntry_miss [OF c] cacheQueue_def Let_def enqueueBounded_def)
next
  case False
  then have n: "pcCount c = kMaxCachedProperties" "length (pcSlots c) = kMaxCachedProperties"
    "pcNext c < kMaxCachedProperties" using c(1) by (simp_all add: wfCache_def)
  have "length (cacheQueue c) = kMaxCachedProperties" using n by (simp add: cacheQueue_def Let_def)
  then show ?thesis
    using n rotated_replace [of "map the (pcSlots c)" kMaxCachedProperties "pcNext c" "f (freshEntry request)"]
    by (simp add: updateEntry_miss [OF c] cacheQueue_def Let_def enqueueBounded_def map_the_update)
qed

lemma requests_in_slots:
  assumes "wfCache c"
  shows "cpRequest ` set (cacheQueue c) = (\<lambda>i. cpRequest (the (pcSlots c ! i))) ` {i. i < pcCount c}"
proof -
  have "\<exists>e. pcSlots c ! i = Some e" if "i < pcCount c" for i using assms that by (auto simp: wfCache_def)
  then show ?thesis by (force simp: set_cacheQueue [OF assms] image_iff)
qed

lemma cacheQueue_update:
  assumes "wfCache c" and f: "\<And>e. cpRequest (f e) = cpRequest e"
  shows "cacheQueue (updateEntry request f c) =
    queueUpdate kMaxCachedProperties cpRequest freshEntry request f (cacheQueue c)"
proof (cases "request \<in> cpRequest ` set (cacheQueue c)")
  case True
  then obtain i where "i < pcCount c" "cpRequest (the (pcSlots c ! i)) = request"
    by (auto simp: requests_in_slots [OF assms(1)])
  from update_hit [OF assms(1) this f] show ?thesis using True by (simp add: queueUpdate_def)
next
  case False
  then have "\<And>i. i < pcCount c \<Longrightarrow> cpRequest (the (pcSlots c ! i)) \<noteq> request"
    by (auto simp: requests_in_slots [OF assms(1)])
  from update_miss [OF assms(1) this] show ?thesis using False by (simp add: queueUpdate_def)
qed

lemma distinct_queueUpdate:
  assumes "distinct (map cpRequest q)" and f: "\<And>e. cpRequest (f e) = cpRequest e"
  shows "distinct (map cpRequest (queueUpdate cap cpRequest freshEntry request f q))"
proof (cases "request \<in> cpRequest ` set q")
  case True
  have "map cpRequest (map (\<lambda>e. if cpRequest e = request then f e else e) q) = map cpRequest q"
    by (simp add: f)
  then show ?thesis using True assms(1) by (simp add: queueUpdate_def del: map_map)
next
  case False
  then show ?thesis using assms(1)
    by (cases q) (auto simp: queueUpdate_def enqueueBounded_def f)
qed

lemma wfCache_updateEntry:
  assumes c: "wfCache c" and f: "\<And>e. cpRequest (f e) = cpRequest e"
  shows "wfCache (updateEntry request f c)"
proof -
  have d: "distinct (map cpRequest (cacheQueue (updateEntry request f c)))"
    using c unfolding cacheQueue_update [OF c f] by (intro distinct_queueUpdate f) (simp add: wfCache_def)
  show ?thesis
  proof (cases "\<exists>i < pcCount c. cpRequest (the (pcSlots c ! i)) = request")
    case True
    then obtain i where i: "i < pcCount c" "cpRequest (the (pcSlots c ! i)) = request" by blast
    have "updateEntry request f c = c\<lparr>pcSlots := (pcSlots c)[i := map_option f (pcSlots c ! i)]\<rparr>"
      using findOrCreate_hit [OF c i] by (simp add: updateEntry_def)
    moreover have "(pcSlots c)[i := map_option f (pcSlots c ! i)] ! j \<noteq> None \<longleftrightarrow> pcSlots c ! j \<noteq> None"
      if "j < length (pcSlots c)" for j
      using that by (cases "j = i") auto
    ultimately show ?thesis using d c by (simp add: wfCache_def)
  next
    case False
    then have "\<And>i. i < pcCount c \<Longrightarrow> cpRequest (the (pcSlots c ! i)) \<noteq> request" by blast
    from updateEntry_miss [OF c this] d c show ?thesis
      by (auto simp: wfCache_def nth_list_update less_Suc_eq_le kMaxCachedProperties_def mod_less_divisor)
  qed
qed

lemma queueLookup_iff:
  assumes "distinct (map key q)"
  shows "queueLookup key k q = Some e \<longleftrightarrow> e \<in> set q \<and> key e = k"
  using assms
proof (induction q)
  case (Cons a q)
  then show ?case by (cases "key a = k") (auto simp: queueLookup_def image_iff)
qed (simp add: queueLookup_def)

lemma findCached_iff:
  assumes "wfCache c"
  shows "findCachedProperty c request = Some e \<longleftrightarrow> e \<in> set (cacheQueue c) \<and> cpRequest e = request"
proof -
  have len: "length (pcSlots c) = kMaxCachedProperties" "pcCount c \<le> kMaxCachedProperties"
    and used: "\<And>j. j < kMaxCachedProperties \<Longrightarrow> pcSlots c ! j \<noteq> None \<longleftrightarrow> j < pcCount c"
    using assms by (auto simp: wfCache_def)
  have "findCachedProperty c request = Some e \<longleftrightarrow>
      (\<exists>i < kMaxCachedProperties. pcSlots c ! i = Some e \<and> cpRequest e = request)" (is "?L \<longleftrightarrow> ?R")
  proof
    assume ?L
    then show ?R by (auto simp: findCachedProperty_def find_Some_iff holdsRequest_iff len split: option.splits)
  next
    assume ?R
    then obtain i where i: "i < kMaxCachedProperties" "pcSlots c ! i = Some e" "cpRequest e = request" by blast
    have "\<not> holdsRequest request (pcSlots c ! j)" if "j < i" for j
      using slot_unique [OF assms, of i j] i used [of i] used [of j] that by (auto simp: holdsRequest_iff)
    then have "List.find (holdsRequest request) (pcSlots c) = Some (Some e)"
      unfolding find_Some_iff using i len by (intro exI [of _ i]) (auto simp: holdsRequest_iff)
    then show ?L by (simp add: findCachedProperty_def)
  qed
  also have "\<dots> \<longleftrightarrow> e \<in> set (cacheQueue c) \<and> cpRequest e = request"
    using used len by (auto simp: set_cacheQueue [OF assms]) (meson order_less_le_trans)
  finally show ?thesis .
qed

lemma find_is_queueLookup:
  assumes "wfCache c"
  shows "findCachedProperty c request = queueLookup cpRequest request (cacheQueue c)"
proof -
  have "distinct (map cpRequest (cacheQueue c))" using assms by (simp add: wfCache_def)
  then have "findCachedProperty c request = Some e \<longleftrightarrow> queueLookup cpRequest request (cacheQueue c) = Some e" for e
    by (simp add: findCached_iff [OF assms] queueLookup_iff)
  then show ?thesis by (metis not_Some_eq)
qed

lemma length_cacheQueue: "wfCache c \<Longrightarrow> length (cacheQueue c) = pcCount c"
  by (auto simp: cacheQueue_def Let_def wfCache_def)

interpretation pc: displacing_cache cacheQueue cpRequest freshEntry
  "\<lambda>f. \<forall>e. cpRequest (f e) = cpRequest e" findCachedProperty updateEntry kMaxCachedProperties wfCache
proof
  show "0 < kMaxCachedProperties" by (simp add: kMaxCachedProperties_def)
  show "wfCache c \<Longrightarrow> length (cacheQueue c) \<le> kMaxCachedProperties \<and> distinct (map cpRequest (cacheQueue c))" for c
    by (simp add: length_cacheQueue) (simp add: wfCache_def)
qed (simp_all add: wfCache_updateEntry cacheQueue_update find_is_queueLookup)

section \<open>Claims\<close>

text \<open>
  C32: The cache implements a queue of at most eight distinct requests: an update of a cached request
  changes its entry in place, any other enters at the end and displaces the oldest of eight.
\<close>

theorem cache_refines_queue:
  assumes "wfCache c"
  shows "wfCache (updatePropertyCache request status v at ec eo c) \<and>
    length (cacheQueue c) \<le> kMaxCachedProperties \<and> distinct (map cpRequest (cacheQueue c)) \<and>
    cacheQueue (updatePropertyCache request status v at ec eo c) =
      queueUpdate kMaxCachedProperties cpRequest freshEntry request (recordAttempt status v at ec eo) (cacheQueue c)"
  using pc.bounded [OF assms] pc.update_wf [OF assms] pc.update_queue [OF assms]
  by (simp add: updatePropertyCache_entry)

lemma wfCache_empty: "wfCache emptyCache"
  by (auto simp: wfCache_def emptyCache_def cacheQueue_def kMaxCachedProperties_def)

theorem cache_refines_queue_witness:
  "cacheQueue (updatePropertyCache emptyRequest PrAck (Some emptyValue) 5 0 0 emptyCache) =
     queueUpdate kMaxCachedProperties cpRequest freshEntry emptyRequest
       (recordAttempt PrAck (Some emptyValue) 5 0 0) (cacheQueue emptyCache)"
  using cache_refines_queue [OF wfCache_empty] by blast

text \<open>
  C33: What was read once survives failures: while a request stays in the cache, an attempt that is
  not acknowledged changes its status and error but neither its value nor the time of the value.
\<close>

theorem cached_value_survives:
  assumes "wfCache c" "findCachedProperty c request = Some e" "cpHasValue e" "status \<noteq> PrAck"
  shows "\<exists>e'. findCachedProperty (updatePropertyCache request status v at ec eo c) request = Some e' \<and>
    cpHasValue e' \<and> cpCached e' = cpCached e \<and> cpLastSuccessMs e' = cpLastSuccessMs e \<and>
    cpUpdatedAtMs e' = cpUpdatedAtMs e \<and> cpStatus e' = status \<and> cpLastAttemptMs e' = at"
  using pc.lookup_updated [OF assms(1), of "recordAttempt status v at ec eo" request] assms
  by (simp add: updatePropertyCache_entry recordAttempt_def Let_def split: option.splits)

definition demoEntry :: BacnetCachedProperty where
  "demoEntry = recordAttempt PrAck (Some emptyValue) 5 0 0 (freshEntry emptyRequest)"

definition demoCache :: PropertyCache where
  "demoCache = updatePropertyCache emptyRequest PrAck (Some emptyValue) 5 0 0 emptyCache"

lemma demoCache_holds: "wfCache demoCache" "findCachedProperty demoCache emptyRequest = Some demoEntry"
  "cpHasValue demoEntry"
proof -
  show "wfCache demoCache" using pc.update_wf [OF wfCache_empty] by (simp add: demoCache_def updatePropertyCache_entry)
  have "findCachedProperty emptyCache emptyRequest = None"
    using set_cacheQueue [OF wfCache_empty] findCached_iff [OF wfCache_empty, of emptyRequest]
    by (cases "findCachedProperty emptyCache emptyRequest") (simp_all add: emptyCache_def)
  then show "findCachedProperty demoCache emptyRequest = Some demoEntry"
    using pc.lookup_updated [OF wfCache_empty, of "recordAttempt PrAck (Some emptyValue) 5 0 0" emptyRequest]
    by (simp add: demoCache_def demoEntry_def updatePropertyCache_entry)
  show "cpHasValue demoEntry" by (simp add: demoEntry_def recordAttempt_def)
qed

theorem cached_value_survives_witness:
  "\<exists>e'. findCachedProperty (updatePropertyCache emptyRequest PrTimeout None 9 0 0 demoCache) emptyRequest = Some e' \<and>
    cpHasValue e' \<and> cpCached e' = cpCached demoEntry \<and> cpLastSuccessMs e' = cpLastSuccessMs demoEntry \<and>
    cpUpdatedAtMs e' = cpUpdatedAtMs demoEntry \<and> cpStatus e' = PrTimeout \<and> cpLastAttemptMs e' = 9"
  by (rule cached_value_survives [OF demoCache_holds]) simp

definition updateAll ::
    "(BacnetPropertyRequest \<times> BacnetPropertyReadStatus \<times> BacnetValue option \<times> u32 \<times> u32 \<times> u32) list \<Rightarrow>
     PropertyCache \<Rightarrow> PropertyCache" where
  "updateAll = fold (\<lambda>(request, status, v, at, ec, eo). updatePropertyCache request status v at ec eo)"

lemma updateAll_fold:
  "updateAll us = fold (\<lambda>(j, f). updateEntry j f)
     (map (\<lambda>(request, status, v, at, ec, eo). (request, recordAttempt status v at ec eo)) us)"
  by (induction us) (auto simp: updateAll_def updatePropertyCache_entry fun_eq_iff)

text \<open>
  A request that enters the cache stays there until eight other requests have been read or
  tried, whatever the order and the outcome.
\<close>

theorem stays_until_eight_others:
  assumes "wfCache c" "findCachedProperty c request = None" "card (set (map fst us) - {request}) < 8"
  shows "findCachedProperty (updateAll us (updatePropertyCache request status v at ec eo c)) request \<noteq> None"
proof -
  let ?f = "recordAttempt status v at ec eo" and ?ks = "set (map fst us) - {request}"
  have "wfCache (updateEntry request ?f c)" using assms(1) by (simp add: pc.update_wf)
  moreover have "pc.younger request ?ks (updateEntry request ?f c)" using assms by (simp add: pc.fresh_younger)
  ultimately show ?thesis
    unfolding updateAll_fold updatePropertyCache_entry using assms(3)
    by (intro pc.stays_cached) (force simp: kMaxCachedProperties_def)+
qed

theorem stays_until_eight_others_witness:
  "findCachedProperty (updateAll [(emptyRequest\<lparr>rqArrayIndex := 1\<rparr>, PrTimeout, None, 9, 0, 0)]
     (updatePropertyCache emptyRequest PrAck (Some emptyValue) 5 0 0 emptyCache)) emptyRequest \<noteq> None"
proof (rule stays_until_eight_others [OF wfCache_empty])
  show "findCachedProperty emptyCache emptyRequest = None"
    using set_cacheQueue [OF wfCache_empty] findCached_iff [OF wfCache_empty, of emptyRequest]
    by (cases "findCachedProperty emptyCache emptyRequest") (simp_all add: emptyCache_def)
qed (simp add: emptyRequest_def kBacnetNoArrayIndex_def)

end
