(* ===== verification/Session.thy ===== *)
theory Session
  imports PropertyCache
begin

text \<open>
  A device session (src/src/core/client/BacnetDeviceSession.cpp): one request at a time to one
  device, on behalf of a read job, an object list scan or a subscription.

  The session's pointers to jobs and subscriptions are addresses into \<open>ssReads\<close>, \<open>ssScans\<close> and
  \<open>ssSubs\<close>, the objects of the application; \<open>psSession\<close>, \<open>pjSession\<close> and \<open>sjSession\<close> say whether
  \<open>session_\<close> is this session. \<open>ssSent\<close> and \<open>ssNotified\<close> record the datagrams handed to the
  transport and the calls of subscription callbacks; a callback does not call the session. Logging
  and \<open>userData\<close> are left out, milliseconds are 32 bits.
\<close>

section \<open>Jobs and subscriptions\<close>

datatype BacnetPropertyReadJobStatus = PjIdle | PjActive | PjComplete | PjFailed | PjCancelled

record BacnetPropertyReadJob =
  pjSession :: bool
  pjStatus :: BacnetPropertyReadJobStatus
  pjRequest :: BacnetPropertyRequest
  pjReadStatus :: BacnetPropertyReadStatus
  pjValue :: BacnetValue
  pjErrorClass :: u32
  pjErrorCode :: u32
  pjTimeoutMs :: u32
  pjInvokeId :: u8
  pjStartedAtMs :: u32

definition clearedReadJob :: BacnetPropertyReadJob where
  "clearedReadJob = \<lparr>pjSession = False, pjStatus = PjIdle, pjRequest = emptyRequest, pjReadStatus = PrBusy,
     pjValue = emptyValue, pjErrorClass = 0, pjErrorCode = 0, pjTimeoutMs = 0, pjInvokeId = 0, pjStartedAtMs = 0\<rparr>"

datatype BacnetObjectListScanJobStatus = SjIdle | SjActive | SjComplete | SjFailed | SjCancelled

datatype BacnetObjectListScanPhase =
  PhIdle | PhReadObjectListCount | PhReadObjectListEntry | PhReadObjectName | PhReadDescription
| PhReadPresentValue | PhComplete | PhFailed | PhCancelled

record BacnetObjectScanOptions =
  soObjectTypes :: "BacnetObjectType list"
  soMaxObjectListEntries :: u32
  soReadTimeoutMs :: u32
  soReadObjectName :: bool
  soReadDescription :: bool
  soReadPresentValue :: bool

record BacnetScannedObject =
  scnObjectId :: BacnetObjectId
  scnObjectNameStatus :: BacnetDeviceSessionReadStatus
  scnObjectName :: BacnetValue
  scnDescriptionStatus :: BacnetDeviceSessionReadStatus
  scnDescription :: BacnetValue
  scnPresentValueStatus :: BacnetDeviceSessionReadStatus
  scnPresentValue :: BacnetValue

record BacnetObjectScanResult =
  srCountStatus :: BacnetDeviceSessionReadStatus
  srObjectListCount :: u32
  srInspected :: u32
  srFound :: nat
  srStored :: nat
  srTruncated :: bool

record BacnetObjectListScanJob =
  sjSession :: bool
  sjOptions :: BacnetObjectScanOptions
  sjResults :: "BacnetScannedObject list option"
  sjCapacity :: nat
  sjResult :: BacnetObjectScanResult
  sjStatus :: BacnetObjectListScanJobStatus
  sjPhase :: BacnetObjectListScanPhase
  sjCurrentIndex :: u32
  sjMaxIndex :: u32
  sjRequestInFlight :: bool
  sjInvokeId :: u8
  sjStartedAtMs :: u32
  sjRequest :: BacnetPropertyRequest
  sjCurrentObject :: BacnetObjectId
  sjStoreIndex :: nat
  sjHasStoreIndex :: bool

definition acceptsObjectType :: "BacnetObjectScanOptions \<Rightarrow> BacnetObjectId \<Rightarrow> bool" where
  "acceptsObjectType options ob \<longleftrightarrow> soObjectTypes options = [] \<or> objType ob \<in> set (soObjectTypes options)"

definition defaultScanOptions :: BacnetObjectScanOptions where
  "defaultScanOptions = \<lparr>soObjectTypes = [], soMaxObjectListEntries = 600, soReadTimeoutMs = 1000,
     soReadObjectName = True, soReadDescription = True, soReadPresentValue = True\<rparr>"

definition emptyScanned :: BacnetScannedObject where
  "emptyScanned = \<lparr>scnObjectId = emptyObjectId, scnObjectNameStatus = DrSkipped, scnObjectName = emptyValue,
     scnDescriptionStatus = DrSkipped, scnDescription = emptyValue, scnPresentValueStatus = DrSkipped,
     scnPresentValue = emptyValue\<rparr>"

definition emptyScanResult :: BacnetObjectScanResult where
  "emptyScanResult = \<lparr>srCountStatus = DrSkipped, srObjectListCount = 0, srInspected = 0, srFound = 0,
     srStored = 0, srTruncated = False\<rparr>"

definition clearedScanJob :: BacnetObjectListScanJob where
  "clearedScanJob = \<lparr>sjSession = False, sjOptions = defaultScanOptions, sjResults = None, sjCapacity = 0,
     sjResult = emptyScanResult, sjStatus = SjIdle, sjPhase = PhIdle, sjCurrentIndex = 0, sjMaxIndex = 0,
     sjRequestInFlight = False, sjInvokeId = 0, sjStartedAtMs = 0, sjRequest = emptyRequest,
     sjCurrentObject = emptyObjectId, sjStoreIndex = 0, sjHasStoreIndex = False\<rparr>"

definition clearScanInFlight :: "BacnetObjectListScanJob \<Rightarrow> BacnetObjectListScanJob" where
  "clearScanInFlight job = job\<lparr>sjRequestInFlight := False, sjInvokeId := 0, sjStartedAtMs := 0\<rparr>"

definition scanTerminal :: "BacnetObjectListScanJob \<Rightarrow> bool" where
  "scanTerminal job \<longleftrightarrow> sjStatus job \<in> {SjComplete, SjFailed, SjCancelled}"

record BacnetSubscribeOptions =
  boFallbackPollMs :: u32
  boTimeoutMs :: u32
  boCovLifetimeSeconds :: u32
  boCovRenewBeforeSeconds :: u32
  boPreferCov :: bool
  boUsePropertyCov :: bool
  boHasCovIncrement :: bool
  boCovIncrement :: float32
  boIssueConfirmed :: bool
  boImmediateFirstRead :: bool
  boNotifyOnStatusChange :: bool

definition defaultSubscribeOptions :: BacnetSubscribeOptions where
  "defaultSubscribeOptions = \<lparr>boFallbackPollMs = 10000, boTimeoutMs = 1000, boCovLifetimeSeconds = 60,
     boCovRenewBeforeSeconds = 5, boPreferCov = False, boUsePropertyCov = False, boHasCovIncrement = False,
     boCovIncrement = 0, boIssueConfirmed = False, boImmediateFirstRead = True, boNotifyOnStatusChange = True\<rparr>"

datatype BacnetCovSubscriptionStatus =
  CvPending | CvActive | CvError | CvReject | CvAbort | CvTimeout | CvSendFailed

datatype PollTrigger = TriggerNone | TriggerInitial | TriggerFallback | TriggerRefresh
datatype Operation = OperationNone | OperationPoll | OperationSubscribeCov

text \<open>\<open>BacnetSubscriptionNotificationReason\<close> is a set of bits.\<close>

definition reasonFirstValue :: u8 where "reasonFirstValue = 1"
definition reasonValueChanged :: u8 where "reasonValueChanged = 2"
definition reasonStatusChanged :: u8 where "reasonStatusChanged = 4"

record BacnetSubscriptionNotification =
  snObjectId :: BacnetObjectId
  snPropertyId :: BacnetPropertyId
  snArrayIndex :: u32
  snStatus :: BacnetDeviceSessionReadStatus
  snValue :: "BacnetValue option"
  snFirstValue :: bool
  snValueChanged :: bool
  snStatusChanged :: bool
  snReason :: u8
  snCovProperties :: "BacnetCovPropertyValue list"

record BacnetPropertySubscription =
  psSession :: bool
  psObjectId :: BacnetObjectId
  psPropertyId :: BacnetPropertyId
  psArrayIndex :: u32
  psOptions :: BacnetSubscribeOptions
  psCallback :: bool
  psActive :: bool
  psInFlight :: bool
  psHasValue :: bool
  psRefreshRequested :: bool
  psInitialReadPending :: bool
  psHasTerminalStatus :: bool
  psLastValue :: BacnetValue
  psLastStatus :: BacnetDeviceSessionReadStatus
  psLastUpdateMs :: u32
  psNextPollAtMs :: u32
  psLastReason :: u8
  psInvokeId :: u8
  psStartedAt :: u32
  psTrigger :: PollTrigger
  psOperation :: Operation
  psCovActive :: bool
  psCovFallback :: bool
  psCovStatus :: BacnetCovSubscriptionStatus
  psCovRejectReason :: u8
  psCovProcessId :: u32
  psCovProcessIdAssigned :: bool
  psCovRenewAtMs :: u32

definition clearSubscriptionInFlight :: "BacnetPropertySubscription \<Rightarrow> BacnetPropertySubscription" where
  "clearSubscriptionInFlight sub = sub\<lparr>psInFlight := False, psInvokeId := 0, psStartedAt := 0,
     psTrigger := TriggerNone, psOperation := OperationNone\<rparr>"

text \<open>\<open>static_cast<int32_t>(nowMs - at) >= 0\<close>.\<close>

definition reached :: "u32 \<Rightarrow> u32 \<Rightarrow> bool" where
  "reached nowMs at \<longleftrightarrow> 0 \<le> sint (nowMs - at)"

definition isDue :: "u32 \<Rightarrow> BacnetPropertySubscription \<Rightarrow> bool" where
  "isDue nowMs sub \<longleftrightarrow>
     (if \<not> psActive sub \<or> psInFlight sub then False
      else if psCovActive sub then reached nowMs (psCovRenewAtMs sub)
      else if psRefreshRequested sub \<or> psInitialReadPending sub then True
      else if boFallbackPollMs (psOptions sub) = 0 then False
      else reached nowMs (psNextPollAtMs sub))"

definition scheduleNextPoll :: "u32 \<Rightarrow> BacnetPropertySubscription \<Rightarrow> BacnetPropertySubscription" where
  "scheduleNextPoll nowMs sub =
     sub\<lparr>psNextPollAtMs := (if boFallbackPollMs (psOptions sub) = 0 then 0
           else nowMs + boFallbackPollMs (psOptions sub))\<rparr>"

definition scheduleCovRetry :: "u32 \<Rightarrow> BacnetPropertySubscription \<Rightarrow> BacnetPropertySubscription" where
  "scheduleCovRetry nowMs sub =
     (let retryDelaySeconds = (if boCovRenewBeforeSeconds (psOptions sub) \<noteq> 0
            then boCovRenewBeforeSeconds (psOptions sub) else 1)
      in sub\<lparr>psCovActive := False, psCovFallback := True, psInitialReadPending := True,
           psCovRenewAtMs := nowMs + retryDelaySeconds * 1000\<rparr>)"

section \<open>The session\<close>

record Session =
  ssClient :: BacnetClient
  ssDevice :: u32
  ssEndpoint :: BacnetIpEndpoint
  ssNextInvokeId :: u8
  ssInFlightSubscription :: "nat option"
  ssPending :: "BacnetCovNotification list"
  ssInFlightScan :: "nat option"
  ssInFlightRead :: "nat option"
  ssRoundRobin :: nat
  ssLastCovPollMs :: u32
  ssCovAttempts :: u32
  ssCovSendFailures :: u32
  ssCovTimeouts :: u32
  ssCache :: PropertyCache
  ssSubs :: "nat \<Rightarrow> BacnetPropertySubscription"
  ssReads :: "nat \<Rightarrow> BacnetPropertyReadJob"
  ssScans :: "nat \<Rightarrow> BacnetObjectListScanJob"
  ssSent :: "Sent list"
  ssNotified :: "(nat \<times> BacnetSubscriptionNotification) list"

definition kMaxPendingCovNotifications :: nat where "kMaxPendingCovNotifications = 2"
definition kUseClientClock :: u32 where "kUseClientClock = 0xFFFFFFFF"

text \<open>A subscription object that was moved from or never constructed.\<close>

definition noSubscription :: BacnetPropertySubscription where
  "noSubscription = \<lparr>psSession = False, psObjectId = emptyObjectId, psPropertyId = PropObjectName,
     psArrayIndex = kBacnetNoArrayIndex, psOptions = defaultSubscribeOptions, psCallback = False,
     psActive = False, psInFlight = False, psHasValue = False, psRefreshRequested = False,
     psInitialReadPending = False, psHasTerminalStatus = False, psLastValue = emptyValue,
     psLastStatus = DrSkipped, psLastUpdateMs = 0, psNextPollAtMs = 0, psLastReason = 0, psInvokeId = 0,
     psStartedAt = 0, psTrigger = TriggerNone, psOperation = OperationNone, psCovActive = False,
     psCovFallback = False, psCovStatus = CvPending, psCovRejectReason = 0xFF, psCovProcessId = 0,
     psCovProcessIdAssigned = False, psCovRenewAtMs = 0\<rparr>"

definition newSession :: "BacnetClient \<Rightarrow> u32 \<Rightarrow> BacnetIpEndpoint \<Rightarrow> Session" where
  "newSession c device endpoint = \<lparr>ssClient = c, ssDevice = device, ssEndpoint = endpoint, ssNextInvokeId = 1,
     ssInFlightSubscription = None, ssPending = [], ssInFlightScan = None, ssInFlightRead = None,
     ssRoundRobin = 0, ssLastCovPollMs = 0, ssCovAttempts = 0, ssCovSendFailures = 0, ssCovTimeouts = 0,
     ssCache = emptyCache, ssSubs = (\<lambda>a. noSubscription), ssReads = (\<lambda>a. clearedReadJob),
     ssScans = (\<lambda>a. clearedScanJob), ssSent = [], ssNotified = []\<rparr>"

definition fromIAm :: "BacnetClient \<Rightarrow> BacnetIAmDevice \<Rightarrow> u16 \<Rightarrow> Session" where
  "fromIAm c device portOverride =
     newSession c (iaDeviceInstance (idInfo device))
       (if portOverride \<noteq> 0 then (idEndpoint device)\<lparr>epPort := portOverride\<rparr> else idEndpoint device)"

definition deviceObjectOf :: "Session \<Rightarrow> BacnetObjectId" where
  "deviceObjectOf s = \<lparr>objType = ObjDevice, objInstance = ssDevice s\<rparr>"

definition sessionNow :: "Net \<Rightarrow> Session \<Rightarrow> u32 \<Rightarrow> u32" where
  "sessionNow net s nowMs = (if nowMs = kUseClientClock then clientNow net (ssClient s) else nowMs)"

definition isBusy :: "Session \<Rightarrow> bool" where
  "isBusy s \<longleftrightarrow> ssInFlightSubscription s \<noteq> None \<or> ssInFlightScan s \<noteq> None \<or> ssInFlightRead s \<noteq> None"

definition allocateInvokeId :: "Session \<Rightarrow> u8 \<times> Session" where
  "allocateInvokeId s =
     (ssNextInvokeId s, s\<lparr>ssNextInvokeId := (if ssNextInvokeId s + 1 = 0 then 1 else ssNextInvokeId s + 1)\<rparr>)"

definition putSub :: "nat \<Rightarrow> BacnetPropertySubscription \<Rightarrow> Session \<Rightarrow> Session" where
  "putSub a sub s = s\<lparr>ssSubs := (ssSubs s)(a := sub)\<rparr>"

definition putRead :: "nat \<Rightarrow> BacnetPropertyReadJob \<Rightarrow> Session \<Rightarrow> Session" where
  "putRead a job s = s\<lparr>ssReads := (ssReads s)(a := job)\<rparr>"

definition putScan :: "nat \<Rightarrow> BacnetObjectListScanJob \<Rightarrow> Session \<Rightarrow> Session" where
  "putScan a job s = s\<lparr>ssScans := (ssScans s)(a := job)\<rparr>"

definition cacheAttempt ::
    "BacnetPropertyRequest \<Rightarrow> BacnetPropertyReadStatus \<Rightarrow> BacnetValue option \<Rightarrow> u32 \<Rightarrow> u32 \<Rightarrow> u32 \<Rightarrow>
     Session \<Rightarrow> Session" where
  "cacheAttempt request status v attemptAtMs errorClass errorCode s =
     s\<lparr>ssCache := updatePropertyCache request status v attemptAtMs errorClass errorCode (ssCache s)\<rparr>"

text \<open>A call of \<open>client_\<close> that sends, one that receives.\<close>

definition sending :: "Session \<Rightarrow> (bool \<times> Sent list) outcome \<Rightarrow> (bool \<times> Session) outcome" where
  "sending s m = obind m (\<lambda>(sent, datagrams). Ok (sent, s\<lparr>ssSent := ssSent s @ datagrams\<rparr>))"

definition receiving :: "Session \<Rightarrow> ('a \<times> BacnetClient) outcome \<Rightarrow> ('a \<times> Session) outcome" where
  "receiving s m = obind m (\<lambda>(x, c). Ok (x, s\<lparr>ssClient := c\<rparr>))"

definition sendRead :: "Net \<Rightarrow> BacnetPropertyRequest \<Rightarrow> u8 \<Rightarrow> Session \<Rightarrow> (bool \<times> Session) outcome" where
  "sendRead net request invokeId s =
     sending s (sendReadProperty net (ssClient s) (ssEndpoint s) request invokeId)"

definition pollAnswer :: "Net \<Rightarrow> u8 \<Rightarrow> BacnetPropertyRequest \<Rightarrow> Session \<Rightarrow> (ReadPoll \<times> Session) outcome" where
  "pollAnswer net invokeId request s =
     receiving s (pollReadPropertyStatus net invokeId request (ssClient s))"

definition detailedStatus :: "BacnetPropertyRequest \<Rightarrow> ReadPoll \<Rightarrow> BacnetPropertyReadStatus" where
  "detailedStatus request answer =
     classifyDetailedReadStatus (rpStatus answer) (rpValue answer) (rpErrorClass answer) (rpErrorCode answer)
       (rqArrayIndex request)"

end
