(* ===== verification/SessionReads.thy ===== *)
theory SessionReads
  imports Session
begin

text \<open>
  Non-blocking reads of a device session: the read job (\<open>beginPropertyRead\<close>, \<open>pollPropertyRead\<close>,
  \<open>cancelPropertyRead\<close>) and the object list scan (\<open>beginObjectListScan\<close>, \<open>pollObjectListScan\<close>,
  \<open>cancelObjectListScan\<close>) of src/src/core/client/BacnetDeviceSession.cpp.
\<close>

section \<open>The read job\<close>

definition releasePropertyRead :: "nat \<Rightarrow> Session \<Rightarrow> Session" where
  "releasePropertyRead a s =
     putRead a ((ssReads s a)\<lparr>pjInvokeId := 0, pjStartedAtMs := 0\<rparr>)
       (s\<lparr>ssInFlightRead := (if ssInFlightRead s = Some a then None else ssInFlightRead s)\<rparr>)"

definition finishPropertyRead ::
    "nat \<Rightarrow> BacnetPropertyReadStatus \<Rightarrow> BacnetValue option \<Rightarrow> u32 \<Rightarrow> u32 \<Rightarrow> u32 \<Rightarrow> Session \<Rightarrow> Session" where
  "finishPropertyRead a status v nowMs errorClass errorCode s =
     (let job = (ssReads s a)\<lparr>pjReadStatus := status,
            pjValue := (case v of Some x \<Rightarrow> x | None \<Rightarrow> emptyValue),
            pjErrorClass := errorClass, pjErrorCode := errorCode\<rparr>;
          s = releasePropertyRead a
            (cacheAttempt (pjRequest job) status v nowMs errorClass errorCode (putRead a job s))
      in putRead a ((ssReads s a)\<lparr>pjStatus :=
           (if status = PrAck \<or> status = PrEmptyValue then PjComplete else PjFailed)\<rparr>) s)"

definition beginPropertyRead ::
    "Net \<Rightarrow> nat \<Rightarrow> BacnetPropertyRequest \<Rightarrow> u32 \<Rightarrow> u32 \<Rightarrow> Session \<Rightarrow> (bool \<times> Session) outcome" where
  "beginPropertyRead net a request timeoutMs nowMs s =
     (let nowMs = sessionNow net s nowMs
      in if isBusy s \<or> pjStatus (ssReads s a) = PjActive then Ok (False, s)
         else
           let s = putRead a (clearedReadJob\<lparr>pjSession := True, pjStatus := PjActive, pjRequest := request,
                 pjTimeoutMs := timeoutMs\<rparr>) (s\<lparr>ssInFlightRead := Some a\<rparr>);
               (invokeId, s) = allocateInvokeId s
           in obind (sendRead net request invokeId s) (\<lambda>(sent, s).
                if \<not> sent then Ok (False, finishPropertyRead a PrSendFailed None nowMs 0 0 s)
                else Ok (True, putRead a ((ssReads s a)\<lparr>pjInvokeId := invokeId, pjStartedAtMs := nowMs\<rparr>) s)))"

definition pollInFlightPropertyRead :: "Net \<Rightarrow> u32 \<Rightarrow> Session \<Rightarrow> Session outcome" where
  "pollInFlightPropertyRead net nowMs s =
     (case ssInFlightRead s of None \<Rightarrow> Ok s
      | Some a \<Rightarrow>
          let job = ssReads s a
          in obind (pollAnswer net (pjInvokeId job) (pjRequest job) s) (\<lambda>(answer, s).
               if rpStatus answer \<noteq> PollNone
               then Ok (finishPropertyRead a (detailedStatus (pjRequest job) answer) (Some (rpValue answer)) nowMs
                      (rpErrorClass answer) (rpErrorCode answer) s)
               else if nowMs - pjStartedAtMs job \<ge> pjTimeoutMs job
               then Ok (finishPropertyRead a PrTimeout None nowMs 0 0 s)
               else Ok s))"

definition pollPropertyRead :: "Net \<Rightarrow> nat \<Rightarrow> u32 \<Rightarrow> Session \<Rightarrow> Session outcome" where
  "pollPropertyRead net a nowMs s =
     (let nowMs = sessionNow net s nowMs
      in if \<not> pjSession (ssReads s a) \<or> pjStatus (ssReads s a) \<noteq> PjActive then Ok s
         else pollInFlightPropertyRead net nowMs s)"

definition cancelPropertyRead :: "nat \<Rightarrow> Session \<Rightarrow> Session" where
  "cancelPropertyRead a s =
     (if \<not> pjSession (ssReads s a) \<or> pjStatus (ssReads s a) \<noteq> PjActive then s
      else let s = releasePropertyRead a s in putRead a ((ssReads s a)\<lparr>pjStatus := PjCancelled\<rparr>) s)"

section \<open>The object list scan\<close>

definition releaseObjectListScan :: "nat \<Rightarrow> Session \<Rightarrow> Session" where
  "releaseObjectListScan a s =
     putScan a (clearScanInFlight (ssScans s a))
       (s\<lparr>ssInFlightScan := (if ssInFlightScan s = Some a then None else ssInFlightScan s)\<rparr>)"

definition completeObjectListScan :: "nat \<Rightarrow> Session \<Rightarrow> Session" where
  "completeObjectListScan a s =
     (let s = releaseObjectListScan a s
      in putScan a ((ssScans s a)\<lparr>sjStatus := SjComplete, sjPhase := PhComplete\<rparr>) s)"

definition failObjectListScan :: "nat \<Rightarrow> BacnetDeviceSessionReadStatus \<Rightarrow> Session \<Rightarrow> Session" where
  "failObjectListScan a status s =
     (let job = ssScans s a;
          result = (if srCountStatus (sjResult job) = DrSkipped
            then (sjResult job)\<lparr>srCountStatus := status\<rparr> else sjResult job);
          s = releaseObjectListScan a (putScan a (job\<lparr>sjResult := result\<rparr>) s)
      in putScan a ((ssScans s a)\<lparr>sjStatus := SjFailed, sjPhase := PhFailed\<rparr>) s)"

text \<open>\<open>job.results_[job.currentStoreIndex_]\<close>, which must lie inside the caller's array.\<close>

definition scannedAt :: "BacnetObjectListScanJob \<Rightarrow> BacnetScannedObject outcome" where
  "scannedAt job =
     (case sjResults job of None \<Rightarrow> Undef
      | Some results \<Rightarrow> if sjStoreIndex job < length results then Ok (results ! sjStoreIndex job) else Undef)"

definition storeScanned :: "BacnetScannedObject \<Rightarrow> BacnetObjectListScanJob \<Rightarrow> BacnetObjectListScanJob" where
  "storeScanned scanned job =
     job\<lparr>sjResults := map_option (\<lambda>results. results[sjStoreIndex job := scanned]) (sjResults job)\<rparr>"

text \<open>
  \<open>advanceObjectListScan\<close> up to the request it starts, if any: the next wanted property of the
  object just stored, or else the next entry of the object list.
\<close>

definition nextScanRead ::
    "BacnetObjectId \<Rightarrow> BacnetObjectListScanJob \<Rightarrow>
     (BacnetObjectListScanJob \<times> (BacnetPropertyRequest \<times> BacnetObjectListScanPhase) option) outcome" where
  "nextScanRead device job =
     (let entry = (\<lambda>job.
            if sjCurrentIndex job = 0 \<or> sjCurrentIndex job > sjMaxIndex job then Ok (job, None)
            else Ok (job, Some (\<lparr>rqObject = device, rqProperty = PropObjectList,
              rqArrayIndex = sjCurrentIndex job\<rparr>, PhReadObjectListEntry)))
      in if sjHasStoreIndex job \<and> sjResults job \<noteq> None
         then obind (scannedAt job) (\<lambda>scanned.
           let options = sjOptions job;
               request = (\<lambda>p. \<lparr>rqObject = scnObjectId scanned, rqProperty = p, rqArrayIndex = kBacnetNoArrayIndex\<rparr>)
           in if soReadObjectName options \<and> scnObjectNameStatus scanned = DrSkipped
              then Ok (job, Some (request PropObjectName, PhReadObjectName))
              else if soReadDescription options \<and> scnDescriptionStatus scanned = DrSkipped
              then Ok (job, Some (request PropDescription, PhReadDescription))
              else if soReadPresentValue options \<and> scnPresentValueStatus scanned = DrSkipped
              then Ok (job, Some (request PropPresentValue, PhReadPresentValue))
              else entry (job\<lparr>sjHasStoreIndex := False, sjCurrentIndex := sjCurrentIndex job + 1\<rparr>))
         else entry job)"

text \<open>\<open>tryStartObjectListScanRead\<close> without what it does when the transport refuses.\<close>

definition startScanRead ::
    "Net \<Rightarrow> nat \<Rightarrow> BacnetPropertyRequest \<Rightarrow> BacnetObjectListScanPhase \<Rightarrow> u32 \<Rightarrow> Session \<Rightarrow>
     (bool \<times> Session) outcome" where
  "startScanRead net a request phase nowMs s =
     (let (invokeId, s) = allocateInvokeId s;
          s = putScan a ((ssScans s a)\<lparr>sjPhase := phase, sjRequest := request\<rparr>) s
      in obind (sendRead net request invokeId s) (\<lambda>(sent, s).
           if \<not> sent then Ok (False, cacheAttempt request PrSendFailed None nowMs 0 0 s)
           else Ok (True, putScan a ((ssScans s a)\<lparr>sjInvokeId := invokeId, sjStartedAtMs := nowMs,
                  sjRequestInFlight := True\<rparr>) s)))"

text \<open>
  \<open>finishObjectListScanRead\<close> up to its final call of \<open>advanceObjectListScan\<close>; the flag says
  whether that call comes.
\<close>

definition finishCountRead ::
    "nat \<Rightarrow> BacnetDeviceSessionReadStatus \<Rightarrow> BacnetValue option \<Rightarrow> Session \<Rightarrow> bool \<times> Session" where
  "finishCountRead a status v s =
     (let job = ssScans s a;
          s = putScan a (job\<lparr>sjResult := (sjResult job)\<lparr>srCountStatus := status\<rparr>\<rparr>) s
      in if status \<noteq> DrAck then (False, failObjectListScan a status s)
         else case v of
           None \<Rightarrow> (False, failObjectListScan a DrError s)
         | Some x \<Rightarrow>
             if vType x \<noteq> TyUnsigned then (False, failObjectListScan a DrError s)
             else
               let job = ssScans s a; count = vUnsigned x; most = soMaxObjectListEntries (sjOptions job)
               in (True, putScan a (job\<lparr>sjResult := (sjResult job)\<lparr>srObjectListCount := count,
                       srTruncated := (if count > most then True else srTruncated (sjResult job))\<rparr>,
                     sjMaxIndex := (if count < most then count else most), sjCurrentIndex := 1\<rparr>) s))"

definition skipEntry :: "BacnetObjectListScanJob \<Rightarrow> BacnetObjectListScanJob" where
  "skipEntry job = job\<lparr>sjCurrentIndex := sjCurrentIndex job + 1\<rparr>"

definition truncatedScan :: "BacnetObjectListScanJob \<Rightarrow> BacnetObjectListScanJob" where
  "truncatedScan job = job\<lparr>sjResult := (sjResult job)\<lparr>srTruncated := True\<rparr>\<rparr>"

definition finishEntryRead ::
    "nat \<Rightarrow> BacnetDeviceSessionReadStatus \<Rightarrow> BacnetValue option \<Rightarrow> Session \<Rightarrow> (bool \<times> Session) outcome" where
  "finishEntryRead a status v s =
     (if status \<noteq> DrAck then Ok (False, completeObjectListScan a s)
      else
        let job = (ssScans s a)\<lparr>sjResult := (sjResult (ssScans s a))\<lparr>srInspected := srInspected (sjResult (ssScans s a)) + 1\<rparr>\<rparr>
        in case (case v of None \<Rightarrow> None | Some x \<Rightarrow> objectIdFromObjectListValue x) of
             None \<Rightarrow> Ok (True, putScan a (skipEntry job) s)
           | Some ob \<Rightarrow>
               if \<not> acceptsObjectType (sjOptions job) ob then Ok (True, putScan a (skipEntry job) s)
               else
                 let job = job\<lparr>sjResult := (sjResult job)\<lparr>srFound := srFound (sjResult job) + 1\<rparr>,
                       sjCurrentObject := ob, sjHasStoreIndex := False\<rparr>
                 in case sjResults job of
                      None \<Rightarrow> Ok (True, putScan a (skipEntry (truncatedScan job)) s)
                    | Some results \<Rightarrow>
                        if srStored (sjResult job) \<ge> sjCapacity job
                        then Ok (True, putScan a (skipEntry (truncatedScan job)) s)
                        else
                          let job = job\<lparr>sjStoreIndex := srStored (sjResult job), sjHasStoreIndex := True,
                                sjResult := (sjResult job)\<lparr>srStored := srStored (sjResult job) + 1\<rparr>\<rparr>
                          in obind (scannedAt job) (\<lambda>_.
                               Ok (True, putScan a (storeScanned (emptyScanned\<lparr>scnObjectId := ob\<rparr>) job) s)))"

definition recordScanned ::
    "BacnetObjectListScanPhase \<Rightarrow> BacnetDeviceSessionReadStatus \<Rightarrow> BacnetValue option \<Rightarrow>
     BacnetScannedObject \<Rightarrow> BacnetScannedObject" where
  "recordScanned phase status v scanned =
     (let got = (\<lambda>old. case v of Some x \<Rightarrow> if status = DrAck then x else old | None \<Rightarrow> old)
      in case phase of
           PhReadObjectName \<Rightarrow> scanned\<lparr>scnObjectNameStatus := status, scnObjectName := got (scnObjectName scanned)\<rparr>
         | PhReadDescription \<Rightarrow> scanned\<lparr>scnDescriptionStatus := status, scnDescription := got (scnDescription scanned)\<rparr>
         | PhReadPresentValue \<Rightarrow> scanned\<lparr>scnPresentValueStatus := status, scnPresentValue := got (scnPresentValue scanned)\<rparr>
         | _ \<Rightarrow> scanned)"

definition finishScanRead ::
    "nat \<Rightarrow> BacnetDeviceSessionReadStatus \<Rightarrow> BacnetValue option \<Rightarrow> Session \<Rightarrow> (bool \<times> Session) outcome" where
  "finishScanRead a status v s =
     (let phase = sjPhase (ssScans s a);
          s = putScan a (clearScanInFlight (ssScans s a)) s;
          job = ssScans s a
      in if phase = PhReadObjectListCount then Ok (finishCountRead a status v s)
         else if phase = PhReadObjectListEntry then finishEntryRead a status v s
         else if \<not> sjHasStoreIndex job \<or> sjResults job = None then Ok (True, putScan a (skipEntry job) s)
         else obind (scannedAt job) (\<lambda>scanned.
           Ok (True, putScan a (storeScanned (recordScanned phase status v scanned) job) s)))"

text \<open>
  \<open>advanceObjectListScan\<close>, \<open>tryStartObjectListScanRead\<close> and \<open>finishObjectListScanRead\<close> call each
  other while the transport refuses requests: each refused property of the stored object counts as
  read, and the list entry that comes after them ends the scan.
\<close>

definition wantedReads :: "BacnetObjectListScanJob \<Rightarrow> nat" where
  "wantedReads job =
     (if \<not> sjHasStoreIndex job then 0
      else case scannedAt job of
        Ok scanned \<Rightarrow> of_bool (scnObjectNameStatus scanned = DrSkipped) + of_bool (scnDescriptionStatus scanned = DrSkipped) +
          of_bool (scnPresentValueStatus scanned = DrSkipped)
      | _ \<Rightarrow> 0)"

function advanceObjectListScan :: "Net \<Rightarrow> nat \<Rightarrow> u32 \<Rightarrow> Session \<Rightarrow> Session outcome" where
  "advanceObjectListScan net a nowMs s =
     (if sjStatus (ssScans s a) \<noteq> SjActive \<or> sjRequestInFlight (ssScans s a) then Ok s
      else case nextScanRead (deviceObjectOf s) (ssScans s a) of
        Undef \<Rightarrow> Undef | Fail \<Rightarrow> Fail
      | Ok (job, None) \<Rightarrow> Ok (completeObjectListScan a (putScan a job s))
      | Ok (job, Some (request, phase)) \<Rightarrow>
          (case startScanRead net a request phase nowMs (putScan a job s) of
             Undef \<Rightarrow> Undef | Fail \<Rightarrow> Fail
           | Ok (started, s') \<Rightarrow>
               if started then Ok s'
               else (case finishScanRead a DrSendFailed None s' of
                  Undef \<Rightarrow> Undef | Fail \<Rightarrow> Fail
                | Ok (again, s'') \<Rightarrow> if again then advanceObjectListScan net a nowMs s'' else Ok s'')))"
  by pat_completeness auto


lemma putScan_fields [simp]:
  "ssScans (putScan a job s) = (ssScans s)(a := job)" "ssReads (putScan a job s) = ssReads s"
  "ssSubs (putScan a job s) = ssSubs s" "ssInFlightScan (putScan a job s) = ssInFlightScan s"
  "ssInFlightRead (putScan a job s) = ssInFlightRead s"
  "ssInFlightSubscription (putScan a job s) = ssInFlightSubscription s"
  "ssClient (putScan a job s) = ssClient s" "ssPending (putScan a job s) = ssPending s"
  "ssCache (putScan a job s) = ssCache s" "ssNextInvokeId (putScan a job s) = ssNextInvokeId s"
  "ssSent (putScan a job s) = ssSent s" "ssEndpoint (putScan a job s) = ssEndpoint s"
  "ssDevice (putScan a job s) = ssDevice s" "ssNotified (putScan a job s) = ssNotified s"
  by (simp_all add: putScan_def)

lemma putRead_fields [simp]:
  "ssReads (putRead a rj s) = (ssReads s)(a := rj)" "ssScans (putRead a rj s) = ssScans s"
  "ssSubs (putRead a rj s) = ssSubs s" "ssInFlightScan (putRead a rj s) = ssInFlightScan s"
  "ssInFlightRead (putRead a rj s) = ssInFlightRead s"
  "ssInFlightSubscription (putRead a rj s) = ssInFlightSubscription s"
  "ssClient (putRead a rj s) = ssClient s" "ssPending (putRead a rj s) = ssPending s"
  "ssCache (putRead a rj s) = ssCache s" "ssNextInvokeId (putRead a rj s) = ssNextInvokeId s"
  "ssSent (putRead a rj s) = ssSent s" "ssEndpoint (putRead a rj s) = ssEndpoint s"
  "ssDevice (putRead a rj s) = ssDevice s" "ssNotified (putRead a rj s) = ssNotified s"
  by (simp_all add: putRead_def)

lemma putSub_fields [simp]:
  "ssSubs (putSub a sub s) = (ssSubs s)(a := sub)" "ssScans (putSub a sub s) = ssScans s"
  "ssReads (putSub a sub s) = ssReads s" "ssInFlightScan (putSub a sub s) = ssInFlightScan s"
  "ssInFlightRead (putSub a sub s) = ssInFlightRead s"
  "ssInFlightSubscription (putSub a sub s) = ssInFlightSubscription s"
  "ssClient (putSub a sub s) = ssClient s" "ssPending (putSub a sub s) = ssPending s"
  "ssCache (putSub a sub s) = ssCache s" "ssNextInvokeId (putSub a sub s) = ssNextInvokeId s"
  "ssSent (putSub a sub s) = ssSent s" "ssEndpoint (putSub a sub s) = ssEndpoint s"
  "ssDevice (putSub a sub s) = ssDevice s" "ssNotified (putSub a sub s) = ssNotified s"
  by (simp_all add: putSub_def)

lemma cacheAttempt_fields [simp]:
  "ssSubs (cacheAttempt r st v at ec eo s) = ssSubs s" "ssScans (cacheAttempt r st v at ec eo s) = ssScans s"
  "ssReads (cacheAttempt r st v at ec eo s) = ssReads s"
  "ssInFlightScan (cacheAttempt r st v at ec eo s) = ssInFlightScan s"
  "ssInFlightRead (cacheAttempt r st v at ec eo s) = ssInFlightRead s"
  "ssInFlightSubscription (cacheAttempt r st v at ec eo s) = ssInFlightSubscription s"
  "ssClient (cacheAttempt r st v at ec eo s) = ssClient s" "ssPending (cacheAttempt r st v at ec eo s) = ssPending s"
  "ssNextInvokeId (cacheAttempt r st v at ec eo s) = ssNextInvokeId s"
  "ssSent (cacheAttempt r st v at ec eo s) = ssSent s" "ssEndpoint (cacheAttempt r st v at ec eo s) = ssEndpoint s"
  "ssDevice (cacheAttempt r st v at ec eo s) = ssDevice s" "ssNotified (cacheAttempt r st v at ec eo s) = ssNotified s"
  by (simp_all add: cacheAttempt_def)

lemma nextScanRead_Ok:
  assumes "nextScanRead device job = Ok (job', Some (request, phase))"
  shows "phase = PhReadObjectListEntry \<and> \<not> sjHasStoreIndex job' \<or>
    phase = PhReadObjectListEntry \<and> sjResults job' = None \<or>
    job' = job \<and> sjHasStoreIndex job \<and> (\<exists>scanned. scannedAt job = Ok scanned \<and>
      (phase = PhReadObjectName \<and> scnObjectNameStatus scanned = DrSkipped \<or>
       phase = PhReadDescription \<and> scnDescriptionStatus scanned = DrSkipped \<or>
       phase = PhReadPresentValue \<and> scnPresentValueStatus scanned = DrSkipped))"
  using assms by (auto simp: nextScanRead_def Let_def split: if_splits)

lemma startScanRead_refused:
  assumes "startScanRead net a request phase nowMs s = Ok (False, s')"
  shows "ssScans s' = (ssScans s)(a := (ssScans s a)\<lparr>sjPhase := phase, sjRequest := request\<rparr>)"
  using assms by (auto simp: startScanRead_def sendRead_def sending_def allocateInvokeId_def split: if_splits)

lemma scannedAt_fields [simp]:
  "scannedAt (job\<lparr>sjPhase := phase\<rparr>) = scannedAt job" "scannedAt (job\<lparr>sjRequest := request\<rparr>) = scannedAt job"
  "scannedAt (clearScanInFlight job) = scannedAt job"
  by (simp_all add: scannedAt_def clearScanInFlight_def split: option.split)

lemma clearScanInFlight_fields [simp]:
  "sjSession (clearScanInFlight job) = sjSession job" "sjOptions (clearScanInFlight job) = sjOptions job"
  "sjResults (clearScanInFlight job) = sjResults job" "sjCapacity (clearScanInFlight job) = sjCapacity job"
  "sjResult (clearScanInFlight job) = sjResult job" "sjStatus (clearScanInFlight job) = sjStatus job"
  "sjPhase (clearScanInFlight job) = sjPhase job" "sjCurrentIndex (clearScanInFlight job) = sjCurrentIndex job"
  "sjMaxIndex (clearScanInFlight job) = sjMaxIndex job" "sjStoreIndex (clearScanInFlight job) = sjStoreIndex job"
  "sjHasStoreIndex (clearScanInFlight job) = sjHasStoreIndex job" "\<not> sjRequestInFlight (clearScanInFlight job)"
  by (simp_all add: clearScanInFlight_def)

lemma storeScanned_fields [simp]:
  "sjSession (storeScanned scanned job) = sjSession job" "sjOptions (storeScanned scanned job) = sjOptions job"
  "sjResults (storeScanned scanned job) = None \<longleftrightarrow> sjResults job = None"
  "sjCapacity (storeScanned scanned job) = sjCapacity job" "sjResult (storeScanned scanned job) = sjResult job"
  "sjStatus (storeScanned scanned job) = sjStatus job" "sjPhase (storeScanned scanned job) = sjPhase job"
  "sjCurrentIndex (storeScanned scanned job) = sjCurrentIndex job"
  "sjMaxIndex (storeScanned scanned job) = sjMaxIndex job"
  "sjStoreIndex (storeScanned scanned job) = sjStoreIndex job"
  "sjHasStoreIndex (storeScanned scanned job) = sjHasStoreIndex job"
  "sjRequestInFlight (storeScanned scanned job) = sjRequestInFlight job"
  by (simp_all add: storeScanned_def)

lemma scannedAt_store:
  "scannedAt job = Ok old \<Longrightarrow> scannedAt (storeScanned scanned job) = Ok scanned"
  by (auto simp: scannedAt_def storeScanned_def split: option.splits if_splits)

lemma wantedReads_decreases:
  assumes "nextScanRead device (ssScans s a) = Ok (job, Some (request, phase))"
    "startScanRead net a request phase nowMs (putScan a job s) = Ok (False, s')"
    "finishScanRead a DrSendFailed None s' = Ok (True, s'')"
  shows "wantedReads (ssScans s'' a) < wantedReads (ssScans s a)"
proof -
  have s': "ssScans s' a = job\<lparr>sjPhase := phase, sjRequest := request\<rparr>"
    using startScanRead_refused [OF assms(2)] by simp
  have ne: "phase \<noteq> PhReadObjectListEntry"
    using assms(3) by (auto simp: finishScanRead_def s' Let_def finishEntryRead_def clearScanInFlight_def)
  then obtain scanned where job: "job = ssScans s a" "sjHasStoreIndex job" "scannedAt job = Ok scanned"
    and phase: "phase = PhReadObjectName \<and> scnObjectNameStatus scanned = DrSkipped \<or>
       phase = PhReadDescription \<and> scnDescriptionStatus scanned = DrSkipped \<or>
       phase = PhReadPresentValue \<and> scnPresentValueStatus scanned = DrSkipped"
    using nextScanRead_Ok [OF assms(1)] by blast
  let ?job = "clearScanInFlight (job\<lparr>sjPhase := phase, sjRequest := request\<rparr>)"
  have at: "scannedAt ?job = Ok scanned" using job by simp
  have "sjResults job \<noteq> None" using job(3) by (auto simp: scannedAt_def split: option.splits)
  then have s'': "ssScans s'' a = storeScanned (recordScanned phase DrSendFailed None scanned) ?job"
    using assms(3) phase job at
    by (auto simp: finishScanRead_def s' Let_def)
  have "wantedReads (ssScans s'' a) < wantedReads job"
    using phase job(2,3) scannedAt_store [OF at, of "recordScanned phase DrSendFailed None scanned"]
    by (auto simp: wantedReads_def s'' recordScanned_def)
  then show ?thesis using job(1) by simp
qed

termination advanceObjectListScan
  by (relation "measure (\<lambda>(net, a, nowMs, s). wantedReads (ssScans s a))") (auto dest: wantedReads_decreases)

declare advanceObjectListScan.simps [simp del]


text \<open>The ways a step of the loop can go.\<close>

lemma advance_complete:
  assumes "sjStatus (ssScans s a) = SjActive" "\<not> sjRequestInFlight (ssScans s a)"
    "nextScanRead (deviceObjectOf s) (ssScans s a) = Ok (job, None)"
  shows "advanceObjectListScan net a nowMs s = Ok (completeObjectListScan a (putScan a job s))"
  by (subst advanceObjectListScan.simps) (simp add: assms)

lemma advance_start:
  assumes "sjStatus (ssScans s a) = SjActive" "\<not> sjRequestInFlight (ssScans s a)"
    "nextScanRead (deviceObjectOf s) (ssScans s a) = Ok (job, Some (request, phase))"
    "startScanRead net a request phase nowMs (putScan a job s) = Ok (started, s')"
    "\<not> started \<Longrightarrow> finishScanRead a DrSendFailed None s' = Ok (again, s'')"
  shows "advanceObjectListScan net a nowMs s =
    (if started then Ok s' else if again then advanceObjectListScan net a nowMs s'' else Ok s'')"
proof (cases started)
  case True
  show ?thesis by (subst advanceObjectListScan.simps) (simp add: assms True)
next
  case False
  show ?thesis by (subst advanceObjectListScan.simps) (simp add: assms(1-4) assms(5) [OF False] False)
qed

definition finishObjectListScanRead ::
    "Net \<Rightarrow> nat \<Rightarrow> BacnetDeviceSessionReadStatus \<Rightarrow> BacnetValue option \<Rightarrow> u32 \<Rightarrow> Session \<Rightarrow> Session outcome" where
  "finishObjectListScanRead net a status v nowMs s =
     obind (finishScanRead a status v s) (\<lambda>(again, s).
       if again then advanceObjectListScan net a nowMs s else Ok s)"

definition tryStartObjectListScanRead ::
    "Net \<Rightarrow> nat \<Rightarrow> BacnetPropertyRequest \<Rightarrow> BacnetObjectListScanPhase \<Rightarrow> u32 \<Rightarrow> Session \<Rightarrow>
     (bool \<times> Session) outcome" where
  "tryStartObjectListScanRead net a request phase nowMs s =
     obind (startScanRead net a request phase nowMs s) (\<lambda>(started, s).
       if started then Ok (True, s)
       else obind (finishObjectListScanRead net a DrSendFailed None nowMs s) (\<lambda>s. Ok (False, s)))"

text \<open>\<open>advanceObjectListScan\<close> as the sources write it, over \<open>tryStartObjectListScanRead\<close>.\<close>

lemma obind_Ok_right [simp]: "obind m Ok = m"
  by (cases m) simp_all

lemma advanceObjectListScan_eq:
  "advanceObjectListScan net a nowMs s =
     (if sjStatus (ssScans s a) \<noteq> SjActive \<or> sjRequestInFlight (ssScans s a) then Ok s
      else obind (nextScanRead (deviceObjectOf s) (ssScans s a)) (\<lambda>(job, next).
        case next of None \<Rightarrow> Ok (completeObjectListScan a (putScan a job s))
        | Some (request, phase) \<Rightarrow>
            obind (tryStartObjectListScanRead net a request phase nowMs (putScan a job s)) (\<lambda>(started, s). Ok s)))"
  by (subst advanceObjectListScan.simps)
    (auto simp: tryStartObjectListScanRead_def finishObjectListScanRead_def obind_assoc
       split: outcome.splits option.splits prod.splits)

definition beginObjectListScan ::
    "Net \<Rightarrow> nat \<Rightarrow> BacnetObjectScanOptions \<Rightarrow> BacnetScannedObject list option \<Rightarrow> nat \<Rightarrow> u32 \<Rightarrow> Session \<Rightarrow>
     (bool \<times> Session) outcome" where
  "beginObjectListScan net a options results resultCapacity nowMs s =
     (let nowMs = sessionNow net s nowMs
      in if isBusy s \<or> sjStatus (ssScans s a) = SjActive then Ok (False, s)
         else tryStartObjectListScanRead net a
           \<lparr>rqObject = deviceObjectOf s, rqProperty = PropObjectList, rqArrayIndex = 0\<rparr>
           PhReadObjectListCount nowMs
           (putScan a (clearedScanJob\<lparr>sjSession := True, sjOptions := options, sjResults := results,
              sjCapacity := resultCapacity, sjStatus := SjActive, sjPhase := PhReadObjectListCount\<rparr>)
             (s\<lparr>ssInFlightScan := Some a\<rparr>)))"

definition pollInFlightObjectListScan :: "Net \<Rightarrow> u32 \<Rightarrow> Session \<Rightarrow> Session outcome" where
  "pollInFlightObjectListScan net nowMs s =
     (case ssInFlightScan s of None \<Rightarrow> Ok s
      | Some a \<Rightarrow>
          let job = ssScans s a; request = sjRequest job
          in if sjStatus job \<noteq> SjActive \<or> \<not> sjRequestInFlight job then Ok s
             else obind (pollAnswer net (sjInvokeId job) request s) (\<lambda>(answer, s).
               if rpStatus answer \<noteq> PollNone
               then
                 let status = detailedStatus request answer
                 in finishObjectListScanRead net a (deviceReadStatusFromPropertyStatus status) (Some (rpValue answer)) nowMs
                      (cacheAttempt request status (Some (rpValue answer)) nowMs (rpErrorClass answer)
                        (rpErrorCode answer) s)
               else if nowMs - sjStartedAtMs job \<ge> soReadTimeoutMs (sjOptions job)
               then finishObjectListScanRead net a DrTimeout None nowMs (cacheAttempt request PrTimeout None nowMs 0 0 s)
               else Ok s))"

definition pollObjectListScan :: "Net \<Rightarrow> nat \<Rightarrow> u32 \<Rightarrow> Session \<Rightarrow> Session outcome" where
  "pollObjectListScan net a nowMs s =
     (let nowMs = sessionNow net s nowMs
      in if \<not> sjSession (ssScans s a) \<or> sjStatus (ssScans s a) \<noteq> SjActive then Ok s
         else obind (pollInFlightObjectListScan net nowMs s) (\<lambda>s.
           if sjStatus (ssScans s a) = SjActive \<and> \<not> sjRequestInFlight (ssScans s a)
           then advanceObjectListScan net a nowMs s else Ok s))"

definition cancelObjectListScan :: "nat \<Rightarrow> Session \<Rightarrow> Session" where
  "cancelObjectListScan a s =
     (if \<not> sjSession (ssScans s a) \<or> scanTerminal (ssScans s a) then s
      else let s = releaseObjectListScan a s
           in putScan a ((ssScans s a)\<lparr>sjStatus := SjCancelled, sjPhase := PhCancelled\<rparr>) s)"

end
