(* ===== verification/SessionSubscriptions.thy ===== *)
theory SessionSubscriptions
  imports SessionReads
begin

text \<open>
  Subscriptions of a device session (src/src/core/client/BacnetDeviceSession.cpp): a property is
  polled with ReadProperty requests, or reported by the device after a SubscribeCOV request that is
  renewed before it expires.
\<close>

section \<open>The subscription object\<close>

definition createSubscription ::
    "Net \<Rightarrow> BacnetObjectId \<Rightarrow> BacnetPropertyId \<Rightarrow> u32 \<Rightarrow> BacnetSubscribeOptions \<Rightarrow> bool \<Rightarrow> Session \<Rightarrow>
     BacnetPropertySubscription" where
  "createSubscription net ob p arrayIndex options callback s =
     (let options = (if boTimeoutMs options = 0 then options\<lparr>boTimeoutMs := 1000\<rparr> else options)
      in noSubscription\<lparr>psSession := True, psObjectId := ob, psPropertyId := p, psArrayIndex := arrayIndex,
           psOptions := options, psCallback := callback, psActive := True,
           psInitialReadPending := boImmediateFirstRead options,
           psNextPollAtMs := (if boFallbackPollMs options > 0
             then clientNow net (ssClient s) + boFallbackPollMs options else 0)\<rparr>)"

definition releaseSubscription :: "nat \<Rightarrow> Session \<Rightarrow> Session" where
  "releaseSubscription a s =
     putSub a (clearSubscriptionInFlight (ssSubs s a))
       (s\<lparr>ssInFlightSubscription :=
            (if ssInFlightSubscription s = Some a then None else ssInFlightSubscription s)\<rparr>)"

definition stopSubscription :: "nat \<Rightarrow> Session \<Rightarrow> Session" where
  "stopSubscription a s =
     (let sub = ssSubs s a
      in if \<not> psActive sub then s
         else putSub a (clearSubscriptionInFlight
             (sub\<lparr>psActive := False, psRefreshRequested := False, psInitialReadPending := False\<rparr>))
           (s\<lparr>ssInFlightSubscription :=
                (if psSession sub \<and> ssInFlightSubscription s = Some a then None
                 else ssInFlightSubscription s)\<rparr>))"

definition requestRefresh :: "nat \<Rightarrow> Session \<Rightarrow> Session" where
  "requestRefresh a s =
     (if \<not> psActive (ssSubs s a) then s else putSub a ((ssSubs s a)\<lparr>psRefreshRequested := True\<rparr>) s)"

definition destroySubscription :: "nat \<Rightarrow> Session \<Rightarrow> Session" where
  "destroySubscription a s =
     (let s = (if psSession (ssSubs s a) then releaseSubscription a s else s)
      in putSub a (clearSubscriptionInFlight ((ssSubs s a)\<lparr>psActive := False, psRefreshRequested := False,
           psInitialReadPending := False\<rparr>)) s)"

text \<open>What \<open>moveFrom\<close> leaves of the subscription it takes over.\<close>

definition movedFrom :: "BacnetPropertySubscription \<Rightarrow> BacnetPropertySubscription" where
  "movedFrom other = (clearSubscriptionInFlight other)\<lparr>psSession := False, psActive := False, psHasValue := False,
     psRefreshRequested := False, psInitialReadPending := False, psHasTerminalStatus := False,
     psLastStatus := DrSkipped, psLastUpdateMs := 0, psNextPollAtMs := 0, psLastReason := 0,
     psCovActive := False, psCovFallback := False, psCovStatus := CvPending, psCovRejectReason := 0xFF,
     psCovProcessId := 0, psCovProcessIdAssigned := False, psCovRenewAtMs := 0, psCallback := False\<rparr>"

definition moveFrom :: "nat \<Rightarrow> nat \<Rightarrow> Session \<Rightarrow> Session" where
  "moveFrom a other s =
     (let sub = ssSubs s other
      in putSub other (movedFrom sub) (putSub a sub
           (s\<lparr>ssInFlightSubscription :=
                (if psSession sub \<and> ssInFlightSubscription s = Some other then Some a
                 else ssInFlightSubscription s)\<rparr>)))"

definition moveAssign :: "nat \<Rightarrow> nat \<Rightarrow> Session \<Rightarrow> Session" where
  "moveAssign a other s =
     (if a = other then s
      else moveFrom a other (if psSession (ssSubs s a) then releaseSubscription a s else s))"

section \<open>The result of a read or a notification\<close>

text \<open>The values of a notification go into the cache one by one.\<close>

definition cacheReport :: "BacnetObjectId \<Rightarrow> u32 \<Rightarrow> BacnetCovPropertyValue \<Rightarrow> Session \<Rightarrow> Session" where
  "cacheReport ob nowMs pv =
     cacheAttempt \<lparr>rqObject = ob, rqProperty = cpProperty pv, rqArrayIndex = cpArrayIndex pv\<rparr> PrAck
       (Some (cpValue pv)) nowMs 0 0"

definition subscriptionRequest :: "BacnetPropertySubscription \<Rightarrow> BacnetPropertyRequest" where
  "subscriptionRequest sub =
     \<lparr>rqObject = psObjectId sub, rqProperty = psPropertyId sub, rqArrayIndex = psArrayIndex sub\<rparr>"

definition finishSubscriptionPoll ::
    "nat \<Rightarrow> BacnetDeviceSessionReadStatus \<Rightarrow> BacnetValue option \<Rightarrow> u32 \<Rightarrow> BacnetPropertyReadStatus \<Rightarrow> u32 \<Rightarrow> u32 \<Rightarrow>
     BacnetCovNotification option \<Rightarrow> Session \<Rightarrow> Session" where
  "finishSubscriptionPoll a status v nowMs propertyStatus errorClass errorCode covNotification s =
     (let sub = ssSubs s a;
          reports = (case covNotification of None \<Rightarrow> [] | Some n \<Rightarrow> cnProperties n);
          s = fold (cacheReport (psObjectId sub) nowMs) reports
            (cacheAttempt (subscriptionRequest sub) propertyStatus v nowMs errorClass errorCode s);
          statusChanged = (\<not> psHasTerminalStatus sub \<or> psLastStatus sub \<noteq> status);
          got = (case v of Some x \<Rightarrow> status = DrAck | None \<Rightarrow> False);
          firstValue = (got \<and> \<not> psHasValue sub);
          valueChanged = (got \<and> (firstValue \<or> \<not> bacnetValueEquals (psLastValue sub) (the v)));
          reasons = (if firstValue then reasonFirstValue else 0) OR
            (if valueChanged then reasonValueChanged else 0) OR
            (if statusChanged \<and> boNotifyOnStatusChange (psOptions sub) then reasonStatusChanged else 0);
          sub = sub\<lparr>psLastValue := (if valueChanged then the v else psLastValue sub),
            psHasValue := (psHasValue sub \<or> got), psHasTerminalStatus := True, psLastStatus := status,
            psLastUpdateMs := nowMs, psLastReason := reasons\<rparr>;
          s = (if psCallback sub \<and> reasons \<noteq> 0
            then s\<lparr>ssNotified := ssNotified s @ [(a, \<lparr>snObjectId = psObjectId sub, snPropertyId = psPropertyId sub,
                snArrayIndex = psArrayIndex sub, snStatus = status,
                snValue = (if psHasValue sub then Some (psLastValue sub) else None),
                snFirstValue = firstValue, snValueChanged = valueChanged, snStatusChanged = statusChanged,
                snReason = reasons, snCovProperties = reports\<rparr>)]\<rparr>
            else s)
      in putSub a (clearSubscriptionInFlight (scheduleNextPoll nowMs (sub\<lparr>psInitialReadPending := False\<rparr>)))
           (s\<lparr>ssInFlightSubscription :=
                (if ssInFlightSubscription s = Some a then None else ssInFlightSubscription s)\<rparr>))"

section \<open>Starting a request\<close>

definition tryStartSubscriptionPoll :: "Net \<Rightarrow> nat \<Rightarrow> u32 \<Rightarrow> Session \<Rightarrow> Session outcome" where
  "tryStartSubscriptionPoll net a nowMs s =
     (let sub = ssSubs s a
      in if \<not> isDue nowMs sub \<or> ssInFlightScan s \<noteq> None \<or> ssInFlightRead s \<noteq> None then Ok s
         else
           let trigger = (if psRefreshRequested sub then TriggerRefresh
                 else if psInitialReadPending sub then TriggerInitial else TriggerFallback);
               (invokeId, s) = allocateInvokeId s
           in obind (sendRead net (subscriptionRequest sub) invokeId s) (\<lambda>(sent, s).
                if \<not> sent then Ok (finishSubscriptionPoll a DrSendFailed None nowMs PrSendFailed 0 0 None s)
                else Ok (putSub a (sub\<lparr>psInFlight := True, psInvokeId := invokeId, psStartedAt := nowMs,
                       psTrigger := trigger, psOperation := OperationPoll, psRefreshRequested := False\<rparr>)
                     (s\<lparr>ssInFlightSubscription := Some a\<rparr>))))"

definition covProcessId :: "BacnetObjectId \<Rightarrow> u32" where
  "covProcessId ob = push_bit 22 (ucast (objType ob)) OR objInstance ob"

definition tryStartCovSubscription :: "Net \<Rightarrow> nat \<Rightarrow> u32 \<Rightarrow> Session \<Rightarrow> (bool \<times> Session) outcome" where
  "tryStartCovSubscription net a nowMs s =
     (let sub = ssSubs s a; options = psOptions sub
      in if \<not> psActive sub \<or> psInFlight sub \<or> ssInFlightRead s \<noteq> None \<or> ssInFlightScan s \<noteq> None \<or>
            \<not> boPreferCov options \<or>
            (psCovFallback sub \<and> \<not> reached nowMs (psCovRenewAtMs sub)) \<or>
            (psCovActive sub \<and> \<not> reached nowMs (psCovRenewAtMs sub))
         then Ok (False, s)
         else
           let (invokeId, s) = allocateInvokeId s;
               s = s\<lparr>ssCovAttempts := ssCovAttempts s + 1\<rparr>;
               sub = sub\<lparr>psCovProcessId := (if psCovProcessIdAssigned sub then psCovProcessId sub
                   else covProcessId (psObjectId sub)),
                 psCovProcessIdAssigned := True, psCovRejectReason := 0xFF\<rparr>;
               sent = (if boUsePropertyCov options
                 then sendSubscribeCovProperty net (ssClient s) (ssEndpoint s) (psCovProcessId sub) (psObjectId sub)
                   (psPropertyId sub) (boCovLifetimeSeconds options) invokeId (boIssueConfirmed options)
                   (psArrayIndex sub) (boHasCovIncrement options) (boCovIncrement options)
                 else sendSubscribeCov net (ssClient s) (ssEndpoint s) (psCovProcessId sub) (psObjectId sub)
                   (boCovLifetimeSeconds options) invokeId (boIssueConfirmed options))
           in obind (sending s sent) (\<lambda>(ok, s).
                if \<not> ok
                then Ok (False, putSub a ((scheduleCovRetry nowMs sub)\<lparr>psCovStatus := CvSendFailed\<rparr>)
                       (s\<lparr>ssCovSendFailures := ssCovSendFailures s + 1\<rparr>))
                else Ok (True, putSub a (sub\<lparr>psInFlight := True, psInvokeId := invokeId, psStartedAt := nowMs,
                       psOperation := OperationSubscribeCov\<rparr>)
                     (s\<lparr>ssInFlightSubscription := Some a\<rparr>))))"

section \<open>The request in flight\<close>

definition endInFlight :: "nat \<Rightarrow> BacnetPropertySubscription \<Rightarrow> Session \<Rightarrow> Session" where
  "endInFlight a sub s = putSub a (clearSubscriptionInFlight sub) (s\<lparr>ssInFlightSubscription := None\<rparr>)"

definition covAccepted :: "u32 \<Rightarrow> BacnetPropertySubscription \<Rightarrow> BacnetPropertySubscription" where
  "covAccepted nowMs sub =
     (let renewBefore = boCovRenewBeforeSeconds (psOptions sub); lifetime = boCovLifetimeSeconds (psOptions sub)
      in sub\<lparr>psCovActive := True, psCovFallback := False, psCovStatus := CvActive,
           psCovRenewAtMs := nowMs + (if lifetime > renewBefore then lifetime - renewBefore else lifetime) * 1000\<rparr>)"

definition covRefused ::
    "u32 \<Rightarrow> BacnetSubscribeCovResponseKind \<Rightarrow> u8 \<Rightarrow> BacnetPropertySubscription \<Rightarrow> BacnetPropertySubscription" where
  "covRefused nowMs kind rejectReason sub =
     (let sub = scheduleCovRetry nowMs sub
      in case kind of
           ScError \<Rightarrow> sub\<lparr>psCovStatus := CvError\<rparr>
         | ScReject \<Rightarrow> sub\<lparr>psCovStatus := CvReject, psCovRejectReason := rejectReason\<rparr>
         | ScAbort \<Rightarrow> sub\<lparr>psCovStatus := CvAbort\<rparr>
         | _ \<Rightarrow> sub\<lparr>psCovStatus := CvTimeout\<rparr>)"

definition pollInFlightSubscription :: "Net \<Rightarrow> u32 \<Rightarrow> Session \<Rightarrow> Session outcome" where
  "pollInFlightSubscription net nowMs s =
     (case ssInFlightSubscription s of None \<Rightarrow> Ok s
      | Some a \<Rightarrow>
          let sub = ssSubs s a; options = psOptions sub; request = subscriptionRequest sub
          in if \<not> psActive sub then Ok (endInFlight a sub s)
             else if psOperation sub = OperationSubscribeCov
             then obind (receiving s ((if boUsePropertyCov options then pollSubscribeCovProperty else pollSubscribeCov)
                      (psInvokeId sub) (Some (ssEndpoint s)) (ssClient s)))
               (\<lambda>((kind, rejectReason), s).
                  if kind = ScAck then Ok (endInFlight a (covAccepted nowMs sub) s)
                  else if kind \<noteq> ScNone \<or> nowMs - psStartedAt sub \<ge> boTimeoutMs options
                  then Ok (endInFlight a (covRefused nowMs kind rejectReason sub)
                         (s\<lparr>ssCovTimeouts := ssCovTimeouts s + (if kind = ScNone then 1 else 0)\<rparr>))
                  else Ok s)
             else obind (pollAnswer net (psInvokeId sub) request s) (\<lambda>(answer, s).
                  if rpStatus answer \<noteq> PollNone
                  then
                    let status = detailedStatus request answer
                    in Ok (finishSubscriptionPoll a (deviceReadStatusFromPropertyStatus status)
                           (Some (rpValue answer)) nowMs status (rpErrorClass answer) (rpErrorCode answer) None s)
                  else if nowMs - psStartedAt sub \<ge> boTimeoutMs options
                  then Ok (finishSubscriptionPoll a DrTimeout None nowMs PrTimeout 0 0 None s)
                  else Ok s))"

section \<open>Notifications\<close>

definition notificationMatches :: "Session \<Rightarrow> BacnetPropertySubscription \<Rightarrow> BacnetCovNotification \<Rightarrow> bool" where
  "notificationMatches s sub n \<longleftrightarrow>
     clientEndpointEquals (cnSource n) (ssEndpoint s) \<and> psCovProcessIdAssigned sub \<and>
     cnProcessId n = psCovProcessId sub \<and>
     objType (cnObject n) = objType (psObjectId sub) \<and> objInstance (cnObject n) = objInstance (psObjectId sub) \<and>
     ((\<exists>pv \<in> set (cnProperties n). cpProperty pv = psPropertyId sub \<and> cpArrayIndex pv = psArrayIndex sub) \<or>
      cnProperty n = psPropertyId sub \<and> cnArrayIndex n = psArrayIndex sub)"

definition queuePending :: "BacnetCovNotification \<Rightarrow> Session \<Rightarrow> Session" where
  "queuePending n s = s\<lparr>ssPending := enqueueBounded kMaxPendingCovNotifications n (ssPending s)\<rparr>"

primrec takeFirst :: "('a \<Rightarrow> bool) \<Rightarrow> 'a list \<Rightarrow> ('a \<times> 'a list) option" where
  "takeFirst P [] = None"
| "takeFirst P (x # xs) = (if P x then Some (x, xs) else map_option (apsnd ((#) x)) (takeFirst P xs))"

definition takeCovNotification ::
    "Net \<Rightarrow> nat \<Rightarrow> Session \<Rightarrow> (BacnetCovNotification option \<times> Session) outcome" where
  "takeCovNotification net a s =
     (let matches = notificationMatches s (ssSubs s a)
      in case takeFirst matches (ssPending s) of
           Some (n, rest) \<Rightarrow> Ok (Some n, s\<lparr>ssPending := rest\<rparr>)
         | None \<Rightarrow>
             obind (pollCovNotification net False (ssClient s)) (\<lambda>(received, c, datagrams).
               let s = s\<lparr>ssClient := c, ssSent := ssSent s @ datagrams\<rparr>
               in Ok (case received of None \<Rightarrow> (None, s)
                      | Some n \<Rightarrow> if matches n then (Some n, s) else (None, queuePending n s))))"

definition notifiedValue :: "BacnetPropertySubscription \<Rightarrow> BacnetCovNotification \<Rightarrow> BacnetValue" where
  "notifiedValue sub n =
     (case List.find (\<lambda>pv. cpProperty pv = psPropertyId sub \<and> cpArrayIndex pv = psArrayIndex sub) (cnProperties n) of
        Some pv \<Rightarrow> cpValue pv | None \<Rightarrow> cnValue n)"

text \<open>
  The notification a subscription takes, acknowledged if it asks for that; \<open>False\<close> when the
  acknowledgement could not be sent and the notification waits for the next poll.
\<close>

definition takeReport :: "Net \<Rightarrow> nat \<Rightarrow> u32 \<Rightarrow> Session \<Rightarrow> (bool \<times> Session) outcome" where
  "takeReport net a nowMs s =
     obind (takeCovNotification net a s) (\<lambda>(taken, s).
       case taken of None \<Rightarrow> Ok (True, s)
       | Some n \<Rightarrow>
           obind (if cnConfirmed n then sending s (acknowledgeCovNotification net n) else Ok (True, s)) (\<lambda>(ok, s).
             if \<not> ok then Ok (False, queuePending n s)
             else
               let s = finishSubscriptionPoll a DrAck (Some (notifiedValue (ssSubs s a) n)) nowMs PrAck 0 0 (Some n) s
               in Ok (True, putSub a ((ssSubs s a)\<lparr>psCovActive := True\<rparr>) s)))"

section \<open>Polling\<close>

definition startSubscription :: "Net \<Rightarrow> nat \<Rightarrow> u32 \<Rightarrow> Session \<Rightarrow> Session outcome" where
  "startSubscription net a nowMs s =
     obind (tryStartCovSubscription net a nowMs s) (\<lambda>(started, s).
       if started then Ok s else tryStartSubscriptionPoll net a nowMs s)"

definition pollSubscription :: "Net \<Rightarrow> nat \<Rightarrow> u32 \<Rightarrow> Session \<Rightarrow> Session outcome" where
  "pollSubscription net a nowMs s =
     (let nowMs = sessionNow net s nowMs
      in if \<not> psSession (ssSubs s a) then Ok s
         else obind (pollInFlightSubscription net nowMs (s\<lparr>ssLastCovPollMs := nowMs\<rparr>)) (\<lambda>s.
           if ssInFlightSubscription s \<noteq> None then Ok s
           else obind (if psCovActive (ssSubs s a) then takeReport net a nowMs s else Ok (True, s)) (\<lambda>(goOn, s).
             if goOn then startSubscription net a nowMs s else Ok s)))"

text \<open>\<open>poll(subscriptions, count)\<close> for the array of subscriptions at \<open>base\<close>.\<close>

definition pollSubscriptions :: "Net \<Rightarrow> nat option \<Rightarrow> nat \<Rightarrow> u32 \<Rightarrow> Session \<Rightarrow> Session outcome" where
  "pollSubscriptions net subscriptions count nowMs s =
     (let nowMs = sessionNow net s nowMs
      in obind (pollInFlightSubscription net nowMs (s\<lparr>ssLastCovPollMs := nowMs\<rparr>)) (\<lambda>s.
           case subscriptions of None \<Rightarrow> Ok s
           | Some base \<Rightarrow>
               if ssInFlightSubscription s \<noteq> None \<or> ssInFlightRead s \<noteq> None \<or> count = 0 then Ok s
               else
                 let s = s\<lparr>ssRoundRobin := (if ssRoundRobin s \<ge> count then 0 else ssRoundRobin s)\<rparr>
                 in case List.find (\<lambda>index. psSession (ssSubs s (base + index)) \<and> isDue nowMs (ssSubs s (base + index)))
                       (map (\<lambda>i. (ssRoundRobin s + i) mod count) [0..<count]) of
                      None \<Rightarrow> Ok s
                    | Some index \<Rightarrow>
                        startSubscription net (base + index) nowMs (s\<lparr>ssRoundRobin := (index + 1) mod count\<rparr>)))"

definition pollInFlight :: "Net \<Rightarrow> u32 \<Rightarrow> Session \<Rightarrow> Session outcome" where
  "pollInFlight net nowMs s =
     (let nowMs = sessionNow net s nowMs
      in if ssInFlightRead s \<noteq> None then pollInFlightPropertyRead net nowMs s
         else if ssInFlightScan s \<noteq> None then pollInFlightObjectListScan net nowMs s
         else if ssInFlightSubscription s \<noteq> None then pollInFlightSubscription net nowMs s
         else Ok s)"

end
