(* ===== verification/SessionInvariant.thy ===== *)
theory SessionInvariant
  imports SessionSubscriptions RequestLaws ResponseLaws
begin

text \<open>
  What holds of a session whatever the application calls and whatever arrives: one request is in
  flight at a time and belongs to exactly one live job or subscription, the queues and the cache
  stay bounded, an active scan always has a request in flight and stores inside its array.
\<close>

section \<open>What an application does to a session\<close>

datatype SessionCall =
  BeginRead nat BacnetPropertyRequest u32 u32
| PollRead nat u32
| CancelRead nat
| BeginScan nat BacnetObjectScanOptions "BacnetScannedObject list option" nat u32
| PollScan nat u32
| CancelScan nat
| Subscribe nat BacnetObjectId BacnetPropertyId u32 BacnetSubscribeOptions bool
| PollSubscription nat u32
| PollSubscriptions "nat option" nat u32
| StopSubscription nat
| RefreshSubscription nat
| DestroySubscription nat
| MoveSubscription nat nat
| PollInFlight u32
| Arrival BacnetIpEndpoint bytes

fun sessionCall :: "Net \<Rightarrow> SessionCall \<Rightarrow> Session \<Rightarrow> Session outcome" where
  "sessionCall net (BeginRead a request timeoutMs nowMs) s =
     obind (beginPropertyRead net a request timeoutMs nowMs s) (\<lambda>(started, s). Ok s)"
| "sessionCall net (PollRead a nowMs) s = pollPropertyRead net a nowMs s"
| "sessionCall net (CancelRead a) s = Ok (cancelPropertyRead a s)"
| "sessionCall net (BeginScan a options results capacity nowMs) s =
     obind (beginObjectListScan net a options results capacity nowMs s) (\<lambda>(started, s). Ok s)"
| "sessionCall net (PollScan a nowMs) s = pollObjectListScan net a nowMs s"
| "sessionCall net (CancelScan a) s = Ok (cancelObjectListScan a s)"
| "sessionCall net (Subscribe a ob p arrayIndex options callback) s =
     Ok (putSub a (createSubscription net ob p arrayIndex options callback s) s)"
| "sessionCall net (PollSubscription a nowMs) s = pollSubscription net a nowMs s"
| "sessionCall net (PollSubscriptions base count nowMs) s = pollSubscriptions net base count nowMs s"
| "sessionCall net (StopSubscription a) s = Ok (stopSubscription a s)"
| "sessionCall net (RefreshSubscription a) s = Ok (requestRefresh a s)"
| "sessionCall net (DestroySubscription a) s = Ok (destroySubscription a s)"
| "sessionCall net (MoveSubscription a other) s = Ok (moveAssign a other s)"
| "sessionCall net (PollInFlight nowMs) s = pollInFlight net nowMs s"
| "sessionCall net (Arrival source packet) s =
     Ok (s\<lparr>ssClient := (ssClient s)\<lparr>clInbox := clInbox (ssClient s) @ [(source, packet)]\<rparr>\<rparr>)"

text \<open>
  The contract of the caller: the array of a scan has the size it is said to have, and a subscription
  is not constructed over one whose request is in flight.
\<close>

fun callAllowed :: "SessionCall \<Rightarrow> Session \<Rightarrow> bool" where
  "callAllowed (BeginScan a options results capacity nowMs) s \<longleftrightarrow>
     (case results of None \<Rightarrow> True | Some rs \<Rightarrow> capacity \<le> length rs)"
| "callAllowed (Subscribe a ob p arrayIndex options callback) s \<longleftrightarrow> \<not> psInFlight (ssSubs s a)"
| "callAllowed _ s \<longleftrightarrow> True"

section \<open>The invariant\<close>

definition readActive :: "BacnetPropertyReadJob \<Rightarrow> bool" where
  "readActive job \<longleftrightarrow> pjSession job \<and> pjStatus job = PjActive"

definition scanActive :: "BacnetObjectListScanJob \<Rightarrow> bool" where
  "scanActive job \<longleftrightarrow> sjSession job \<and> sjStatus job = SjActive"

definition storesInside :: "BacnetObjectListScanJob \<Rightarrow> bool" where
  "storesInside job \<longleftrightarrow>
     (case sjResults job of None \<Rightarrow> \<not> sjHasStoreIndex job
      | Some rs \<Rightarrow> sjCapacity job \<le> length rs \<and> srStored (sjResult job) \<le> sjCapacity job \<and>
          (sjHasStoreIndex job \<longrightarrow> sjStoreIndex job < srStored (sjResult job)))"

definition resources :: "Session \<Rightarrow> bool" where
  "resources s \<longleftrightarrow> wfCache (ssCache s) \<and> length (ssPending s) \<le> kMaxPendingCovNotifications \<and>
     length (clQueued (ssClient s)) \<le> kMaxClientQueuedCovNotifications \<and> ssNextInvokeId s \<noteq> 0"

definition exclusive :: "Session \<Rightarrow> bool" where
  "exclusive s \<longleftrightarrow>
     (ssInFlightSubscription s = None \<or> ssInFlightScan s = None) \<and>
     (ssInFlightSubscription s = None \<or> ssInFlightRead s = None) \<and>
     (ssInFlightScan s = None \<or> ssInFlightRead s = None)"

text \<open>\<open>started\<close>: the request of an active job is under way, not just about to be sent.\<close>

definition wfReads :: "bool \<Rightarrow> Session \<Rightarrow> bool" where
  "wfReads started s \<longleftrightarrow> (\<forall>a. readActive (ssReads s a) \<longleftrightarrow> ssInFlightRead s = Some a) \<and>
     (\<forall>a. started \<and> readActive (ssReads s a) \<longrightarrow> pjInvokeId (ssReads s a) \<noteq> 0)"

definition wfScans :: "bool \<Rightarrow> Session \<Rightarrow> bool" where
  "wfScans started s \<longleftrightarrow> (\<forall>a. scanActive (ssScans s a) \<longleftrightarrow> ssInFlightScan s = Some a) \<and>
     (\<forall>a. scanActive (ssScans s a) \<longrightarrow> storesInside (ssScans s a) \<and>
       (started \<longrightarrow> sjRequestInFlight (ssScans s a) \<and> sjInvokeId (ssScans s a) \<noteq> 0)) \<and>
     (\<forall>a. sjStatus (ssScans s a) = SjActive \<longrightarrow> sjSession (ssScans s a))"

definition wfSubs :: "Session \<Rightarrow> bool" where
  "wfSubs s \<longleftrightarrow> (\<forall>a. psInFlight (ssSubs s a) \<longleftrightarrow> ssInFlightSubscription s = Some a) \<and>
     (\<forall>a. psInFlight (ssSubs s a) \<longrightarrow> psSession (ssSubs s a) \<and> psActive (ssSubs s a) \<and>
       psOperation (ssSubs s a) \<noteq> OperationNone \<and> psInvokeId (ssSubs s a) \<noteq> 0)"

definition wfSession :: "Session \<Rightarrow> bool" where
  "wfSession s \<longleftrightarrow> resources s \<and> exclusive s \<and> wfReads True s \<and> wfScans True s \<and> wfSubs s"

text \<open>A datagram no parser of the client leaves.\<close>

definition harmless :: "bytes \<Rightarrow> bool" where
  "harmless packet \<longleftrightarrow> \<not> truncatedConfirmedCov packet \<and> (\<forall>off. \<not> unconvertibleReal packet off)"

definition harmlessClient :: "BacnetClient \<Rightarrow> bool" where
  "harmlessClient c \<longleftrightarrow> (\<forall>(source, packet) \<in> set (clInbox c). harmless packet)"

definition sessionOk :: "Session \<Rightarrow> bool" where
  "sessionOk s \<longleftrightarrow> wfSession s \<and> harmlessClient (ssClient s)"

section \<open>Calls that return\<close>

text \<open>\<open>returns m Q\<close>: \<open>m\<close> is defined, and what it gives satisfies \<open>Q\<close>.\<close>

definition returns :: "'a outcome \<Rightarrow> ('a \<Rightarrow> bool) \<Rightarrow> bool" where
  "returns m Q \<longleftrightarrow> (\<exists>x. m = Ok x \<and> Q x)"

lemma returns_Ok [simp]: "returns (Ok x) Q \<longleftrightarrow> Q x"
  by (simp add: returns_def)

lemma returns_obind: "returns m P \<Longrightarrow> (\<And>x. P x \<Longrightarrow> returns (f x) Q) \<Longrightarrow> returns (obind m f) Q"
  by (auto simp: returns_def)

lemma returns_mono: "returns m P \<Longrightarrow> (\<And>x. P x \<Longrightarrow> Q x) \<Longrightarrow> returns m Q"
  by (auto simp: returns_def)

lemma returns_safe: "safe m \<Longrightarrow> m \<noteq> Fail \<Longrightarrow> returns m (\<lambda>x. True)"
  by (cases m) (auto simp: returns_def)

lemma on_fail_not_Fail: "on_fail m d \<noteq> Fail"
  by (cases m) simp_all

lemma classify_returns:
  "returns (classifyReadPropertyResponse buf i) (\<lambda>x. True)" "returns (classifySubscribeCovResponse buf i sv) (\<lambda>x. True)"
proof -
  have "classifyReadPropertyResponse buf i \<noteq> Fail" "classifySubscribeCovResponse buf i sv \<noteq> Fail"
    unfolding classifyReadPropertyResponse_def classifySubscribeCovResponse_def by (rule on_fail_not_Fail)+
  then show "returns (classifyReadPropertyResponse buf i) (\<lambda>x. True)"
    "returns (classifySubscribeCovResponse buf i sv) (\<lambda>x. True)"
    by (auto intro!: returns_safe simp: safety)
qed

section \<open>Sending and receiving\<close>

lemma resources_simps [simp]:
  "resources (putScan a job s) = resources s" "resources (putRead a rj s) = resources s"
  "resources (putSub a sub s) = resources s"
  "resources (s\<lparr>ssInFlightScan := x\<rparr>) = resources s" "resources (s\<lparr>ssInFlightRead := y\<rparr>) = resources s"
  "resources (s\<lparr>ssInFlightSubscription := z\<rparr>) = resources s" "resources (s\<lparr>ssSent := d\<rparr>) = resources s"
  "resources (s\<lparr>ssLastCovPollMs := t\<rparr>) = resources s" "resources (s\<lparr>ssCovAttempts := t\<rparr>) = resources s"
  "resources (s\<lparr>ssCovSendFailures := t\<rparr>) = resources s" "resources (s\<lparr>ssCovTimeouts := t\<rparr>) = resources s"
  "resources (s\<lparr>ssRoundRobin := n\<rparr>) = resources s" "resources (s\<lparr>ssNotified := ns\<rparr>) = resources s"
  by (simp_all add: resources_def)

lemma resources_cache [simp]: "resources s \<Longrightarrow> resources (cacheAttempt r st v at ec eo s)"
  using pc.update_wf [of "ssCache s" "recordAttempt st v at ec eo" r]
  by (simp add: resources_def cacheAttempt_def updatePropertyCache_entry)

lemma length_enqueueBounded [simp]: "length q \<le> cap \<Longrightarrow> 0 < cap \<Longrightarrow> length (enqueueBounded cap x q) \<le> cap"
  by (auto simp: enqueueBounded_def)

lemma sending_returns:
  "returns m (\<lambda>x. True) \<Longrightarrow> returns (sending s m) (\<lambda>(sent, s'). \<exists>d. s' = s\<lparr>ssSent := d\<rparr>)"
  unfolding sending_def by (erule returns_obind) auto

lemma sendBuilt_returns: "safe m \<Longrightarrow> returns (sendBuilt net c d m) (\<lambda>x. True)"
  by (cases m) (auto simp: sendBuilt_def)

lemma sendRead_returns:
  "returns (sendRead net request invokeId s) (\<lambda>(sent, s'). \<exists>d. s' = s\<lparr>ssSent := d\<rparr>)"
  unfolding sendRead_def sendReadProperty_def
  by (auto intro!: sending_returns sendBuilt_returns simp: safety)

lemma safe_withInvokeId: "safe m \<Longrightarrow> safe (withInvokeId i m)"
  by (cases m) (auto simp: withInvokeId_def)

lemma sendSubscribe_returns:
  "returns (sendSubscribeCov net c d pid ob life i conf) (\<lambda>x. True)"
  "returns (sendSubscribeCovProperty net c d pid ob p life i conf idx has inc) (\<lambda>x. True)"
  unfolding sendSubscribeCov_def sendSubscribeCovProperty_def
  by (auto intro!: sendBuilt_returns safe_withInvokeId simp: safety)

lemma acknowledge_returns: "returns (acknowledgeCovNotification net n) (\<lambda>x. True)"
proof -
  have "buildSimpleAckResponse 16 (cnInvokeId n) 1 \<noteq> Undef"
    using safe_error_builders by (simp add: safe_def)
  then show ?thesis by (auto simp: acknowledgeCovNotification_def split: outcome.split)
qed

lemma allocateInvokeId_Ok:
  assumes "allocateInvokeId s = (i, s')" "resources s"
  shows "i \<noteq> 0 \<and> resources s' \<and> (\<exists>n. s' = s\<lparr>ssNextInvokeId := n\<rparr>)"
proof -
  have "(if ssNextInvokeId s + 1 = 0 then 1 else ssNextInvokeId s + 1) \<noteq> (0 :: u8)" by simp
  with assms show ?thesis by (auto simp: allocateInvokeId_def resources_def)
qed

text \<open>A poll of the client takes the first datagram out of the inbox.\<close>

definition receives :: "BacnetClient \<Rightarrow> BacnetClient \<Rightarrow> bool" where
  "receives c c' \<longleftrightarrow> set (clInbox c') \<subseteq> set (clInbox c) \<and>
     (length (clQueued c) \<le> kMaxClientQueuedCovNotifications \<longrightarrow>
      length (clQueued c') \<le> kMaxClientQueuedCovNotifications)"

lemma receives_refl [simp]: "receives c c"
  by (simp add: receives_def)

lemma receive_receives: "receive c = (m, c') \<Longrightarrow> receives c c'"
  by (auto simp: receive_def receives_def split: list.splits)

lemma receive_harmless: "receive c = (Some (source, packet), c') \<Longrightarrow> harmlessClient c \<Longrightarrow> harmless packet"
  by (auto simp: receive_def harmlessClient_def split: list.splits if_splits)

text \<open>The shape shared by the polls: nothing without a datagram, and \<open>f\<close> of the one that came.\<close>

lemma receive_returns:
  assumes "harmlessClient c" "Q (none c)" "\<And>c'. receives c c' \<Longrightarrow> Q (none c')"
    and "\<And>source packet c'. harmless packet \<Longrightarrow> receives c c' \<Longrightarrow> returns (f source packet c') Q"
  shows "returns (if \<not> clRunning c then Ok (none c)
    else case receive c of (None, c') \<Rightarrow> Ok (none c') | (Some (source, packet), c') \<Rightarrow> f source packet c') Q"
proof -
  have "returns (case receive c of (None, c') \<Rightarrow> Ok (none c') | (Some (source, packet), c') \<Rightarrow> f source packet c') Q"
    using assms receive_receives receive_harmless by (fastforce split: prod.splits option.splits)
  with assms(2) show ?thesis by simp
qed

lemma pollAnswer_returns:
  assumes "harmlessClient (ssClient s)"
  shows "returns (pollAnswer net invokeId request s)
    (\<lambda>(answer, s'). \<exists>c. s' = s\<lparr>ssClient := c\<rparr> \<and> receives (ssClient s) c)"
proof -
  have "returns (pollReadPropertyStatus net invokeId request (ssClient s)) (\<lambda>(answer, c). receives (ssClient s) c)"
    unfolding pollReadPropertyStatus_def pollRead_def
  proof (rule receive_returns [where none = "\<lambda>c. (readPoll PollNone emptyValue, c)", OF assms])
    fix source packet c'
    assume h: "harmless packet" and r: "receives (ssClient s) c'"
    have "parseReadPropertyAck packet invokeId request \<noteq> Undef"
      using safe_parseReadPropertyAck [of packet] h by (auto simp: harmless_def safe_def)
    moreover have "parseReadPropertyError packet invokeId \<noteq> Undef"
      using safe_parseReadPropertyError [of packet invokeId] by (simp add: safe_def)
    ultimately show "returns (obind (classifyReadPropertyResponse packet invokeId) (\<lambda>kind.
        obind (case kind of
            RpAck \<Rightarrow> (case parseReadPropertyAck packet invokeId request of Undef \<Rightarrow> Undef
                | Fail \<Rightarrow> Ok (readPoll PollDecodeError (netLeftover net)) | Ok v \<Rightarrow> Ok (readPoll PollAck v))
          | RpError \<Rightarrow> (case parseReadPropertyError packet invokeId of Undef \<Rightarrow> Undef
                | Fail \<Rightarrow> Ok (readPoll PollDecodeError (netLeftover net))
                | Ok (v, errorClass, errorCode) \<Rightarrow>
                    Ok \<lparr>rpStatus = PollError, rpValue = v, rpErrorClass = errorClass, rpErrorCode = errorCode\<rparr>)
          | RpReject \<Rightarrow> Ok (readPoll PollReject (setReadPropertyError (ascii ''reject'')))
          | RpAbort \<Rightarrow> Ok (readPoll PollAbort (setReadPropertyError (ascii ''abort'')))
          | RpUnrelated \<Rightarrow> Ok (readPoll PollNone emptyValue))
        (\<lambda>result. Ok (result, c')))) (\<lambda>(answer, c). receives (ssClient s) c)"
      using r by (intro returns_obind [OF classify_returns(1)])
        (auto split: BacnetReadPropertyResponseKind.split outcome.split)
  qed simp_all
  then show ?thesis unfolding pollAnswer_def receiving_def by (rule returns_obind) auto
qed

section \<open>Steps that leave the jobs alone\<close>

lemma parts_simps [simp]:
  "exclusive (s\<lparr>ssClient := c\<rparr>) = exclusive s" "exclusive (s\<lparr>ssSent := d\<rparr>) = exclusive s"
  "exclusive (s\<lparr>ssNextInvokeId := i\<rparr>) = exclusive s" "exclusive (s\<lparr>ssLastCovPollMs := t\<rparr>) = exclusive s"
  "exclusive (s\<lparr>ssRoundRobin := n\<rparr>) = exclusive s" "exclusive (cacheAttempt r st v at ec eo s) = exclusive s"
  "exclusive (putRead a rj s) = exclusive s" "exclusive (putScan a sj s) = exclusive s" "exclusive (putSub a sub s) = exclusive s"
  "exclusive (s\<lparr>ssPending := q\<rparr>) = exclusive s" "exclusive (s\<lparr>ssCovAttempts := t\<rparr>) = exclusive s"
  "exclusive (s\<lparr>ssCovSendFailures := t\<rparr>) = exclusive s" "exclusive (s\<lparr>ssCovTimeouts := t\<rparr>) = exclusive s"
  "exclusive (s\<lparr>ssNotified := ns\<rparr>) = exclusive s"
  "wfReads b (s\<lparr>ssClient := c\<rparr>) = wfReads b s" "wfReads b (s\<lparr>ssSent := d\<rparr>) = wfReads b s"
  "wfReads b (s\<lparr>ssNextInvokeId := i\<rparr>) = wfReads b s" "wfReads b (s\<lparr>ssLastCovPollMs := t\<rparr>) = wfReads b s"
  "wfReads b (s\<lparr>ssRoundRobin := n\<rparr>) = wfReads b s" "wfReads b (cacheAttempt r st v at ec eo s) = wfReads b s"
  "wfReads b (putScan a sj s) = wfReads b s" "wfReads b (putSub a sub s) = wfReads b s"
  "wfReads b (s\<lparr>ssInFlightScan := x\<rparr>) = wfReads b s" "wfReads b (s\<lparr>ssInFlightSubscription := x\<rparr>) = wfReads b s"
  "wfReads b (s\<lparr>ssPending := q\<rparr>) = wfReads b s" "wfReads b (s\<lparr>ssCovAttempts := t\<rparr>) = wfReads b s"
  "wfReads b (s\<lparr>ssCovSendFailures := t\<rparr>) = wfReads b s" "wfReads b (s\<lparr>ssCovTimeouts := t\<rparr>) = wfReads b s"
  "wfReads b (s\<lparr>ssNotified := ns\<rparr>) = wfReads b s"
  "wfScans b (s\<lparr>ssClient := c\<rparr>) = wfScans b s" "wfScans b (s\<lparr>ssSent := d\<rparr>) = wfScans b s"
  "wfScans b (s\<lparr>ssNextInvokeId := i\<rparr>) = wfScans b s" "wfScans b (s\<lparr>ssLastCovPollMs := t\<rparr>) = wfScans b s"
  "wfScans b (s\<lparr>ssRoundRobin := n\<rparr>) = wfScans b s" "wfScans b (cacheAttempt r st v at ec eo s) = wfScans b s"
  "wfScans b (putRead a rj s) = wfScans b s" "wfScans b (putSub a sub s) = wfScans b s"
  "wfScans b (s\<lparr>ssInFlightRead := x\<rparr>) = wfScans b s" "wfScans b (s\<lparr>ssInFlightSubscription := x\<rparr>) = wfScans b s"
  "wfScans b (s\<lparr>ssPending := q\<rparr>) = wfScans b s" "wfScans b (s\<lparr>ssCovAttempts := t\<rparr>) = wfScans b s"
  "wfScans b (s\<lparr>ssCovSendFailures := t\<rparr>) = wfScans b s" "wfScans b (s\<lparr>ssCovTimeouts := t\<rparr>) = wfScans b s"
  "wfScans b (s\<lparr>ssNotified := ns\<rparr>) = wfScans b s"
  "wfSubs (s\<lparr>ssClient := c\<rparr>) = wfSubs s" "wfSubs (s\<lparr>ssSent := d\<rparr>) = wfSubs s"
  "wfSubs (s\<lparr>ssNextInvokeId := i\<rparr>) = wfSubs s" "wfSubs (s\<lparr>ssLastCovPollMs := t\<rparr>) = wfSubs s"
  "wfSubs (s\<lparr>ssRoundRobin := n\<rparr>) = wfSubs s" "wfSubs (cacheAttempt r st v at ec eo s) = wfSubs s"
  "wfSubs (putRead a rj s) = wfSubs s" "wfSubs (putScan a sj s) = wfSubs s"
  "wfSubs (s\<lparr>ssInFlightRead := x\<rparr>) = wfSubs s" "wfSubs (s\<lparr>ssInFlightScan := x\<rparr>) = wfSubs s"
  "wfSubs (s\<lparr>ssPending := q\<rparr>) = wfSubs s" "wfSubs (s\<lparr>ssCovAttempts := t\<rparr>) = wfSubs s"
  "wfSubs (s\<lparr>ssCovSendFailures := t\<rparr>) = wfSubs s" "wfSubs (s\<lparr>ssCovTimeouts := t\<rparr>) = wfSubs s"
  "wfSubs (s\<lparr>ssNotified := ns\<rparr>) = wfSubs s"
  by (simp_all add: exclusive_def wfReads_def wfScans_def wfSubs_def)

lemma sessionOk_sent [simp]: "sessionOk (s\<lparr>ssSent := d\<rparr>) = sessionOk s"
  by (simp add: sessionOk_def wfSession_def)

lemma sessionOk_received: "sessionOk s \<Longrightarrow> receives (ssClient s) c \<Longrightarrow> sessionOk (s\<lparr>ssClient := c\<rparr>)"
  by (auto simp: sessionOk_def wfSession_def resources_def receives_def harmlessClient_def)

lemma sessionOk_cached: "sessionOk s \<Longrightarrow> sessionOk (cacheAttempt r st v at ec eo s)"
  by (simp add: sessionOk_def wfSession_def)

section \<open>Reads\<close>

text \<open>Ready to start or to end the read job \<open>a\<close>.\<close>

definition readingJob :: "nat \<Rightarrow> Session \<Rightarrow> bool" where
  "readingJob a s \<longleftrightarrow> resources s \<and> exclusive s \<and> wfReads False s \<and> wfScans True s \<and> wfSubs s \<and>
     harmlessClient (ssClient s) \<and> ssInFlightRead s = Some a"

lemma finishPropertyRead_ok:
  "readingJob a s \<Longrightarrow> sessionOk (finishPropertyRead a st v nowMs ec eo s) \<and>
     ssInFlightRead (finishPropertyRead a st v nowMs ec eo s) = None"
  by (auto simp: finishPropertyRead_def releasePropertyRead_def Let_def sessionOk_def wfSession_def readingJob_def)
    (auto simp: wfReads_def exclusive_def readActive_def split: if_splits)

lemma readingJob_active: "sessionOk s \<Longrightarrow> ssInFlightRead s = Some a \<Longrightarrow> readingJob a s"
  by (auto simp: sessionOk_def wfSession_def readingJob_def wfReads_def)

lemma beginPropertyRead_ok:
  assumes "sessionOk s"
  shows "returns (beginPropertyRead net a request timeoutMs nowMs s) (\<lambda>(started, s'). sessionOk s')"
proof (cases "isBusy s \<or> pjStatus (ssReads s a) = PjActive")
  case True
  then show ?thesis using assms by (auto simp: beginPropertyRead_def Let_def)
next
  case False
  let ?s = "putRead a (clearedReadJob\<lparr>pjSession := True, pjStatus := PjActive, pjRequest := request,
    pjTimeoutMs := timeoutMs\<rparr>) (s\<lparr>ssInFlightRead := Some a\<rparr>)"
  obtain i s2 where alloc: "allocateInvokeId ?s = (i, s2)" by force
  have r: "readingJob a ?s" using False assms
    by (auto simp: readingJob_def sessionOk_def wfSession_def isBusy_def exclusive_def wfReads_def readActive_def)
  then obtain n where i: "i \<noteq> 0" "resources s2" "s2 = ?s\<lparr>ssNextInvokeId := n\<rparr>"
    using allocateInvokeId_Ok [OF alloc] by (auto simp: readingJob_def)
  have r2: "readingJob a (s2\<lparr>ssSent := d\<rparr>)" for d using r i by (simp add: readingJob_def)
  have ok: "sessionOk (putRead a ((ssReads s2 a)\<lparr>pjInvokeId := i, pjStartedAtMs := t\<rparr>) (s2\<lparr>ssSent := d\<rparr>))" for d t
    using r2 [of d] i by (auto simp: readingJob_def sessionOk_def wfSession_def)
      (auto simp: wfReads_def readActive_def split: if_splits)
  show ?thesis
    using False unfolding beginPropertyRead_def Let_def
    by (auto simp: alloc intro!: returns_obind [OF sendRead_returns] ok finishPropertyRead_ok [THEN conjunct1] r2)
qed

lemma pollInFlightPropertyRead_ok:
  assumes "sessionOk s"
  shows "returns (pollInFlightPropertyRead net nowMs s) sessionOk"
proof (cases "ssInFlightRead s")
  case None
  then show ?thesis using assms by (simp add: pollInFlightPropertyRead_def)
next
  case (Some a)
  have "sessionOk (s\<lparr>ssClient := c\<rparr>) \<and> readingJob a (s\<lparr>ssClient := c\<rparr>)" if "receives (ssClient s) c" for c
    using sessionOk_received [OF assms that] Some by (auto intro: readingJob_active)
  then show ?thesis
    using Some assms unfolding pollInFlightPropertyRead_def
    by (auto simp: Let_def sessionOk_def intro!: returns_obind [OF pollAnswer_returns]
        finishPropertyRead_ok [THEN conjunct1, unfolded sessionOk_def])
qed

lemma pollPropertyRead_ok: "sessionOk s \<Longrightarrow> returns (pollPropertyRead net a nowMs s) sessionOk"
  by (simp add: pollPropertyRead_def Let_def pollInFlightPropertyRead_ok)

lemma cancelPropertyRead_ok:
  assumes "sessionOk s"
  shows "sessionOk (cancelPropertyRead a s)"
proof (cases "readActive (ssReads s a)")
  case True
  with assms have "ssInFlightRead s = Some a" by (simp add: sessionOk_def wfSession_def wfReads_def)
  with True assms show ?thesis
    by (auto simp: cancelPropertyRead_def releasePropertyRead_def Let_def sessionOk_def wfSession_def readActive_def)
      (auto simp: wfReads_def exclusive_def readActive_def split: if_splits)
qed (use assms in \<open>auto simp: cancelPropertyRead_def readActive_def\<close>)

section \<open>Scans\<close>

text \<open>The scan \<open>a\<close> is under way, with or without a request in flight.\<close>

definition scanningJob :: "nat \<Rightarrow> Session \<Rightarrow> bool" where
  "scanningJob a s \<longleftrightarrow> resources s \<and> exclusive s \<and> wfReads True s \<and> wfScans False s \<and> wfSubs s \<and>
     harmlessClient (ssClient s) \<and> ssInFlightScan s = Some a"

lemma scanningJob_active: "scanningJob a s \<Longrightarrow> scanActive (ssScans s a) \<and> storesInside (ssScans s a)"
  by (auto simp: scanningJob_def wfScans_def)

lemma scanningJob_put:
  "scanningJob a s \<Longrightarrow> scanActive job \<Longrightarrow> storesInside job \<Longrightarrow> scanningJob a (putScan a job s)"
  by (auto simp: scanningJob_def wfScans_def scanActive_def)

lemma scanningJob_start: "sessionOk s \<Longrightarrow> ssInFlightScan s = Some a \<Longrightarrow> scanningJob a s"
  by (auto simp: sessionOk_def wfSession_def scanningJob_def wfScans_def)

lemma scanningJob_cached [simp]: "scanningJob a s \<Longrightarrow> scanningJob a (cacheAttempt r st v at ec eo s)"
  by (simp add: scanningJob_def)

lemma releaseObjectListScan_ok:
  "scanningJob a s \<Longrightarrow> sjStatus job \<noteq> SjActive \<Longrightarrow> sessionOk (putScan a job (releaseObjectListScan a s))"
  by (auto simp: releaseObjectListScan_def sessionOk_def wfSession_def scanningJob_def)
    (auto simp: wfScans_def exclusive_def scanActive_def split: if_splits)

lemma completeObjectListScan_ok: "scanningJob a s \<Longrightarrow> sessionOk (completeObjectListScan a s)"
  by (simp add: completeObjectListScan_def Let_def releaseObjectListScan_ok)

lemma failObjectListScan_ok:
  assumes "scanningJob a s"
  shows "sessionOk (failObjectListScan a status s)"
proof -
  have "scanningJob a (putScan a ((ssScans s a)\<lparr>sjResult := if srCountStatus (sjResult (ssScans s a)) = DrSkipped
      then (sjResult (ssScans s a))\<lparr>srCountStatus := status\<rparr> else sjResult (ssScans s a)\<rparr>) s)"
    using scanningJob_active [OF assms]
    by (intro scanningJob_put assms) (auto simp: scanActive_def storesInside_def split: option.splits)
  then show ?thesis by (simp add: failObjectListScan_def Let_def releaseObjectListScan_ok)
qed

lemma storesInside_scannedAt:
  "storesInside job \<Longrightarrow> sjHasStoreIndex job \<Longrightarrow> \<exists>scanned. scannedAt job = Ok scanned"
  by (auto simp: storesInside_def scannedAt_def split: option.splits)

lemma nextScanRead_returns:
  assumes "storesInside job"
  shows "returns (nextScanRead device job) (\<lambda>(job', r). storesInside job' \<and> scanActive job' = scanActive job)"
proof (cases "sjHasStoreIndex job \<and> sjResults job \<noteq> None")
  case True
  then obtain scanned where "scannedAt job = Ok scanned" using storesInside_scannedAt [OF assms] by auto
  with True assms show ?thesis
    by (auto simp: nextScanRead_def Let_def storesInside_def scanActive_def split: option.splits)
qed (use assms in \<open>auto simp: nextScanRead_def Let_def\<close>)

lemma startScanRead_returns:
  assumes "scanningJob a s"
  shows "returns (startScanRead net a request phase nowMs s)
    (\<lambda>(started, s'). if started then sessionOk s' else scanningJob a s')"
proof -
  obtain i s2 where alloc: "allocateInvokeId s = (i, s2)" by force
  obtain n where i: "i \<noteq> 0" "resources s2" "s2 = s\<lparr>ssNextInvokeId := n\<rparr>"
    using allocateInvokeId_Ok [OF alloc] assms by (auto simp: scanningJob_def)
  let ?job = "(ssScans s a)\<lparr>sjPhase := phase, sjRequest := request\<rparr>"
  have job: "scanActive ?job" "storesInside ?job"
    using scanningJob_active [OF assms] by (auto simp: scanActive_def storesInside_def split: option.splits)
  have s2: "scanningJob a (putScan a ?job (s2\<lparr>ssSent := d\<rparr>))" for d
    using assms i by (intro scanningJob_put job) (auto simp: scanningJob_def)
  have ok: "sessionOk (putScan a (?job\<lparr>sjInvokeId := i, sjStartedAtMs := t, sjRequestInFlight := True\<rparr>)
      (putScan a ?job (s2\<lparr>ssSent := d\<rparr>)))" for d t
    using s2 [of d] i by (auto simp: scanningJob_def sessionOk_def wfSession_def)
      (auto simp: wfScans_def scanActive_def storesInside_def split: if_splits option.splits)
  have sent: "putScan a job t\<lparr>ssSent := d\<rparr> = putScan a job (t\<lparr>ssSent := d\<rparr>)" for job d t
    by (simp add: putScan_def)
  show ?thesis
    using i(3) s2 ok unfolding startScanRead_def
    by (auto simp: alloc Let_def sent intro!: returns_obind [OF sendRead_returns])
qed

lemma finishEntryRead_returns:
  assumes "scanningJob a s" "\<not> sjRequestInFlight (ssScans s a)"
  shows "returns (finishEntryRead a status v s)
    (\<lambda>(again, s'). if again then scanningJob a s' \<and> \<not> sjRequestInFlight (ssScans s' a) else sessionOk s')"
  unfolding finishEntryRead_def
  using scanningJob_active [OF assms(1)] assms(2)
  by (auto simp: Let_def completeObjectListScan_ok [OF assms(1)] skipEntry_def truncatedScan_def
      scannedAt_def scanActive_def storesInside_def storeScanned_def
      split: option.splits if_splits intro!: scanningJob_put [OF assms(1)])

lemma storesInside_cong:
  "sjResults job' = sjResults job \<Longrightarrow> sjCapacity job' = sjCapacity job \<Longrightarrow>
     srStored (sjResult job') = srStored (sjResult job) \<Longrightarrow> sjHasStoreIndex job' = sjHasStoreIndex job \<Longrightarrow>
     sjStoreIndex job' = sjStoreIndex job \<Longrightarrow> storesInside job' = storesInside job"
  by (simp add: storesInside_def split: option.split)

lemma finishCountRead_ok:
  assumes "scanningJob a s" "\<not> sjRequestInFlight (ssScans s a)" "finishCountRead a status v s = (again, s')"
  shows "if again then scanningJob a s' \<and> \<not> sjRequestInFlight (ssScans s' a) else sessionOk s'"
proof -
  define s1 where "s1 = putScan a ((ssScans s a)\<lparr>sjResult := (sjResult (ssScans s a))\<lparr>srCountStatus := status\<rparr>\<rparr>) s"
  have s1: "scanningJob a s1" "\<not> sjRequestInFlight (ssScans s1 a)"
    using scanningJob_active [OF assms(1)] assms(2) unfolding s1_def
    by (auto simp: scanActive_def storesInside_def split: option.splits intro!: scanningJob_put assms(1))
  show ?thesis
  proof (cases "status = DrAck \<and> (\<exists>x. v = Some x \<and> vType x = TyUnsigned)")
    case True
    then obtain x where x: "v = Some x" "vType x = TyUnsigned" "status = DrAck" by blast
    define job where "job = (ssScans s1 a)\<lparr>sjResult := (sjResult (ssScans s1 a))\<lparr>srObjectListCount := vUnsigned x,
        srTruncated := (if vUnsigned x > soMaxObjectListEntries (sjOptions (ssScans s1 a)) then True
          else srTruncated (sjResult (ssScans s1 a)))\<rparr>,
      sjMaxIndex := (if vUnsigned x < soMaxObjectListEntries (sjOptions (ssScans s1 a)) then vUnsigned x
        else soMaxObjectListEntries (sjOptions (ssScans s1 a))), sjCurrentIndex := 1\<rparr>"
    have "finishCountRead a status v s = (True, putScan a job s1)"
      unfolding finishCountRead_def Let_def s1_def [symmetric] job_def using x by simp
    moreover have "scanActive job = scanActive (ssScans s1 a)" "storesInside job = storesInside (ssScans s1 a)"
      "sjRequestInFlight job = sjRequestInFlight (ssScans s1 a)"
      by (simp add: job_def scanActive_def, rule storesInside_cong, simp_all add: job_def)
    moreover note assms(3)
    ultimately have "again = True" "s' = putScan a job s1" "scanActive job = scanActive (ssScans s1 a)"
      "storesInside job = storesInside (ssScans s1 a)" "sjRequestInFlight job = sjRequestInFlight (ssScans s1 a)"
      by simp_all
    then show ?thesis using s1 scanningJob_active [OF s1(1)] by (auto intro!: scanningJob_put [OF s1(1)])
  next
    case False
    then have "again = False \<and> (s' = failObjectListScan a status s1 \<or> s' = failObjectListScan a DrError s1)"
      using assms(3) by (auto simp: finishCountRead_def Let_def s1_def split: if_splits option.splits)
    then show ?thesis using failObjectListScan_ok [OF s1(1)] by auto
  qed
qed

lemma storeScanned_inside:
  "storesInside job \<Longrightarrow> storesInside (storeScanned scanned job)" "scanActive (storeScanned scanned job) = scanActive job"
  "storesInside job \<Longrightarrow> \<not> sjHasStoreIndex job \<or> sjResults job = None \<Longrightarrow> storesInside (skipEntry job)"
  "scanActive (skipEntry job) = scanActive job" "sjRequestInFlight (skipEntry job) = sjRequestInFlight job"
  by (auto simp: storesInside_def storeScanned_def scanActive_def skipEntry_def split: option.splits)

lemma finishScanRead_returns:
  assumes "scanningJob a s"
  shows "returns (finishScanRead a status v s)
    (\<lambda>(again, s'). if again then scanningJob a s' \<and> \<not> sjRequestInFlight (ssScans s' a) else sessionOk s')"
proof -
  define job s1 where "job = clearScanInFlight (ssScans s a)" and "s1 = putScan a job s"
  have job: "scanActive job" "storesInside job" "\<not> sjRequestInFlight job"
    using scanningJob_active [OF assms] by (auto simp: job_def scanActive_def storesInside_def split: option.splits)
  have s1: "scanningJob a s1" "\<not> sjRequestInFlight (ssScans s1 a)" "ssScans s1 a = job"
    unfolding s1_def using job by (auto intro: scanningJob_put [OF assms])
  have fin: "finishScanRead a status v s =
     (if sjPhase (ssScans s a) = PhReadObjectListCount then Ok (finishCountRead a status v s1)
      else if sjPhase (ssScans s a) = PhReadObjectListEntry then finishEntryRead a status v s1
      else if \<not> sjHasStoreIndex job \<or> sjResults job = None then Ok (True, putScan a (skipEntry job) s1)
      else obind (scannedAt job) (\<lambda>scanned.
        Ok (True, putScan a (storeScanned (recordScanned (sjPhase (ssScans s a)) status v scanned) job) s1)))"
    by (simp add: finishScanRead_def Let_def s1_def job_def)
  show ?thesis
    unfolding fin using finishCountRead_ok [OF s1(1,2)] finishEntryRead_returns [OF s1(1,2)]
      storesInside_scannedAt [OF job(2)] job
    by (auto simp: storeScanned_inside split: prod.splits intro!: scanningJob_put [OF s1(1)])
qed

lemma advanceObjectListScan_returns:
  "scanningJob a s \<Longrightarrow> \<not> sjRequestInFlight (ssScans s a) \<Longrightarrow> returns (advanceObjectListScan net a nowMs s) sessionOk"
proof (induction "wantedReads (ssScans s a)" arbitrary: s rule: less_induct)
  case less
  note active = scanningJob_active [OF less(2)]
  obtain job r where nxt: "nextScanRead (deviceObjectOf s) (ssScans s a) = Ok (job, r)"
    "storesInside job" "scanActive job"
    using nextScanRead_returns [of "ssScans s a" "deviceObjectOf s"] active by (auto simp: returns_def)
  have s: "scanningJob a (putScan a job s)" using nxt by (intro scanningJob_put less(2))
  have st: "sjStatus (ssScans s a) = SjActive" using active by (simp add: scanActive_def)
  show ?case
  proof (cases r)
    case None
    then show ?thesis
      using advance_complete [OF st less(3)] nxt(1) completeObjectListScan_ok [OF s] by simp
  next
    case (Some rp)
    obtain request phase where rp: "r = Some (request, phase)" using Some by (cases rp) auto
    obtain started s' where start: "startScanRead net a request phase nowMs (putScan a job s) = Ok (started, s')"
      "if started then sessionOk s' else scanningJob a s'"
      using startScanRead_returns [OF s, of net request phase nowMs] by (auto simp: returns_def split: prod.splits)
    show ?thesis
    proof (cases started)
      case True
      then show ?thesis using advance_start [OF st less(3) nxt(1) [unfolded rp] start(1)] start(2) by simp
    next
      case False
      with start have s': "scanningJob a s'" by simp
      obtain again s'' where fin: "finishScanRead a DrSendFailed None s' = Ok (again, s'')"
        "if again then scanningJob a s'' \<and> \<not> sjRequestInFlight (ssScans s'' a) else sessionOk s''"
        using finishScanRead_returns [OF s', of DrSendFailed None] by (auto simp: returns_def split: prod.splits)
      have step: "advanceObjectListScan net a nowMs s = (if again then advanceObjectListScan net a nowMs s'' else Ok s'')"
        using advance_start [OF st less(3) nxt(1) [unfolded rp] start(1)] fin(1) False by simp
      show ?thesis
      proof (cases again)
        case True
        have "wantedReads (ssScans s'' a) < wantedReads (ssScans s a)"
          using wantedReads_decreases [of "deviceObjectOf s" s a job request phase net nowMs s' s'']
            nxt(1) rp start(1) fin(1) False True by simp
        with less(1) [of s''] step fin(2) True show ?thesis by simp
      next
        case False
        with step fin(2) show ?thesis by simp
      qed
    qed
  qed
qed

lemma finishObjectListScanRead_ok:
  assumes "scanningJob a s"
  shows "returns (finishObjectListScanRead net a status v nowMs s) sessionOk"
  unfolding finishObjectListScanRead_def
  by (rule returns_obind [OF finishScanRead_returns [OF assms]])
    (auto simp: advanceObjectListScan_returns split: prod.splits if_splits)

lemma beginObjectListScan_ok:
  assumes "sessionOk s" "case results of None \<Rightarrow> True | Some rs \<Rightarrow> capacity \<le> length rs"
  shows "returns (beginObjectListScan net a options results capacity nowMs s) (\<lambda>(started, s'). sessionOk s')"
proof (cases "isBusy s \<or> sjStatus (ssScans s a) = SjActive")
  case True
  then show ?thesis using assms by (auto simp: beginObjectListScan_def Let_def)
next
  case False
  let ?s = "putScan a (clearedScanJob\<lparr>sjSession := True, sjOptions := options, sjResults := results,
    sjCapacity := capacity, sjStatus := SjActive, sjPhase := PhReadObjectListCount\<rparr>) (s\<lparr>ssInFlightScan := Some a\<rparr>)"
  have "scanningJob a ?s" using False assms
    by (auto simp: scanningJob_def sessionOk_def wfSession_def isBusy_def exclusive_def)
      (auto simp: wfScans_def scanActive_def storesInside_def clearedScanJob_def emptyScanResult_def split: option.splits)
  then show ?thesis
    using False unfolding beginObjectListScan_def tryStartObjectListScanRead_def Let_def
    by (auto intro!: returns_obind [OF startScanRead_returns] returns_obind [OF finishObjectListScanRead_ok] split: if_splits)
qed

lemma pollInFlightObjectListScan_ok:
  assumes "sessionOk s"
  shows "returns (pollInFlightObjectListScan net nowMs s) sessionOk"
proof (cases "ssInFlightScan s")
  case None
  then show ?thesis using assms by (simp add: pollInFlightObjectListScan_def)
next
  case (Some a)
  have "sessionOk (s\<lparr>ssClient := c\<rparr>) \<and> scanningJob a (s\<lparr>ssClient := c\<rparr>)" if "receives (ssClient s) c" for c
    using sessionOk_received [OF assms that] Some by (auto intro: scanningJob_start)
  moreover have "harmlessClient (ssClient s)" using assms by (simp add: sessionOk_def)
  ultimately show ?thesis
    using Some assms unfolding pollInFlightObjectListScan_def Let_def
    by (auto intro!: returns_obind [OF pollAnswer_returns] finishObjectListScanRead_ok)
qed

lemma scan_in_flight:
  "sessionOk s \<Longrightarrow> scanActive (ssScans s a) \<Longrightarrow> sjRequestInFlight (ssScans s a)"
  by (auto simp: sessionOk_def wfSession_def wfScans_def)

text \<open>The request of an active scan is in flight, so \<open>pollObjectListScan\<close> never starts one itself.\<close>

lemma pollObjectListScan_ok:
  assumes "sessionOk s"
  shows "returns (pollObjectListScan net a nowMs s) sessionOk"
  unfolding pollObjectListScan_def Let_def
  by (auto simp: assms intro!: returns_obind [OF pollInFlightObjectListScan_ok [OF assms]]
      advanceObjectListScan_returns scanningJob_start)
    (auto simp: sessionOk_def wfSession_def wfScans_def scanActive_def)

lemma cancelObjectListScan_ok:
  assumes "sessionOk s"
  shows "sessionOk (cancelObjectListScan a s)"
proof (cases "ssInFlightScan s = Some a")
  case True
  then show ?thesis using assms scanningJob_start [OF assms True]
    by (auto simp: cancelObjectListScan_def Let_def releaseObjectListScan_ok)
next
  case False
  then have "\<not> scanActive (ssScans s a)" using assms by (auto simp: sessionOk_def wfSession_def wfScans_def)
  with False assms show ?thesis
    by (auto simp: cancelObjectListScan_def releaseObjectListScan_def Let_def sessionOk_def wfSession_def)
      (auto simp: wfScans_def scanActive_def exclusive_def split: if_splits)
qed

section \<open>Subscriptions\<close>

lemma sessionOk_noted [simp]:
  "sessionOk (s\<lparr>ssNotified := ns\<rparr>) = sessionOk s" "sessionOk (s\<lparr>ssCovAttempts := t\<rparr>) = sessionOk s"
  "sessionOk (s\<lparr>ssCovSendFailures := t\<rparr>) = sessionOk s" "sessionOk (s\<lparr>ssCovTimeouts := t\<rparr>) = sessionOk s"
  "sessionOk (s\<lparr>ssLastCovPollMs := t\<rparr>) = sessionOk s" "sessionOk (s\<lparr>ssRoundRobin := n\<rparr>) = sessionOk s"
  by (simp_all add: sessionOk_def wfSession_def)

lemma sessionOk_allocated:
  "allocateInvokeId s = (i, s') \<Longrightarrow> sessionOk s \<Longrightarrow> i \<noteq> 0 \<and> sessionOk s' \<and> (\<exists>n. s' = s\<lparr>ssNextInvokeId := n\<rparr>)"
  using allocateInvokeId_Ok by (fastforce simp: sessionOk_def wfSession_def)

lemma sessionOk_put_idle:
  assumes "sessionOk s" "\<not> psInFlight sub"
  shows "sessionOk (putSub a sub (s\<lparr>ssInFlightSubscription :=
    (if ssInFlightSubscription s = Some a then None else ssInFlightSubscription s)\<rparr>))"
  using assms by (auto simp: sessionOk_def wfSession_def) (auto simp: wfSubs_def exclusive_def split: if_splits)

lemma sessionOk_put:
  assumes "sessionOk s" "\<not> psInFlight (ssSubs s a)" "\<not> psInFlight sub"
  shows "sessionOk (putSub a sub s)"
  using assms by (auto simp: sessionOk_def wfSession_def) (auto simp: wfSubs_def split: if_splits)

text \<open>Any change that keeps the request in flight, such as a refresh asked for.\<close>

lemma sessionOk_put_same:
  assumes "sessionOk s" "psInFlight sub = psInFlight (ssSubs s a)" "psSession sub = psSession (ssSubs s a)"
    "psActive sub = psActive (ssSubs s a)" "psOperation sub = psOperation (ssSubs s a)"
    "psInvokeId sub = psInvokeId (ssSubs s a)"
  shows "sessionOk (putSub a sub s)"
  using assms by (auto simp: sessionOk_def wfSession_def) (auto simp: wfSubs_def)

lemma sessionOk_start:
  assumes "sessionOk s" "\<not> isBusy s" "psInFlight sub" "psSession sub" "psActive sub"
    "psOperation sub \<noteq> OperationNone" "psInvokeId sub \<noteq> 0"
  shows "sessionOk (putSub a sub (s\<lparr>ssInFlightSubscription := Some a\<rparr>))"
  using assms by (auto simp: sessionOk_def wfSession_def isBusy_def) (auto simp: wfSubs_def exclusive_def)

lemma cleared_idle [simp]: "\<not> psInFlight (clearSubscriptionInFlight sub)"
  by (simp add: clearSubscriptionInFlight_def)

lemma cacheReport_fields [simp]:
  "ssInFlightSubscription (fold (cacheReport ob t) pvs s) = ssInFlightSubscription s"
  "ssInFlightScan (fold (cacheReport ob t) pvs s) = ssInFlightScan s"
  "ssInFlightRead (fold (cacheReport ob t) pvs s) = ssInFlightRead s"
  "ssSubs (fold (cacheReport ob t) pvs s) = ssSubs s" "ssClient (fold (cacheReport ob t) pvs s) = ssClient s"
  "ssNotified (fold (cacheReport ob t) pvs s) = ssNotified s"
  by (induction pvs arbitrary: s) (simp_all add: cacheReport_def)

lemma sessionOk_reports: "sessionOk s \<Longrightarrow> sessionOk (fold (cacheReport ob t) pvs s)"
  by (induction pvs arbitrary: s) (simp_all add: cacheReport_def sessionOk_cached)

lemma finishSubscriptionPoll_ok:
  assumes "sessionOk s"
  shows "sessionOk (finishSubscriptionPoll a st v nowMs pst ec eo n s)"
  unfolding finishSubscriptionPoll_def Let_def
  by (rule sessionOk_put_idle) (simp_all add: assms sessionOk_cached sessionOk_reports)

lemma finishSubscriptionPoll_fields [simp]:
  "ssInFlightScan (finishSubscriptionPoll a st v nowMs pst ec eo n s) = ssInFlightScan s"
  "ssInFlightRead (finishSubscriptionPoll a st v nowMs pst ec eo n s) = ssInFlightRead s"
  "ssInFlightSubscription (finishSubscriptionPoll a st v nowMs pst ec eo n s) =
     (if ssInFlightSubscription s = Some a then None else ssInFlightSubscription s)"
  "\<not> psInFlight (ssSubs (finishSubscriptionPoll a st v nowMs pst ec eo n s) a)"
  "psSession (ssSubs (finishSubscriptionPoll a st v nowMs pst ec eo n s) b) = psSession (ssSubs s b)"
  by (simp_all add: finishSubscriptionPoll_def Let_def clearSubscriptionInFlight_def scheduleNextPoll_def)

lemma tryStartSubscriptionPoll_ok:
  assumes "sessionOk s" "psSession (ssSubs s a)" "ssInFlightSubscription s = None"
  shows "returns (tryStartSubscriptionPoll net a nowMs s) sessionOk"
proof (cases "\<not> isDue nowMs (ssSubs s a) \<or> ssInFlightScan s \<noteq> None \<or> ssInFlightRead s \<noteq> None")
  case True
  then show ?thesis using assms by (auto simp: tryStartSubscriptionPoll_def Let_def)
next
  case False
  obtain i s2 where alloc: "allocateInvokeId s = (i, s2)" by force
  obtain n where i: "i \<noteq> 0" "sessionOk s2" "s2 = s\<lparr>ssNextInvokeId := n\<rparr>"
    using sessionOk_allocated [OF alloc assms(1)] by blast
  have free: "\<not> isBusy (s2\<lparr>ssSent := d\<rparr>)" and ok: "sessionOk (s2\<lparr>ssSent := d\<rparr>)"
    and active: "psActive (ssSubs s a)" for d
    using False assms i by (auto simp: isBusy_def isDue_def split: if_splits)
  show ?thesis
    using False i(1) assms(2) active unfolding tryStartSubscriptionPoll_def Let_def
    by (auto simp: alloc intro!: returns_obind [OF sendRead_returns] finishSubscriptionPoll_ok ok
        sessionOk_start [OF ok free])
qed

lemma scheduleCovRetry_fields [simp]:
  "psInFlight (scheduleCovRetry t sub) = psInFlight sub" "psSession (scheduleCovRetry t sub) = psSession sub"
  "psActive (scheduleCovRetry t sub) = psActive sub"
  by (simp_all add: scheduleCovRetry_def Let_def)

lemma tryStartCovSubscription_ok:
  assumes "sessionOk s" "psSession (ssSubs s a)" "ssInFlightSubscription s = None"
  shows "returns (tryStartCovSubscription net a nowMs s)
    (\<lambda>(started, s'). sessionOk s' \<and> (\<not> started \<longrightarrow> psSession (ssSubs s' a) \<and> ssInFlightSubscription s' = None))"
proof -
  let ?sub = "ssSubs s a"
  obtain i s2 where alloc: "allocateInvokeId s = (i, s2)" by force
  obtain n where i: "i \<noteq> 0" "sessionOk s2" "s2 = s\<lparr>ssNextInvokeId := n\<rparr>"
    using sessionOk_allocated [OF alloc assms(1)] by blast
  define s3 where "s3 d = s2\<lparr>ssCovAttempts := ssCovAttempts s2 + 1, ssSent := d\<rparr>" for d
  have ok: "sessionOk (s3 d)" "ssSubs (s3 d) = ssSubs s" "ssInFlightSubscription (s3 d) = None"
    "ssInFlightScan (s3 d) = ssInFlightScan s" "ssInFlightRead (s3 d) = ssInFlightRead s" for d
    using i assms(3) by (simp_all add: s3_def)
  have idle: "\<not> psInFlight ?sub" using assms by (auto simp: sessionOk_def wfSession_def wfSubs_def)
  have refused: "sessionOk (putSub a sub (s3 d\<lparr>ssCovSendFailures := t\<rparr>))" if "\<not> psInFlight sub" for sub d t
    using that idle ok by (intro sessionOk_put) simp_all
  have started: "sessionOk (putSub a sub (s3 d\<lparr>ssInFlightSubscription := Some a\<rparr>))"
    if "ssInFlightScan s = None" "ssInFlightRead s = None" "psInFlight sub" "psSession sub" "psActive sub"
      "psOperation sub \<noteq> OperationNone" "psInvokeId sub \<noteq> 0" for sub d
    using that ok by (intro sessionOk_start) (simp_all add: isBusy_def)
  show ?thesis
    unfolding tryStartCovSubscription_def Let_def alloc
    using assms idle i(1) refused started ok
    by (auto simp: s3_def intro!: returns_obind [OF sending_returns] sendSubscribe_returns)
qed

lemma startSubscription_ok:
  assumes "sessionOk s" "psSession (ssSubs s a)" "ssInFlightSubscription s = None"
  shows "returns (startSubscription net a nowMs s) sessionOk"
  unfolding startSubscription_def
  by (rule returns_obind [OF tryStartCovSubscription_ok [OF assms]]) (auto intro!: tryStartSubscriptionPoll_ok)

lemma endInFlight_ok:
  assumes "sessionOk s" "ssInFlightSubscription s = Some a"
  shows "sessionOk (endInFlight a sub s)"
  using sessionOk_put_idle [OF assms(1), of "clearSubscriptionInFlight sub" a] assms(2)
  by (simp add: endInFlight_def)

lemma parseCov_returns:
  assumes "harmless packet"
  shows "returns (queueCovNotification packet source c) (\<lambda>(queued, c'). receives c c')"
proof -
  have "parseCovNotification packet \<noteq> Undef"
    using parseCovNotification_Undef [of packet] assms by (auto simp: harmless_def)
  then show ?thesis
    by (auto simp: queueCovNotification_def receives_def kMaxClientQueuedCovNotifications_def split: outcome.split)
qed

lemma receives_trans: "receives c c' \<Longrightarrow> receives c' c'' \<Longrightarrow> receives c c''"
  by (auto simp: receives_def)

lemma pollSubscribe_returns:
  assumes "harmlessClient c"
  shows "returns (pollSubscribe sv i peer c) (\<lambda>(answer, c'). receives c c')"
  unfolding pollSubscribe_def
proof (rule receive_returns [where none = "\<lambda>c. ((ScNone, 0xFF), c)", OF assms])
  fix source packet c'
  assume h: "harmless packet" and r: "receives c c'"
  show "returns (obind (queueCovNotification packet source c') (\<lambda>(queued, c'').
      if queued \<or> (case peer of None \<Rightarrow> False | Some peer \<Rightarrow> \<not> clientEndpointEquals source peer)
      then Ok ((ScNone, 0xFF), c'')
      else obind (classifySubscribeCovResponse packet i sv) (\<lambda>response. Ok (response, c'')))) (\<lambda>(answer, c'). receives c c')"
    by (rule returns_obind [OF parseCov_returns [OF h]])
      (auto intro!: returns_obind [OF classify_returns(2)]; (use r in \<open>auto simp: receives_def\<close>))
qed simp_all

lemma endInFlight_session [simp]:
  "psSession (ssSubs (endInFlight a sub s) b) = (if b = a then psSession sub else psSession (ssSubs s b))"
  by (simp add: endInFlight_def clearSubscriptionInFlight_def)

lemma cov_answers_session [simp]:
  "psSession (covAccepted t sub) = psSession sub" "psSession (covRefused t kind r sub) = psSession sub"
  by (simp_all add: covAccepted_def covRefused_def Let_def split: BacnetSubscribeCovResponseKind.split)

lemma pollInFlightSubscription_ok:
  assumes "sessionOk s"
  shows "returns (pollInFlightSubscription net nowMs s)
    (\<lambda>s'. sessionOk s' \<and> (\<forall>b. psSession (ssSubs s' b) = psSession (ssSubs s b)))"
proof (cases "ssInFlightSubscription s")
  case None
  then show ?thesis using assms by (simp add: pollInFlightSubscription_def)
next
  case (Some a)
  have h: "harmlessClient (ssClient s)" using assms by (simp add: sessionOk_def)
  have rc: "sessionOk (s\<lparr>ssClient := c\<rparr>)" "ssInFlightSubscription (s\<lparr>ssClient := c\<rparr>) = Some a"
    if "receives (ssClient s) c" for c
    using sessionOk_received [OF assms that] Some by simp_all
  have sub: "returns (receiving s (pollSubscribe sv i peer (ssClient s)))
     (\<lambda>(answer, s'). \<exists>c. s' = s\<lparr>ssClient := c\<rparr> \<and> receives (ssClient s) c)" for sv i peer
    unfolding receiving_def by (rule returns_obind [OF pollSubscribe_returns [OF h]]) auto
  show ?thesis
    using Some assms rc unfolding pollInFlightSubscription_def Let_def pollSubscribeCovProperty_def pollSubscribeCov_def
    by (auto intro!: returns_obind [OF sub] returns_obind [OF pollAnswer_returns [OF h]] endInFlight_ok
        finishSubscriptionPoll_ok)
qed

lemma takeFirst_length: "takeFirst P xs = Some (x, rest) \<Longrightarrow> length xs = Suc (length rest)"
  by (induction xs arbitrary: rest) (auto split: if_splits)

lemma sessionOk_pending: "sessionOk s \<Longrightarrow> length q \<le> kMaxPendingCovNotifications \<Longrightarrow> sessionOk (s\<lparr>ssPending := q\<rparr>)"
  by (auto simp: sessionOk_def wfSession_def resources_def)

lemma queuePending_ok: "sessionOk s \<Longrightarrow> sessionOk (queuePending n s)"
  unfolding queuePending_def
  by (rule sessionOk_pending) (auto simp: sessionOk_def wfSession_def resources_def kMaxPendingCovNotifications_def)

lemma pollCovNotification_returns:
  assumes "harmlessClient c"
  shows "returns (pollCovNotification net False c) (\<lambda>(n, c', d). receives c c')"
proof (cases "clRunning c \<and> clQueued c = []")
  case True
  then have "takeQueuedCovNotification c = (None, c)" by (simp add: takeQueuedCovNotification_def)
  moreover have "parseCovNotification packet \<noteq> Undef" if "harmless packet" for packet
    using parseCovNotification_Undef [of packet] that by (auto simp: harmless_def)
  ultimately show ?thesis
    using True receive_receives [of c] receive_harmless [of c] assms
    by (fastforce simp: pollCovNotification_def Let_def split: prod.split option.split outcome.split)
next
  case False
  then show ?thesis
    by (auto simp: pollCovNotification_def Let_def takeQueuedCovNotification_def receives_def split: list.split)
qed

lemma queuePending_fields [simp]:
  "ssSubs (queuePending n s) = ssSubs s" "ssInFlightSubscription (queuePending n s) = ssInFlightSubscription s"
  by (simp_all add: queuePending_def)

lemma takeCovNotification_ok:
  assumes "sessionOk s"
  shows "returns (takeCovNotification net a s)
    (\<lambda>(n, s'). sessionOk s' \<and> ssSubs s' = ssSubs s \<and> ssInFlightSubscription s' = ssInFlightSubscription s)"
proof (cases "takeFirst (notificationMatches s (ssSubs s a)) (ssPending s)")
  case (Some nr)
  then obtain n rest where nr: "takeFirst (notificationMatches s (ssSubs s a)) (ssPending s) = Some (n, rest)"
    by (cases nr) simp
  have "length rest \<le> kMaxPendingCovNotifications"
    using takeFirst_length [OF nr] assms by (auto simp: sessionOk_def wfSession_def resources_def)
  with nr assms show ?thesis by (simp add: takeCovNotification_def sessionOk_pending)
next
  case None
  have h: "harmlessClient (ssClient s)" using assms by (simp add: sessionOk_def)
  have ok: "sessionOk (s\<lparr>ssClient := c, ssSent := d\<rparr>)" if "receives (ssClient s) c" for c d
    using sessionOk_received [OF assms that] by simp
  show ?thesis
    unfolding takeCovNotification_def Let_def using None
    by (auto intro!: returns_obind [OF pollCovNotification_returns [OF h]] sessionOk_received [OF assms] queuePending_ok
        split: option.split)
qed

lemma takeReport_ok:
  assumes "sessionOk s" "psSession (ssSubs s a)" "ssInFlightSubscription s = None"
  shows "returns (takeReport net a nowMs s)
    (\<lambda>(goOn, s'). sessionOk s' \<and> psSession (ssSubs s' a) \<and> ssInFlightSubscription s' = None)"
proof -
  have report: "sessionOk (putSub a ((ssSubs s2 a)\<lparr>psCovActive := True\<rparr>) s2)"
    if "s2 = finishSubscriptionPoll a st v nowMs pst ec eo n s1" "sessionOk s1" for s1 s2 st v pst ec eo n
    unfolding that(1) by (intro sessionOk_put) (simp_all add: that(2) finishSubscriptionPoll_ok)
  have ack: "returns (if cnConfirmed n then sending s1 (acknowledgeCovNotification net n) else Ok (True, s1))
      (\<lambda>(ok, s2). \<exists>d. s2 = s1\<lparr>ssSent := d\<rparr>)" for n s1
    using sending_returns [OF acknowledge_returns, of s1 net n]
    by (auto intro: exI [of _ "ssSent s1"])
  have step: "returns (case taken of None \<Rightarrow> Ok (True, s1)
     | Some n \<Rightarrow>
         obind (if cnConfirmed n then sending s1 (acknowledgeCovNotification net n) else Ok (True, s1)) (\<lambda>(ok, s).
           if \<not> ok then Ok (False, queuePending n s)
           else
             Ok (True, putSub a
               ((ssSubs (finishSubscriptionPoll a DrAck (Some (notifiedValue (ssSubs s a) n)) nowMs PrAck 0 0 (Some n) s) a)
                 \<lparr>psCovActive := True\<rparr>)
               (finishSubscriptionPoll a DrAck (Some (notifiedValue (ssSubs s a) n)) nowMs PrAck 0 0 (Some n) s))))
    (\<lambda>(goOn, s'). sessionOk s' \<and> psSession (ssSubs s' a) \<and> ssInFlightSubscription s' = None)"
    if s1: "sessionOk s1 \<and> ssSubs s1 = ssSubs s \<and> ssInFlightSubscription s1 = ssInFlightSubscription s" for taken s1
  proof (cases taken)
    case None
    then show ?thesis using s1 assms by simp
  next
    case (Some n)
    have sent: "sessionOk (s1\<lparr>ssSent := d\<rparr>)" for d using s1 by simp
    show ?thesis
      unfolding Some option.case
      by (rule returns_obind [OF ack])
        (auto simp: s1 assms intro!: queuePending_ok sent report [OF refl sent])
  qed
  show ?thesis
    unfolding takeReport_def Let_def
    by (rule returns_obind [OF takeCovNotification_ok [OF assms(1)]])
      (simp only: split_paired_all prod.case, rule step, simp)
qed

lemma pollSubscription_ok:
  assumes "sessionOk s"
  shows "returns (pollSubscription net a nowMs s) sessionOk"
proof (cases "psSession (ssSubs s a)")
  case True
  show ?thesis
    unfolding pollSubscription_def Let_def using True
    by (auto simp: assms intro!: returns_obind [OF pollInFlightSubscription_ok] returns_obind [OF takeReport_ok] startSubscription_ok)
qed (simp add: pollSubscription_def Let_def assms)

lemma pollSubscriptions_ok:
  assumes "sessionOk s"
  shows "returns (pollSubscriptions net base count nowMs s) sessionOk"
proof -
  have idle: "returns (startSubscription net a t (s1\<lparr>ssRoundRobin := n\<rparr>)) sessionOk"
    if "sessionOk s1" "psSession (ssSubs s1 a)" "ssInFlightSubscription s1 = None" for s1 t n a
    using that by (intro startSubscription_ok) simp_all
  show ?thesis
    unfolding pollSubscriptions_def Let_def
    by (auto simp: assms find_Some_iff intro!: returns_obind [OF pollInFlightSubscription_ok] idle split: option.split)
qed

section \<open>Every call\<close>

lemma releaseSubscription_ok: "sessionOk s \<Longrightarrow> sessionOk (releaseSubscription a s)"
  unfolding releaseSubscription_def by (rule sessionOk_put_idle) simp_all

lemma released_idle [simp]: "\<not> psInFlight (ssSubs (releaseSubscription a s) a)"
  "psSession (ssSubs (releaseSubscription a s) a) = psSession (ssSubs s a)"
  by (simp_all add: releaseSubscription_def clearSubscriptionInFlight_def)

lemma detached_idle: "sessionOk s \<Longrightarrow> \<not> psSession (ssSubs s a) \<Longrightarrow> \<not> psInFlight (ssSubs s a)"
  by (auto simp: sessionOk_def wfSession_def wfSubs_def)

lemma stopSubscription_ok:
  assumes "sessionOk s"
  shows "sessionOk (stopSubscription a s)"
proof (cases "psActive (ssSubs s a)")
  case True
  have "(if psSession (ssSubs s a) \<and> ssInFlightSubscription s = Some a then None else ssInFlightSubscription s) =
      (if ssInFlightSubscription s = Some a then None else ssInFlightSubscription s)"
    using assms by (auto simp: sessionOk_def wfSession_def wfSubs_def)
  then show ?thesis
    using True sessionOk_put_idle [OF assms, of "clearSubscriptionInFlight
      ((ssSubs s a)\<lparr>psActive := False, psRefreshRequested := False, psInitialReadPending := False\<rparr>)" a]
    by (simp add: stopSubscription_def Let_def)
qed (simp add: stopSubscription_def assms)

lemma requestRefresh_ok: "sessionOk s \<Longrightarrow> sessionOk (requestRefresh a s)"
  by (simp add: requestRefresh_def sessionOk_put_same)

lemma destroySubscription_ok:
  assumes "sessionOk s"
  shows "sessionOk (destroySubscription a s)"
proof -
  define s1 where "s1 = (if psSession (ssSubs s a) then releaseSubscription a s else s)"
  have "sessionOk s1" "\<not> psInFlight (ssSubs s1 a)"
    using assms releaseSubscription_ok detached_idle by (auto simp: s1_def)
  then show ?thesis unfolding destroySubscription_def Let_def s1_def [symmetric] by (rule sessionOk_put) simp
qed

lemma moveFrom_ok:
  assumes "sessionOk s" "a \<noteq> other" "\<not> psInFlight (ssSubs s a)"
  shows "sessionOk (moveFrom a other s)"
proof -
  have "\<not> psInFlight (movedFrom sub)" for sub by (simp add: movedFrom_def clearSubscriptionInFlight_def)
  with assms show ?thesis
    by (auto simp: moveFrom_def Let_def sessionOk_def wfSession_def)
      (auto simp: wfSubs_def exclusive_def split: if_splits)
qed

lemma moveAssign_ok:
  assumes "sessionOk s"
  shows "sessionOk (moveAssign a other s)"
proof (cases "a = other")
  case False
  define s1 where "s1 = (if psSession (ssSubs s a) then releaseSubscription a s else s)"
  have "sessionOk s1" "\<not> psInFlight (ssSubs s1 a)"
    using assms releaseSubscription_ok detached_idle by (auto simp: s1_def)
  with False show ?thesis by (simp add: moveAssign_def s1_def moveFrom_ok)
qed (simp add: moveAssign_def assms)

lemma createSubscription_idle: "\<not> psInFlight (createSubscription net ob p idx options callback s)"
  by (simp add: createSubscription_def Let_def noSubscription_def)

fun arrivalHarmless :: "SessionCall \<Rightarrow> bool" where
  "arrivalHarmless (Arrival source packet) \<longleftrightarrow> harmless packet"
| "arrivalHarmless _ \<longleftrightarrow> True"

lemma sessionOk_arrival:
  "sessionOk s \<Longrightarrow> harmless packet \<Longrightarrow>
     sessionOk (s\<lparr>ssClient := (ssClient s)\<lparr>clInbox := clInbox (ssClient s) @ [(source, packet)]\<rparr>\<rparr>)"
  by (auto simp: sessionOk_def wfSession_def resources_def harmlessClient_def)

lemma sessionCall_ok:
  assumes "sessionOk s" "callAllowed call s" "arrivalHarmless call"
  shows "returns (sessionCall net call s) sessionOk"
proof (cases call)
  case (BeginRead a request timeoutMs nowMs)
  show ?thesis unfolding BeginRead sessionCall.simps
    by (rule returns_obind [OF beginPropertyRead_ok [OF assms(1)]]) auto
next
  case (BeginScan a options results capacity nowMs)
  have "case results of None \<Rightarrow> True | Some rs \<Rightarrow> capacity \<le> length rs"
    using assms(2) unfolding BeginScan by simp
  then show ?thesis unfolding BeginScan sessionCall.simps
    by (intro returns_obind [OF beginObjectListScan_ok [OF assms(1)]]) auto
next
  case (PollInFlight nowMs)
  have "returns (pollInFlightSubscription net t s) sessionOk" for t
    by (rule returns_mono [OF pollInFlightSubscription_ok [OF assms(1)]]) simp
  then show ?thesis using assms(1) unfolding PollInFlight
    by (simp add: pollInFlight_def Let_def pollInFlightPropertyRead_ok pollInFlightObjectListScan_ok)
next
  case (Subscribe a ob p idx options callback)
  then show ?thesis using assms by (simp add: sessionOk_put createSubscription_idle)
qed (use assms in \<open>simp_all add: pollPropertyRead_ok cancelPropertyRead_ok pollObjectListScan_ok cancelObjectListScan_ok
    pollSubscription_ok pollSubscriptions_ok stopSubscription_ok requestRefresh_ok destroySubscription_ok moveAssign_ok
    sessionOk_arrival\<close>)

text \<open>The states a session gets into, with transports and clocks of any behaviour in between.\<close>

inductive sessionReachable :: "Session \<Rightarrow> bool" where
  opened: "clInbox c = [] \<Longrightarrow> clQueued c = [] \<Longrightarrow> sessionReachable (newSession c device endpoint)"
| called: "sessionReachable s \<Longrightarrow> callAllowed call s \<Longrightarrow> arrivalHarmless call \<Longrightarrow>
    sessionCall net call s = Ok s' \<Longrightarrow> sessionReachable s'"

lemma sessionOk_new:
  "clInbox c = [] \<Longrightarrow> clQueued c = [] \<Longrightarrow> sessionOk (newSession c device endpoint)"
  by (auto simp: newSession_def sessionOk_def wfSession_def resources_def exclusive_def wfReads_def wfScans_def
      wfSubs_def readActive_def scanActive_def clearedReadJob_def clearedScanJob_def noSubscription_def
      harmlessClient_def wfCache_empty)

lemma reachable_sessionOk: "sessionReachable s \<Longrightarrow> sessionOk s"
proof (induction rule: sessionReachable.induct)
  case (called s call net s')
  then show ?case using sessionCall_ok [of s call net] by (simp add: returns_def)
qed (rule sessionOk_new)

section \<open>Claims\<close>


definition demoNet :: "bool \<Rightarrow> u32 \<Rightarrow> Net" where
  "demoNet sends clock = \<lparr>netSends = \<lambda>d b. sends, netClock = clock, netWriteProperty = True,
     netPriorityWrite = True, netLeftover = emptyValue\<rparr>"

definition demoPeer :: BacnetIpEndpoint where
  "demoPeer = \<lparr>epA = 10, epB = 0, epC = 0, epD = 9, epPort = 47808\<rparr>"

definition demoClient :: BacnetClient where
  "demoClient = (newClient True True)\<lparr>clRunning := True\<rparr>"

definition demoSession :: Session where
  "demoSession = newSession demoClient 7 demoPeer"

lemma demoSession_reachable: "sessionReachable demoSession"
  unfolding demoSession_def by (rule opened) (simp_all add: demoClient_def newClient_def)




end
