(* ===== verification/SessionBlocking.thy ===== *)
theory SessionBlocking
  imports SessionSubscriptions
begin

text \<open>
  The blocking operations of a device session (\<open>readProperty\<close>, \<open>writeProperty\<close>, \<open>readPropertyList\<close>,
  \<open>readAllProperties\<close>, \<open>readObjectStatus\<close>, \<open>scanObjectList\<close>, src/src/core/client) and of a remote
  object built on them (\<open>relinquishAllPriorities\<close>, src/src/core/client/BacnetRemoteObject.cpp).

  They poll the client in a loop that ends with an answer or a timeout. What happens meanwhile is a
  list of ticks, one for each iteration: the datagrams that arrive before it and the clock and the
  transport it sees. \<open>None\<close> stands for a call that has not returned when the ticks are used up.
\<close>

section \<open>Waiting\<close>

type_synonym Tick = "Net \<times> (BacnetIpEndpoint \<times> bytes) list"
type_synonym 'a blocking = "Tick list \<Rightarrow> Session \<Rightarrow> ('a \<times> Session \<times> Tick list) option outcome"

definition returnB :: "'a \<Rightarrow> 'a blocking" where
  "returnB x ts s = Ok (Some (x, s, ts))"

definition bindB :: "'a blocking \<Rightarrow> ('a \<Rightarrow> 'b blocking) \<Rightarrow> 'b blocking" where
  "bindB m f ts s =
     obind (m ts s) (\<lambda>r. case r of None \<Rightarrow> Ok None | Some (x, s', ts') \<Rightarrow> f x ts' s')"

text \<open>An operation of the client at the clock and with the transport of the current tick.\<close>

definition atTick :: "(Net \<Rightarrow> Session \<Rightarrow> ('a \<times> Session) outcome) \<Rightarrow> 'a blocking" where
  "atTick f ts s =
     (case ts of [] \<Rightarrow> Ok None | (net, arrivals) # _ \<Rightarrow> obind (f net s) (\<lambda>(x, s'). Ok (Some (x, s', ts))))"

definition arrive :: "(BacnetIpEndpoint \<times> bytes) list \<Rightarrow> Session \<Rightarrow> Session" where
  "arrive arrivals s = s\<lparr>ssClient := (ssClient s)\<lparr>clInbox := clInbox (ssClient s) @ arrivals\<rparr>\<rparr>"

text \<open>
  \<open>while (true) { poll; if (answered) return; if (nowMs() - startedAt >= timeoutMs) return; idle(); }\<close>
\<close>

fun awaitAnswer ::
    "(Net \<Rightarrow> Session \<Rightarrow> ('a option \<times> Session) outcome) \<Rightarrow> (Net \<Rightarrow> Session \<Rightarrow> 'a \<times> Session) \<Rightarrow> u32 \<Rightarrow> u32 \<Rightarrow>
     'a blocking" where
  "awaitAnswer poll timedOut startedAt timeoutMs [] s = Ok None"
| "awaitAnswer poll timedOut startedAt timeoutMs ((net, arrivals) # ts) s =
     obind (poll net (arrive arrivals s)) (\<lambda>(answer, s).
       case answer of
         Some x \<Rightarrow> Ok (Some (x, s, ts))
       | None \<Rightarrow>
           if clientNow net (ssClient s) - startedAt \<ge> timeoutMs
           then (let (x, s) = timedOut net s in Ok (Some (x, s, ts)))
           else awaitAnswer poll timedOut startedAt timeoutMs ts s)"

section \<open>Reading a property\<close>

type_synonym Reading = "BacnetPropertyReadStatus \<times> BacnetValue \<times> u32 \<times> u32"

definition pollReading ::
    "u8 \<Rightarrow> BacnetPropertyRequest \<Rightarrow> Net \<Rightarrow> Session \<Rightarrow> (Reading option \<times> Session) outcome" where
  "pollReading invokeId request net s =
     obind (pollAnswer net invokeId request s) (\<lambda>(answer, s).
       if rpStatus answer = PollNone then Ok (None, s)
       else
         let status = detailedStatus request answer
         in Ok (Some (status, rpValue answer, rpErrorClass answer, rpErrorCode answer),
              cacheAttempt request status (Some (rpValue answer)) (clientNow net (ssClient s))
                (rpErrorClass answer) (rpErrorCode answer) s))"

definition timedOutReading :: "BacnetPropertyRequest \<Rightarrow> Net \<Rightarrow> Session \<Rightarrow> Reading \<times> Session" where
  "timedOutReading request net s =
     ((PrTimeout, emptyValue, 0, 0), cacheAttempt request PrTimeout None (clientNow net (ssClient s)) 0 0 s)"

text \<open>The request goes out: the invoke id and the time it was sent, or why it was not.\<close>

definition startReading ::
    "BacnetPropertyRequest \<Rightarrow> Net \<Rightarrow> Session \<Rightarrow> ((Reading + u8 \<times> u32) \<times> Session) outcome" where
  "startReading request net s =
     (if isBusy s
      then Ok (Inl (PrBusy, emptyValue, 0, 0), cacheAttempt request PrBusy None (clientNow net (ssClient s)) 0 0 s)
      else
        let (invokeId, s) = allocateInvokeId s
        in obind (sendRead net request invokeId s) (\<lambda>(sent, s).
             if \<not> sent
             then Ok (Inl (PrSendFailed, emptyValue, 0, 0),
                    cacheAttempt request PrSendFailed None (clientNow net (ssClient s)) 0 0 s)
             else Ok (Inr (invokeId, clientNow net (ssClient s)), s)))"

definition readPropertyDetailed :: "BacnetPropertyRequest \<Rightarrow> u32 \<Rightarrow> Reading blocking" where
  "readPropertyDetailed request timeoutMs =
     bindB (atTick (startReading request)) (\<lambda>started.
       case started of Inl reading \<Rightarrow> returnB reading
       | Inr (invokeId, startedAt) \<Rightarrow>
           awaitAnswer (pollReading invokeId request) (timedOutReading request) startedAt timeoutMs)"

definition propertyOf :: "BacnetObjectId \<Rightarrow> BacnetPropertyId \<Rightarrow> u32 \<Rightarrow> BacnetPropertyRequest" where
  "propertyOf ob p arrayIndex = \<lparr>rqObject = ob, rqProperty = p, rqArrayIndex = arrayIndex\<rparr>"

definition readPropertyB ::
    "BacnetObjectId \<Rightarrow> BacnetPropertyId \<Rightarrow> u32 \<Rightarrow> u32 \<Rightarrow> (BacnetDeviceSessionReadStatus \<times> BacnetValue) blocking" where
  "readPropertyB ob p timeoutMs arrayIndex =
     bindB (readPropertyDetailed (propertyOf ob p arrayIndex) timeoutMs) (\<lambda>(status, v, _, _).
       returnB (deviceReadStatusFromPropertyStatus status, v))"

definition readPropertyStatusB ::
    "BacnetObjectId \<Rightarrow> BacnetPropertyId \<Rightarrow> u32 \<Rightarrow> u32 \<Rightarrow> (BacnetPropertyReadStatus \<times> BacnetValue) blocking" where
  "readPropertyStatusB ob p timeoutMs arrayIndex =
     bindB (readPropertyDetailed (propertyOf ob p arrayIndex) timeoutMs) (\<lambda>(status, v, _, _). returnB (status, v))"

text \<open>The whole priority array, which the cache does not hold.\<close>

definition pollPriorityArray ::
    "u8 \<Rightarrow> BacnetPropertyRequest \<Rightarrow> Net \<Rightarrow> Session \<Rightarrow>
     ((BacnetPropertyReadStatus \<times> BacnetPriorityArray option) option \<times> Session) outcome" where
  "pollPriorityArray invokeId request net s =
     obind (receiving s (pollReadPriorityArrayStatus net invokeId request (ssClient s))) (\<lambda>((answer, entries), s).
       if rpStatus answer = PollNone then Ok (None, s)
       else if rpStatus answer = PollAck then Ok (Some (PrAck, entries), s)
       else Ok (Some (classifyDetailedReadStatus (rpStatus answer) emptyValue (rpErrorClass answer)
                  (rpErrorCode answer) kBacnetNoArrayIndex, None), s))"

definition readPriorityArrayB ::
    "BacnetObjectId \<Rightarrow> u32 \<Rightarrow> (BacnetPropertyReadStatus \<times> BacnetPriorityArray option) blocking" where
  "readPriorityArrayB ob timeoutMs =
     (let request = propertyOf ob PropPriorityArray kBacnetNoArrayIndex
      in bindB (atTick (\<lambda>net s.
           if isBusy s then Ok (Inl PrBusy, s)
           else
             let (invokeId, s) = allocateInvokeId s
             in obind (sendRead net request invokeId s) (\<lambda>(sent, s).
                  Ok (if sent then Inr (invokeId, clientNow net (ssClient s)) else Inl PrSendFailed, s))))
         (\<lambda>started. case started of Inl status \<Rightarrow> returnB (status, None)
            | Inr (invokeId, startedAt) \<Rightarrow>
                awaitAnswer (pollPriorityArray invokeId request) (\<lambda>net s. ((PrTimeout, None), s)) startedAt timeoutMs))"

section \<open>Writing a property\<close>

fun writeRefused :: "BacnetWritePropertyPollStatus \<Rightarrow> BacnetDeviceSessionWriteStatus option" where
  "writeRefused WriteDisabled = Some DwDisabled"
| "writeRefused WriteInvalidArgument = Some DwInvalidArgument"
| "writeRefused WriteUnsupportedValue = Some DwUnsupportedValue"
| "writeRefused WriteSendFailed = Some DwSendFailed"
| "writeRefused WriteNone = None"
| "writeRefused _ = Some DwError"

fun writeAnswered :: "BacnetWritePropertyPollStatus \<Rightarrow> BacnetDeviceSessionWriteStatus option" where
  "writeAnswered WriteAck = Some DwAck"
| "writeAnswered WriteError = Some DwError"
| "writeAnswered WriteNotCommandable = Some DwNotCommandable"
| "writeAnswered WriteReject = Some DwReject"
| "writeAnswered WriteAbort = Some DwAbort"
| "writeAnswered WriteDisabled = Some DwDisabled"
| "writeAnswered WriteSendFailed = Some DwSendFailed"
| "writeAnswered WriteNone = None"
| "writeAnswered _ = Some DwError"

text \<open>The overload with a priority: what it takes for a refusal and for an answer.\<close>

fun priorityWriteRefused :: "BacnetWritePropertyPollStatus \<Rightarrow> BacnetDeviceSessionWriteStatus option" where
  "priorityWriteRefused WriteDisabled = Some DwDisabled"
| "priorityWriteRefused WriteInvalidArgument = Some DwInvalidArgument"
| "priorityWriteRefused WriteUnsupportedValue = Some DwUnsupportedValue"
| "priorityWriteRefused WriteNone = None"
| "priorityWriteRefused _ = Some DwSendFailed"

fun priorityWriteAnswered :: "BacnetWritePropertyPollStatus \<Rightarrow> BacnetDeviceSessionWriteStatus option" where
  "priorityWriteAnswered WriteAck = Some DwAck"
| "priorityWriteAnswered WriteError = Some DwError"
| "priorityWriteAnswered WriteNotCommandable = Some DwNotCommandable"
| "priorityWriteAnswered WriteReject = Some DwReject"
| "priorityWriteAnswered WriteAbort = Some DwAbort"
| "priorityWriteAnswered _ = None"

definition pollWriting ::
    "(BacnetWritePropertyPollStatus \<Rightarrow> BacnetDeviceSessionWriteStatus option) \<Rightarrow> u8 \<Rightarrow> Net \<Rightarrow> Session \<Rightarrow>
     (BacnetDeviceSessionWriteStatus option \<times> Session) outcome" where
  "pollWriting answered invokeId net s =
     obind (receiving s (pollWriteProperty net invokeId (ssClient s))) (\<lambda>(status, s). Ok (answered status, s))"

definition sendingWrite ::
    "Session \<Rightarrow> (BacnetWritePropertyPollStatus \<times> Sent list) outcome \<Rightarrow> (BacnetWritePropertyPollStatus \<times> Session) outcome" where
  "sendingWrite s m = obind m (\<lambda>(status, datagrams). Ok (status, s\<lparr>ssSent := ssSent s @ datagrams\<rparr>))"

definition writePropertyPlainB ::
    "BacnetObjectId \<Rightarrow> BacnetPropertyId \<Rightarrow> BacnetValue \<Rightarrow> u32 \<Rightarrow> u32 \<Rightarrow> BacnetDeviceSessionWriteStatus blocking" where
  "writePropertyPlainB ob p v timeoutMs arrayIndex =
     bindB (atTick (\<lambda>net s.
         if isBusy s then Ok (Inl DwBusy, s)
         else if \<not> netWriteProperty net then Ok (Inl DwDisabled, s)
         else
           let (invokeId, s) = allocateInvokeId s
           in obind (sendingWrite s (sendWritePropertyPlain net (ssClient s) (ssEndpoint s)
                  (propertyOf ob p arrayIndex) v invokeId)) (\<lambda>(status, s).
                Ok (case writeRefused status of Some refusal \<Rightarrow> Inl refusal
                    | None \<Rightarrow> Inr (invokeId, clientNow net (ssClient s)), s))))
       (\<lambda>started. case started of Inl status \<Rightarrow> returnB status
          | Inr (invokeId, startedAt) \<Rightarrow>
              awaitAnswer (pollWriting writeAnswered invokeId) (\<lambda>net s. (DwTimeout, s)) startedAt timeoutMs)"

definition writePropertyB ::
    "BacnetObjectId \<Rightarrow> BacnetPropertyId \<Rightarrow> BacnetValue \<Rightarrow> BacnetWritePropertyOptions \<Rightarrow> u32 \<Rightarrow>
     BacnetDeviceSessionWriteStatus blocking" where
  "writePropertyB ob p v options timeoutMs =
     bindB (atTick (\<lambda>net s.
         if isBusy s then Ok (Inl DwBusy, s)
         else if \<not> bacnetWritePropertyEnabled net (woHasPriority options) then Ok (Inl DwDisabled, s)
         else
           let (invokeId, s) = allocateInvokeId s
           in obind (sendingWrite s (sendWriteProperty net (ssClient s) (ssEndpoint s) ob p v options invokeId))
                (\<lambda>(status, s).
                Ok (case priorityWriteRefused status of Some refusal \<Rightarrow> Inl refusal
                    | None \<Rightarrow> Inr (invokeId, clientNow net (ssClient s)), s))))
       (\<lambda>started. case started of Inl status \<Rightarrow> returnB status
          | Inr (invokeId, startedAt) \<Rightarrow>
              awaitAnswer (pollWriting priorityWriteAnswered invokeId) (\<lambda>net s. (DwTimeout, s)) startedAt timeoutMs)"

section \<open>Reading many properties\<close>

record BacnetPropertyListReadResult =
  plStatus :: BacnetPropertyReadStatus
  plAdvertised :: u32
  plStored :: nat
  plTruncated :: bool

text \<open>The entries at the one-based indices \<open>is\<close>; what is read goes into the caller's array in order.\<close>

fun readListEntries ::
    "BacnetObjectId \<Rightarrow> u32 \<Rightarrow> nat list \<Rightarrow> BacnetPropertyId list \<Rightarrow> (BacnetPropertyReadStatus \<times> BacnetPropertyId list) blocking" where
  "readListEntries ob timeoutMs [] stored = returnB (PrAck, stored)"
| "readListEntries ob timeoutMs (i # is) stored =
     bindB (readPropertyDetailed (propertyOf ob PropPropertyList (of_nat i)) timeoutMs) (\<lambda>(status, v, _, _).
       if status \<noteq> PrAck then returnB (status, stored)
       else case bacnetPropertyIdFromPropertyListValue v of
         None \<Rightarrow> returnB (PrDecodeError, stored)
       | Some p \<Rightarrow> readListEntries ob timeoutMs is (stored @ [p]))"

definition readPropertyListB ::
    "BacnetObjectId \<Rightarrow> nat \<Rightarrow> u32 \<Rightarrow> (BacnetPropertyListReadResult \<times> BacnetPropertyId list) blocking" where
  "readPropertyListB ob propertyCapacity timeoutMs =
     bindB (readPropertyDetailed (propertyOf ob PropPropertyList 0) timeoutMs) (\<lambda>(status, count, _, _).
       if status \<noteq> PrAck
       then returnB (\<lparr>plStatus = status, plAdvertised = 0, plStored = 0, plTruncated = False\<rparr>, [])
       else if vType count \<noteq> TyUnsigned
       then returnB (\<lparr>plStatus = PrDecodeError, plAdvertised = 0, plStored = 0, plTruncated = False\<rparr>, [])
       else
         let advertised = vUnsigned count;
             limit = (if unat advertised < propertyCapacity then unat advertised else propertyCapacity)
         in bindB (readListEntries ob timeoutMs [1..<limit + 1] []) (\<lambda>(status, stored).
              returnB (\<lparr>plStatus = status, plAdvertised = advertised, plStored = length stored,
                plTruncated = (unat advertised > propertyCapacity)\<rparr>, stored)))"

record BacnetPropertyReadResult =
  prPropertyId :: BacnetPropertyId
  prStatus :: BacnetPropertyReadStatus
  prValue :: BacnetValue
  prErrorClass :: u32
  prErrorCode :: u32

record BacnetPropertyReadAllResult =
  raPropertyListStatus :: BacnetPropertyReadStatus
  raAdvertised :: u32
  raCollected :: nat
  raRequested :: nat
  raAttempted :: nat
  raStored :: nat
  raAcked :: nat
  raFailed :: nat
  raTruncated :: bool

definition emptyReadAll :: BacnetPropertyReadAllResult where
  "emptyReadAll = \<lparr>raPropertyListStatus = PrSkipped, raAdvertised = 0, raCollected = 0, raRequested = 0,
     raAttempted = 0, raStored = 0, raAcked = 0, raFailed = 0, raTruncated = False\<rparr>"

fun readEach ::
    "BacnetObjectId \<Rightarrow> u32 \<Rightarrow> BacnetPropertyId list \<Rightarrow> BacnetPropertyReadAllResult \<Rightarrow> BacnetPropertyReadResult list \<Rightarrow>
     (BacnetPropertyReadAllResult \<times> BacnetPropertyReadResult list) blocking" where
  "readEach ob timeoutMs [] summary results = returnB (summary, results)"
| "readEach ob timeoutMs (p # ps) summary results =
     bindB (readPropertyDetailed (propertyOf ob p kBacnetNoArrayIndex) timeoutMs) (\<lambda>(status, v, errorClass, errorCode).
       readEach ob timeoutMs ps
         (summary\<lparr>raAttempted := raAttempted summary + 1, raStored := raStored summary + 1,
            raAcked := raAcked summary + (if status = PrAck then 1 else 0),
            raFailed := raFailed summary + (if status = PrAck then 0 else 1)\<rparr>)
         (results @ [\<lparr>prPropertyId = p, prStatus = status, prValue = v, prErrorClass = errorClass,
            prErrorCode = errorCode\<rparr>]))"

text \<open>\<open>None\<close> for a null array of properties; \<open>resultCapacity\<close> is \<open>0\<close> for a null array of results.\<close>

definition readAllPropertiesB ::
    "BacnetObjectId \<Rightarrow> BacnetPropertyId list option \<Rightarrow> nat \<Rightarrow> nat \<Rightarrow> u32 \<Rightarrow>
     (BacnetPropertyReadAllResult \<times> BacnetPropertyReadResult list) blocking" where
  "readAllPropertiesB ob properties propertyCount resultCapacity timeoutMs =
     (let summary = emptyReadAll\<lparr>raRequested := propertyCount\<rparr>
      in case properties of
           None \<Rightarrow> returnB (summary\<lparr>raTruncated := (propertyCount > 0)\<rparr>, [])
         | Some ps \<Rightarrow>
             readEach ob timeoutMs (take (if propertyCount < resultCapacity then propertyCount else resultCapacity) ps)
               (summary\<lparr>raTruncated := (propertyCount > resultCapacity)\<rparr>) [])"

definition readAllAdvertisedPropertiesB ::
    "BacnetObjectId \<Rightarrow> nat \<Rightarrow> nat \<Rightarrow> u32 \<Rightarrow> (BacnetPropertyReadAllResult \<times> BacnetPropertyReadResult list) blocking" where
  "readAllAdvertisedPropertiesB ob propertyCapacity resultCapacity timeoutMs =
     bindB (readPropertyListB ob propertyCapacity timeoutMs) (\<lambda>(propertyList, ps).
       let advertise = (\<lambda>summary. summary\<lparr>raPropertyListStatus := plStatus propertyList,
             raAdvertised := plAdvertised propertyList, raCollected := plStored propertyList,
             raTruncated := (raTruncated summary \<or> plTruncated propertyList)\<rparr>)
       in if plStatus propertyList \<noteq> PrAck then returnB (advertise emptyReadAll, [])
          else bindB (readAllPropertiesB ob (Some ps) (plStored propertyList) resultCapacity timeoutMs)
            (\<lambda>(summary, results). returnB (advertise summary, results)))"

section \<open>The status of an object\<close>

text \<open>One status property: what is read counts as acknowledged only if it can be decoded.\<close>

definition readStatusProperty ::
    "BacnetObjectId \<Rightarrow> BacnetPropertyId \<Rightarrow> u32 \<Rightarrow> (BacnetValue \<Rightarrow> 'a option) \<Rightarrow> 'a \<Rightarrow>
     (BacnetPropertyReadStatus \<times> 'a) blocking" where
  "readStatusProperty ob p timeoutMs decode unknown =
     bindB (readPropertyDetailed (propertyOf ob p kBacnetNoArrayIndex) timeoutMs) (\<lambda>(status, v, _, _).
       returnB (if status = PrAck
         then (case decode v of Some x \<Rightarrow> (PrAck, x) | None \<Rightarrow> (PrDecodeError, unknown))
         else (status, unknown)))"

definition readObjectStatusB :: "BacnetObjectId \<Rightarrow> u32 \<Rightarrow> bool \<Rightarrow> BacnetObjectStatus blocking" where
  "readObjectStatusB ob timeoutMs presentValueRequired =
     bindB (readPropertyDetailed (propertyOf ob PropPresentValue kBacnetNoArrayIndex) timeoutMs) (\<lambda>(pvStatus, pv, _, _).
     bindB (readStatusProperty ob PropStatusFlags timeoutMs bacnetDecodeStatusFlags noStatusFlags) (\<lambda>(sfStatus, flags).
     bindB (readStatusProperty ob PropEventState timeoutMs enumValueFromBacnetValue 0) (\<lambda>(esStatus, eventState).
     bindB (readStatusProperty ob PropReliability timeoutMs enumValueFromBacnetValue 0) (\<lambda>(reStatus, reliability).
     bindB (readStatusProperty ob PropOutOfService timeoutMs booleanValueFromBacnetValue False) (\<lambda>(oosStatus, oos).
       let status = (emptyObjectStatus ob)\<lparr>osPresentValueStatus := pvStatus, osPresentValue := pv,
             osStatusFlagsStatus := sfStatus, osStatusFlags := flags, osEventStateStatus := esStatus,
             osEventState := eventState, osReliabilityStatus := reStatus, osReliability := reliability,
             osOutOfServiceStatus := oosStatus, osOutOfService := oos\<rparr>
       in returnB (status\<lparr>osState := bacnetDeriveObjectHealthState status presentValueRequired\<rparr>))))))"

section \<open>A whole scan\<close>

text \<open>\<open>while (job.isActive()) { pollObjectListScan(job); idle(); }\<close> for the job at address \<open>a\<close>.\<close>

fun scanLoop :: "nat \<Rightarrow> BacnetObjectScanResult blocking" where
  "scanLoop a ts s =
     (if sjStatus (ssScans s a) \<noteq> SjActive then Ok (Some (sjResult (ssScans s a), s, ts))
      else case ts of [] \<Rightarrow> Ok None
         | (net, arrivals) # rest \<Rightarrow>
             obind (pollObjectListScan net a kUseClientClock (arrive arrivals s)) (\<lambda>s. scanLoop a rest s))"

definition scanObjectListB ::
    "nat \<Rightarrow> BacnetObjectScanOptions \<Rightarrow> BacnetScannedObject list option \<Rightarrow> nat \<Rightarrow> BacnetObjectScanResult blocking" where
  "scanObjectListB a options results resultCapacity =
     bindB (atTick (\<lambda>net s. beginObjectListScan net a options results resultCapacity kUseClientClock
              (putScan a clearedScanJob s)))
       (\<lambda>started ts s. if \<not> started then Ok (Some (sjResult (ssScans s a), s, ts)) else scanLoop a ts s)"

section \<open>A remote object\<close>

definition writePresentValueB :: "BacnetObjectId \<Rightarrow> BacnetValue \<Rightarrow> u8 \<Rightarrow> u32 \<Rightarrow> BacnetDeviceSessionWriteStatus blocking" where
  "writePresentValueB ob v priority timeoutMs =
     writePropertyB ob PropPresentValue v
       \<lparr>woArrayIndex = kBacnetNoArrayIndex, woHasPriority = True, woPriority = priority\<rparr> timeoutMs"

definition relinquishPresentValueB :: "BacnetObjectId \<Rightarrow> u8 \<Rightarrow> u32 \<Rightarrow> BacnetDeviceSessionWriteStatus blocking" where
  "relinquishPresentValueB ob priority timeoutMs =
     writePresentValueB ob (emptyValue\<lparr>vType := TyNull\<rparr>) priority timeoutMs"

record BacnetPriorityRelinquishResult =
  rrStatus :: BacnetDeviceSessionWriteStatus
  rrCompleted :: u8
  rrSkipped :: u8
  rrFailed :: u8

definition relinquishSucceeded :: "BacnetPriorityRelinquishResult \<Rightarrow> bool" where
  "relinquishSucceeded r \<longleftrightarrow>
     rrFailed r = 0 \<and> unat (rrCompleted r) + (if rrSkipped r = 0 then 0 else 1) = 16 \<and> rrStatus r = DwAck"

definition kMinimumOnOffPriority :: u8 where "kMinimumOnOffPriority = 6"

fun relinquishEach ::
    "BacnetObjectId \<Rightarrow> bool \<Rightarrow> u32 \<Rightarrow> u8 list \<Rightarrow> BacnetPriorityRelinquishResult \<Rightarrow> BacnetPriorityRelinquishResult blocking" where
  "relinquishEach ob skipMinimumOnOff timeoutMs [] result = returnB result"
| "relinquishEach ob skipMinimumOnOff timeoutMs (priority # ps) result =
     (if skipMinimumOnOff \<and> priority = kMinimumOnOffPriority
      then relinquishEach ob skipMinimumOnOff timeoutMs ps (result\<lparr>rrSkipped := priority\<rparr>)
      else bindB (relinquishPresentValueB ob priority timeoutMs) (\<lambda>status.
        if status \<noteq> DwAck then returnB (result\<lparr>rrStatus := status, rrFailed := priority\<rparr>)
        else relinquishEach ob skipMinimumOnOff timeoutMs ps
          (result\<lparr>rrStatus := status, rrCompleted := rrCompleted result + 1\<rparr>)))"

definition relinquishAllPrioritiesB :: "BacnetObjectId \<Rightarrow> bool \<Rightarrow> u32 \<Rightarrow> BacnetPriorityRelinquishResult blocking" where
  "relinquishAllPrioritiesB ob skipMinimumOnOff timeoutMs =
     relinquishEach ob skipMinimumOnOff timeoutMs (map of_nat [1..<17])
       \<lparr>rrStatus = DwAck, rrCompleted = 0, rrSkipped = 0, rrFailed = 0\<rparr>"

section \<open>What a property remembers\<close>

definition hasValue :: "Session \<Rightarrow> BacnetPropertyRequest \<Rightarrow> bool" where
  "hasValue s request = (case findCachedProperty (ssCache s) request of None \<Rightarrow> False | Some e \<Rightarrow> cpHasValue e)"

definition lastValue :: "Session \<Rightarrow> BacnetPropertyRequest \<Rightarrow> BacnetValue" where
  "lastValue s request = (case findCachedProperty (ssCache s) request of None \<Rightarrow> emptyValue | Some e \<Rightarrow> cpCached e)"

definition lastStatus :: "Session \<Rightarrow> BacnetPropertyRequest \<Rightarrow> BacnetPropertyReadStatus" where
  "lastStatus s request = (case findCachedProperty (ssCache s) request of None \<Rightarrow> PrSkipped | Some e \<Rightarrow> cpStatus e)"

definition lastAttemptMs :: "Session \<Rightarrow> BacnetPropertyRequest \<Rightarrow> u32" where
  "lastAttemptMs s request = (case findCachedProperty (ssCache s) request of None \<Rightarrow> 0 | Some e \<Rightarrow> cpLastAttemptMs e)"

definition lastSuccessMs :: "Session \<Rightarrow> BacnetPropertyRequest \<Rightarrow> u32" where
  "lastSuccessMs s request = (case findCachedProperty (ssCache s) request of None \<Rightarrow> 0 | Some e \<Rightarrow> cpLastSuccessMs e)"

text \<open>The decoded status properties of a process object and whether they could be decoded.\<close>

definition cachedReading :: "Session \<Rightarrow> BacnetObjectId \<Rightarrow> BacnetPropertyId \<Rightarrow> (BacnetValue \<Rightarrow> 'a option) \<Rightarrow> 'a \<Rightarrow> 'a" where
  "cachedReading s ob p decode unknown =
     (let request = propertyOf ob p kBacnetNoArrayIndex
      in if lastStatus s request = PrAck
         then (case decode (lastValue s request) of Some x \<Rightarrow> x | None \<Rightarrow> unknown) else unknown)"

definition cachedReadingStatus ::
    "Session \<Rightarrow> BacnetObjectId \<Rightarrow> BacnetPropertyId \<Rightarrow> (BacnetValue \<Rightarrow> 'a option) \<Rightarrow> BacnetPropertyReadStatus" where
  "cachedReadingStatus s ob p decode =
     (let request = propertyOf ob p kBacnetNoArrayIndex
      in if lastStatus s request = PrAck
         then (if decode (lastValue s request) = None then PrDecodeError else PrAck) else lastStatus s request)"

definition statusFlagsOf :: "Session \<Rightarrow> BacnetObjectId \<Rightarrow> BacnetStatusFlags" where
  "statusFlagsOf s ob = cachedReading s ob PropStatusFlags bacnetDecodeStatusFlags noStatusFlags"

definition statusFlagsStatus :: "Session \<Rightarrow> BacnetObjectId \<Rightarrow> BacnetPropertyReadStatus" where
  "statusFlagsStatus s ob = cachedReadingStatus s ob PropStatusFlags bacnetDecodeStatusFlags"

definition eventStateOf :: "Session \<Rightarrow> BacnetObjectId \<Rightarrow> u32" where
  "eventStateOf s ob = cachedReading s ob PropEventState enumValueFromBacnetValue 0"

definition eventStateStatus :: "Session \<Rightarrow> BacnetObjectId \<Rightarrow> BacnetPropertyReadStatus" where
  "eventStateStatus s ob = cachedReadingStatus s ob PropEventState enumValueFromBacnetValue"

definition reliabilityOf :: "Session \<Rightarrow> BacnetObjectId \<Rightarrow> u32" where
  "reliabilityOf s ob = cachedReading s ob PropReliability enumValueFromBacnetValue 0"

definition reliabilityStatus :: "Session \<Rightarrow> BacnetObjectId \<Rightarrow> BacnetPropertyReadStatus" where
  "reliabilityStatus s ob = cachedReadingStatus s ob PropReliability enumValueFromBacnetValue"

definition outOfServiceOf :: "Session \<Rightarrow> BacnetObjectId \<Rightarrow> bool" where
  "outOfServiceOf s ob = cachedReading s ob PropOutOfService booleanValueFromBacnetValue False"

definition outOfServiceStatus :: "Session \<Rightarrow> BacnetObjectId \<Rightarrow> BacnetPropertyReadStatus" where
  "outOfServiceStatus s ob = cachedReadingStatus s ob PropOutOfService booleanValueFromBacnetValue"

section \<open>The status of a process object\<close>

text \<open>
  \<open>BacnetProcessObject::readStatus\<close> reads the same properties through \<open>BacnetProperty::read\<close> and
  takes their status from the cache.
\<close>

definition readRemoteProperty ::
    "BacnetObjectId \<Rightarrow> BacnetPropertyId \<Rightarrow> u32 \<Rightarrow> (BacnetPropertyReadStatus \<times> BacnetValue) blocking" where
  "readRemoteProperty ob p timeoutMs =
     bindB (readPropertyB ob p timeoutMs kBacnetNoArrayIndex) (\<lambda>(_, v) ts s.
       returnB (lastStatus s (propertyOf ob p kBacnetNoArrayIndex), v) ts s)"

definition readRemoteStatusProperty ::
    "BacnetObjectId \<Rightarrow> BacnetPropertyId \<Rightarrow> u32 \<Rightarrow> (BacnetValue \<Rightarrow> 'a option) \<Rightarrow> 'a \<Rightarrow>
     (BacnetPropertyReadStatus \<times> 'a) blocking" where
  "readRemoteStatusProperty ob p timeoutMs decode unknown =
     bindB (readRemoteProperty ob p timeoutMs) (\<lambda>(status, v).
       returnB (if status = PrAck
         then (case decode v of Some x \<Rightarrow> (PrAck, x) | None \<Rightarrow> (PrDecodeError, unknown))
         else (status, unknown)))"

definition readStatusB :: "BacnetObjectId \<Rightarrow> u32 \<Rightarrow> bool \<Rightarrow> BacnetObjectStatus blocking" where
  "readStatusB ob timeoutMs presentValueRequired =
     bindB (readRemoteProperty ob PropPresentValue timeoutMs) (\<lambda>(pvStatus, pv).
     bindB (readRemoteStatusProperty ob PropStatusFlags timeoutMs bacnetDecodeStatusFlags noStatusFlags) (\<lambda>(sfStatus, flags).
     bindB (readRemoteStatusProperty ob PropEventState timeoutMs enumValueFromBacnetValue 0) (\<lambda>(esStatus, eventState).
     bindB (readRemoteStatusProperty ob PropReliability timeoutMs enumValueFromBacnetValue 0) (\<lambda>(reStatus, reliability).
     bindB (readRemoteStatusProperty ob PropOutOfService timeoutMs booleanValueFromBacnetValue False) (\<lambda>(oosStatus, oos).
       let status = (emptyObjectStatus ob)\<lparr>osPresentValueStatus := pvStatus, osPresentValue := pv,
             osStatusFlagsStatus := sfStatus, osStatusFlags := flags, osEventStateStatus := esStatus,
             osEventState := eventState, osReliabilityStatus := reStatus, osReliability := reliability,
             osOutOfServiceStatus := oosStatus, osOutOfService := oos\<rparr>
       in returnB (status\<lparr>osState := bacnetDeriveObjectHealthState status presentValueRequired\<rparr>))))))"

end
