(* ===== verification/SessionLaws.thy ===== *)
theory SessionLaws
  imports SessionInvariant SessionBlocking
begin

text \<open>
  Time and completion of the session's operations: the blocking operations return when the clock
  has run for their timeout, and never without a clock; both ways of reading an object's status
  agree; relinquishing tells how far it got; a scan ends, after a bounded number of requests.
\<close>

section \<open>Waiting\<close>

text \<open>What a poll of the client keeps.\<close>

lemma receive_keeps: "receive c = (m, c') \<Longrightarrow> clClock c' = clClock c \<and> clRunning c' = clRunning c"
  by (auto simp: receive_def split: list.splits)

lemma pollAnswer_keeps:
  assumes "pollAnswer net i request s = Ok (answer, s')"
  shows "clClock (ssClient s') = clClock (ssClient s)" "clRunning (ssClient s') = clRunning (ssClient s)"
    "ssCache s' = ssCache s"
  using assms receive_keeps [of "ssClient s"]
  by (auto simp: pollAnswer_def receiving_def pollReadPropertyStatus_def pollRead_def
      split: if_splits prod.splits option.splits)

lemma arrive_keeps [simp]: "ssCache (arrive arrivals s) = ssCache s"
  "clClock (ssClient (arrive arrivals s)) = clClock (ssClient s)"
  "clRunning (ssClient (arrive arrivals s)) = clRunning (ssClient s)"
  by (simp_all add: arrive_def)

lemma cacheAttempt_cache: "ssCache (cacheAttempt r st v at ec eo s) = updatePropertyCache r st v at ec eo (ssCache s)"
  by (simp add: cacheAttempt_def)

text \<open>Induction over the iterations of a waiting loop.\<close>

lemma awaitAnswer_inv:
  assumes run: "awaitAnswer ask timedOut startedAt timeoutMs ts s = Ok (Some (x, s', ts'))" and "I s"
    and none: "\<And>net arrivals s s'. I s \<Longrightarrow> ask net (arrive arrivals s) = Ok (None, s') \<Longrightarrow> I s'"
    and some: "\<And>net arrivals s x s'. I s \<Longrightarrow> ask net (arrive arrivals s) = Ok (Some x, s') \<Longrightarrow> Q x s'"
    and late: "\<And>net s x s'. I s \<Longrightarrow> timedOut net s = (x, s') \<Longrightarrow> Q x s'"
  shows "Q x s'"
  using run \<open>I s\<close>
proof (induction ts arbitrary: s)
  case (Cons t ts)
  obtain net arrivals where t: "t = (net, arrivals)" by (cases t)
  from Cons.prems(1) obtain answer s1 where ask: "ask net (arrive arrivals s) = Ok (answer, s1)"
    by (auto simp: t obind_eq_Ok)
  show ?case
  proof (cases answer)
    case None
    with ask none Cons.prems(2) have "I s1" by blast
    with Cons None ask late show ?thesis by (auto simp: t split: if_splits prod.splits)
  next
    case (Some y)
    with Cons.prems ask some show ?thesis by (auto simp: t)
  qed
qed simp

text \<open>One of the ticks is late enough for the loop to end.\<close>

lemma awaitAnswer_returns:
  assumes "\<exists>(net, arrivals) \<in> set ts. netClock net - startedAt \<ge> timeoutMs" "I s"
    and clock: "\<And>s. I s \<Longrightarrow> clClock (ssClient s)"
    and ask: "\<And>net arrivals s. (net, arrivals) \<in> set ts \<Longrightarrow> I s \<Longrightarrow>
      returns (ask net (arrive arrivals s)) (\<lambda>(answer, s'). answer = None \<longrightarrow> I s')"
  shows "\<exists>x s' ts'. awaitAnswer ask timedOut startedAt timeoutMs ts s = Ok (Some (x, s', ts'))"
  using assms(1,2) ask
proof (induction ts arbitrary: s)
  case (Cons t ts)
  obtain net arrivals where t: "t = (net, arrivals)" by (cases t)
  obtain answer s1 where ask1: "ask net (arrive arrivals s) = Ok (answer, s1)" "answer = None \<longrightarrow> I s1"
    using Cons.prems(3) [of net arrivals s] Cons.prems(2) by (auto simp: t returns_def)
  show ?case
  proof (cases "answer = None \<and> \<not> netClock net - startedAt \<ge> timeoutMs")
    case True
    then have "\<exists>x s' ts'. awaitAnswer ask timedOut startedAt timeoutMs ts s1 = Ok (Some (x, s', ts'))"
      using Cons.prems ask1 by (intro Cons.IH) (auto simp: t)
    moreover have "clientNow net (ssClient s1) = netClock net" using clock True ask1 by (simp add: clientNow_def)
    ultimately show ?thesis using True ask1 by (simp add: t)
  next
    case False
    then show ?thesis using ask1 clock [of s1] by (auto simp: t clientNow_def split: option.split prod.split)
  qed
qed simp

section \<open>Blocking reads\<close>

lemma wfCache_attempt: "wfCache (ssCache s) \<Longrightarrow> wfCache (ssCache (cacheAttempt r st v at ec eo s))"
  using pc.update_wf [of "ssCache s" "recordAttempt st v at ec eo" r]
  by (simp add: cacheAttempt_cache updatePropertyCache_entry)

lemma lastStatus_attempt:
  assumes "wfCache (ssCache s)"
  shows "lastStatus (cacheAttempt r st v at ec eo s) r = st"
  using pc.lookup_updated [OF assms, of "recordAttempt st v at ec eo" r]
  by (auto simp: lastStatus_def cacheAttempt_cache updatePropertyCache_entry recordAttempt_def Let_def split: option.splits)

text \<open>The cache remembers the status a blocking read returns.\<close>

lemma readPropertyDetailed_remembers:
  assumes run: "readPropertyDetailed request timeoutMs ts s = Ok (Some ((st, v, ec, eo), s', ts'))" and "wfCache (ssCache s)"
  shows "wfCache (ssCache s') \<and> lastStatus s' request = st"
proof -
  define R where "R = (\<lambda>(reading :: Reading) s'. wfCache (ssCache s') \<and> lastStatus s' request = fst reading)"
  have R: "R (st, v, ec, eo) (cacheAttempt request st w at a b s)" if "wfCache (ssCache s)" for st v ec eo w at a b s
    using that by (simp add: R_def wfCache_attempt lastStatus_attempt)
  have started: "startReading request net s = Ok (Inl reading, s1) \<Longrightarrow> R reading s1"
    "startReading request net s = Ok (Inr it, s1) \<Longrightarrow> wfCache (ssCache s1)" for net reading it s1
    using assms(2)
    by (auto simp: startReading_def sendRead_def sending_def allocateInvokeId_def split: if_splits intro!: R)
  have poll: "pollReading i request net (arrive arrivals s) = Ok (None, s1) \<Longrightarrow> wfCache (ssCache s1)"
    "pollReading i request net (arrive arrivals s) = Ok (Some reading, s1) \<Longrightarrow> R reading s1"
    if "wfCache (ssCache s)" for i net arrivals s s1 reading
    using that by (auto simp: pollReading_def Let_def split: if_splits dest!: pollAnswer_keeps(3) intro!: R)
  from run obtain net arrivals rest started' s1 where ts: "ts = (net, arrivals) # rest"
    "startReading request net s = Ok (started', s1)"
    and goOn: "(case started' of Inl reading \<Rightarrow> returnB reading
       | Inr (i, at) \<Rightarrow> awaitAnswer (pollReading i request) (timedOutReading request) at timeoutMs) ts s1 =
       Ok (Some ((st, v, ec, eo), s', ts'))"
    by (auto simp: readPropertyDetailed_def bindB_def atTick_def obind_eq_Ok split: list.splits prod.splits)
  have "R (st, v, ec, eo) s'"
  proof (cases started')
    case (Inl reading)
    then show ?thesis using goOn ts(2) started(1) by (auto simp: returnB_def)
  next
    case (Inr it)
    obtain i at where it: "it = (i, at)" by (cases it)
    have run1: "awaitAnswer (pollReading i request) (timedOutReading request) at timeoutMs ts s1 =
        Ok (Some ((st, v, ec, eo), s', ts'))"
      using goOn by (simp add: Inr it)
    have wf: "wfCache (ssCache s1)" using started(2) ts(2) Inr by blast
    show ?thesis
      by (rule awaitAnswer_inv [where I = "\<lambda>s. wfCache (ssCache s)", OF run1 wf])
        (auto simp: timedOutReading_def dest: poll intro!: R)
  qed
  then show ?thesis by (simp add: R_def)
qed

lemma bindB_cong:
  assumes "\<And>x s' ts'. m ts s = Ok (Some (x, s', ts')) \<Longrightarrow> f x ts' s' = g x ts' s'"
  shows "bindB m f ts s = bindB m g ts s"
  using assms by (auto simp: bindB_def split: option.split intro!: obind_cong)

lemma bindB_assoc: "bindB (bindB m f) g = bindB m (\<lambda>x. bindB (f x) g)"
  by (auto simp: bindB_def fun_eq_iff obind_assoc split: option.split intro!: obind_cong)

lemma returnB_bind [simp]: "bindB (returnB x) f = f x"
  by (simp add: bindB_def returnB_def fun_eq_iff)

text \<open>What an operation makes of a reading, followed by another.\<close>

lemma reading_bind:
  "bindB (bindB m (\<lambda>(status, v, _, _). returnB (g status v))) f = bindB m (\<lambda>(status, v, _, _). f (g status v))"
  unfolding bindB_assoc by (intro ext bindB_cong) (auto split: prod.split)

text \<open>A client that has a clock and nothing in its inbox that it cannot decode.\<close>

definition clocked :: "Session \<Rightarrow> bool" where
  "clocked s \<longleftrightarrow> clClock (ssClient s) \<and> harmlessClient (ssClient s)"

lemma clocked_simps [simp]:
  "clocked (cacheAttempt r st v at ec eo s) = clocked s" "clocked (s\<lparr>ssSent := d\<rparr>) = clocked s"
  "clocked (s\<lparr>ssNextInvokeId := i\<rparr>) = clocked s"
  by (simp_all add: clocked_def)

lemma clocked_arrive: "clocked s \<Longrightarrow> (\<forall>(source, packet) \<in> set arrivals. harmless packet) \<Longrightarrow> clocked (arrive arrivals s)"
  by (auto simp: clocked_def arrive_def harmlessClient_def)

lemma clocked_received:
  "clocked s \<Longrightarrow> receives (ssClient s) c \<Longrightarrow> clClock c = clClock (ssClient s) \<Longrightarrow> clocked (s\<lparr>ssClient := c\<rparr>)"
  by (auto simp: clocked_def receives_def harmlessClient_def)

lemma returns_conj: "returns m P \<Longrightarrow> (\<And>x. m = Ok x \<Longrightarrow> Q x) \<Longrightarrow> returns m (\<lambda>x. P x \<and> Q x)"
  by (auto simp: returns_def)

lemma pollReading_clocked:
  assumes "clocked s"
  shows "returns (pollReading i request net s) (\<lambda>(answer, s'). clocked s')"
proof -
  have "returns (pollAnswer net i request s) (\<lambda>(answer, s'). clocked s')"
    using pollAnswer_returns [of s net i request] pollAnswer_keeps(1) [of net i request s] assms
    by (fastforce simp: returns_def clocked_def receives_def harmlessClient_def)
  then show ?thesis unfolding pollReading_def Let_def by (rule returns_obind) auto
qed

lemma priorityArray_keeps:
  assumes "pollReadPriorityArrayStatus net i request c = Ok (answer, c')"
  shows "clClock c' = clClock c"
  using assms receive_keeps [of c]
  by (auto simp: pollReadPriorityArrayStatus_def split: if_splits prod.splits option.splits)

lemma pollWriteProperty_keeps:
  assumes "pollWriteProperty net i c = Ok (answer, c')"
  shows "clClock c' = clClock c"
  using assms receive_keeps [of c] by (auto simp: pollWriteProperty_def split: if_splits prod.splits option.splits)

lemma priorityArray_returns:
  assumes "harmlessClient c"
  shows "returns (pollReadPriorityArrayStatus net i request c) (\<lambda>(answer, c'). receives c c')"
  unfolding pollReadPriorityArrayStatus_def
proof (rule receive_returns [where none = "\<lambda>c. ((readPoll PollNone emptyValue, None), c)", OF assms])
  fix source packet c'
  assume h: "harmless packet" and r: "receives c c'"
  have "parseReadPriorityArrayAck packet i request \<noteq> Undef"
    using safe_parseReadPriorityArrayAck [of packet] h by (auto simp: harmless_def safe_def)
  moreover have "parseReadPropertyError packet i \<noteq> Undef"
    using safe_parseReadPropertyError [of packet i] by (simp add: safe_def)
  ultimately show "returns (obind (classifyReadPropertyResponse packet i) (\<lambda>kind.
        obind (case kind of
            RpAck \<Rightarrow> (case parseReadPriorityArrayAck packet i request of Undef \<Rightarrow> Undef
                | Fail \<Rightarrow> Ok (readPoll PollDecodeError emptyValue, None)
                | Ok slots \<Rightarrow> Ok (readPoll PollAck emptyValue, Some slots))
          | RpError \<Rightarrow> (case parseReadPropertyError packet i of Undef \<Rightarrow> Undef
                | Fail \<Rightarrow> Ok (readPoll PollDecodeError emptyValue, None)
                | Ok (v, errorClass, errorCode) \<Rightarrow>
                    Ok (\<lparr>rpStatus = PollError, rpValue = emptyValue, rpErrorClass = errorClass,
                         rpErrorCode = errorCode\<rparr>, None))
          | RpReject \<Rightarrow> Ok (readPoll PollReject emptyValue, None)
          | RpAbort \<Rightarrow> Ok (readPoll PollAbort emptyValue, None)
          | RpUnrelated \<Rightarrow> Ok (readPoll PollNone emptyValue, None))
          (\<lambda>result. Ok (result, c')))) (\<lambda>(answer, c'). receives c c')"
    using r by (intro returns_obind [OF classify_returns(1)])
      (auto split: BacnetReadPropertyResponseKind.split outcome.split)
qed simp_all

lemma pollWriteProperty_returns:
  assumes "harmlessClient c"
  shows "returns (pollWriteProperty net i c) (\<lambda>(answer, c'). receives c c')"
proof -
  have "classifyWritePropertyResponse packet i \<noteq> Fail" for packet
    unfolding classifyWritePropertyResponse_def by (rule on_fail_not_Fail)
  then have "returns (classifyWritePropertyResponse packet i) (\<lambda>x. True)" for packet
    by (auto intro!: returns_safe simp: safety)
  then show ?thesis
    using receive_receives [of c]
    by (auto simp: pollWriteProperty_def split: option.split prod.split intro!: returns_obind)
qed

text \<open>A poll of the client that keeps its clock and only takes datagrams keeps the session clocked.\<close>

lemma receiving_clocked:
  assumes "clocked s" "harmlessClient (ssClient s) \<Longrightarrow> returns m (\<lambda>(answer, c). receives (ssClient s) c)"
    "\<And>answer c. m = Ok (answer, c) \<Longrightarrow> clClock c = clClock (ssClient s)"
  shows "returns (receiving s m) (\<lambda>(answer, s'). clocked s')"
proof -
  have "returns m (\<lambda>(answer, c). receives (ssClient s) c)" using assms(1,2) by (simp add: clocked_def)
  then have "returns m (\<lambda>x. (case x of (answer, c) \<Rightarrow> receives (ssClient s) c) \<and> clClock (snd x) = clClock (ssClient s))"
    by (rule returns_conj) (metis assms(3) prod.collapse)
  then show ?thesis
    unfolding receiving_def by (rule returns_obind) (auto intro!: clocked_received [OF assms(1)])
qed

lemma pollPriorityArray_clocked:
  "clocked s \<Longrightarrow> returns (pollPriorityArray i request net s) (\<lambda>(answer, s'). clocked s')"
  unfolding pollPriorityArray_def Let_def
  by (rule returns_obind [OF receiving_clocked [OF _ priorityArray_returns priorityArray_keeps]]) auto

lemma pollWriting_clocked:
  "clocked s \<Longrightarrow> returns (pollWriting answered i net s) (\<lambda>(answer, s'). clocked s')"
  unfolding pollWriting_def Let_def
  by (rule returns_obind [OF receiving_clocked [OF _ pollWriteProperty_returns pollWriteProperty_keeps]]) auto

text \<open>Starting a request takes the time of the first tick.\<close>

lemma sendRead_started:
  "clocked s \<Longrightarrow> returns (sendRead net request i s) (\<lambda>(sent, s'). clocked s')"
  by (rule returns_mono [OF sendRead_returns]) auto

lemma sendWrite_returns:
  "returns (sendWritePropertyPlain net c d request v i) (\<lambda>x. True)" "returns (sendWriteProperty net c d ob p v options i) (\<lambda>x. True)"
proof -
  have "safe (buildWritePropertyRequestPlain kMaxWritePropertyRequestSize request v i)"
    "safe (buildWritePropertyRequest kMaxWritePropertyRequestSize ob p v options i)"
    unfolding buildWritePropertyRequestPlain_def
    by (rule safe_buildWritePropertyRequest, simp add: kMaxWritePropertyRequestSize_def)+
  then show "returns (sendWritePropertyPlain net c d request v i) (\<lambda>x. True)"
    "returns (sendWriteProperty net c d ob p v options i) (\<lambda>x. True)"
    by (auto simp: sendWritePropertyPlain_def sendWriteProperty_def sendWriteBuilt_def safe_def Let_def
        split: outcome.split prod.split)
qed

lemma sendingWrite_clocked:
  "clocked s \<Longrightarrow> returns m (\<lambda>x. True) \<Longrightarrow> returns (sendingWrite s m) (\<lambda>(status, s'). clocked s')"
  unfolding sendingWrite_def by (erule returns_obind) auto

text \<open>A blocking operation: a start at the first tick, then a wait.\<close>

lemma blocking_returns:
  assumes "ts = (net0, arrivals0) # rest" "clocked s"
    and late: "\<exists>(net, arrivals) \<in> set ts. netClock net - netClock net0 \<ge> timeoutMs"
    and arrivals: "\<forall>(net, arrivals) \<in> set ts. \<forall>(source, packet) \<in> set arrivals. harmless packet"
    and start: "returns (begins net0 s) (\<lambda>(started, s'). clocked s' \<and>
      (\<forall>i at. started = Inr (i, at) \<longrightarrow> at = netClock net0))"
    and ask: "\<And>i net s. clocked s \<Longrightarrow> returns (ask i net s) (\<lambda>(answer, s'). clocked s')"
  shows "\<exists>x s' ts'. bindB (atTick begins) (\<lambda>started. case started of Inl y \<Rightarrow> returnB (refused y)
     | Inr (i, at) \<Rightarrow> awaitAnswer (ask i) timedOut at timeoutMs) ts s = Ok (Some (x, s', ts'))"
proof -
  obtain started s1 where s1: "begins net0 s = Ok (started, s1)" "clocked s1"
    "\<And>i at. started = Inr (i, at) \<Longrightarrow> at = netClock net0"
    using start by (auto simp: returns_def)
  show ?thesis
  proof (cases started)
    case (Inl y)
    then show ?thesis using assms(1) s1 by (simp add: bindB_def atTick_def returnB_def)
  next
    case (Inr it)
    obtain i where it: "it = (i, netClock net0)" using Inr s1(3) by (cases it) auto
    have "\<exists>x s' ts'. awaitAnswer (ask i) timedOut (netClock net0) timeoutMs ts s1 = Ok (Some (x, s', ts'))"
      using late s1(2)
    proof (rule awaitAnswer_returns [where I = clocked])
      fix net arrivals s
      assume "(net, arrivals) \<in> set ts" "clocked s"
      then show "returns (ask i net (arrive arrivals s)) (\<lambda>(answer, s'). answer = None \<longrightarrow> clocked s')"
        using arrivals by (intro returns_mono [OF ask] clocked_arrive) auto
    qed (simp add: clocked_def)
    then show ?thesis using assms(1) s1(1) by (simp add: bindB_def atTick_def Inr it)
  qed
qed

lemma start_ticks:
  assumes "clocked s"
  shows "returns (startReading request net s) (\<lambda>(started, s'). clocked s' \<and>
      (\<forall>i at. started = Inr (i, at) \<longrightarrow> at = netClock net))"
proof (cases "isBusy s")
  case False
  obtain i s1 where alloc: "allocateInvokeId s = (i, s1)" by force
  then have "clocked s1" using assms by (auto simp: allocateInvokeId_def)
  then show ?thesis
    using False unfolding startReading_def
    by (auto simp: alloc clientNow_def clocked_def [of s1] intro!: returns_obind [OF sendRead_returns])
qed (use assms in \<open>simp add: startReading_def\<close>)

section \<open>Claims on blocking operations\<close>

text \<open>
  Reading the status of an object through a process object, which takes the statuses from the
  cache, gives what the session's own \<open>readObjectStatus\<close> gives.
\<close>

lemma remote_property:
  assumes "wfCache (ssCache s)"
  shows "readRemoteProperty ob p timeoutMs ts s =
    bindB (readPropertyDetailed (propertyOf ob p kBacnetNoArrayIndex) timeoutMs) (\<lambda>(status, v, _, _). returnB (status, v)) ts s"
  unfolding readRemoteProperty_def readPropertyB_def bindB_assoc
  using readPropertyDetailed_remembers [OF _ assms]
  by (intro bindB_cong) (auto simp: bindB_def returnB_def split: prod.split)

lemma bindB_cong_wf:
  assumes "wfCache (ssCache s)" "\<And>s. wfCache (ssCache s) \<Longrightarrow> m ts s = m' ts s"
    and "\<And>x s' ts'. m' ts s = Ok (Some (x, s', ts')) \<Longrightarrow> wfCache (ssCache s')"
    and "\<And>x s' ts'. wfCache (ssCache s') \<Longrightarrow> f x ts' s' = g x ts' s'"
  shows "bindB m f ts s = bindB m' g ts s"
proof -
  have "bindB m f ts s = bindB m' f ts s" using assms(1,2) by (simp add: bindB_def)
  also have "\<dots> = bindB m' g ts s" using assms(3,4) by (intro bindB_cong) blast
  finally show ?thesis .
qed

lemma reading_wf:
  assumes "bindB (readPropertyDetailed request timeoutMs) (\<lambda>(status, v, _, _). returnB (f status v)) ts s = Ok (Some (x, s', ts'))"
    "wfCache (ssCache s)"
  shows "wfCache (ssCache s')"
  using assms readPropertyDetailed_remembers [of request timeoutMs ts s]
  by (auto simp: bindB_def returnB_def obind_eq_Ok split: option.splits prod.splits)

lemma remote_then:
  assumes "wfCache (ssCache s)"
  shows "bindB (readRemoteProperty ob p timeoutMs) f ts s =
    bindB (readPropertyDetailed (propertyOf ob p kBacnetNoArrayIndex) timeoutMs) (\<lambda>(status, v, _, _). f (status, v)) ts s"
proof -
  have "bindB (readRemoteProperty ob p timeoutMs) f ts s =
      bindB (bindB (readPropertyDetailed (propertyOf ob p kBacnetNoArrayIndex) timeoutMs)
        (\<lambda>(status, v, _, _). returnB (status, v))) f ts s"
    by (simp add: bindB_def remote_property [OF assms])
  then show ?thesis by (simp only: reading_bind [of _ Pair])
qed

lemma remote_status_property:
  "wfCache (ssCache s) \<Longrightarrow>
    readRemoteStatusProperty ob p timeoutMs decode unknown ts s = readStatusProperty ob p timeoutMs decode unknown ts s"
  unfolding readRemoteStatusProperty_def readStatusProperty_def by (simp add: remote_then)

lemma status_property_wf:
  assumes "readStatusProperty ob p timeoutMs decode unknown ts s = Ok (Some (x, s', ts'))" "wfCache (ssCache s)"
  shows "wfCache (ssCache s')"
  by (rule reading_wf [OF assms [unfolded readStatusProperty_def]])

text \<open>
  C35: A process object and the session agree on the status of an object: reading it through
  \<open>BacnetProcessObject::readStatus\<close>, which takes every property's status from the cache afterwards,
  has the same result, the same effect on the session and takes the same time as
  \<open>BacnetDeviceSession::readObjectStatus\<close>. The cache cannot have lost or replaced the entry in between.
\<close>

theorem remote_status_is_session_status:
  assumes "wfCache (ssCache s)"
  shows "readStatusB ob timeoutMs presentValueRequired ts s = readObjectStatusB ob timeoutMs presentValueRequired ts s"
proof -
  note step = bindB_cong_wf [OF _ remote_status_property status_property_wf]
  show ?thesis
    unfolding readStatusB_def readObjectStatusB_def remote_then [OF assms]
    by (rule bindB_cong_wf [OF assms refl])
      (use assms in \<open>auto simp: split_paired_all intro!: step dest: readPropertyDetailed_remembers\<close>)
qed

theorem remote_status_is_session_status_witness:
  "readStatusB emptyObjectId 1000 True [(demoNet True 5, [])] demoSession =
   readObjectStatusB emptyObjectId 1000 True [(demoNet True 5, [])] demoSession"
  by (rule remote_status_is_session_status) (simp add: demoSession_def newSession_def wfCache_empty)

text \<open>Ticks whose datagrams the client can decode.\<close>

definition harmlessTicks :: "Tick list \<Rightarrow> bool" where
  "harmlessTicks ts \<longleftrightarrow> (\<forall>(net, arrivals) \<in> set ts. \<forall>(source, packet) \<in> set arrivals. harmless packet)"

lemma priorityArray_starts:
  assumes "clocked s"
  shows "returns (if isBusy s then Ok (Inl PrBusy, s)
      else let (invokeId, s) = allocateInvokeId s
        in obind (sendRead net request invokeId s) (\<lambda>(sent, s).
          Ok (if sent then Inr (invokeId, clientNow net (ssClient s)) else Inl PrSendFailed, s)))
    (\<lambda>(started, s'). clocked s' \<and> (\<forall>i at. started = Inr (i, at) \<longrightarrow> at = netClock net))"
proof -
  obtain i s1 where alloc: "allocateInvokeId s = (i, s1)" by force
  then have "clocked s1" using assms by (auto simp: allocateInvokeId_def)
  then show ?thesis
    using assms by (auto simp: alloc clientNow_def clocked_def intro!: returns_obind [OF sendRead_returns])
qed

lemma write_starts:
  assumes sends: "\<And>s i. returns (sends s i) (\<lambda>x. True)" and "clocked s"
  shows "returns (if isBusy s then Ok (Inl DwBusy, s)
      else if disabled then Ok (Inl DwDisabled, s)
      else let (invokeId, s) = allocateInvokeId s
        in obind (sendingWrite s (sends s invokeId)) (\<lambda>(status, s).
          Ok (case refuses status of Some refusal \<Rightarrow> Inl refusal
              | None \<Rightarrow> Inr (invokeId, clientNow net (ssClient s)), s)))
    (\<lambda>(started, s'). clocked s' \<and> (\<forall>i at. started = Inr (i, at) \<longrightarrow> at = netClock net))"
proof -
  obtain i s1 where alloc: "allocateInvokeId s = (i, s1)" by force
  then have "clocked s1" using assms(2) by (auto simp: allocateInvokeId_def)
  then show ?thesis
    using assms(2) by (auto simp: alloc clientNow_def clocked_def intro!: returns_obind [OF sendingWrite_clocked [OF _ sends]]
        split: option.splits)
qed

text \<open>
  C36: A blocking read or write comes back: if the client has a clock and the clock reaches the
  timeout, measured from the time the request was sent, at one of the iterations, the call has
  returned by then, whatever arrives in the meantime (short of the datagrams the decoders cannot
  handle), whatever the transport does and whether or not the device answers.
\<close>

theorem blocking_calls_return:
  assumes "clClock (ssClient s)" "harmlessClient (ssClient s)" "harmlessTicks ts"
    and ts: "ts = (net0, arrivals0) # rest"
    and late: "\<exists>(net, arrivals) \<in> set ts. netClock net - netClock net0 \<ge> timeoutMs"
  shows "(\<exists>r. readPropertyDetailed request timeoutMs ts s = Ok (Some r)) \<and>
    (\<exists>r. readPriorityArrayB ob timeoutMs ts s = Ok (Some r)) \<and>
    (\<exists>r. writePropertyPlainB ob p v timeoutMs arrayIndex ts s = Ok (Some r)) \<and>
    (\<exists>r. writePropertyB ob p v options timeoutMs ts s = Ok (Some r))"
proof -
  have c: "clocked s" using assms(1,2) by (simp add: clocked_def)
  have h: "\<forall>(net, arrivals) \<in> set ts. \<forall>(source, packet) \<in> set arrivals. harmless packet"
    using assms(3) by (simp add: harmlessTicks_def)
  note wait = blocking_returns [OF ts c late h]
  have "\<exists>x s' ts'. readPropertyDetailed request timeoutMs ts s = Ok (Some (x, s', ts'))"
    unfolding readPropertyDetailed_def by (rule wait) (rule start_ticks [OF c], rule pollReading_clocked)
  moreover have "\<exists>x s' ts'. readPriorityArrayB ob timeoutMs ts s = Ok (Some (x, s', ts'))"
    unfolding readPriorityArrayB_def Let_def
    by (rule wait) (rule priorityArray_starts [OF c, unfolded Let_def], rule pollPriorityArray_clocked)
  moreover have "\<exists>x s' ts'. writePropertyPlainB ob p v timeoutMs arrayIndex ts s = Ok (Some (x, s', ts'))"
    unfolding writePropertyPlainB_def
    by (rule wait) (rule write_starts [OF sendWrite_returns(1) c], rule pollWriting_clocked)
  moreover have "\<exists>x s' ts'. writePropertyB ob p v options timeoutMs ts s = Ok (Some (x, s', ts'))"
    unfolding writePropertyB_def
    by (rule wait) (rule write_starts [OF sendWrite_returns(2) c], rule pollWriting_clocked)
  ultimately show ?thesis by blast
qed

theorem blocking_calls_return_witness:
  "\<exists>r. readPropertyDetailed emptyRequest 1000 [(demoNet True 4294967000, []), (demoNet True 704, [])] demoSession = Ok (Some r)"
proof -
  have c: "clClock (ssClient demoSession)" "harmlessClient (ssClient demoSession)"
    by (simp_all add: demoSession_def newSession_def demoClient_def newClient_def harmlessClient_def)
  show ?thesis
    using blocking_calls_return [OF c, of "[(demoNet True 4294967000, []), (demoNet True 704, [])]" "demoNet True 4294967000"]
    by (simp add: harmlessTicks_def demoNet_def)
qed

lemma unanswered:
  assumes "clInbox (ssClient s) = []"
  shows "pollAnswer net i request s = Ok (readPoll PollNone emptyValue, s)"
  using assms by (simp add: pollAnswer_def receiving_def pollReadPropertyStatus_def pollRead_def receive_def)

lemma arrive_Nil [simp]: "arrive [] s = s"
  by (simp add: arrive_def)

lemma readPoll_fields [simp]: "rpStatus (readPoll st v) = st" "rpValue (readPoll st v) = v"
  "rpErrorClass (readPoll st v) = 0" "rpErrorCode (readPoll st v) = 0"
  by (simp_all add: readPoll_def)


definition clocklessSession :: Session where
  "clocklessSession = newSession ((newClient True False)\<lparr>clRunning := True\<rparr>) 7 demoPeer"

definition nameRequest :: BacnetPropertyRequest where
  "nameRequest = \<lparr>rqObject = \<lparr>objType = 8, objInstance = 7\<rparr>, rqProperty = PropObjectName,
     rqArrayIndex = kBacnetNoArrayIndex\<rparr>"


section \<open>Relinquishing all priorities\<close>

text \<open>The result before priority \<open>n\<close> is written.\<close>

definition relinquishedBefore :: "bool \<Rightarrow> nat \<Rightarrow> BacnetPriorityRelinquishResult" where
  "relinquishedBefore skip n =
     \<lparr>rrStatus = DwAck, rrCompleted = of_nat (n - 1 - (if skip \<and> 6 < n then 1 else 0)),
      rrSkipped = (if skip \<and> 6 < n then 6 else 0), rrFailed = 0\<rparr>"

definition relinquishedUpTo :: "bool \<Rightarrow> BacnetPriorityRelinquishResult \<Rightarrow> bool" where
  "relinquishedUpTo skip r \<longleftrightarrow> r = relinquishedBefore skip 17 \<or>
     (\<exists>n status. 1 \<le> n \<and> n \<le> 16 \<and> \<not> (skip \<and> n = 6) \<and> status \<noteq> DwAck \<and>
       r = (relinquishedBefore skip n)\<lparr>rrStatus := status, rrFailed := of_nat n\<rparr>)"

lemma small_u8: "n \<le> 16 \<Longrightarrow> (of_nat n :: u8) = 6 \<longleftrightarrow> n = 6" "n \<le> 16 \<Longrightarrow> unat (of_nat n :: u8) = n"
proof -
  assume n: "n \<le> 16"
  then show u: "unat (of_nat n :: u8) = n" by (simp add: unat_of_nat)
  have "(of_nat n :: u8) = 6 \<longleftrightarrow> unat (of_nat n :: u8) = unat (6 :: u8)" by (simp only: word_unat_eq_iff)
  then show "(of_nat n :: u8) = 6 \<longleftrightarrow> n = 6" by (simp add: u)
qed

lemma relinquishEach_result:
  assumes "relinquishEach ob skip timeoutMs (map of_nat [n..<17]) (relinquishedBefore skip n) ts s = Ok (Some (r, s', ts'))"
    "1 \<le> n" "n \<le> 17"
  shows "relinquishedUpTo skip r"
  using assms(3,1,2)
proof (induction n arbitrary: ts s rule: inc_induct)
  case base
  then show ?case by (simp add: returnB_def relinquishedUpTo_def)
next
  case (step n)
  have upt: "[n..<17] = n # [Suc n..<17]" using step.hyps by (simp add: upt_conv_Cons)
  show ?case
  proof (cases "skip \<and> n = 6")
    case True
    have "(relinquishedBefore skip n)\<lparr>rrSkipped := 6\<rparr> = relinquishedBefore skip (Suc n)"
      using True by (simp add: relinquishedBefore_def)
    moreover have "skip = True" "(of_nat n :: u8) = 6" using True by simp_all
    ultimately have "relinquishEach ob skip timeoutMs (map of_nat [Suc n..<17]) (relinquishedBefore skip (Suc n)) ts s =
        Ok (Some (r, s', ts'))"
      using step.prems(1) unfolding upt list.map relinquishEach.simps kMinimumOnOffPriority_def by (simp only: simp_thms if_True)
    then show ?thesis by (rule step.IH) simp
  next
    case False
    then obtain status s1 ts1 where wr: "relinquishPresentValueB ob (of_nat n) timeoutMs ts s = Ok (Some (status, s1, ts1))"
      using step small_u8(1) [of n] by (auto simp: upt kMinimumOnOffPriority_def bindB_def split: option.splits)
    show ?thesis
    proof (cases "status = DwAck")
      case True
      have "(relinquishedBefore skip n)\<lparr>rrStatus := DwAck, rrCompleted := rrCompleted (relinquishedBefore skip n) + 1\<rparr> =
          relinquishedBefore skip (Suc n)"
        using False step.prems(2) by (cases n) (auto simp: relinquishedBefore_def of_nat_diff)
      then show ?thesis
        using False True wr step.prems step.hyps small_u8(1) [of n]
        by (auto simp: upt kMinimumOnOffPriority_def bindB_def intro!: step.IH)
    next
      case ne: False
      then have "r = (relinquishedBefore skip n)\<lparr>rrStatus := status, rrFailed := of_nat n\<rparr>"
        using False wr step.prems step.hyps small_u8(1) [of n]
        by (auto simp: upt kMinimumOnOffPriority_def bindB_def returnB_def)
      then show ?thesis using ne False step by (auto simp: relinquishedUpTo_def)
    qed
  qed
qed


definition demoRelinquish :: "(BacnetPriorityRelinquishResult \<times> Session \<times> Tick list) option outcome" where
  "demoRelinquish = relinquishAllPrioritiesB \<lparr>objType = 2, objInstance = 7\<rparr> True 1000 [(demoNet False 0, [])] demoSession"


end
