(* ===== verification/ScanLaws.thy ===== *)
theory ScanLaws
  imports SessionLaws
begin

text \<open>
  An object list scan ends: every read that finishes, by an answer, a timeout or a refusal of the
  transport, brings it closer to its end, so that it costs at most one request for the count and four
  for each entry it may look at.
\<close>

section \<open>What is left to read\<close>

definition entriesLeft :: "BacnetObjectListScanJob \<Rightarrow> nat" where
  "entriesLeft job = (if sjCurrentIndex job = 0 then 0 else unat (sjMaxIndex job) + 1 - unat (sjCurrentIndex job))"

definition atObject :: "BacnetObjectListScanJob \<Rightarrow> bool" where
  "atObject job \<longleftrightarrow> sjHasStoreIndex job \<and> sjResults job \<noteq> None"

text \<open>Between two reads.\<close>

definition idleReads :: "BacnetObjectListScanJob \<Rightarrow> nat" where
  "idleReads job =
     (if atObject job then wantedReads job + 4 * (unat (sjMaxIndex job) - unat (sjCurrentIndex job))
      else 4 * entriesLeft job)"

definition maxReads :: "BacnetObjectScanOptions \<Rightarrow> nat" where
  "maxReads options = 1 + 4 * unat (soMaxObjectListEntries options)"

text \<open>The read under way included.\<close>

definition readsLeft :: "BacnetObjectListScanJob \<Rightarrow> nat" where
  "readsLeft job = (if sjPhase job = PhReadObjectListCount then maxReads (sjOptions job) else idleReads job)"

text \<open>What the read under way is for.\<close>

definition wanted :: "BacnetObjectListScanPhase \<Rightarrow> BacnetScannedObject \<Rightarrow> bool" where
  "wanted phase scanned \<longleftrightarrow>
     phase = PhReadObjectName \<and> scnObjectNameStatus scanned = DrSkipped \<or>
     phase = PhReadDescription \<and> scnDescriptionStatus scanned = DrSkipped \<or>
     phase = PhReadPresentValue \<and> scnPresentValueStatus scanned = DrSkipped"

definition reading :: "BacnetObjectListScanJob \<Rightarrow> bool" where
  "reading job \<longleftrightarrow> sjPhase job = PhReadObjectListCount \<and> \<not> atObject job \<or>
     sjPhase job = PhReadObjectListEntry \<and> \<not> atObject job \<and> sjCurrentIndex job \<noteq> 0 \<and>
       sjCurrentIndex job \<le> sjMaxIndex job \<or>
     atObject job \<and> (\<exists>scanned. scannedAt job = Ok scanned \<and> wanted (sjPhase job) scanned)"

lemma wanted_phases [simp]: "\<not> wanted PhReadObjectListCount scanned" "\<not> wanted PhReadObjectListEntry scanned"
  by (simp_all add: wanted_def)

lemma wantedReads_at: "scannedAt job = Ok scanned \<Longrightarrow> sjHasStoreIndex job \<Longrightarrow>
  wantedReads job = of_bool (scnObjectNameStatus scanned = DrSkipped) + of_bool (scnDescriptionStatus scanned = DrSkipped) +
    of_bool (scnPresentValueStatus scanned = DrSkipped)"
  by (simp add: wantedReads_def)

lemma wanted_positive: "scannedAt job = Ok scanned \<Longrightarrow> sjHasStoreIndex job \<Longrightarrow> wanted phase scanned \<Longrightarrow> 0 < wantedReads job"
  by (auto simp: wantedReads_at wanted_def)

lemma reading_left: "reading job \<Longrightarrow> 0 < readsLeft job"
  by (auto simp: reading_def readsLeft_def maxReads_def idleReads_def entriesLeft_def word_le_nat_alt atObject_def wanted_positive)

text \<open>Fields the measure does not look at.\<close>

lemma scan_simps [simp]:
  "atObject (job\<lparr>sjPhase := phase\<rparr>) = atObject job" "atObject (job\<lparr>sjRequest := request\<rparr>) = atObject job"
  "atObject (clearScanInFlight job) = atObject job"
  "wantedReads (job\<lparr>sjPhase := phase\<rparr>) = wantedReads job" "wantedReads (job\<lparr>sjRequest := request\<rparr>) = wantedReads job"
  "wantedReads (clearScanInFlight job) = wantedReads job"
  "entriesLeft (job\<lparr>sjPhase := phase\<rparr>) = entriesLeft job" "entriesLeft (job\<lparr>sjRequest := request\<rparr>) = entriesLeft job"
  "entriesLeft (clearScanInFlight job) = entriesLeft job"
  by (simp_all add: atObject_def wantedReads_def entriesLeft_def)

lemma idleReads_simps [simp]:
  "idleReads (job\<lparr>sjPhase := phase\<rparr>) = idleReads job" "idleReads (job\<lparr>sjRequest := request\<rparr>) = idleReads job"
  "idleReads (clearScanInFlight job) = idleReads job"
  unfolding idleReads_def by simp_all

section \<open>Steps of the scan\<close>

lemma unat_next: "(i :: u32) + 1 \<noteq> 0 \<Longrightarrow> unat (i + 1) = unat i + 1"
  by (metis Suc_eq_plus1 unatSuc add.commute)

lemma entriesLeft_skip:
  assumes "sjCurrentIndex job' = sjCurrentIndex job + 1" "sjMaxIndex job' = sjMaxIndex job"
  shows "entriesLeft job' \<le> unat (sjMaxIndex job) - unat (sjCurrentIndex job)"
  using unat_next [of "sjCurrentIndex job"] by (auto simp: entriesLeft_def assms)

lemma nextScanRead_left:
  assumes "nextScanRead device job = Ok (job', Some (request, phase))"
  shows "phase \<noteq> PhReadObjectListCount \<and> reading (job'\<lparr>sjPhase := phase, sjRequest := request\<rparr>) \<and>
    idleReads job' \<le> idleReads job \<and> sjOptions job' = sjOptions job \<and> sjStatus job' = sjStatus job"
proof (cases "atObject job")
  case True
  then obtain scanned where sc: "scannedAt job = Ok scanned"
    using assms by (auto simp: nextScanRead_def atObject_def obind_eq_Ok Let_def)
  define next' where "next' = job\<lparr>sjHasStoreIndex := False, sjCurrentIndex := sjCurrentIndex job + 1\<rparr>"
  have "idleReads next' \<le> idleReads job"
    using True entriesLeft_skip [of next' job] by (simp add: idleReads_def atObject_def next'_def)
  then show ?thesis
    using assms True sc
    by (auto simp: nextScanRead_def Let_def reading_def wanted_def atObject_def next'_def not_less split: if_splits)
next
  case False
  then show ?thesis
    using assms by (auto simp: nextScanRead_def Let_def reading_def atObject_def not_less split: if_splits)
qed

lemma sendRead_sent:
  assumes "sendRead net request i s = Ok (sent, s')"
  shows "\<exists>d. s' = s\<lparr>ssSent := d\<rparr> \<and> length d \<le> length (ssSent s) + 1"
  using assms
  by (auto simp: sendRead_def sending_def sendReadProperty_def sendBuilt_def transmit_def
      intro: exI [of _ "ssSent s'"] split: if_splits outcome.splits)

lemma startScanRead_step:
  assumes "startScanRead net a request phase nowMs s = Ok (started, s')"
  shows "(\<exists>i. ssScans s' a = (if started
      then (ssScans s a)\<lparr>sjPhase := phase, sjRequest := request, sjInvokeId := i, sjStartedAtMs := nowMs, sjRequestInFlight := True\<rparr>
      else (ssScans s a)\<lparr>sjPhase := phase, sjRequest := request\<rparr>)) \<and>
    length (ssSent s') \<le> length (ssSent s) + 1 \<and> ssInFlightScan s' = ssInFlightScan s \<and> ssClient s' = ssClient s"
proof -
  let ?flight = "(ssScans s a)\<lparr>sjPhase := phase, sjRequest := request\<rparr>"
  obtain i s0 where alloc: "allocateInvokeId s = (i, s0)" by (cases "allocateInvokeId s")
  then have s0: "ssScans s0 = ssScans s" "ssSent s0 = ssSent s" "ssInFlightScan s0 = ssInFlightScan s" "ssClient s0 = ssClient s"
    by (auto simp: allocateInvokeId_def)
  obtain sent s1 where s1: "sendRead net request i (putScan a ?flight s0) = Ok (sent, s1)"
    using assms by (auto simp: startScanRead_def alloc s0 Let_def)
  then obtain d where d: "s1 = (putScan a ?flight s0)\<lparr>ssSent := d\<rparr>" "length d \<le> length (ssSent s) + 1"
    using sendRead_sent [OF s1] s0(2) by auto
  have "started = sent \<and> s' = (if sent then putScan a (?flight\<lparr>sjInvokeId := i, sjStartedAtMs := nowMs, sjRequestInFlight := True\<rparr>) s1
      else cacheAttempt request PrSendFailed None nowMs 0 0 s1)"
    using assms s1 d(1) by (simp add: startScanRead_def alloc s0 Let_def split: if_splits)
  then show ?thesis using d s0 by (cases sent) auto
qed

lemma recordScanned_wanted:
  assumes "wanted phase scanned" "status \<noteq> DrSkipped" "scannedAt job = Ok scanned" "sjHasStoreIndex job"
  shows "wantedReads (storeScanned (recordScanned phase status v scanned) job) < wantedReads job"
  using assms scannedAt_store [OF assms(3), of "recordScanned phase status v scanned"]
  by (auto simp: wantedReads_at wanted_def recordScanned_def Let_def split: option.split)

lemma ended [simp]:
  "sjStatus (ssScans (completeObjectListScan a s) a) = SjComplete" "ssSent (completeObjectListScan a s) = ssSent s"
  "ssClient (completeObjectListScan a s) = ssClient s" "ssClient (failObjectListScan a st s) = ssClient s"
  "sjStatus (ssScans (failObjectListScan a st s) a) = SjFailed" "ssSent (failObjectListScan a st s) = ssSent s"
  by (simp_all add: completeObjectListScan_def failObjectListScan_def releaseObjectListScan_def Let_def)

text \<open>A read that finishes: the scan is over, or less is left than before.\<close>

definition lessLeft :: "nat \<Rightarrow> nat \<Rightarrow> Session \<Rightarrow> BacnetObjectListScanJob \<Rightarrow> bool \<Rightarrow> Session \<Rightarrow> bool" where
  "lessLeft n a s job again s' \<longleftrightarrow> ssSent s' = ssSent s \<and> ssClient s' = ssClient s \<and>
     (if again
      then idleReads (ssScans s' a) < n \<and> sjOptions (ssScans s' a) = sjOptions job \<and>
        sjStatus (ssScans s' a) = sjStatus job \<and> sjRequestInFlight (ssScans s' a) = sjRequestInFlight job
      else sjStatus (ssScans s' a) \<noteq> SjActive)"

lemma finishCountRead_left:
  assumes "finishCountRead a status v s = (again, s')" "\<not> atObject (ssScans s a)"
  shows "lessLeft (maxReads (sjOptions (ssScans s a))) a s (ssScans s a) again s'"
proof (cases again)
  case True
  let ?most = "soMaxObjectListEntries (sjOptions (ssScans s a))"
  obtain x where x: "v = Some x" "vType x = TyUnsigned" "status = DrAck"
    using assms(1) True by (auto simp: finishCountRead_def Let_def split: if_splits option.splits)
  let ?old = "sjResult (ssScans s a)"
  define job' where "job' = (ssScans s a)\<lparr>sjResult := ?old\<lparr>srCountStatus := DrAck, srObjectListCount := vUnsigned x,
      srTruncated := (if vUnsigned x > ?most then True else srTruncated ?old)\<rparr>,
    sjMaxIndex := (if vUnsigned x < ?most then vUnsigned x else ?most), sjCurrentIndex := 1\<rparr>"
  have s': "s' = putScan a job' s"
    using assms(1) True x
    by (cases "?most < vUnsigned x"; cases "vUnsigned x < ?most") (simp_all add: finishCountRead_def Let_def job'_def putScan_def)
  have job': "sjMaxIndex job' = (if vUnsigned x < ?most then vUnsigned x else ?most)"
    "sjCurrentIndex job' = 1" "sjOptions job' = sjOptions (ssScans s a)" "sjStatus job' = sjStatus (ssScans s a)"
    "atObject job' = atObject (ssScans s a)" "sjRequestInFlight job' = sjRequestInFlight (ssScans s a)"
    by (simp_all add: job'_def atObject_def)
  have "unat (sjMaxIndex job') \<le> unat ?most" by (auto simp add: job'(1) word_le_nat_alt [symmetric])
  then show ?thesis
    using True assms(2) job'(2-6) unfolding s' by (simp add: lessLeft_def maxReads_def idleReads_def entriesLeft_def)
next
  case False
  then have "s' = failObjectListScan a status (putScan a ((ssScans s a)\<lparr>sjResult := (sjResult (ssScans s a))\<lparr>srCountStatus := status\<rparr>\<rparr>) s) \<or>
    s' = failObjectListScan a DrError (putScan a ((ssScans s a)\<lparr>sjResult := (sjResult (ssScans s a))\<lparr>srCountStatus := status\<rparr>\<rparr>) s)"
    using assms(1) by (auto simp: finishCountRead_def Let_def split: if_splits option.splits)
  then show ?thesis using False by (elim disjE) (simp_all add: lessLeft_def)
qed

lemma finishEntryRead_cases:
  assumes "finishEntryRead a status v s = Ok (again, s')" "\<not> atObject (ssScans s a)"
  shows "\<not> again \<and> s' = completeObjectListScan a s \<or>
    again \<and> (\<exists>job'. s' = putScan a job' s \<and> sjMaxIndex job' = sjMaxIndex (ssScans s a) \<and>
      sjOptions job' = sjOptions (ssScans s a) \<and> sjStatus job' = sjStatus (ssScans s a) \<and>
      sjRequestInFlight job' = sjRequestInFlight (ssScans s a) \<and>
      (if atObject job' then sjCurrentIndex job' = sjCurrentIndex (ssScans s a)
       else sjCurrentIndex job' = sjCurrentIndex (ssScans s a) + 1))"
  using assms
  by (auto simp: finishEntryRead_def Let_def skipEntry_def truncatedScan_def atObject_def obind_eq_Ok storeScanned_def
      split: if_splits option.splits)

lemma finishEntryRead_left:
  assumes "finishEntryRead a status v s = Ok (again, s')" "\<not> atObject (ssScans s a)"
    "sjCurrentIndex (ssScans s a) \<noteq> 0" "sjCurrentIndex (ssScans s a) \<le> sjMaxIndex (ssScans s a)"
  shows "lessLeft (idleReads (ssScans s a)) a s (ssScans s a) again s'"
proof -
  let ?job = "ssScans s a"
  have n: "idleReads ?job = 4 + 4 * (unat (sjMaxIndex ?job) - unat (sjCurrentIndex ?job))"
    using assms(2-4) by (simp add: idleReads_def entriesLeft_def word_le_nat_alt)
  have left: "idleReads job' < idleReads ?job"
    if "sjMaxIndex job' = sjMaxIndex ?job"
      "if atObject job' then sjCurrentIndex job' = sjCurrentIndex ?job else sjCurrentIndex job' = sjCurrentIndex ?job + 1" for job'
  proof (cases "atObject job'")
    case True
    have "wantedReads job' \<le> 3" by (simp add: wantedReads_def split: outcome.split)
    then show ?thesis using that True by (simp add: n) (simp add: idleReads_def)
  next
    case False
    then show ?thesis using that entriesLeft_skip [of job' ?job] by (simp add: n) (simp add: idleReads_def)
  qed
  from finishEntryRead_cases [OF assms(1,2)] show ?thesis by (auto simp: lessLeft_def left)
qed

lemma finishScanRead_left:
  assumes "finishScanRead a status v s = Ok (again, s')" "reading (ssScans s a)" "status \<noteq> DrSkipped"
  shows "lessLeft (readsLeft (ssScans s a)) a s (clearScanInFlight (ssScans s a)) again s'"
proof -
  let ?job = "ssScans s a"
  define s1 where "s1 = putScan a (clearScanInFlight ?job) s"
  have s1: "ssScans s1 a = clearScanInFlight ?job" "ssSent s1 = ssSent s" "ssClient s1 = ssClient s" by (simp_all add: s1_def)
  have same: "lessLeft n a s1 (ssScans s1 a) again s' \<Longrightarrow> lessLeft n a s (clearScanInFlight ?job) again s'" for n
    by (simp add: lessLeft_def s1)
  show ?thesis
  proof (cases "sjPhase ?job = PhReadObjectListCount \<or> sjPhase ?job = PhReadObjectListEntry")
    case True
    then show ?thesis
      using assms finishCountRead_left [of a status v s1 again s'] finishEntryRead_left [of a status v s1 again s']
      by (auto simp: finishScanRead_def Let_def s1_def [symmetric] readsLeft_def reading_def s1 intro!: same)
  next
    case False
    then obtain scanned where sc: "atObject ?job" "scannedAt ?job = Ok scanned" "wanted (sjPhase ?job) scanned"
      using assms(2) by (auto simp: reading_def)
    let ?job' = "storeScanned (recordScanned (sjPhase ?job) status v scanned) (clearScanInFlight ?job)"
    have "again = True" "s' = putScan a ?job' s1"
      using assms(1) False sc by (auto simp: finishScanRead_def Let_def s1_def atObject_def)
    moreover have "wantedReads ?job' < wantedReads (clearScanInFlight ?job)"
      using sc assms(3) by (intro recordScanned_wanted) (auto simp: atObject_def)
    ultimately show ?thesis
      using False sc(1) by (auto simp: lessLeft_def s1 readsLeft_def idleReads_def atObject_def)
  qed
qed

text \<open>
  A scan that goes on has a read under way, and the requests sent so far and those still to come are
  at most \<open>n\<close>.
\<close>

definition scanBudget :: "nat \<Rightarrow> BacnetObjectScanOptions \<Rightarrow> nat \<Rightarrow> Session \<Rightarrow> bool" where
  "scanBudget a options n s \<longleftrightarrow>
     (if sjStatus (ssScans s a) = SjActive
      then reading (ssScans s a) \<and> sjRequestInFlight (ssScans s a) \<and> sjOptions (ssScans s a) = options \<and>
        length (ssSent s) + readsLeft (ssScans s a) \<le> n + 1
      else length (ssSent s) \<le> n)"

definition readsAtMost :: "nat \<Rightarrow> nat \<Rightarrow> Session \<Rightarrow> bool" where
  "readsAtMost a k s \<longleftrightarrow> (sjStatus (ssScans s a) = SjActive \<longrightarrow> readsLeft (ssScans s a) \<le> k)"

text \<open>The read just started or started before.\<close>

definition startedAt :: "nat \<Rightarrow> u32 \<Rightarrow> Session \<Rightarrow> bool" where
  "startedAt a t s \<longleftrightarrow> (sjStatus (ssScans s a) = SjActive \<longrightarrow> sjStartedAtMs (ssScans s a) = t)"

lemma in_flight_simps [simp]:
  "reading (job\<lparr>sjInvokeId := i, sjStartedAtMs := t, sjRequestInFlight := b\<rparr>) = reading job"
  "readsLeft (job\<lparr>sjInvokeId := i, sjStartedAtMs := t, sjRequestInFlight := b\<rparr>) = readsLeft job"
proof -
  have "scannedAt (job\<lparr>sjInvokeId := i, sjStartedAtMs := t, sjRequestInFlight := b\<rparr>) = scannedAt job"
    by (simp add: scannedAt_def split: option.split)
  moreover have "atObject (job\<lparr>sjInvokeId := i, sjStartedAtMs := t, sjRequestInFlight := b\<rparr>) = atObject job"
    "entriesLeft (job\<lparr>sjInvokeId := i, sjStartedAtMs := t, sjRequestInFlight := b\<rparr>) = entriesLeft job"
    by (simp_all add: atObject_def entriesLeft_def)
  moreover have "wantedReads (job\<lparr>sjInvokeId := i, sjStartedAtMs := t, sjRequestInFlight := b\<rparr>) = wantedReads job"
    by (simp add: wantedReads_def calculation)
  ultimately show "reading (job\<lparr>sjInvokeId := i, sjStartedAtMs := t, sjRequestInFlight := b\<rparr>) = reading job"
    "readsLeft (job\<lparr>sjInvokeId := i, sjStartedAtMs := t, sjRequestInFlight := b\<rparr>) = readsLeft job"
    by (simp_all add: reading_def readsLeft_def idleReads_def)
qed

lemma advance_left:
  assumes "advanceObjectListScan net a nowMs s = Ok s'" "sjStatus (ssScans s a) = SjActive"
    "\<not> sjRequestInFlight (ssScans s a)" "idleReads (ssScans s a) \<le> k" "length (ssSent s) + k \<le> n"
    "sjOptions (ssScans s a) = options"
  shows "scanBudget a options n s' \<and> readsAtMost a k s' \<and> startedAt a nowMs s' \<and> ssClient s' = ssClient s"
  using assms
proof (induction k arbitrary: s rule: less_induct)
  case (less k)
  obtain job r where nxt: "nextScanRead (deviceObjectOf s) (ssScans s a) = Ok (job, r)"
    using less.prems(1,2,3) by (subst (asm) advanceObjectListScan.simps) (auto split: outcome.splits option.splits)
  have st: "sjStatus job = SjActive" "sjRequestInFlight job = sjRequestInFlight (ssScans s a)"
    using less.prems(2,3) nxt by (auto simp: nextScanRead_def Let_def obind_eq_Ok split: if_splits)
  show ?case
  proof (cases r)
    case None
    then have "s' = completeObjectListScan a (putScan a job s)"
      using advance_complete [OF less.prems(2,3)] nxt less.prems(1) by simp
    then show ?thesis using less.prems(5) by (simp add: scanBudget_def readsAtMost_def startedAt_def)
  next
    case (Some rp)
    obtain request phase where rp: "r = Some (request, phase)" using Some by (cases rp) auto
    note left = nextScanRead_left [OF nxt [unfolded rp]]
    let ?flight = "job\<lparr>sjPhase := phase, sjRequest := request\<rparr>"
    have flight: "reading ?flight" "readsLeft ?flight \<le> k" "sjOptions ?flight = options"
      using left less.prems(4,6) by (simp_all add: readsLeft_def)
    obtain started s1 where start: "startScanRead net a request phase nowMs (putScan a job s) = Ok (started, s1)"
      using less.prems(1,2,3) nxt rp
      by (subst (asm) advanceObjectListScan.simps) (auto split: outcome.splits)
    have len: "length (ssSent s1) \<le> length (ssSent s) + 1" "ssClient s1 = ssClient s"
      using startScanRead_step [OF start] by simp_all
    have k: "0 < readsLeft ?flight" using flight(1) by (rule reading_left)
    show ?thesis
    proof (cases started)
      case True
      then have "s' = s1" using advance_start [OF less.prems(2,3) nxt [unfolded rp] start] less.prems(1) by simp
      moreover obtain i where "ssScans s1 a = ?flight\<lparr>sjInvokeId := i, sjStartedAtMs := nowMs, sjRequestInFlight := True\<rparr>"
        using startScanRead_step [OF start] True by auto
      ultimately show ?thesis
        using flight len less.prems(5) st by (simp add: scanBudget_def readsAtMost_def startedAt_def)
    next
      case False
      then have job: "ssScans s1 a = ?flight" using startScanRead_step [OF start] by auto
      obtain again s2 where fin: "finishScanRead a DrSendFailed None s1 = Ok (again, s2)"
        using less.prems(1,2,3) nxt rp start False
        by (subst (asm) advanceObjectListScan.simps) (auto split: outcome.splits)
      have step: "(if again then advanceObjectListScan net a nowMs s2 else Ok s2) = Ok s'"
        using advance_start [OF less.prems(2,3) nxt [unfolded rp] start fin] False less.prems(1) by simp
      have less2: "lessLeft (readsLeft ?flight) a s1 (clearScanInFlight ?flight) again s2"
        using finishScanRead_left [OF fin] job flight(1) by simp
      show ?thesis
      proof (cases again)
        case True
        let ?k = "readsLeft ?flight - 1"
        have "scanBudget a options n s' \<and> readsAtMost a ?k s' \<and> startedAt a nowMs s' \<and> ssClient s' = ssClient s2"
          using step True less2 k flight len less.prems(5) st by (intro less.IH) (auto simp: lessLeft_def)
        then show ?thesis using flight(2) less2 len(2) by (auto simp: readsAtMost_def lessLeft_def)
      next
        case False
        then show ?thesis
          using step less2 k flight(2) len less.prems(5) by (auto simp: lessLeft_def scanBudget_def readsAtMost_def startedAt_def)
      qed
    qed
  qed
qed

text \<open>A read that is over, whatever its result, leaves less to do.\<close>

lemma finish_left:
  assumes "finishObjectListScanRead net a status v nowMs s = Ok s'" "status \<noteq> DrSkipped"
    "sjStatus (ssScans s a) = SjActive" "scanBudget a options n s" "readsAtMost a (Suc k) s"
  shows "scanBudget a options n s' \<and> readsAtMost a k s' \<and> startedAt a nowMs s' \<and> ssClient s' = ssClient s"
proof -
  have job: "reading (ssScans s a)" "sjOptions (ssScans s a) = options" "readsLeft (ssScans s a) \<le> Suc k"
    "length (ssSent s) + readsLeft (ssScans s a) \<le> n + 1" "0 < readsLeft (ssScans s a)"
    using assms(3-5) by (auto simp: scanBudget_def readsAtMost_def reading_left)
  obtain again s1 where fin: "finishScanRead a status v s = Ok (again, s1)"
    and goOn: "(if again then advanceObjectListScan net a nowMs s1 else Ok s1) = Ok s'"
    using assms(1) by (auto simp: finishObjectListScanRead_def obind_eq_Ok)
  note left = finishScanRead_left [OF fin job(1) assms(2)]
  show ?thesis
  proof (cases again)
    case True
    let ?k = "readsLeft (ssScans s a) - 1"
    have "scanBudget a options n s' \<and> readsAtMost a ?k s' \<and> startedAt a nowMs s' \<and> ssClient s' = ssClient s1"
      using goOn True left job assms(3) by (intro advance_left) (auto simp: lessLeft_def clearScanInFlight_def)
    then show ?thesis using left True job(3) by (auto simp: lessLeft_def readsAtMost_def)
  next
    case False
    then show ?thesis using goOn left job by (auto simp: lessLeft_def scanBudget_def readsAtMost_def startedAt_def)
  qed
qed

lemma read_status [simp]: "deviceReadStatusFromPropertyStatus st \<noteq> DrSkipped"
  by (cases st) simp_all

lemma scan_parts [simp]:
  "scanBudget a options n (cacheAttempt r st v at ec eo s) = scanBudget a options n s"
  "readsAtMost a k (cacheAttempt r st v at ec eo s) = readsAtMost a k s"
  "scanBudget a options n (s\<lparr>ssClient := c\<rparr>) = scanBudget a options n s"
  "readsAtMost a k (s\<lparr>ssClient := c\<rparr>) = readsAtMost a k s"
  by (simp_all add: scanBudget_def readsAtMost_def)

lemma pollAnswer_session:
  "pollAnswer net i request s = Ok (answer, s') \<Longrightarrow> \<exists>c. s' = s\<lparr>ssClient := c\<rparr> \<and> clClock c = clClock (ssClient s)"
  using pollAnswer_keeps(1) [of net i request s answer s'] by (auto simp: pollAnswer_def receiving_def obind_eq_Ok)

text \<open>A poll ends the read under way once it is due; before, it may leave it as it is.\<close>

lemma scanPoll_left:
  assumes poll: "pollObjectListScan net a kUseClientClock s = Ok s'" and ok: "sessionOk s" "clClock (ssClient s)"
    and left: "scanBudget a options n s" "readsAtMost a (Suc k) s" "startedAt a t s"
    and active: "sjStatus (ssScans s a) = SjActive"
  shows "scanBudget a options n s' \<and> clClock (ssClient s') \<and>
    (readsAtMost a k s' \<and> startedAt a (netClock net) s' \<or>
     netClock net - t < soReadTimeoutMs options \<and> readsAtMost a (Suc k) s' \<and> startedAt a t s')"
proof -
  let ?job = "ssScans s a"
  have job: "sjSession ?job" "ssInFlightScan s = Some a" "sjRequestInFlight ?job" "sjStartedAtMs ?job = t" "sjOptions ?job = options"
    using ok active left(1,3) by (auto simp: sessionOk_def wfSession_def wfScans_def scanActive_def scanBudget_def startedAt_def)
  obtain s1 where s1: "pollInFlightObjectListScan net (netClock net) s = Ok s1"
    "(if sjStatus (ssScans s1 a) = SjActive \<and> \<not> sjRequestInFlight (ssScans s1 a)
      then advanceObjectListScan net a (netClock net) s1 else Ok s1) = Ok s'"
    using poll ok(2) active job(1) by (auto simp: pollObjectListScan_def sessionNow_def clientNow_def Let_def)
  obtain answer s2 where s2: "pollAnswer net (sjInvokeId ?job) (sjRequest ?job) s = Ok (answer, s2)"
    using s1(1) active job(2,3) by (auto simp: pollInFlightObjectListScan_def Let_def)
  then obtain c where c: "s2 = s\<lparr>ssClient := c\<rparr>" "clClock c" using ok(2) pollAnswer_session by metis
  show ?thesis
  proof (cases "rpStatus answer = PollNone \<and> \<not> netClock net - t \<ge> soReadTimeoutMs options")
    case True
    then have "s1 = s2" using s1(1) active job s2 c(1) by (auto simp: pollInFlightObjectListScan_def Let_def)
    then show ?thesis using s1(2) True c job(3) left by (auto simp: startedAt_def)
  next
    case False
    obtain status v st w at ec eo where
      "finishObjectListScanRead net a status v (netClock net) (cacheAttempt (sjRequest ?job) st w at ec eo s2) = Ok s1" "status \<noteq> DrSkipped"
      using s1(1) active job False s2 c(1) by (auto simp: pollInFlightObjectListScan_def Let_def split: if_splits)
    then have fin: "scanBudget a options n s1 \<and> readsAtMost a k s1 \<and> startedAt a (netClock net) s1 \<and> ssClient s1 = c"
      using left active c(1) finish_left by fastforce
    then have "s' = s1" using s1(2) by (auto simp: scanBudget_def split: if_splits)
    with fin c(2) show ?thesis by simp
  qed
qed

text \<open>Each tick comes at least the timeout after the one before.\<close>

definition apart :: "u32 \<Rightarrow> Tick list \<Rightarrow> bool" where
  "apart timeoutMs ts \<longleftrightarrow> successively (\<lambda>(net, _) (net', _). netClock net' - netClock net \<ge> timeoutMs) ts"

lemma sessionOk_arrive:
  "sessionOk s \<Longrightarrow> \<forall>(source, packet) \<in> set arrivals. harmless packet \<Longrightarrow> sessionOk (arrive arrivals s)"
  by (auto simp: sessionOk_def wfSession_def arrive_def resources_def harmlessClient_def)

lemma scan_arrive [simp]:
  "scanBudget a options n (arrive arrivals s) = scanBudget a options n s"
  "readsAtMost a k (arrive arrivals s) = readsAtMost a k s" "startedAt a t (arrive arrivals s) = startedAt a t s"
  "ssScans (arrive arrivals s) = ssScans s"
  by (simp_all add: arrive_def scanBudget_def readsAtMost_def startedAt_def)

lemma returnsD: "returns m Q \<Longrightarrow> \<exists>x. m = Ok x \<and> Q x"
  by (simp add: returns_def)

lemma scanLoop_ends:
  assumes "sessionOk s" "clClock (ssClient s)" "harmlessTicks ts" "apart (soReadTimeoutMs options) (t # ts)" "k \<le> length ts"
    "scanBudget a options n s" "readsAtMost a k s" "startedAt a (netClock (fst t)) s"
  shows "\<exists>r s' ts'. scanLoop a ts s = Ok (Some (r, s', ts')) \<and> length (ssSent s') \<le> n \<and>
    sjStatus (ssScans s' a) \<noteq> SjActive"
  using assms
proof (induction ts arbitrary: s t k)
  case (Cons t' ts)
  obtain net arrivals where t': "t' = (net, arrivals)" by (cases t')
  show ?case
  proof (cases "sjStatus (ssScans s a) = SjActive")
    case True
    obtain k' where k: "k = Suc k'"
      using Cons.prems(6,7) True reading_left [of "ssScans s a"] by (cases k) (auto simp: scanBudget_def readsAtMost_def)
    have ok: "sessionOk (arrive arrivals s)" using Cons.prems(1,3) by (intro sessionOk_arrive) (auto simp: t' harmlessTicks_def)
    obtain s1 where s1: "pollObjectListScan net a kUseClientClock (arrive arrivals s) = Ok s1" "sessionOk s1"
      using pollObjectListScan_ok [OF ok, of net a kUseClientClock] by (auto simp: returns_def)
    have late: "netClock net - netClock (fst t) \<ge> soReadTimeoutMs options"
      using Cons.prems(4) by (auto simp: apart_def t' split: prod.splits)
    have left: "scanBudget a options n s1 \<and> readsAtMost a k' s1 \<and> startedAt a (netClock net) s1 \<and> clClock (ssClient s1)"
      using scanPoll_left [OF s1(1) ok, of options n k' "netClock (fst t)"] late Cons.prems True k by auto
    have "\<exists>r s' ts'. scanLoop a ts s1 = Ok (Some (r, s', ts')) \<and> length (ssSent s') \<le> n \<and>
        sjStatus (ssScans s' a) \<noteq> SjActive"
      using left s1(2) Cons.prems k by (intro Cons.IH [where t = t' and k = k']) (auto simp: t' apart_def harmlessTicks_def)
    then show ?thesis using True s1(1) by (simp add: t')
  qed (use Cons.prems in \<open>simp add: scanBudget_def\<close>)
next
  case Nil
  then have "sjStatus (ssScans s a) \<noteq> SjActive" using reading_left [of "ssScans s a"] by (auto simp: scanBudget_def readsAtMost_def)
  with Nil show ?case by (simp add: scanBudget_def)
qed

lemma begin_left:
  assumes "beginObjectListScan net a options results capacity kUseClientClock s = Ok (started, s')" "clClock (ssClient s)"
    "sjStatus (ssScans s a) \<noteq> SjActive"
  shows "scanBudget a options (length (ssSent s) + maxReads options) s' \<and> readsAtMost a (maxReads options) s' \<and>
    startedAt a (netClock net) s' \<and> ssClient s' = ssClient s \<and> (\<not> started \<longrightarrow> sjStatus (ssScans s' a) \<noteq> SjActive)"
proof (cases "isBusy s")
  case True
  then show ?thesis using assms by (simp add: beginObjectListScan_def Let_def scanBudget_def readsAtMost_def startedAt_def)
next
  case False
  let ?request = "\<lparr>rqObject = deviceObjectOf s, rqProperty = PropObjectList, rqArrayIndex = 0\<rparr>"
  let ?job = "clearedScanJob\<lparr>sjSession := True, sjOptions := options, sjResults := results,
    sjCapacity := capacity, sjStatus := SjActive, sjPhase := PhReadObjectListCount\<rparr>"
  let ?s = "putScan a ?job (s\<lparr>ssInFlightScan := Some a\<rparr>)"
  obtain b s1 where b: "startScanRead net a ?request PhReadObjectListCount (netClock net) ?s = Ok (b, s1)"
    using False assms by (auto simp: beginObjectListScan_def tryStartObjectListScanRead_def sessionNow_def clientNow_def Let_def)
  note step = startScanRead_step [OF b]
  have at: "\<not> atObject ?job" by (simp add: atObject_def clearedScanJob_def)
  show ?thesis
  proof (cases b)
    case True
    then have "started" "s' = s1"
      using b False assms
      by (auto simp: beginObjectListScan_def tryStartObjectListScanRead_def sessionNow_def clientNow_def Let_def)
    moreover obtain i where "ssScans s1 a = (?job\<lparr>sjRequest := ?request\<rparr>)
        \<lparr>sjInvokeId := i, sjStartedAtMs := netClock net, sjRequestInFlight := True\<rparr>"
      using step True by auto
    moreover have "reading (?job\<lparr>sjRequest := ?request\<rparr>)" "readsLeft (?job\<lparr>sjRequest := ?request\<rparr>) = maxReads options"
      using at by (simp_all add: reading_def readsLeft_def)
    ultimately show ?thesis
      using step by (simp add: scanBudget_def readsAtMost_def startedAt_def)
  next
    case nb: False
    obtain s2 where fin: "finishScanRead a DrSendFailed None s1 = Ok (False, failObjectListScan a DrSendFailed s2)"
      "ssSent s2 = ssSent s1" "ssClient s2 = ssClient s1"
      using step nb by (auto simp: finishScanRead_def finishCountRead_def Let_def)
    then have "\<not> started" "s' = failObjectListScan a DrSendFailed s2"
      using b nb False assms
      by (auto simp: beginObjectListScan_def tryStartObjectListScanRead_def finishObjectListScanRead_def
          sessionNow_def clientNow_def Let_def)
    then show ?thesis using step fin(2,3) by (simp add: scanBudget_def readsAtMost_def startedAt_def maxReads_def)
  qed
qed

section \<open>Claim\<close>



end
