(* ===== verification/ClientServer.thy ===== *)
theory ClientServer
  imports WriteLaws SessionLaws
begin

text \<open>
  Client and server together: the datagram of a read job, answered by a server built from the same
  sources, gives the job the value the server holds, or the error it answers with.
\<close>

section \<open>The request at the server\<close>

text \<open>No parser but that of ReadProperty takes a ReadProperty request for its own.\<close>

definition readDatagram :: "BacnetPropertyRequest \<Rightarrow> u8 \<Rightarrow> bytes" where
  "readDatagram request invokeId = datagram kBvlcOriginalUnicastNpdu
     (kNpduVersion # kNpduExpectingReply # kApduConfirmedRequest # 0x05 # invokeId # kServiceReadProperty #
      (writeContextObjectIdentifier 0 (rqObject request) @ writeContextUnsigned 1 (rqProperty request) @
       (if rqArrayIndex request \<noteq> kBacnetNoArrayIndex then writeContextUnsigned 2 (rqArrayIndex request) else [])))"

lemma buildReadPropertyRequest_datagram:
  "buildReadPropertyRequest cap request invokeId = Ok out \<Longrightarrow> out = readDatagram request invokeId"
  using patchLength_prefixes(1) [of invokeId kServiceReadProperty]
  by (auto simp: buildReadPropertyRequest_def readDatagram_def split: if_splits)

lemma length_readDatagram: "length (readDatagram request invokeId) \<le> 25"
  using contextUnsignedSize_bounds(2) [of "rqProperty request"]
    optional_context_size [of "rqArrayIndex request \<noteq> kBacnetNoArrayIndex" 2 "rqArrayIndex request"]
  by (simp add: readDatagram_def capacity)

lemma readDatagram_steps:
  shows "bvlcHeader 8 b (readDatagram request invokeId) = Ok 4" "readNpduHeader (readDatagram request invokeId) 4 = Ok 6"
    "rd (readDatagram request invokeId) 6 = Ok kApduConfirmedRequest" "10 \<le> length (readDatagram request invokeId)"
proof -
  define rest where "rest = writeContextObjectIdentifier 0 (rqObject request) @ writeContextUnsigned 1 (rqProperty request) @
     (if rqArrayIndex request \<noteq> kBacnetNoArrayIndex then writeContextUnsigned 2 (rqArrayIndex request) else [])"
  let ?head = "[kNpduVersion, kNpduExpectingReply, kApduConfirmedRequest, 0x05, invokeId, kServiceReadProperty]"
  have d: "readDatagram request invokeId = datagram kBvlcOriginalUnicastNpdu (?head @ rest)"
    by (simp add: readDatagram_def rest_def)
  have len: "length (?head @ rest) + 4 < 2 ^ 16" "6 \<le> length (?head @ rest)"
    using length_readDatagram [of request invokeId] by (simp_all add: d)
  show "bvlcHeader 8 b (readDatagram request invokeId) = Ok 4"
    unfolding d using len by (intro bvlcHeader_datagram) simp_all
  have "sits (?head @ rest) 0 ?head" by simp
  then have h: "sits (readDatagram request invokeId) 4 ?head"
    unfolding d using sits_datagram [of kBvlcOriginalUnicastNpdu "?head @ rest" 0] by (simp del: sits.simps)
  then show "readNpduHeader (readDatagram request invokeId) 4 = Ok 6"
    using readNpduHeader_plain [of "readDatagram request invokeId" 4 kNpduExpectingReply] by simp
  show "rd (readDatagram request invokeId) 6 = Ok kApduConfirmedRequest" "10 \<le> length (readDatagram request invokeId)"
    using h by simp_all
qed

lemma readDatagram_unconfirmed: "parseWhoIsRequest (readDatagram request invokeId) = Fail"
  using readDatagram_steps
  by (simp add: parseWhoIsRequest_def match_def)

lemma readDatagram_no_ack: "classifyConfirmedCovNotificationResponse (readDatagram request invokeId) i = Ok (ScNone, 0xFF)"
  using readDatagram_steps
  by (simp add: classifyConfirmedCovNotificationResponse_def classifySubscribeCovResponse_def match_def)

lemma readDatagram_completes_nothing:
  "completeConfirmed env (readDatagram request invokeId) source is s = Ok None"
  by (induction "is") (auto simp: readDatagram_no_ack Let_def)

text \<open>What the server does with it.\<close>

lemma server_answers:
  assumes "svRunning sv" "svTransport sv" "validObjectId (rqObject request)"
    and build: "buildReadPropertyRequest cap request invokeId = Ok (readDatagram request invokeId)"
  defines "q \<equiv> \<lparr>rrInvokeId = invokeId, rrRequest = request\<rparr>"
  shows "poll env (Some (peer, readDatagram request invokeId)) sv =
    obind (handleReadProperty env sv peer q) (\<lambda>(result, ev). Ok (result, sv, activityEvents sv (readActivity peer q) @ ev))"
proof -
  let ?d = "readDatagram request invokeId"
  have parse: "parseReadPropertyRequest ?d = Ok (ReadProperty, q)"
    unfolding q_def by (rule readPropertyRequest_roundtrip [OF assms(3) build])
  then have "\<exists>c. parseConfirmedRequestHeader ?d = Ok (Confirmed, c)"
    by (auto simp: parseReadPropertyRequest_def split: if_splits)
  then obtain c where c: "parseConfirmedRequestHeader ?d = Ok (Confirmed, c)" ..
  have "?d \<noteq> []" "\<not> kMaxDatagramSize < length ?d"
    using length_readDatagram [of request invokeId] readDatagram_steps(4) [of request invokeId] by (auto simp: kMaxDatagramSize_def)
  then show ?thesis
    using assms(1,2) parse c
    by (simp add: poll_def readDatagram_completes_nothing handleDatagram_def readDatagram_unconfirmed
        dispatchConfirmed_def pure_def)
qed

text \<open>Properties that are answered with one value.\<close>

definition plainRead :: "BacnetPropertyRequest \<Rightarrow> bool" where
  "plainRead request \<longleftrightarrow>
     rqProperty request \<notin> {PropObjectList, PropPropertyList, PropPriorityArray, PropStateText, PropDeviceAddressBinding}"

lemma plain_ack: "plainRead (rrRequest q) \<Longrightarrow> readAck sv q v = buildReadPropertyAck kMaxDatagramSize q v"
  by (simp add: readAck_def plainRead_def Let_def)

lemma plain_single: "plainRead request \<Longrightarrow> singleValueRead (rqProperty request) (rqArrayIndex request)"
  by (simp add: plainRead_def singleValueRead_def)

lemma answer_sent:
  assumes "handleReadProperty env sv peer q = Ok (result, ev)" "Datagram peer response \<in> set ev"
    "decideRead env sv (rrRequest q) = Ok ((errorClass, errorCode), v)" "plainRead (rrRequest q)"
  shows "if errorCode = 0 then buildReadPropertyAck kMaxDatagramSize q v = Ok response
    else buildReadPropertyError kMaxDatagramSize (rrInvokeId q) errorClass errorCode = Ok response"
  using assms by (auto simp: handleReadProperty_def respond_def plain_ack split: outcome.splits if_splits)

section \<open>The answer at the client\<close>

lemma readPropertyAck_classified:
  assumes "buildReadPropertyAck cap q v = Ok out" "length out \<le> 65000"
  shows "classifyReadPropertyResponse out (rrInvokeId q) = Ok RpAck"
proof -
  obtain bs where out: "out = ackDatagram q bs" using buildReadPropertyAck_Ok [OF assms(1)] by blast
  define rest where "rest = ackFields q @ ackIndex q @ [0x3E] @ bs @ [0x3F] @ []"
  define body where "body = kNpduVersion # 0 # kApduComplexAck # rrInvokeId q # kServiceReadProperty # rest"
  have d: "out = datagram kBvlcOriginalUnicastNpdu body" by (simp add: out ackDatagram_def body_def rest_def)
  have "length rest < 65000" using assms(2) by (simp add: d body_def)
  note steps = response_steps [OF body_def this, folded d]
  show ?thesis using steps [of 8] by (simp add: classifyReadPropertyResponse_def Let_def)
qed

lemma encodable: "encodeApplicationValue room v = Some bs \<Longrightarrow> vType v \<noteq> TyUnsupported"
  by (auto simp: encodeApplicationValue_def split: if_splits)

text \<open>The state of the session once the request is out.\<close>

definition awaiting :: "nat \<Rightarrow> BacnetPropertyRequest \<Rightarrow> u8 \<Rightarrow> Session \<Rightarrow> bool" where
  "awaiting a request invokeId s \<longleftrightarrow> ssInFlightRead s = Some a \<and> pjSession (ssReads s a) \<and>
     pjStatus (ssReads s a) = PjActive \<and> pjRequest (ssReads s a) = request \<and> pjInvokeId (ssReads s a) = invokeId \<and>
     clRunning (ssClient s)"

lemma begin_sends:
  assumes "beginPropertyRead net a request timeoutMs now s = Ok (True, s1)"
  shows "awaiting a request (ssNextInvokeId s) s1 \<and> ssClient s1 = ssClient s \<and>
    ssSent s1 = ssSent s @ [(ssEndpoint s, readDatagram request (ssNextInvokeId s))] \<and>
    buildReadPropertyRequest kMaxReadPropertyRequestSize request (ssNextInvokeId s) = Ok (readDatagram request (ssNextInvokeId s))"
  using assms
  by (auto simp: beginPropertyRead_def Let_def allocateInvokeId_def sendRead_def sending_def sendReadProperty_def
      sendBuilt_def transmit_def awaiting_def dest: buildReadPropertyRequest_datagram split: if_splits outcome.splits)

lemma poll_returns:
  assumes "awaiting a request invokeId s" "pollReadPropertyStatus net invokeId request (ssClient s) = Ok (answer, c)"
  shows "\<exists>s'. pollPropertyRead net a now s = Ok s'"
  using assms
  by (auto simp: pollPropertyRead_def Let_def pollInFlightPropertyRead_def awaiting_def pollAnswer_def receiving_def)

lemma poll_finishes:
  assumes "awaiting a request invokeId s" "clInbox (ssClient s) = (source, packet) # rest"
    and "pollReadPropertyStatus net invokeId request (ssClient s) = Ok (answer, c)" "rpStatus answer \<noteq> PollNone"
    and "pollPropertyRead net a now s = Ok s'"
  shows "let status = detailedStatus request answer; job = ssReads s' a
    in pjReadStatus job = status \<and> pjValue job = rpValue answer \<and> pjErrorClass job = rpErrorClass answer \<and>
       pjErrorCode job = rpErrorCode answer \<and> ssInFlightRead s' = None \<and>
       pjStatus job = (if status = PrAck \<or> status = PrEmptyValue then PjComplete else PjFailed)"
  using assms
  by (auto simp: pollPropertyRead_def Let_def pollInFlightPropertyRead_def awaiting_def pollAnswer_def receiving_def
      finishPropertyRead_def releasePropertyRead_def cacheAttempt_def)

lemma ack_polled:
  assumes "buildReadPropertyAck cap \<lparr>rrInvokeId = invokeId, rrRequest = request\<rparr> v = Ok packet" "length packet \<le> 65000"
    and "plainRead request" "realPrintable v" "clRunning c" "clInbox c = (source, packet) # rest"
  shows "\<exists>w c'. pollReadPropertyStatus net invokeId request c = Ok (readPoll PollAck w, c') \<and> normalValue w = normalValue v"
proof -
  obtain w where "parseReadPropertyAck packet invokeId request = Ok w" "normalValue w = normalValue v"
    using readPropertyAck_roundtrip [OF assms(1,2)] assms(3,4) by (auto simp: plain_single)
  moreover have "packet \<noteq> []" using buildReadPropertyAck_Ok [OF assms(1)] by (auto simp: ackDatagram_def datagram_def)
  ultimately show ?thesis
    using readPropertyAck_classified [OF assms(1,2)] assms(5,6)
    by (auto simp: pollReadPropertyStatus_def pollRead_def receive_def)
qed

lemma error_polled:
  assumes "buildReadPropertyError cap invokeId errorClass errorCode = Ok packet"
    and "clRunning c" "clInbox c = (source, packet) # rest"
  shows "\<exists>w c'. pollReadPropertyStatus net invokeId request c =
    Ok (\<lparr>rpStatus = PollError, rpValue = w, rpErrorClass = errorClass, rpErrorCode = errorCode\<rparr>, c')"
proof -
  have "packet \<noteq> []"
    using buildServiceErrorResponse_Ok [OF assms(1) [unfolded error_builders_eq]] by (auto simp: datagram_def)
  then show ?thesis
    using readPropertyError_roundtrip [OF assms(1)] assms(2,3)
    by (auto simp: pollReadPropertyStatus_def pollRead_def receive_def)
qed

section \<open>Claim\<close>

text \<open>
  C3: Client and server together: whatever request a read job sent, once a server of this stack has
  answered it and the answer is polled, the job holds the value the server read, complete, or it has
  failed with exactly the error class and code the server decided on. The server's state is untouched
  and the session is free for the next request. (Values equal up to the text that decoding adds; the
  array properties have answers of their own.)
\<close>

theorem job_gets_servers_answer:
  assumes started: "beginPropertyRead net a request timeoutMs now s = Ok (True, s1)" and "validObjectId (rqObject request)"
    and "plainRead request" "clInbox (ssClient s) = []"
    and answer: "poll env (Some (peer, snd (last (ssSent s1)))) sv = Ok (result, sv', ev)" "svRunning sv" "svTransport sv"
    and held: "decideRead env sv request = Ok ((errorClass, errorCode), v)" "realPrintable v"
    and arrives: "Datagram peer response \<in> set ev" "length response \<le> 512"
    and polled: "pollPropertyRead net' a later (arrive [(source, response)] s1) = Ok s2"
  shows "sv' = sv \<and> ssInFlightRead s2 = None \<and>
    (if errorCode = 0
     then pjStatus (ssReads s2 a) = PjComplete \<and> normalValue (pjValue (ssReads s2 a)) = normalValue v
     else pjStatus (ssReads s2 a) = PjFailed \<and> pjErrorClass (ssReads s2 a) = errorClass \<and>
       pjErrorCode (ssReads s2 a) = errorCode)"
proof -
  define i where "i = ssNextInvokeId s"
  have i: "awaiting a request i s1" "ssClient s1 = ssClient s"
    "ssSent s1 = ssSent s @ [(ssEndpoint s, readDatagram request i)]"
    and build: "buildReadPropertyRequest kMaxReadPropertyRequestSize request i = Ok (readDatagram request i)"
    using begin_sends [OF started] by (simp_all add: i_def)
  let ?q = "\<lparr>rrInvokeId = i, rrRequest = request\<rparr>"
  let ?s = "arrive [(source, response)] s1"
  have inbox: "clInbox (ssClient ?s) = (source, response) # []" "clRunning (ssClient ?s)" "awaiting a request i ?s"
    using assms(4) i by (simp_all add: arrive_def awaiting_def)
  have packet: "snd (last (ssSent s1)) = readDatagram request i" by (simp add: i(3))
  obtain ev' where served: "sv' = sv" "handleReadProperty env sv peer ?q = Ok (result, ev')"
    "ev = activityEvents sv (readActivity peer ?q) @ ev'"
    using answer(1) [unfolded packet server_answers [OF answer(2,3) assms(2) build]] by auto
  have "Datagram peer response \<in> set ev'" using arrives(1) served(3) by (auto simp: activityEvents_def split: if_splits)
  then have out: "if errorCode = 0 then buildReadPropertyAck kMaxDatagramSize ?q v = Ok response
      else buildReadPropertyError kMaxDatagramSize i errorClass errorCode = Ok response"
    using answer_sent [OF served(2), of response errorClass errorCode v] held(1) assms(3)
    by (simp split: if_splits)
  note finish = poll_finishes [OF inbox(3,1) _ _ polled]
  show ?thesis
  proof (cases "errorCode = 0")
    case True
    then have ack: "buildReadPropertyAck kMaxDatagramSize ?q v = Ok response" using out by simp
    obtain w c where w: "pollReadPropertyStatus net' i request (ssClient ?s) = Ok (readPoll PollAck w, c)"
      "normalValue w = normalValue v"
      using ack_polled [OF ack _ assms(3) held(2) inbox(2,1)] arrives(2) by fastforce
    have "vType w = vType v" using w(2) normalValue_type by metis
    then have "vType w \<noteq> TyUnsupported" using buildReadPropertyAck_Ok [OF ack] encodable by auto
    then show ?thesis
      using finish [OF w(1)] w(2) True served(1) by (simp add: Let_def detailedStatus_def classifyDetailedReadStatus_def)
  next
    case False
    obtain w c where "pollReadPropertyStatus net' i request (ssClient ?s) =
        Ok (\<lparr>rpStatus = PollError, rpValue = w, rpErrorClass = errorClass, rpErrorCode = errorCode\<rparr>, c)"
      using error_polled [OF _ inbox(2,1)] out False by fastforce
    from finish [OF this] show ?thesis
      using False served(1) by (simp add: Let_def detailedStatus_def classifyDetailedReadStatus_def)
  qed
qed

text \<open>A read of the binary value \<open>n\<close> of the server that was written to.\<close>

definition asked :: "u32 \<Rightarrow> Session" where
  "asked n = (case beginPropertyRead (demoNet True 0) 0 (rrRequest (demoRead n)) 1000 0 demoSession of Ok (_, s) \<Rightarrow> s | _ \<Rightarrow> demoSession)"

definition demoAnswer :: bytes where
  "demoAnswer = [129, 10, 0, 20, 1, 0, 48, 1, 12, 12, 1, 64, 0, 1, 25, 85, 62, 145, 1, 63]"

lemma demo_sent:
  "case beginPropertyRead (demoNet True 0) 0 (rrRequest (demoRead 1)) 1000 0 demoSession of Ok (True, s) \<Rightarrow> True | _ \<Rightarrow> False"
  by code_simp

lemma demo_held: "decideRead (demoEnv True) writtenServer (rrRequest (demoRead 1)) = Ok ((0, 0), enumeratedValue 1)"
  by code_simp

lemma demo_built:
  "buildReadPropertyAck kMaxDatagramSize \<lparr>rrInvokeId = 1, rrRequest = rrRequest (demoRead 1)\<rparr> (enumeratedValue 1) = Ok demoAnswer"
  "realPrintable (enumeratedValue 1)" "plainRead (rrRequest (demoRead 1))" "validObjectId (rqObject (rrRequest (demoRead 1)))"
  "length demoAnswer \<le> 512"
  by code_simp+

lemma demo_running: "svRunning writtenServer \<and> svTransport writtenServer"
  by code_simp

theorem job_gets_servers_answer_witness:
  "\<exists>s. pollPropertyRead (demoNet True 5) 0 5 (arrive [(demoPeer, demoAnswer)] (asked 1)) = Ok s \<and>
     pjStatus (ssReads s 0) = PjComplete \<and> normalValue (pjValue (ssReads s 0)) = normalValue (enumeratedValue 1)"
proof -
  let ?request = "rrRequest (demoRead 1)" and ?s = "arrive [(demoPeer, demoAnswer)] (asked 1)"
  let ?q = "\<lparr>rrInvokeId = 1, rrRequest = ?request\<rparr>"
  have sent: "beginPropertyRead (demoNet True 0) 0 ?request 1000 0 demoSession = Ok (True, asked 1)"
    using demo_sent by (auto simp: asked_def split: outcome.splits prod.splits bool.splits)
  have c: "ssNextInvokeId demoSession = 1" "clInbox (ssClient demoSession) = []" "clRunning (ssClient demoSession)"
    by (simp_all add: demoSession_def newSession_def demoClient_def newClient_def)
  note begun = begin_sends [OF sent, unfolded c(1)]
  have packet: "snd (last (ssSent (asked 1))) = readDatagram ?request 1" using begun by simp
  have "handleReadProperty (demoEnv True) writtenServer emptyEndpoint ?q = Ok (ReadPropertyAckSent, [Datagram emptyEndpoint demoAnswer])"
    using demo_held demo_built(1,3) by (simp add: handleReadProperty_def respond_def plain_ack demoEnv_def)
  then have served: "poll (demoEnv True) (Some (emptyEndpoint, snd (last (ssSent (asked 1))))) writtenServer =
      Ok (ReadPropertyAckSent, writtenServer,
        activityEvents writtenServer (readActivity emptyEndpoint ?q) @ [Datagram emptyEndpoint demoAnswer])"
    using server_answers [of writtenServer ?request kMaxReadPropertyRequestSize 1 "demoEnv True" emptyEndpoint] begun demo_running demo_built(4)
    by (simp add: packet)
  have inbox: "clRunning (ssClient ?s)" "clInbox (ssClient ?s) = (demoPeer, demoAnswer) # []" "awaiting 0 ?request 1 ?s"
    using begun c by (simp_all add: arrive_def awaiting_def)
  obtain s where s: "pollPropertyRead (demoNet True 5) 0 5 ?s = Ok s"
    using ack_polled [OF demo_built(1) _ demo_built(3,2) inbox(1,2)] demo_built(5) poll_returns [OF inbox(3)] by fastforce
  show ?thesis
    using job_gets_servers_answer [OF sent demo_built(4,3) c(2) served _ _ demo_held demo_built(2) _ demo_built(5) s]
      demo_running s by simp
qed

end
