(* ===== verification/CovDelivery.thy ===== *)
theory CovDelivery
  imports WriteLaws SessionLaws
begin

text \<open>
  Server and subscriber together: the change-of-value notification a server sends, polled by a session
  built from the same sources, updates the subscription it is for, and the acknowledgement the session
  returns is the one the server waits for.
\<close>

section \<open>The server's side\<close>

lemma notification_sent:
  assumes "sendCovNotification env sv index values now = Ok (True, sv', ev)" "Datagram peer packet \<in> set ev"
    "index < length (svCov sv)"
  defines "sub \<equiv> slSubscription (slot sv index)" and "sub' \<equiv> slSubscription (slot sv' index)"
  shows "\<exists>dev time. buildCovNotification kMaxDatagramSize (csProcessId sub) dev (csObject sub) time values (csConfirmed sub)
      (csPendingInvokeId sub') = Ok packet"
  using assms(1-3)
  by (auto simp: sendCovNotification_def Let_def covDiagnostic_def sub_def sub'_def markSent_def storeCovValues_def
      split: outcome.splits if_splits) blast+

section \<open>The subscriber's side\<close>

lemma cacheReports_keep [simp]:
  "ssSubs (fold (cacheReport ob now) reports s) = ssSubs s"
  "ssNotified (fold (cacheReport ob now) reports s) = ssNotified s" "ssSent (fold (cacheReport ob now) reports s) = ssSent s"
  by (induction reports arbitrary: s) (simp_all add: cacheReport_def cacheAttempt_def)

text \<open>A value that arrives is kept, or was there already; a new one is reported.\<close>

lemma value_arrives:
  assumes "s' = finishSubscriptionPoll a DrAck (Some v) now PrAck 0 0 (Some n) s"
  shows "psHasValue (ssSubs s' a) \<and> psLastStatus (ssSubs s' a) = DrAck \<and> ssSent s' = ssSent s \<and>
    (if psHasValue (ssSubs s a) \<and> bacnetValueEquals (psLastValue (ssSubs s a)) v
     then psLastValue (ssSubs s' a) = psLastValue (ssSubs s a)
     else psLastValue (ssSubs s' a) = v \<and>
       (psCallback (ssSubs s a) \<longrightarrow>
         (\<exists>m. ssNotified s' = ssNotified s @ [(a, m)] \<and> snValue m = Some v \<and> snStatus m = DrAck)))"
proof -
  have reasons: "x = 0 \<or> x = reasonFirstValue \<Longrightarrow> y = 0 \<or> y = reasonStatusChanged \<Longrightarrow> x OR reasonValueChanged OR y \<noteq> 0" for x y
    by (auto simp: reasonFirstValue_def reasonValueChanged_def reasonStatusChanged_def)
  show ?thesis
    unfolding assms
    by (auto simp: finishSubscriptionPoll_def Let_def clearSubscriptionInFlight_def scheduleNextPoll_def cacheAttempt_def reasons)
qed

lemma found_report:
  assumes "list_all2 sameReport pvs' pvs" "List.find (\<lambda>pv. cpProperty pv = p \<and> cpArrayIndex pv = i) pvs = Some pv"
  shows "\<exists>pv'. List.find (\<lambda>pv. cpProperty pv = p \<and> cpArrayIndex pv = i) pvs' = Some pv' \<and> pv' \<in> set pvs' \<and>
    cpProperty pv' = p \<and> cpArrayIndex pv' = i \<and> normalValue (cpValue pv') = normalValue (cpValue pv)"
  using assms by (induction rule: list_all2_induct) (auto simp: sameReport_def split: if_splits)

text \<open>The notification the session takes out of its inbox.\<close>

lemma notification_taken:
  assumes "takeFirst (notificationMatches s (ssSubs s a)) (ssPending s) = None" "clQueued (ssClient s) = []"
    and "clInbox (ssClient s) = (source, packet) # rest" "clRunning (ssClient s)" "packet \<noteq> []"
    and "parseCovNotification packet = Ok n" "notificationMatches s (ssSubs s a) (n\<lparr>cnSource := source\<rparr>)"
  shows "takeCovNotification net a s =
    Ok (Some (n\<lparr>cnSource := source\<rparr>), s\<lparr>ssClient := (ssClient s)\<lparr>clInbox := rest\<rparr>\<rparr>)"
proof -
  have "notificationMatches (s\<lparr>ssClient := c\<rparr>) = notificationMatches s" for c
    by (simp add: fun_eq_iff notificationMatches_def)
  then show ?thesis
    using assms by (simp add: takeCovNotification_def Let_def pollCovNotification_def takeQueuedCovNotification_def receive_def)
qed

lemma ack_accepted:
  assumes "acknowledgeCovNotification net n = Ok (True, sent)" "cnConfirmed n"
  shows "\<exists>ack. sent = [(cnSource n, ack)] \<and> classifyConfirmedCovNotificationResponse ack (cnInvokeId n) = Ok (ScAck, 0xFF)"
  using assms simpleAck_roundtrip [of 16 "cnInvokeId n" 1]
  by (auto simp: acknowledgeCovNotification_def transmit_def classifyConfirmedCovNotificationResponse_def split: outcome.splits)

lemma report_accepted:
  assumes take: "takeCovNotification net a s = Ok (Some n, s0)" and taken: "takeReport net a later s = Ok (True, s')"
  obtains acks s1 where "cnConfirmed n \<Longrightarrow> acknowledgeCovNotification net n = Ok (True, acks)"
    "s1 = finishSubscriptionPoll a DrAck (Some (notifiedValue (ssSubs s0 a) n)) later PrAck 0 0 (Some n)
      (s0\<lparr>ssSent := ssSent s0 @ acks\<rparr>)"
    "ssSent s' = ssSent s1" "ssNotified s' = ssNotified s1" "psHasValue (ssSubs s' a) = psHasValue (ssSubs s1 a)"
    "psLastStatus (ssSubs s' a) = psLastStatus (ssSubs s1 a)" "psLastValue (ssSubs s' a) = psLastValue (ssSubs s1 a)"
proof (cases "cnConfirmed n")
  case True
  then obtain acks where "acknowledgeCovNotification net n = Ok (True, acks)"
    using taken by (auto simp: takeReport_def take sending_def split: if_splits)
  then show thesis using True taken by (intro that [OF _ refl]) (auto simp: takeReport_def take sending_def Let_def)
next
  case False
  then show thesis using taken by (intro that [of "[]", OF _ refl]) (auto simp: takeReport_def take Let_def)
qed

text \<open>Where datagrams leave, a notification taken is acknowledged and reported.\<close>

lemma acknowledgement_leaves:
  "(\<And>peer packet. netSends net peer packet) \<Longrightarrow> \<exists>sent. acknowledgeCovNotification net n = Ok (True, sent)"
  by (simp add: acknowledgeCovNotification_def buildSimpleAckResponse_def datagram_def emit_def transmit_def)

lemma report_returns:
  assumes take: "takeCovNotification net a s = Ok (Some n, s0)" and "\<And>peer packet. netSends net peer packet"
  shows "\<exists>s'. takeReport net a later s = Ok (True, s')"
proof -
  obtain sent where "acknowledgeCovNotification net n = Ok (True, sent)"
    using acknowledgement_leaves assms(2) by blast
  then show ?thesis by (cases "cnConfirmed n") (simp_all add: takeReport_def take sending_def Let_def)
qed

section \<open>Claim\<close>

text \<open>
  C4: Server and subscriber together: the notification a server sends for a subscription, taken by the
  session that subscribed, leaves the subscription with the reported value of its property, whose
  callback is called unless it had an equal value before; and the acknowledgement of a confirmed
  notification is one the server accepts for it.
\<close>

theorem report_reaches_subscriber:
  assumes sent: "sendCovNotification env sv index values now = Ok (True, sv', ev)" "Datagram peer packet \<in> set ev"
      "index < length (svCov sv)" "length packet \<le> 512"
    and readable: "list_all readableReport values" "length values \<le> kMaxProperties" "validObjectId (csObject (slSubscription (slot sv index)))"
    and same: "csProcessId (slSubscription (slot sv index)) = psCovProcessId (ssSubs s a)" "psCovProcessIdAssigned (ssSubs s a)"
      "csObject (slSubscription (slot sv index)) = psObjectId (ssSubs s a)"
    and reported: "List.find (\<lambda>pv. cpProperty pv = psPropertyId (ssSubs s a) \<and> cpArrayIndex pv = psArrayIndex (ssSubs s a)) values = Some pv"
    and session: "takeFirst (notificationMatches s (ssSubs s a)) (ssPending s) = None" "clQueued (ssClient s) = []"
      "clInbox (ssClient s) = (ssEndpoint s, packet) # rest" "clRunning (ssClient s)"
    and taken: "takeReport net a later s = Ok (True, s')"
  shows "\<exists>v. normalValue v = normalValue (cpValue pv) \<and> psHasValue (ssSubs s' a) \<and> psLastStatus (ssSubs s' a) = DrAck \<and>
    (if psHasValue (ssSubs s a) \<and> bacnetValueEquals (psLastValue (ssSubs s a)) v
     then psLastValue (ssSubs s' a) = psLastValue (ssSubs s a)
     else psLastValue (ssSubs s' a) = v \<and>
       (psCallback (ssSubs s a) \<longrightarrow>
         (\<exists>m. ssNotified s' = ssNotified s @ [(a, m)] \<and> snValue m = Some v \<and> snStatus m = DrAck))) \<and>
    (csConfirmed (slSubscription (slot sv index)) \<longrightarrow>
      (\<exists>ack. ssSent s' = ssSent s @ [(ssEndpoint s, ack)] \<and>
        classifyConfirmedCovNotificationResponse ack (csPendingInvokeId (slSubscription (slot sv' index))) = Ok (ScAck, 0xFF)))"
proof -
  let ?sub = "ssSubs s a"
  obtain dev time where "buildCovNotification kMaxDatagramSize (csProcessId (slSubscription (slot sv index))) dev
      (csObject (slSubscription (slot sv index))) time values (csConfirmed (slSubscription (slot sv index)))
      (csPendingInvokeId (slSubscription (slot sv' index))) = Ok packet"
    using notification_sent [OF sent(1-3)] by blast
  from parseCovNotification_built [OF this readable(3) readable(1)]
  obtain n pvs where n0: "parseCovNotification packet = Ok n" "list_all2 sameReport pvs values"
    "cnProcessId n = csProcessId (slSubscription (slot sv index))" "cnObject n = csObject (slSubscription (slot sv index))"
    "cnConfirmed n = csConfirmed (slSubscription (slot sv index))"
    "cnInvokeId n = (if csConfirmed (slSubscription (slot sv index)) then csPendingInvokeId (slSubscription (slot sv' index)) else 0)"
    "cnProperties n = take kMaxProperties pvs"
    using sent(4) by auto
  have "length pvs = length values" using n0(2) by (rule list_all2_lengthD)
  then have n: "parseCovNotification packet = Ok n" "list_all2 sameReport pvs values" "cnProcessId n = psCovProcessId ?sub"
    "cnObject n = psObjectId ?sub" "cnConfirmed n = csConfirmed (slSubscription (slot sv index))"
    "cnConfirmed n \<Longrightarrow> cnInvokeId n = csPendingInvokeId (slSubscription (slot sv' index))" "cnProperties n = pvs"
    using n0 same readable(2) by simp_all
  obtain pv' where pv: "List.find (\<lambda>pv. cpProperty pv = psPropertyId ?sub \<and> cpArrayIndex pv = psArrayIndex ?sub) pvs = Some pv'"
    "pv' \<in> set pvs" "cpProperty pv' = psPropertyId ?sub" "cpArrayIndex pv' = psArrayIndex ?sub"
    "normalValue (cpValue pv') = normalValue (cpValue pv)"
    using found_report [OF n(2) reported] by blast
  let ?n = "n\<lparr>cnSource := ssEndpoint s\<rparr>"
  have matches: "notificationMatches s ?sub ?n"
    using n(3,4,7) pv(2-4) same(2) by (auto simp: notificationMatches_def clientEndpointEquals_def)
  have "packet \<noteq> []" using n(1) by (auto simp: parseCovNotification_def)
  note take = notification_taken [OF session(1-4) this n(1) matches]
  let ?s = "s\<lparr>ssClient := (ssClient s)\<lparr>clInbox := rest\<rparr>\<rparr>"
  have v: "notifiedValue ?sub ?n = cpValue pv'" using pv(1) n(7) by (simp add: notifiedValue_def)
  obtain acks s1 where acks: "cnConfirmed n \<Longrightarrow> acknowledgeCovNotification net ?n = Ok (True, acks)"
    and s1: "s1 = finishSubscriptionPoll a DrAck (Some (cpValue pv')) later PrAck 0 0 (Some ?n) (?s\<lparr>ssSent := ssSent s @ acks\<rparr>)"
    and fields: "ssSent s' = ssSent s1" "ssNotified s' = ssNotified s1" "psHasValue (ssSubs s' a) = psHasValue (ssSubs s1 a)"
    "psLastStatus (ssSubs s' a) = psLastStatus (ssSubs s1 a)" "psLastValue (ssSubs s' a) = psLastValue (ssSubs s1 a)"
    using report_accepted [OF take taken] v by auto
  have confirmed: "\<exists>ack. acks = [(ssEndpoint s, ack)] \<and>
      classifyConfirmedCovNotificationResponse ack (csPendingInvokeId (slSubscription (slot sv' index))) = Ok (ScAck, 0xFF)"
    if "csConfirmed (slSubscription (slot sv index))"
    using ack_accepted [OF acks] that n(5,6) by simp
  show ?thesis
    using value_arrives [OF s1] pv(5) confirmed unfolding fields by (intro exI [of _ "cpValue pv'"]) auto
qed

text \<open>A confirmed notification of a binary value's first state.\<close>

definition demoReports :: "BacnetCovPropertyValue list" where
  "demoReports = [\<lparr>cpProperty = PropPresentValue, cpArrayIndex = kBacnetNoArrayIndex, cpValue = enumeratedValue 1\<rparr>]"

definition reportingServer :: BacnetServer where
  "reportingServer = demoServer\<lparr>svCov := [emptySlot\<lparr>slSubscription :=
     emptySubscription\<lparr>csState := CovActive, csConfirmed := True, csProcessId := 3,
       csObject := \<lparr>objType = ObjBinaryValue, objInstance = 1\<rparr>\<rparr>\<rparr>]\<rparr>"

definition demoPacket :: bytes where
  "demoPacket = [129, 10, 0, 32, 1, 4, 0, 5, 1, 1, 9, 3, 28, 2, 0, 0, 7, 44, 1, 64, 0, 1, 57, 0, 78, 9, 85, 46, 145, 1, 47, 79]"

definition subscribedSession :: Session where
  "subscribedSession = putSub 0 (noSubscription\<lparr>psSession := True, psActive := True, psCallback := True,
       psObjectId := \<lparr>objType = ObjBinaryValue, objInstance = 1\<rparr>, psPropertyId := PropPresentValue, psCovActive := True,
       psCovProcessId := 3, psCovProcessIdAssigned := True\<rparr>)
     (demoSession\<lparr>ssClient := demoClient\<lparr>clInbox := [(demoPeer, demoPacket)]\<rparr>\<rparr>)"

lemma demo_report:
  "case sendCovNotification (demoEnv True) reportingServer 0 demoReports 0 of
     Ok (True, sv, [Datagram _ packet]) \<Rightarrow> packet = demoPacket | _ \<Rightarrow> False"
  "list_all readableReport demoReports" "length demoReports \<le> kMaxProperties"
  "length demoPacket \<le> 512"
  "case takeCovNotification (demoNet True 5) 0 subscribedSession of Ok (Some n, s) \<Rightarrow> True | _ \<Rightarrow> False"
  by code_simp+

lemma demo_subscription:
  "slSubscription (slot reportingServer 0) = emptySubscription\<lparr>csState := CovActive, csConfirmed := True, csProcessId := 3,
     csObject := \<lparr>objType = ObjBinaryValue, objInstance = 1\<rparr>\<rparr>"
  "length (svCov reportingServer) = 1"
  by (simp_all add: reportingServer_def slot_def)

theorem report_reaches_subscriber_witness:
  "\<exists>s v. takeReport (demoNet True 5) 0 5 subscribedSession = Ok (True, s) \<and> psLastValue (ssSubs s 0) = v \<and>
     normalValue v = normalValue (enumeratedValue 1) \<and> length (ssSent s) = 1 \<and> length (ssNotified s) = 1"
proof -
  obtain sv peer where sent: "sendCovNotification (demoEnv True) reportingServer 0 demoReports 0 =
      Ok (True, sv, [Datagram peer demoPacket])"
    using demo_report(1) by (auto split: outcome.splits prod.splits bool.splits list.splits ServerEvent.splits)
      (metis list.exhaust)+
  obtain n s0 where "takeCovNotification (demoNet True 5) 0 subscribedSession = Ok (Some n, s0)"
    using demo_report(5) by (auto split: outcome.splits prod.splits option.splits)
  then obtain s where taken: "takeReport (demoNet True 5) 0 5 subscribedSession = Ok (True, s)"
    using report_returns by (fastforce simp: demoNet_def)
  have sub: "ssSubs subscribedSession 0 = noSubscription\<lparr>psSession := True, psActive := True, psCallback := True,
       psObjectId := \<lparr>objType = ObjBinaryValue, objInstance = 1\<rparr>, psPropertyId := PropPresentValue, psCovActive := True,
       psCovProcessId := 3, psCovProcessIdAssigned := True\<rparr>"
    "ssSent subscribedSession = []" "ssNotified subscribedSession = []" "ssPending subscribedSession = []"
    "ssClient subscribedSession = demoClient\<lparr>clInbox := [(demoPeer, demoPacket)]\<rparr>" "ssEndpoint subscribedSession = demoPeer"
    by (simp_all add: subscribedSession_def putSub_def demoSession_def newSession_def)
  have "\<exists>v. normalValue v = normalValue (enumeratedValue 1) \<and> psLastValue (ssSubs s 0) = v \<and>
      length (ssNotified s) = 1 \<and> length (ssSent s) = 1"
    using report_reaches_subscriber [OF sent _ _ _ demo_report(2,3) _ _ _ _ _ _ _ _ _ taken, of peer demoPacket
        "\<lparr>cpProperty = PropPresentValue, cpArrayIndex = kBacnetNoArrayIndex, cpValue = enumeratedValue 1\<rparr>" "[]"]
      demo_report(4)
    by (auto simp: demo_subscription sub noSubscription_def emptySubscription_def validObjectId_def kObjectInstanceMask_def
        demoReports_def demoClient_def newClient_def)
  then show ?thesis using taken by blast
qed

end
