(* ===== verification/DisplayText.thy ===== *)
theory DisplayText
  imports Session
begin

text \<open>
  Display text: the text buffer of fixed size (src/src/support/BacnetFixedTextBuffer.h) and the
  readings of values, objects and statuses an application shows (src/src/support/BacnetDisplayText.h).
  \<open>snprintf\<close> is modelled by the characters it stores and the length it returns; a store outside the
  caller's array is undefined.
\<close>

section \<open>The text buffer\<close>

record FixedTextBuffer =
  tbData :: "bytes option"
  tbCapacity :: nat
  tbLength :: nat
  tbOverflow :: bool

definition storeText :: "nat \<Rightarrow> bytes \<Rightarrow> bytes option \<Rightarrow> bytes option outcome" where
  "storeText off t data =
     (case data of None \<Rightarrow> Undef
      | Some mem \<Rightarrow> if off + length t \<le> length mem then Ok (Some (take off mem @ t @ drop (off + length t) mem)) else Undef)"

definition newTextBuffer :: "bytes option \<Rightarrow> nat \<Rightarrow> FixedTextBuffer outcome" where
  "newTextBuffer output outputCapacity =
     obind (if outputCapacity > 0 then storeText 0 [0] output else Ok output) (\<lambda>data.
       Ok \<lparr>tbData = data, tbCapacity = outputCapacity, tbLength = 0, tbOverflow = False\<rparr>)"

definition textBefore0 :: "bytes \<Rightarrow> bytes" where
  "textBefore0 = takeWhile (\<lambda>b. b \<noteq> 0)"

definition c_str :: "FixedTextBuffer \<Rightarrow> bytes" where
  "c_str b = (case tbData b of None \<Rightarrow> [] | Some mem \<Rightarrow> textBefore0 mem)"

definition bufferEmpty :: "FixedTextBuffer \<Rightarrow> bool" where
  "bufferEmpty b \<longleftrightarrow> tbLength b = 0"

definition available :: "FixedTextBuffer \<Rightarrow> nat" where
  "available b = (if tbCapacity b > tbLength b then tbCapacity b - tbLength b else 0)"

definition updateLength :: "int \<Rightarrow> nat \<Rightarrow> FixedTextBuffer \<Rightarrow> FixedTextBuffer outcome" where
  "updateLength written room b =
     (if written < 0 then
        (if tbCapacity b > 0 then
           obind (storeText (tbCapacity b - 1) [0] (tbData b)) (\<lambda>data.
             Ok (b\<lparr>tbOverflow := True, tbData := data, tbLength := length (c_str (b\<lparr>tbData := data\<rparr>))\<rparr>))
         else Ok (b\<lparr>tbOverflow := True\<rparr>))
      else if nat written \<ge> room then
        (let n = (if tbCapacity b > 0 then tbCapacity b - 1 else 0) in
         obind (if tbCapacity b > 0 then storeText n [0] (tbData b) else Ok (tbData b)) (\<lambda>data.
           Ok (b\<lparr>tbOverflow := True, tbLength := n, tbData := data\<rparr>)))
      else Ok (b\<lparr>tbLength := tbLength b + nat written\<rparr>))"

text \<open>\<open>appendFormat\<close>, given the text its format expands to.\<close>

definition appendFormat :: "bytes \<Rightarrow> FixedTextBuffer \<Rightarrow> FixedTextBuffer outcome" where
  "appendFormat expanded b =
     (if available b = 0 then Ok (b\<lparr>tbOverflow := True\<rparr>)
      else obind (storeText (tbLength b) (take (available b - 1) expanded @ [0]) (tbData b)) (\<lambda>data.
        updateLength (int (length expanded)) (available b) (b\<lparr>tbData := data\<rparr>)))"

definition appendString :: "cstring \<Rightarrow> FixedTextBuffer \<Rightarrow> FixedTextBuffer outcome" where
  "appendString t b = (case t of None \<Rightarrow> Ok b | Some str \<Rightarrow> appendFormat str b)"

definition appendChar :: "u8 \<Rightarrow> FixedTextBuffer \<Rightarrow> FixedTextBuffer outcome" where
  "appendChar c = appendString (Some (textBefore0 [c]))"

definition appendShortened :: "cstring \<Rightarrow> nat \<Rightarrow> FixedTextBuffer \<Rightarrow> FixedTextBuffer outcome" where
  "appendShortened t maxLength b =
     (case t of None \<Rightarrow> Ok b
      | Some str \<Rightarrow>
          if length str \<le> maxLength then appendString t b
          else if maxLength \<le> 3 then appendString (Some (ascii ''...'')) b
          else appendFormat (take (maxLength - 3) str @ ascii ''...'') b)"

section \<open>What the buffer holds\<close>

text \<open>The characters of a buffer within its array, and nothing after them before the terminator.\<close>

definition holds :: "bytes \<Rightarrow> FixedTextBuffer \<Rightarrow> bool" where
  "holds t b \<longleftrightarrow> (\<exists>rest. tbData b = Some (t @ 0 # rest) \<and> tbCapacity b \<le> length t + 1 + length rest) \<and>
     0 \<notin> set t \<and> tbLength b = length t \<and> length t < tbCapacity b"

lemma textBefore0_append: "0 \<notin> set t \<Longrightarrow> textBefore0 (t @ 0 # rest) = t"
  by (induction t) (auto simp: textBefore0_def)

lemma holds_c_str: "holds t b \<Longrightarrow> c_str b = t"
  by (auto simp: holds_def c_str_def textBefore0_append)

lemma newTextBuffer_empty:
  assumes "0 < capacity" "capacity \<le> length mem"
  shows "\<exists>b. newTextBuffer (Some mem) capacity = Ok b \<and> holds [] b \<and> tbCapacity b = capacity \<and> \<not> tbOverflow b"
  using assms by (auto simp: newTextBuffer_def storeText_def holds_def)

lemma appendFormat_holds:
  assumes "holds t b" "0 \<notin> set u"
  shows "\<exists>b'. appendFormat u b = Ok b' \<and> holds (take (tbCapacity b - 1) (t @ u)) b' \<and> tbCapacity b' = tbCapacity b \<and>
    tbOverflow b' = (tbOverflow b \<or> tbCapacity b \<le> length t + length u)"
proof -
  obtain rest where rest: "tbData b = Some (t @ 0 # rest)" "tbCapacity b \<le> length t + 1 + length rest"
    and t: "0 \<notin> set t" "tbLength b = length t" "length t < tbCapacity b"
    using assms(1) by (auto simp: holds_def)
  define room where "room = tbCapacity b - length t"
  define new where "new = take (room - 1) u"
  define rest' where "rest' = drop (length new) rest"
  have room: "available b = room" "0 < room" using t by (simp_all add: available_def room_def)
  have len: "length new \<le> length rest" "length t + length new + 1 \<le> tbCapacity b"
    using rest(2) t(3) by (auto simp: new_def room_def)
  have data: "storeText (length t) (new @ [0]) (tbData b) = Ok (Some (t @ new @ 0 # rest'))"
    using rest(1) len by (simp add: storeText_def rest'_def)
  have cut: "take (tbCapacity b - 1) (t @ u) = t @ new" using t(3) by (simp add: new_def room_def)
  have ok: "0 \<notin> set (t @ new)" "tbCapacity b \<le> length (t @ new) + 1 + length rest'"
    using t(1) assms(2) rest(2) len set_take_subset [of "room - 1" u] by (auto simp: new_def rest'_def)
  show ?thesis
  proof (cases "length u < room")
    case True
    then have "new = u" by (simp add: new_def)
    then show ?thesis
      using True data ok t room cut by (auto simp: appendFormat_def updateLength_def new_def [symmetric] holds_def room_def)
  next
    case False
    then have "length (t @ new) = tbCapacity b - 1" using t(3) by (simp add: new_def room_def)
    moreover from this have "storeText (tbCapacity b - 1) [0] (Some (t @ new @ 0 # rest')) = Ok (Some (t @ new @ 0 # rest'))"
      by (simp add: storeText_def)
    ultimately show ?thesis
      using False data ok t room cut by (auto simp: appendFormat_def updateLength_def new_def [symmetric] holds_def room_def)
  qed
qed

text \<open>A text that fits is kept whole, one that does not is cut and the overflow noted.\<close>

lemma appendShortened_holds:
  assumes "holds t b" "0 \<notin> set u" "3 < maxLength"
  defines "shown \<equiv> if length u \<le> maxLength then u else take (maxLength - 3) u @ ascii ''...''"
  shows "\<exists>b'. appendShortened (Some u) maxLength b = Ok b' \<and> holds (take (tbCapacity b - 1) (t @ shown)) b' \<and>
    length shown \<le> maxLength"
proof -
  have "0 \<notin> set shown" using assms(2) set_take_subset [of "maxLength - 3" u] by (auto simp: shown_def ascii_def)
  moreover have "appendShortened (Some u) maxLength b = appendFormat shown b"
    using assms(3) by (simp add: appendShortened_def appendString_def shown_def)
  ultimately show ?thesis using appendFormat_holds [OF assms(1), of shown] assms(3) by (auto simp: shown_def)
qed

section \<open>Numbers\<close>

text \<open>\<open>%lu\<close>, \<open>%ld\<close> and \<open>%.3f\<close>, the last rounded to even from the exact value as the C library does.\<close>

fun decimalText :: "nat \<Rightarrow> bytes" where
  "decimalText n = (if n < 10 then [] else decimalText (n div 10)) @ [word_of_nat (48 + n mod 10)]"

definition signedText :: "int \<Rightarrow> bytes" where
  "signedText i = (if i < 0 then [0x2D] else []) @ decimalText (nat \<bar>i\<bar>)"

definition roundedHalfEven :: "nat \<Rightarrow> nat \<Rightarrow> nat" where
  "roundedHalfEven num den =
     (let q = num div den; r = num mod den
      in if 2 * r > den \<or> 2 * r = den \<and> odd q then q + 1 else q)"

definition fixed3Text :: "float32 \<Rightarrow> bytes" where
  "fixed3Text x =
     (if f32_isnan x then ascii (if f32_neg_bit x then ''-nan'' else ''nan'')
      else if f32_isinf x then ascii (if f32_neg_bit x then ''-inf'' else ''inf'')
      else let n = roundedHalfEven (f32_mag x * 1000) (2 ^ 149)
        in (if f32_neg_bit x then [0x2D] else []) @ decimalText (n div 1000) @
           [0x2E, word_of_nat (48 + n div 100 mod 10), word_of_nat (48 + n div 10 mod 10), word_of_nat (48 + n mod 10)])"

lemma decimalText_no_end: "0 \<notin> set (decimalText n)"
proof (induction n rule: decimalText.induct)
  case (1 n)
  have "unat (word_of_nat (48 + n mod 10) :: u8) = 48 + n mod 10"
    by (simp add: unat_of_nat del: of_nat_add)
  then have "(word_of_nat (48 + n mod 10) :: u8) \<noteq> 0" by (metis add_is_0 unat_0 zero_neq_numeral)
  with 1 show ?case by (subst decimalText.simps) (auto simp del: decimalText.simps of_nat_add)
qed

declare decimalText.simps [simp del]

section \<open>Values\<close>

text \<open>The string left in a caller's array of \<open>outputCapacity\<close> characters, none for a null pointer.\<close>

definition bacnetValueDisplayText :: "BacnetValue \<Rightarrow> bool \<Rightarrow> nat \<Rightarrow> bytes" where
  "bacnetValueDisplayText v output outputCapacity =
     (if \<not> output \<or> outputCapacity = 0 then []
      else let shown = take (outputCapacity - 1) in
        case vType v of
          TyNull \<Rightarrow> shown (ascii ''null'')
        | TyBoolean \<Rightarrow> shown (ascii (if vBoolean v then ''true'' else ''false''))
        | TyUnsigned \<Rightarrow> shown (decimalText (unat (vUnsigned v)))
        | TyEnumerated \<Rightarrow> shown (decimalText (unat (vUnsigned v)))
        | TySigned \<Rightarrow> shown (signedText (sint (vSigned v)))
        | TyReal \<Rightarrow> shown (fixed3Text (vReal v))
        | TyCharacterString \<Rightarrow>
            (let count = (if vTextLength v < outputCapacity - 1 then vTextLength v else outputCapacity - 1)
             in take count (vText v @ replicate kMaxTextLength 0))
        | TyObjectIdentifier \<Rightarrow>
            shown (ascii (bacnetObjectTypeText (objType (vObject v))) @ decimalText (unat (objInstance (vObject v))))
        | _ \<Rightarrow> shown (if vTextLength v > 0 then textBefore0 (vText v) else ascii ''empty''))"

definition bacnetObjectTypePrefix :: "BacnetObjectType \<Rightarrow> string" where
  "bacnetObjectTypePrefix k =
     (if k = ObjAnalogInput then ''AI'' else if k = ObjAnalogOutput then ''AO''
      else if k = ObjAnalogValue then ''AV'' else if k = ObjBinaryInput then ''BI''
      else if k = ObjBinaryOutput then ''BO'' else if k = ObjBinaryValue then ''BV''
      else if k = ObjMultiStateInput then ''MI'' else if k = ObjMultiStateOutput then ''MO''
      else if k = ObjMultiStateValue then ''MSV'' else if k = ObjDevice then ''DEV'' else ''OBJ'')"

definition bacnetIsAnalogProcessObject :: "BacnetObjectType \<Rightarrow> bool" where
  "bacnetIsAnalogProcessObject k \<longleftrightarrow> k = ObjAnalogInput \<or> k = ObjAnalogOutput \<or> k = ObjAnalogValue"

definition bacnetIsBinaryProcessObject :: "BacnetObjectType \<Rightarrow> bool" where
  "bacnetIsBinaryProcessObject k \<longleftrightarrow> k = ObjBinaryInput \<or> k = ObjBinaryOutput \<or> k = ObjBinaryValue"

definition bacnetIsMultiStateProcessObject :: "BacnetObjectType \<Rightarrow> bool" where
  "bacnetIsMultiStateProcessObject k \<longleftrightarrow> k = ObjMultiStateInput \<or> k = ObjMultiStateOutput \<or> k = ObjMultiStateValue"

definition bacnetIsProcessObject :: "BacnetObjectType \<Rightarrow> bool" where
  "bacnetIsProcessObject k \<longleftrightarrow>
     bacnetIsAnalogProcessObject k \<or> bacnetIsBinaryProcessObject k \<or> bacnetIsMultiStateProcessObject k"

definition bacnetValueAsFloat :: "BacnetValue \<Rightarrow> float32 option" where
  "bacnetValueAsFloat v =
     (case vType v of
        TyReal \<Rightarrow> Some (vReal v)
      | TyUnsigned \<Rightarrow> Some (f32_round False (unat (vUnsigned v) * 2 ^ 149) 1)
      | TyEnumerated \<Rightarrow> Some (f32_round False (unat (vUnsigned v) * 2 ^ 149) 1)
      | TySigned \<Rightarrow> Some (f32_round (sint (vSigned v) < 0) (nat \<bar>sint (vSigned v)\<bar> * 2 ^ 149) 1)
      | TyBoolean \<Rightarrow> Some (if vBoolean v then f32_one else f32_zero)
      | _ \<Rightarrow> None)"

definition bacnetValueInRange :: "BacnetValue \<Rightarrow> float32 \<Rightarrow> float32 \<Rightarrow> bool" where
  "bacnetValueInRange v minValue maxValue \<longleftrightarrow>
     (case bacnetValueAsFloat v of None \<Rightarrow> False | Some x \<Rightarrow> f32_le minValue x \<and> f32_le x maxValue)"

definition bacnetPropertyDisplayName :: "BacnetPropertyId \<Rightarrow> string" where
  "bacnetPropertyDisplayName p =
     (if p = PropPresentValue then ''present-value'' else if p = PropObjectName then ''object-name''
      else if p = PropDescription then ''description'' else if p = PropStatusFlags then ''status-flags''
      else if p = PropEventState then ''event-state'' else if p = PropReliability then ''reliability''
      else if p = PropOutOfService then ''out-of-service'' else if p = PropUnits then ''units''
      else if p = PropMinPresentValue then ''min-present-value'' else if p = PropMaxPresentValue then ''max-present-value''
      else if p = PropResolution then ''resolution'' else if p = PropCovIncrement then ''cov-increment''
      else ''property'')"

definition bacnetSubscriptionReasonText :: "BacnetSubscriptionNotification \<Rightarrow> string" where
  "bacnetSubscriptionReasonText n =
     (if snFirstValue n then ''first'' else if snValueChanged n then ''changed''
      else if snStatusChanged n then ''status'' else ''update'')"

section \<open>Objects and their status\<close>

definition bacnetAppendObjectDisplayName :: "BacnetObjectId \<Rightarrow> FixedTextBuffer \<Rightarrow> FixedTextBuffer outcome" where
  "bacnetAppendObjectDisplayName ob out =
     obind (appendString (Some (ascii (bacnetObjectTypePrefix (objType ob)))) out)
       (appendFormat (decimalText (unat (objInstance ob))))"

definition bacnetValueTextOrNull :: "BacnetDeviceSessionReadStatus \<Rightarrow> BacnetValue \<Rightarrow> cstring" where
  "bacnetValueTextOrNull status v =
     (if status = DrAck \<and> vTextLength v > 0 then Some (textBefore0 (vText v)) else None)"

definition bacnetPropertyValueTextOrNull :: "BacnetPropertyReadStatus \<Rightarrow> BacnetValue \<Rightarrow> cstring" where
  "bacnetPropertyValueTextOrNull status v =
     (if status = PrAck \<and> vTextLength v > 0 then Some (textBefore0 (vText v)) else None)"

definition bacnetScannedObjectNameOrNull :: "BacnetScannedObject \<Rightarrow> cstring" where
  "bacnetScannedObjectNameOrNull scanned = bacnetValueTextOrNull (scnObjectNameStatus scanned) (scnObjectName scanned)"

definition bacnetScannedDescriptionOrNull :: "BacnetScannedObject \<Rightarrow> cstring" where
  "bacnetScannedDescriptionOrNull scanned = bacnetValueTextOrNull (scnDescriptionStatus scanned) (scnDescription scanned)"

definition bacnetScannedLabelOrNull :: "BacnetScannedObject \<Rightarrow> cstring" where
  "bacnetScannedLabelOrNull scanned =
     (let name = bacnetScannedObjectNameOrNull scanned; description = bacnetScannedDescriptionOrNull scanned
      in if name \<noteq> None \<and> name \<noteq> Some [] then name
         else if description \<noteq> None \<and> description \<noteq> Some [] then description else None)"

definition bacnetStatusHasAlarm :: "BacnetObjectStatus \<Rightarrow> bool" where
  "bacnetStatusHasAlarm st \<longleftrightarrow> osStatusFlagsStatus st = PrAck \<and> sfInAlarm (osStatusFlags st)"

definition bacnetStatusHasFault :: "BacnetObjectStatus \<Rightarrow> bool" where
  "bacnetStatusHasFault st \<longleftrightarrow> osStatusFlagsStatus st = PrAck \<and> sfFault (osStatusFlags st)"

definition bacnetStatusIsOutOfService :: "BacnetObjectStatus \<Rightarrow> bool" where
  "bacnetStatusIsOutOfService st \<longleftrightarrow>
     (if osOutOfServiceStatus st = PrAck then osOutOfService st
      else osStatusFlagsStatus st = PrAck \<and> sfOutOfService (osStatusFlags st))"

definition bacnetStatusIsNormal :: "BacnetObjectStatus \<Rightarrow> bool" where
  "bacnetStatusIsNormal st \<longleftrightarrow> osState st = HealthNormal \<and> \<not> bacnetStatusHasAlarm st \<and>
     \<not> bacnetStatusHasFault st \<and> \<not> bacnetStatusIsOutOfService st"

definition bacnetAppendStatusFlagsSummary :: "BacnetObjectStatus \<Rightarrow> FixedTextBuffer \<Rightarrow> FixedTextBuffer outcome" where
  "bacnetAppendStatusFlagsSummary st out =
     (if osStatusFlagsStatus st \<noteq> PrAck
      then appendString (Some (ascii (bacnetPropertyReadStatusText (osStatusFlagsStatus st)))) out
      else
        let put = (\<lambda>str. appendString (Some (ascii str))); comma = appendChar 0x2C; flags = osStatusFlags st
        in obind (put (if sfInAlarm flags then ''alarm'' else ''no-alarm'') out) (\<lambda>out.
           obind (comma out) (\<lambda>out.
           obind (put (if sfFault flags then ''fault'' else ''no-fault'') out) (\<lambda>out.
           obind (comma out) (\<lambda>out.
           obind (put (if sfOverridden flags then ''overridden'' else ''normal'') out) (\<lambda>out.
           obind (comma out) (\<lambda>out.
             put (if sfOutOfService flags then ''oos'' else ''in-service'') out)))))))"

definition bacnetAppendEnumPropertySummary ::
    "BacnetPropertyReadStatus \<Rightarrow> cstring \<Rightarrow> FixedTextBuffer \<Rightarrow> FixedTextBuffer outcome" where
  "bacnetAppendEnumPropertySummary status t =
     appendString (if status = PrAck then (case t of None \<Rightarrow> Some [] | Some str \<Rightarrow> Some str)
       else Some (ascii (bacnetPropertyReadStatusText status)))"

definition bacnetAppendBoolPropertySummary ::
    "BacnetPropertyReadStatus \<Rightarrow> bool \<Rightarrow> FixedTextBuffer \<Rightarrow> FixedTextBuffer outcome" where
  "bacnetAppendBoolPropertySummary status v =
     appendString (Some (ascii (if status = PrAck then if v then ''true'' else ''false''
       else bacnetPropertyReadStatusText status)))"

text \<open>The symbols as UTF-8.\<close>

definition bacnetCommonEngineeringUnitSymbol :: "u32 \<Rightarrow> cstring" where
  "bacnetCommonEngineeringUnitSymbol unitId =
     map_of [(2, ascii ''mA''), (3, ascii ''A''), (5, ascii ''V''), (19, ascii ''kWh''), (27, ascii ''Hz''),
       (29, ascii ''%RH''), (31, ascii ''m''), (37, ascii ''lx''), (47, ascii ''W''), (48, ascii ''kW''),
       (53, ascii ''Pa''), (54, ascii ''kPa''), (62, [0xC2, 0xB0, 0x43]), (63, ascii ''K''), (64, [0xC2, 0xB0, 0x46]),
       (71, ascii ''h''), (72, ascii ''min''), (73, ascii ''s''), (74, ascii ''m/s''), (82, ascii ''l''),
       (87, ascii ''l/s''), (88, ascii ''l/min''), (90, [0xC2, 0xB0]), (95, ascii ''-''), (96, ascii ''ppm''),
       (98, ascii ''%'')] unitId"

section \<open>Summaries\<close>

text \<open>The text \<open>t\<close>, cut to the buffer's capacity \<open>c\<close>.\<close>

definition showing :: "nat \<Rightarrow> bytes \<Rightarrow> FixedTextBuffer \<Rightarrow> bool" where
  "showing c t b \<longleftrightarrow> holds (take (c - 1) t) b \<and> tbCapacity b = c"

lemma append_showing:
  assumes "showing c t b" "0 \<notin> set u"
  shows "\<exists>b'. appendFormat u b = Ok b' \<and> showing c (t @ u) b'"
proof -
  have "take (c - 1) (take (c - 1) t @ u) = take (c - 1) (t @ u)" by (simp add: min_def)
  then show ?thesis using appendFormat_holds [of "take (c - 1) t" b u] assms by (auto simp: showing_def)
qed

lemma append_then:
  assumes "showing c t b" "0 \<notin> set u" "\<And>b'. showing c (t @ u) b' \<Longrightarrow> \<exists>r. k b' = Ok r \<and> Q r"
  shows "\<exists>r. obind (appendString (Some u) b) k = Ok r \<and> Q r"
  using append_showing [OF assms(1,2)] assms(3) by (auto simp: appendString_def)

lemma char_then:
  assumes "showing c t b" "x \<noteq> 0" "\<And>b'. showing c (t @ [x]) b' \<Longrightarrow> \<exists>r. k b' = Ok r \<and> Q r"
  shows "\<exists>r. obind (appendChar x b) k = Ok r \<and> Q r"
  using append_then [of c t b "[x]" k Q] assms by (simp add: appendChar_def textBefore0_def)

definition flagsSummary :: "BacnetObjectStatus \<Rightarrow> bytes" where
  "flagsSummary st =
     (if osStatusFlagsStatus st \<noteq> PrAck then ascii (bacnetPropertyReadStatusText (osStatusFlagsStatus st))
      else ascii (if sfInAlarm (osStatusFlags st) then ''alarm'' else ''no-alarm'') @ [0x2C] @
        ascii (if sfFault (osStatusFlags st) then ''fault'' else ''no-fault'') @ [0x2C] @
        ascii (if sfOverridden (osStatusFlags st) then ''overridden'' else ''normal'') @ [0x2C] @
        ascii (if sfOutOfService (osStatusFlags st) then ''oos'' else ''in-service''))"

lemma status_text_no_end: "0 \<notin> set (ascii (bacnetPropertyReadStatusText st))"
  by (cases st) (simp_all add: ascii_def)

lemma prefix_no_end: "0 \<notin> set (ascii (bacnetObjectTypePrefix k))"
  by (simp add: bacnetObjectTypePrefix_def ascii_def)

text \<open>
  Display text never leaves its buffer: the flags of a status and the name of an object are written
  out in full as far as the caller's buffer goes, and what does not fit is cut, the terminator kept.
\<close>

theorem summaries_fit:
  assumes "holds t b"
  shows "\<exists>b1 b2. bacnetAppendStatusFlagsSummary st b = Ok b1 \<and> bacnetAppendObjectDisplayName ob b = Ok b2 \<and>
    c_str b1 = take (tbCapacity b - 1) (t @ flagsSummary st) \<and>
    c_str b2 = take (tbCapacity b - 1)
      (t @ ascii (bacnetObjectTypePrefix (objType ob)) @ decimalText (unat (objInstance ob)))"
proof -
  let ?c = "tbCapacity b"
  have sh: "showing ?c t b" using assms by (auto simp: showing_def holds_def)
  have words: "0 \<notin> set (ascii (if p then ''alarm'' else ''no-alarm''))" "0 \<notin> set (ascii (if p then ''fault'' else ''no-fault''))"
    "0 \<notin> set (ascii (if p then ''overridden'' else ''normal''))" "0 \<notin> set (ascii (if p then ''oos'' else ''in-service''))" for p
    by (simp_all add: ascii_def)
  have last: "showing ?c u b' \<Longrightarrow> 0 \<notin> set w \<Longrightarrow> \<exists>r. appendString (Some w) b' = Ok r \<and> showing ?c (u @ w) r" for u w b'
    using append_showing by (simp add: appendString_def)
  have "\<exists>b1. bacnetAppendStatusFlagsSummary st b = Ok b1 \<and> showing ?c (t @ flagsSummary st) b1"
  proof (cases "osStatusFlagsStatus st = PrAck")
    case True
    have flags: "t @ flagsSummary st = ((((((t @ ascii (if sfInAlarm (osStatusFlags st) then ''alarm'' else ''no-alarm'')) @ [0x2C]) @
        ascii (if sfFault (osStatusFlags st) then ''fault'' else ''no-fault'')) @ [0x2C]) @
        ascii (if sfOverridden (osStatusFlags st) then ''overridden'' else ''normal'')) @ [0x2C]) @
        ascii (if sfOutOfService (osStatusFlags st) then ''oos'' else ''in-service'')"
      using True by (simp add: flagsSummary_def)
    have m: "(osStatusFlagsStatus st \<noteq> PrAck) = False" using True by simp
    show ?thesis
      unfolding bacnetAppendStatusFlagsSummary_def m if_False Let_def flags
      by (intro append_then [OF sh] append_then char_then last; (rule words | assumption | simp))
  qed (use last [OF sh status_text_no_end] in \<open>simp add: bacnetAppendStatusFlagsSummary_def flagsSummary_def\<close>)
  moreover have "\<exists>b2. bacnetAppendObjectDisplayName ob b = Ok b2 \<and>
      showing ?c (t @ ascii (bacnetObjectTypePrefix (objType ob)) @ decimalText (unat (objInstance ob))) b2"
    unfolding bacnetAppendObjectDisplayName_def
    by (rule append_then [OF sh prefix_no_end]) (use append_showing decimalText_no_end in force)
  ultimately show ?thesis using holds_c_str by (auto simp: showing_def)
qed

definition smallBuffer :: FixedTextBuffer where
  "smallBuffer = \<lparr>tbData = Some (replicate 8 0), tbCapacity = 8, tbLength = 0, tbOverflow = False\<rparr>"

theorem summaries_fit_witness:
  "\<exists>b1 b2. bacnetAppendStatusFlagsSummary (emptyObjectStatus emptyObjectId) smallBuffer = Ok b1 \<and>
     bacnetAppendObjectDisplayName emptyObjectId smallBuffer = Ok b2 \<and> c_str b1 = ascii ''skipped'' \<and> c_str b2 = ascii ''AI0''"
proof -
  have h: "holds [] smallBuffer" by (auto simp: holds_def smallBuffer_def eval_nat_numeral intro: exI [of _ "replicate 7 0"])
  have "flagsSummary (emptyObjectStatus emptyObjectId) = ascii ''skipped''"
    "ascii (bacnetObjectTypePrefix (objType emptyObjectId)) @ decimalText (unat (objInstance emptyObjectId)) = ascii ''AI0''"
    by code_simp+
  then show ?thesis
    using summaries_fit [OF h, of "emptyObjectStatus emptyObjectId" emptyObjectId] by (simp add: smallBuffer_def)
qed

end
