(* ===== verification/Logger.thy ===== *)
theory Logger
  imports Prelude BacnetTypes
begin

text \<open>
  The logger (src/src/support/BacnetLogger.h, BacnetLogger.cpp): levels, the tags in force, the
  outputs with their own level, filter and minimal interval, and the delivery of a record to them.
  The text a format expands to is an input; what an output does with a record is not modelled, the
  records it gets are.
\<close>

section \<open>Levels\<close>

datatype BacnetLogLevel = Off | Fatal | Error | Warn | Info | Debug | Trace

fun levelNumber :: "BacnetLogLevel \<Rightarrow> nat" where
  "levelNumber Off = 0" | "levelNumber Fatal = 1" | "levelNumber Error = 2" | "levelNumber Warn = 3"
| "levelNumber Info = 4" | "levelNumber Debug = 5" | "levelNumber Trace = 6"

definition isVerboseLevel :: "BacnetLogLevel \<Rightarrow> bool" where
  "isVerboseLevel level \<longleftrightarrow> level = Debug \<or> level = Trace"

definition isLevelAllowed :: "BacnetLogLevel \<Rightarrow> BacnetLogLevel \<Rightarrow> bool" where
  "isLevelAllowed level threshold \<longleftrightarrow>
     (if level = Off \<or> threshold = Off then False else levelNumber level \<le> levelNumber threshold)"

fun levelName :: "BacnetLogLevel \<Rightarrow> string" where
  "levelName Fatal = ''FATAL''" | "levelName Error = ''ERROR''" | "levelName Warn = ''WARN''"
| "levelName Info = ''INFO''" | "levelName Debug = ''DEBUG''" | "levelName Trace = ''TRACE''"
| "levelName Off = ''OFF''"

fun levelPrefix :: "BacnetLogLevel \<Rightarrow> string" where
  "levelPrefix Fatal = ''[E]''" | "levelPrefix Error = ''[E]''" | "levelPrefix Warn = ''[W]''"
| "levelPrefix Debug = ''[D]''" | "levelPrefix Trace = ''[T]''" | "levelPrefix Info = ''[I]''"
| "levelPrefix Off = ''[I]''"

text \<open>The build options \<open>BACNET_ENABLE_LOGGING\<close>, \<open>BACNET_ENABLE_VERBOSE_LOGGING\<close>.\<close>

record LogBuild =
  lbLogging :: bool
  lbVerbose :: bool

definition isEnabledFor :: "LogBuild \<Rightarrow> BacnetLogLevel \<Rightarrow> bool" where
  "isEnabledFor build level =
     (if \<not> lbLogging build then False else if \<not> lbVerbose build then \<not> isVerboseLevel level else True)"

section \<open>Records and outputs\<close>

datatype BacnetLogTimestampMode = TimestampNone | TimestampMillis | TimestampDateTime

record BacnetLogRecord =
  lrLevel :: BacnetLogLevel
  lrTag :: bytes
  lrMessage :: bytes
  lrTimestampMs :: u32
  lrComponent :: cstring
  lrEvent :: cstring

record BacnetLogOutput =
  loLevel :: BacnetLogLevel
  loTimestampMode :: BacnetLogTimestampMode
  loMinIntervalMs :: u32
  loLastLogMs :: u32
  loHasLast :: bool
  loFilter :: "(BacnetLogRecord \<Rightarrow> bool) option"

definition newOutput :: BacnetLogOutput where
  "newOutput = \<lparr>loLevel = Info, loTimestampMode = TimestampNone, loMinIntervalMs = 0, loLastLogMs = 0,
     loHasLast = False, loFilter = None\<rparr>"

definition setOutputLevel :: "BacnetLogLevel \<Rightarrow> BacnetLogOutput \<Rightarrow> BacnetLogOutput" where
  "setOutputLevel level out = out\<lparr>loLevel := level\<rparr>"

definition setTimestampMode :: "BacnetLogTimestampMode \<Rightarrow> BacnetLogOutput \<Rightarrow> BacnetLogOutput" where
  "setTimestampMode mode out = out\<lparr>loTimestampMode := mode\<rparr>"

definition setMinIntervalMs :: "u32 \<Rightarrow> BacnetLogOutput \<Rightarrow> BacnetLogOutput" where
  "setMinIntervalMs intervalMs out = out\<lparr>loMinIntervalMs := intervalMs\<rparr>"

definition setFilter :: "(BacnetLogRecord \<Rightarrow> bool) option \<Rightarrow> BacnetLogOutput \<Rightarrow> BacnetLogOutput" where
  "setFilter f out = out\<lparr>loFilter := f\<rparr>"

definition shouldLog :: "BacnetLogRecord \<Rightarrow> BacnetLogOutput \<Rightarrow> bool \<times> BacnetLogOutput" where
  "shouldLog r out =
     (if \<not> isLevelAllowed (lrLevel r) (loLevel out) then (False, out)
      else if (case loFilter out of None \<Rightarrow> False | Some f \<Rightarrow> \<not> f r) then (False, out)
      else if loMinIntervalMs out \<noteq> 0 then
        (if loHasLast out \<and> lrTimestampMs r - loLastLogMs out < loMinIntervalMs out then (False, out)
         else (True, out\<lparr>loLastLogMs := lrTimestampMs r, loHasLast := True\<rparr>))
      else (True, out))"

section \<open>The logger\<close>

definition kMaxMessageLength :: nat where "kMaxMessageLength = 192"
definition kMaxTagLength :: nat where "kMaxTagLength = 96"
definition kMaxOutputs :: nat where "kMaxOutputs = 4"
definition kMaxTagDepth :: nat where "kMaxTagDepth = 4"

text \<open>
  The registered outputs by address, the first \<open>outputCount_\<close> entries of the array; the tags that are
  pushed; whether there is a clock.
\<close>

record BacnetLogger =
  lgOutputs :: "nat list"
  lgGlobalLevel :: BacnetLogLevel
  lgBaseTag :: bytes
  lgTagStack :: "bytes list"
  lgClock :: bool

definition newLogger :: "bool \<Rightarrow> BacnetLogger" where
  "newLogger clock = \<lparr>lgOutputs = [], lgGlobalLevel = Info, lgBaseTag = [], lgTagStack = [], lgClock = clock\<rparr>"

definition addOutput :: "nat \<Rightarrow> BacnetLogger \<Rightarrow> BacnetLogger" where
  "addOutput a lg =
     (if a \<in> set (lgOutputs lg) then lg
      else if length (lgOutputs lg) \<ge> kMaxOutputs then lg
      else lg\<lparr>lgOutputs := lgOutputs lg @ [a]\<rparr>)"

text \<open>The later outputs move one place down.\<close>

fun withoutOutput :: "nat \<Rightarrow> nat list \<Rightarrow> nat list option" where
  "withoutOutput a [] = None"
| "withoutOutput a (x # xs) = (if x = a then Some xs else map_option ((#) x) (withoutOutput a xs))"

definition removeOutput :: "nat \<Rightarrow> BacnetLogger \<Rightarrow> bool \<times> BacnetLogger" where
  "removeOutput a lg =
     (case withoutOutput a (lgOutputs lg) of None \<Rightarrow> (False, lg) | Some xs \<Rightarrow> (True, lg\<lparr>lgOutputs := xs\<rparr>))"

definition clearOutputs :: "BacnetLogger \<Rightarrow> BacnetLogger" where
  "clearOutputs lg = lg\<lparr>lgOutputs := []\<rparr>"

definition outputCount :: "BacnetLogger \<Rightarrow> nat" where
  "outputCount lg = length (lgOutputs lg)"

definition setGlobalLevel :: "BacnetLogLevel \<Rightarrow> BacnetLogger \<Rightarrow> BacnetLogger" where
  "setGlobalLevel level lg = lg\<lparr>lgGlobalLevel := level\<rparr>"

text \<open>\<open>copyText\<close> into an array of \<open>targetSize > 0\<close> characters.\<close>

definition copyText :: "nat \<Rightarrow> cstring \<Rightarrow> bytes" where
  "copyText targetSize source =
     (case source of None \<Rightarrow> []
      | Some t \<Rightarrow> take (if length t < targetSize - 1 then length t else targetSize - 1) t)"

definition setTag :: "cstring \<Rightarrow> BacnetLogger \<Rightarrow> BacnetLogger" where
  "setTag tag lg = lg\<lparr>lgBaseTag := copyText kMaxTagLength tag\<rparr>"

definition clearTag :: "BacnetLogger \<Rightarrow> BacnetLogger" where
  "clearTag lg = lg\<lparr>lgBaseTag := []\<rparr>"

definition pushTag :: "cstring \<Rightarrow> BacnetLogger \<Rightarrow> BacnetLogger" where
  "pushTag tag lg =
     (if tag \<noteq> None \<and> tag \<noteq> Some [] \<and> length (lgTagStack lg) < kMaxTagDepth
      then lg\<lparr>lgTagStack := lgTagStack lg @ [copyText kMaxTagLength tag]\<rparr> else lg)"

definition popTag :: "BacnetLogger \<Rightarrow> BacnetLogger" where
  "popTag lg = lg\<lparr>lgTagStack := butlast (lgTagStack lg)\<rparr>"

text \<open>A \<open>BacnetScopedLogTag\<close>: its constructor, and its destructor unless it was moved from.\<close>

definition openScope :: "cstring \<Rightarrow> BacnetLogger \<Rightarrow> BacnetLogger" where
  "openScope tag lg = pushTag tag lg"

definition closeScope :: "bool \<Rightarrow> BacnetLogger \<Rightarrow> BacnetLogger" where
  "closeScope attached lg = (if attached then popTag lg else lg)"

text \<open>
  Moving a scoped tag into another one of the same logger: the flags say which of the two is attached;
  the one moved to ends its own scope first.
\<close>

definition moveScope :: "bool \<Rightarrow> bool \<times> bool" where
  "moveScope other = (other, False)"

definition assignScope :: "bool \<Rightarrow> bool \<Rightarrow> BacnetLogger \<Rightarrow> (bool \<times> bool) \<times> BacnetLogger" where
  "assignScope attached other lg = (moveScope other, closeScope attached lg)"

definition setLoggerClock :: "bool \<Rightarrow> BacnetLogger \<Rightarrow> BacnetLogger" where
  "setLoggerClock clock lg = lg\<lparr>lgClock := clock\<rparr>"

section \<open>Delivery\<close>

definition appendTag :: "nat \<Rightarrow> bytes \<Rightarrow> cstring \<Rightarrow> bytes" where
  "appendTag bufferSize buffer part =
     (case part of None \<Rightarrow> buffer
      | Some t \<Rightarrow>
          if t = [] \<or> length buffer \<ge> bufferSize - 1 then buffer
          else let buffer = (if buffer \<noteq> [] then buffer @ [0x2F] else buffer);
                   remaining = bufferSize - length buffer - 1
               in buffer @ take (if length t < remaining then length t else remaining) t)"

definition buildTag :: "cstring \<Rightarrow> nat \<Rightarrow> BacnetLogger \<Rightarrow> bytes" where
  "buildTag explicitTag bufferSize lg =
     (let buffer = foldl (appendTag bufferSize) [] (Some (lgBaseTag lg) # map Some (lgTagStack lg) @ [explicitTag])
      in if buffer = [] then appendTag bufferSize buffer (Some (ascii ''BACnet'')) else buffer)"

definition shouldEmit :: "LogBuild \<Rightarrow> BacnetLogLevel \<Rightarrow> BacnetLogger \<Rightarrow> bool" where
  "shouldEmit build level lg \<longleftrightarrow> (if \<not> isEnabledFor build level then False else isLevelAllowed level (lgGlobalLevel lg))"

text \<open>The outputs' states by address, and the records they get in the order they get them.\<close>

fun deliver :: "BacnetLogRecord \<Rightarrow> nat list \<Rightarrow> (nat \<Rightarrow> BacnetLogOutput) \<Rightarrow>
    (nat \<times> BacnetLogRecord) list \<times> (nat \<Rightarrow> BacnetLogOutput)" where
  "deliver r [] outs = ([], outs)"
| "deliver r (a # rest) outs =
     (let (yes, out) = shouldLog r (outs a); (logged, outs') = deliver r rest (outs(a := out))
      in (if yes then (a, r) # logged else logged, outs'))"

definition emitRecord :: "LogBuild \<Rightarrow> BacnetLogRecord \<Rightarrow> BacnetLogger \<Rightarrow> (nat \<Rightarrow> BacnetLogOutput) \<Rightarrow>
    (nat \<times> BacnetLogRecord) list \<times> (nat \<Rightarrow> BacnetLogOutput)" where
  "emitRecord build r lg outs =
     (if \<not> lbLogging build \<or> \<not> shouldEmit build (lrLevel r) lg then ([], outs) else deliver r (lgOutputs lg) outs)"

text \<open>The clock is read only if there is one.\<close>

definition logTime :: "BacnetLogger \<Rightarrow> u32 \<Rightarrow> u32" where
  "logTime lg clockMs = (if lgClock lg then clockMs else 0)"

definition logV :: "LogBuild \<Rightarrow> BacnetLogLevel \<Rightarrow> cstring \<Rightarrow> cstring \<Rightarrow> u32 \<Rightarrow> BacnetLogger \<Rightarrow> (nat \<Rightarrow> BacnetLogOutput) \<Rightarrow>
    (nat \<times> BacnetLogRecord) list \<times> (nat \<Rightarrow> BacnetLogOutput)" where
  "logV build level tag expanded clockMs lg outs =
     (case expanded of None \<Rightarrow> ([], outs)
      | Some t \<Rightarrow>
          if \<not> lbLogging build \<or> \<not> shouldEmit build level lg then ([], outs)
          else emitRecord build
            \<lparr>lrLevel = level, lrTag = buildTag tag kMaxTagLength lg, lrMessage = take (kMaxMessageLength - 1) t,
             lrTimestampMs = logTime lg clockMs, lrComponent = Some (ascii ''BACnet''), lrEvent = None\<rparr> lg outs)"

definition logTag :: "LogBuild \<Rightarrow> BacnetLogLevel \<Rightarrow> cstring \<Rightarrow> cstring \<Rightarrow> u32 \<Rightarrow> BacnetLogger \<Rightarrow>
    (nat \<Rightarrow> BacnetLogOutput) \<Rightarrow> (nat \<times> BacnetLogRecord) list \<times> (nat \<Rightarrow> BacnetLogOutput)" where
  "logTag = logV"

definition logPlain :: "LogBuild \<Rightarrow> BacnetLogLevel \<Rightarrow> cstring \<Rightarrow> u32 \<Rightarrow> BacnetLogger \<Rightarrow>
    (nat \<Rightarrow> BacnetLogOutput) \<Rightarrow> (nat \<times> BacnetLogRecord) list \<times> (nat \<Rightarrow> BacnetLogOutput)" where
  "logPlain build level = logV build level None"

text \<open>\<open>tick\<close> passes the time on to every output.\<close>

definition tickOutputs :: "LogBuild \<Rightarrow> u32 \<Rightarrow> BacnetLogger \<Rightarrow> (nat \<times> u32) list" where
  "tickOutputs build nowMs lg = (if lbLogging build then map (\<lambda>a. (a, nowMs)) (lgOutputs lg) else [])"

definition tickByClock :: "LogBuild \<Rightarrow> u32 \<Rightarrow> BacnetLogger \<Rightarrow> (nat \<times> u32) list" where
  "tickByClock build clockMs lg = tickOutputs build (logTime lg clockMs) lg"

section \<open>Well-formed loggers\<close>

definition wfLogger :: "BacnetLogger \<Rightarrow> bool" where
  "wfLogger lg \<longleftrightarrow> distinct (lgOutputs lg) \<and> length (lgOutputs lg) \<le> kMaxOutputs \<and>
     length (lgTagStack lg) \<le> kMaxTagDepth \<and> (\<forall>t \<in> set (lgBaseTag lg # lgTagStack lg). length t < kMaxTagLength)"

lemma withoutOutput_subset: "withoutOutput a xs = Some ys \<Longrightarrow> set ys \<subseteq> set xs"
  by (induction xs arbitrary: ys) (auto split: if_splits)

lemma withoutOutput_remove:
  "distinct xs \<Longrightarrow> withoutOutput a xs = (if a \<in> set xs then Some (remove1 a xs) else None)"
  by (induction xs) auto

lemma length_copyText: "0 < n \<Longrightarrow> length (copyText n t) < n"
  by (auto simp: copyText_def split: option.split)

lemma wfLogger_steps:
  "wfLogger (newLogger clock)"
  "wfLogger lg \<Longrightarrow> wfLogger (addOutput a lg)" "wfLogger lg \<Longrightarrow> wfLogger (snd (removeOutput a lg))"
  "wfLogger lg \<Longrightarrow> wfLogger (clearOutputs lg)" "wfLogger lg \<Longrightarrow> wfLogger (setGlobalLevel level lg)"
  "wfLogger lg \<Longrightarrow> wfLogger (setTag tag lg)" "wfLogger lg \<Longrightarrow> wfLogger (clearTag lg)"
  "wfLogger lg \<Longrightarrow> wfLogger (pushTag tag lg)" "wfLogger lg \<Longrightarrow> wfLogger (popTag lg)"
  using length_copyText [of kMaxTagLength tag]
  by (auto simp: wfLogger_def newLogger_def kMaxTagLength_def addOutput_def removeOutput_def withoutOutput_remove
      clearOutputs_def setGlobalLevel_def setTag_def clearTag_def pushTag_def popTag_def
      length_remove1 dest: in_set_butlastD split: option.split if_splits)

section \<open>The tag of a record\<close>

text \<open>Tags joined by slashes, without the empty ones.\<close>

definition slash :: "bytes \<Rightarrow> bytes \<Rightarrow> bytes" where
  "slash t u = (if u = [] then t else if t = [] then u else t @ 0x2F # u)"

definition tagPath :: "bytes list \<Rightarrow> bytes" where
  "tagPath parts = foldl slash [] parts"

definition tagText :: "cstring \<Rightarrow> bytes" where
  "tagText t = (case t of None \<Rightarrow> [] | Some u \<Rightarrow> u)"

lemma appendTag_cut:
  assumes "2 \<le> n"
  shows "appendTag n (take (n - 1) t) part = take (n - 1) (slash t (tagText part))"
proof (cases "tagText part = []")
  case True
  then show ?thesis by (auto simp: appendTag_def slash_def tagText_def split: option.splits)
next
  case False
  then obtain u where u: "part = Some u" "u \<noteq> []" by (auto simp: tagText_def split: option.splits)
  have cut: "take (if length u < k then length u else k) u = take k u" for k by simp
  show ?thesis
  proof (cases "t = []")
    case True
    then show ?thesis using u assms by (simp add: appendTag_def slash_def tagText_def cut)
  next
    case nonempty: False
    then have "take (n - 1) t \<noteq> []" using assms by simp
    then show ?thesis
      using u nonempty by (cases "n - 1 \<le> length t") (auto simp: appendTag_def slash_def tagText_def Let_def cut min_def take_Cons')
  qed
qed

lemma appendTags_cut:
  "2 \<le> n \<Longrightarrow> foldl (appendTag n) (take (n - 1) t) parts = take (n - 1) (foldl slash t (map tagText parts))"
  by (induction parts arbitrary: t) (simp_all add: appendTag_cut del: One_nat_def)

lemma buildTag_path:
  assumes "2 \<le> n"
  shows "buildTag explicitTag n lg =
    (let path = tagPath (lgBaseTag lg # lgTagStack lg @ [tagText explicitTag])
     in take (n - 1) (if path = [] then ascii ''BACnet'' else path))"
proof -
  have m: "map tagText (map Some xs) = xs" for xs by (simp add: tagText_def comp_def)
  have "foldl (appendTag n) [] (Some (lgBaseTag lg) # map Some (lgTagStack lg) @ [explicitTag]) =
      take (n - 1) (tagPath (lgBaseTag lg # lgTagStack lg @ [tagText explicitTag]))"
    using appendTags_cut [OF assms, of "[]" "Some (lgBaseTag lg) # map Some (lgTagStack lg) @ [explicitTag]"]
    by (simp add: tagPath_def m del: map_map) (simp add: tagText_def)
  then show ?thesis
    using appendTag_cut [OF assms, of "[]" "Some (ascii ''BACnet'')"] assms
    by (auto simp: buildTag_def Let_def slash_def tagText_def ascii_def)
qed

section \<open>Claims\<close>

lemma deliver_distinct:
  "distinct as \<Longrightarrow> deliver r as outs =
     (map (\<lambda>a. (a, r)) (filter (\<lambda>a. fst (shouldLog r (outs a))) as),
      \<lambda>a. if a \<in> set as then snd (shouldLog r (outs a)) else outs a)"
proof (induction "as" arbitrary: outs)
  case (Cons a rest)
  then have "\<And>out. filter (\<lambda>b. fst (shouldLog r ((outs(a := out)) b))) rest = filter (\<lambda>b. fst (shouldLog r (outs b))) rest"
    by (intro filter_cong) auto
  then show ?case using Cons by (auto simp: fun_eq_iff split: prod.split)
qed simp

text \<open>
  C39: A log call reaches every registered output that admits the record, once, in the order they were
  added, and no other: nothing is logged below the build's and the logger's level, each output's own
  level, filter and interval decide for it alone, and the record carries the tags in force, joined by
  slashes and cut to the tag's size, and the message cut to the message's.
\<close>

theorem log_reaches_outputs:
  assumes "wfLogger lg"
  shows "logV build level tag (Some message) clockMs lg outs =
    (let path = tagPath (lgBaseTag lg # lgTagStack lg @ [tagText tag]);
         r = \<lparr>lrLevel = level, lrTag = take 95 (if path = [] then ascii ''BACnet'' else path), lrMessage = take 191 message,
           lrTimestampMs = (if lgClock lg then clockMs else 0), lrComponent = Some (ascii ''BACnet''), lrEvent = None\<rparr>
     in if lbLogging build \<and> (lbVerbose build \<or> level \<noteq> Debug \<and> level \<noteq> Trace) \<and> level \<noteq> Off \<and>
           levelNumber level \<le> levelNumber (lgGlobalLevel lg)
        then (map (\<lambda>a. (a, r)) (filter (\<lambda>a. fst (shouldLog r (outs a))) (lgOutputs lg)),
          \<lambda>a. if a \<in> set (lgOutputs lg) then snd (shouldLog r (outs a)) else outs a)
        else ([], outs))"
proof -
  have "levelNumber level \<le> levelNumber Off \<Longrightarrow> level = Off" by (cases level) simp_all
  then have gate: "shouldEmit build level lg \<longleftrightarrow> lbLogging build \<and> (lbVerbose build \<or> level \<noteq> Debug \<and> level \<noteq> Trace) \<and>
      level \<noteq> Off \<and> levelNumber level \<le> levelNumber (lgGlobalLevel lg)"
    by (auto simp: shouldEmit_def isEnabledFor_def isVerboseLevel_def isLevelAllowed_def)
  have on: "shouldEmit build level lg \<Longrightarrow> lbLogging build" by (simp add: gate)
  have "distinct (lgOutputs lg)" using assms by (simp add: wfLogger_def)
  then show ?thesis
    unfolding Let_def gate [symmetric]
    by (cases "shouldEmit build level lg")
      (simp_all add: on logV_def emitRecord_def buildTag_path kMaxTagLength_def kMaxMessageLength_def logTime_def Let_def
        deliver_distinct)
qed

theorem log_reaches_outputs_witness:
  "logV \<lparr>lbLogging = True, lbVerbose = False\<rparr> Warn (Some (ascii ''up'')) (Some (ascii ''link'')) 7
     (addOutput 3 (setTag (Some (ascii ''net'')) (newLogger True))) (\<lambda>a. newOutput) =
   ([(3, \<lparr>lrLevel = Warn, lrTag = ascii ''net/up'', lrMessage = ascii ''link'', lrTimestampMs = 7,
      lrComponent = Some (ascii ''BACnet''), lrEvent = None\<rparr>)], \<lambda>a. newOutput)"
proof -
  let ?lg = "addOutput 3 (setTag (Some (ascii ''net'')) (newLogger True))"
  have wf: "wfLogger ?lg" by (intro wfLogger_steps)
  have lg: "lgOutputs ?lg = [3]" "lgBaseTag ?lg = ascii ''net''" "lgTagStack ?lg = []" "lgClock ?lg" "lgGlobalLevel ?lg = Info"
    by (simp_all add: addOutput_def setTag_def newLogger_def kMaxOutputs_def copyText_def kMaxTagLength_def)
  have path: "tagPath [ascii ''net'', tagText (Some (ascii ''up''))] = ascii ''net/up''"
    by (simp add: tagPath_def slash_def tagText_def ascii_def)
  show ?thesis
    unfolding log_reaches_outputs [OF wf] lg
    by (simp add: Let_def path shouldLog_def newOutput_def isLevelAllowed_def fun_eq_iff lg)
      (simp add: ascii_def)
qed

text \<open>
  C40: A scoped tag leaves the tags as they were only if it was pushed: with an empty or a null tag, or
  with four tags already in force, the push is refused but the end of the scope still pops a tag, an
  outer one, unless there is none.
\<close>

theorem scope_restores_iff:
  "closeScope True (openScope tag lg) = lg \<longleftrightarrow>
     tagText tag \<noteq> [] \<and> length (lgTagStack lg) < 4 \<or> lgTagStack lg = []"
proof -
  have b: "butlast xs = xs \<longleftrightarrow> xs = []" for xs :: "bytes list" by (cases xs rule: rev_cases) simp_all
  have only: "closeScope True (openScope tag lg) = lg \<longleftrightarrow> lgTagStack (closeScope True (openScope tag lg)) = lgTagStack lg"
    by (cases lg) (simp add: closeScope_def openScope_def popTag_def pushTag_def)
  show ?thesis
    unfolding only by (cases tag) (simp_all add: closeScope_def openScope_def popTag_def pushTag_def tagText_def kMaxTagDepth_def b)
qed

end
