(* ===== verification/Spec2Isabelle.thy ===== *)
theory Spec2Isabelle
  imports WireProperties CommandPriority Objects CovLiveness ScanLaws ClientServer CovDelivery DisplayText Logger
begin

text \<open>
  A model of the BACnet/IP stack for ESP32 and Windows: all of src/src but its platform adapters.

  \<^bold>\<open>The program.\<close> A codec (src/src/core/protocol) turns BACnet/IP datagrams into requests, responses
  and values and back. The server (src/src/core/server) holds the objects of a device, some of them
  commandable (src/src/core/objects), and answers one datagram per call of \<open>poll\<close>; without a datagram
  it looks after its change-of-value (COV) subscriptions. The client (src/src/core/client/BacnetClient)
  sends requests and polls for one kind of answer at a time; a device session on top of it
  (BacnetDeviceSession) keeps a cache of properties and runs at most one read job, object list scan or
  subscription request at a time; remote objects (BacnetRemoteObject) are handles that forward to the
  session. A logger and display text (src/src/support) serve them all. The transport and the clock are
  interfaces of the application (BacnetRuntime.h).

  \<^bold>\<open>Modelling.\<close>
  \<^item> A datagram is a list of bytes. A load past its end, a store past the caller's array and a
    conversion C++ leaves undefined are \<open>Undef\<close>, a refusal (\<open>false\<close> or length 0) is \<open>Fail\<close>, and a
    result is \<open>Ok\<close> (\<open>Prelude\<close>). Integers are words of their width, so that they wrap as in C++; a
    \<open>float\<close> is its bit pattern with the arithmetic of \<open>Float32\<close>.
  \<^item> A builder is given the capacity of its buffer: \<open>emit\<close> is undefined past it. A C string is a list
    of bytes, \<open>None\<close> for a null pointer.
  \<^item> The server is a record (\<open>ServerState\<close>) and every operation returns it updated, with the calls it
    makes into the application and the datagrams it sends as a list of events. The values behind bound
    pointers, the providers, the clock and whether a datagram can be sent are an \<open>Env\<close>.
  \<^item> A session is a record (\<open>Session\<close>) that contains its client. Jobs and subscriptions live at
    addresses, the pointers of the code; \<open>ssSent\<close> and \<open>ssNotified\<close> collect what was sent and which
    callbacks ran. A \<open>Net\<close> says what can be sent, what time it is and how the build is configured;
    datagrams wait in the client's inbox.
  \<^item> A blocking operation runs over a list of ticks, the iterations of its loop with the time and the
    datagrams that arrived; \<open>None\<close> means that it has not returned after all of them. No other fuel is
    used: every remaining loop is bounded by its data. In particular the chain of refused requests in a
    scan ends because each takes something off \<open>wantedReads\<close> or the entries left (\<open>SessionReads\<close>), and
    a scan over ticks because each finished read does (\<open>ScanLaws\<close>): at most one request for the count
    and four per entry.

  \<^bold>\<open>Which theory models what.\<close>
  \<^item> \<open>BacnetTypes\<close> (BacnetTypes.h), \<open>ValueDecode\<close>, \<open>ValueEncode\<close>, \<open>Frames\<close>, \<open>Requests\<close>, \<open>Responses\<close>,
    \<open>CovNotification\<close>: BacnetProtocol.cpp, its readers, writers, frames and services.
  \<^item> \<open>CommandPriority\<close>: BacnetCommandPriority.h and the \<open>applyPriorityValue\<close> operations of the
    commandable objects; \<open>Objects\<close>: BacnetLinearScale.h, BacnetAnalogValueLimits.h.
  \<^item> \<open>ObjectProperties\<close>, \<open>ServerState\<close>, \<open>ServerRegistration\<close>, \<open>ServerRead\<close>, \<open>ServerWrite\<close>,
    \<open>ServerCov\<close>, \<open>Server\<close>: BacnetServer.h and BacnetServer.cpp, from the objects' configuration over the
    registration of objects and the two request handlers to COV reporting, \<open>begin\<close>, \<open>end\<close> and \<open>poll\<close>.
  \<^item> \<open>Client\<close>: BacnetClient.cpp. \<open>SessionData\<close>, \<open>PropertyCache\<close>, \<open>Session\<close>, \<open>SessionReads\<close>,
    \<open>SessionSubscriptions\<close>: BacnetDeviceSession.cpp, its readings of values, the cache, the jobs and the
    subscriptions. \<open>SessionBlocking\<close>: its blocking operations and BacnetRemoteObject.cpp.
  \<^item> \<open>DisplayText\<close>: BacnetFixedTextBuffer.h, BacnetDisplayText.h; \<open>Logger\<close>: BacnetLogger.h and
    BacnetLogger.cpp.
\<close>

text \<open>
  \<^bold>\<open>What is shown.\<close>
  \<^item> Memory safety: \<open>DecodeSafety\<close> and \<open>WireProperties\<close> show that parsers and builders stay inside their
    buffers, or exactly when they do not; \<open>ServerSafety\<close> and \<open>ServerRuns\<close> that no call of the server is
    undefined but for one conversion, which they pin down; \<open>SessionInvariant\<close> that every call of a
    session returns, whatever arrives.
  \<^item> Round trips: \<open>FieldCodec\<close>, \<open>ValueCodec\<close>, \<open>RequestLaws\<close>, \<open>ResponseLaws\<close> and \<open>CovNotification\<close> show
    that what one side builds the other side parses; \<open>normalValue\<close> names what the wire carries of a
    value.
  \<^item> The server: \<open>RegistrationLaws\<close> (identities stay unique, the lists enumerate what there is),
    \<open>ServerInvariant\<close> (every reachable state is well formed), \<open>WriteLaws\<close> (a command is read back and
    touches one object), \<open>CovLaws\<close> (the subscription slots implement a finite map), \<open>CovTiming\<close> and
    \<open>CovLiveness\<close> (expiry, repetitions, who is notified when).
  \<^item> The session: \<open>PropertyCache\<close> (the ring of entries implements a queue of the last keys),
    \<open>SessionInvariant\<close> (one request at a time), \<open>SessionLaws\<close> (blocking calls return once the clock has
    passed the timeout and never without a clock; both ways to read a status agree), \<open>ScanLaws\<close> (a scan
    ends).
  \<^item> Both ends: \<open>ClientServer\<close> composes a read job with the server's \<open>poll\<close>: the job ends with the value
    or the error the server decided on. \<open>CovDelivery\<close> composes a notification with the subscription it is
    for, down to the acknowledgement the server waits for.
  \<^item> Support: a text buffer holds what was appended, cut to its capacity (\<open>DisplayText\<close>); a log call
    reaches exactly the outputs that admit it (\<open>Logger\<close>).

  The interfaces between components are locales where several operations share a contract, each
  interpreted on the definitions of the model: field codecs (\<open>FieldCodec\<close>, \<open>ValueCodec\<close>), tables of
  optional properties (\<open>ObjectProperties\<close>), priority arrays (\<open>CommandPriority\<close>), the subscription table
  (\<open>CovLaws\<close>) and the property cache (\<open>PropertyCache\<close>).

  \<^bold>\<open>Assumptions and bounds.\<close> \<open>size_t\<close> is taken to be large enough for every length computed except
  where \<open>sizeSub\<close> writes out its wrap-around at 32 bits. Callbacks of the application do not call back
  into the server or the session. The array an application passes is as long as the capacity it
  states. A property that reads a Real assumes that its text can be rendered (\<open>realPrintable\<close>): the
  conversion in \<open>writeFixed3Decimal\<close> is undefined for NaN and for values above about 4294967.

  \<^bold>\<open>Not modelled.\<close> The transport and clock interfaces (they are inputs), the platform adapters (sockets
  and Wi-Fi calls), the example applications under src/examples and the tests. Log calls inside the
  protocol, client, session and server are left out, as they do not change their state. The session
  pointer that a job or a subscription of a destroyed session keeps is outside the model, as are the
  forwarding overloads that only convert their arguments. \<open>readAllAdvertisedProperties\<close> is modelled for
  a non-null array of properties. What \<open>vsnprintf\<close> makes of a log format is an input.
\<close>

end
